(* ===== verification/Prelude.thy ===== *)
theory Prelude
  imports Main "HOL-Library.Word"
begin

text \<open>
  Shared vocabulary of the development: bytes and byte buffers as Go's \<open>encoding/binary\<close> and
  \<open>copy\<close> treat them, the collections of rewrite rules that the component theories extend, and facts on
  words. The contracts that several components satisfy are in \<open>Contracts\<close>.
\<close>

unbundle bit_operations_syntax

named_theorems wire \<open>lengths and values of encoded byte strings\<close>
named_theorems store_defs \<open>definitions of the keyed stores\<close>

type_synonym byte = "8 word"
type_synonym u16 = "16 word"
type_synonym u32 = "32 word"
type_synonym u64 = "64 word"

section \<open>Fixed-width integers as bytes\<close>

text \<open>
  \<open>le_bytes n v\<close> is what \<open>binary.LittleEndian.PutUint16/32/64\<close> and the hand-written
  \<open>byte(v), byte(v >> 8), \<dots>\<close> sequences store; \<open>be_bytes\<close> is the big-endian counterpart.
\<close>

primrec le_bytes :: "nat \<Rightarrow> 'a::len word \<Rightarrow> byte list" where
  "le_bytes 0 v = []"
| "le_bytes (Suc n) v = ucast v # le_bytes n (drop_bit 8 v)"

definition be_bytes :: "nat \<Rightarrow> 'a::len word \<Rightarrow> byte list" where
  "be_bytes n v = rev (le_bytes n v)"

primrec le_val :: "byte list \<Rightarrow> nat" where
  "le_val [] = 0"
| "le_val (b # bs) = unat b + 256 * le_val bs"

definition be_val :: "byte list \<Rightarrow> nat" where
  "be_val bs = le_val (rev bs)"

lemma length_le_bytes [simp, wire]: "length (le_bytes n v) = n"
  by (induction n arbitrary: v) auto

lemma length_be_bytes [simp, wire]: "length (be_bytes n v) = n"
  by (simp add: be_bytes_def)

lemma unat_ucast_byte: "unat (ucast (v :: 'a::len word) :: byte) = unat v mod 256"
  by (simp add: unsigned_ucast_eq take_bit_eq_mod)

lemma unat_drop_bit8: "unat (drop_bit 8 (v :: 'a::len word)) = unat v div 256"
  by (simp only: unat_drop_bit_eq) (simp add: drop_bit_eq_div)

lemma le_val_le_bytes [wire]: "le_val (le_bytes n v) = unat v mod 256 ^ n"
proof (induction n arbitrary: v)
  case 0
  then show ?case by simp
next
  case (Suc n)
  have "le_val (le_bytes (Suc n) v) = unat v mod 256 + 256 * ((unat v div 256) mod 256 ^ n)"
    using Suc by (simp add: unat_ucast_byte unat_drop_bit8)
  also have "\<dots> = unat v mod (256 * 256 ^ n)"
    by (simp add: mod_mult2_eq)
  finally show ?case by simp
qed

lemma be_val_be_bytes [wire]: "be_val (be_bytes n v) = unat v mod 256 ^ n"
  by (simp add: be_val_def be_bytes_def le_val_le_bytes)

lemma le_val_bound: "le_val bs < 256 ^ length bs"
proof (induction bs)
  case (Cons b bs)
  have "unat b < 256"
    using unsigned_less [of b, where ?'a = nat] by simp
  with Cons show ?case by simp
qed simp

lemma le_val_append: "le_val (xs @ ys) = le_val xs + 256 ^ length xs * le_val ys"
  by (induction xs) (simp_all add: algebra_simps)

lemma le_bytes_u16 [wire]: "le_val (le_bytes 2 (v :: u16)) = unat v"
  using unsigned_less [of v, where ?'a = nat] by (simp add: le_val_le_bytes)

lemma le_bytes_u32 [wire]: "le_val (le_bytes 4 (v :: u32)) = unat v"
  using unsigned_less [of v, where ?'a = nat] by (simp add: le_val_le_bytes)

lemma le_bytes_u64 [wire]: "le_val (le_bytes 8 (v :: u64)) = unat v"
  using unsigned_less [of v, where ?'a = nat] by (simp add: le_val_le_bytes)

lemma unat_of_nat_small: "n < 2 ^ LENGTH('a) \<Longrightarrow> unat (of_nat n :: 'a::len word) = n"
  by (simp add: unsigned_of_nat take_bit_nat_eq_self)

text \<open>Disjoint bit fields: packing with shift and or is addition.\<close>

lemma or_push_nat: "(b::nat) < 2 ^ n \<Longrightarrow> push_bit n a OR b = a * 2 ^ n + b"
proof -
  assume b: "b < 2 ^ n"
  have "push_bit n a AND b = 0"
  proof (rule bit_eqI)
    fix k
    have "\<not> bit b k" if "n \<le> k"
    proof -
      have "b = take_bit n b" using b by (simp add: take_bit_nat_eq_self)
      then show ?thesis using that by (metis bit_take_bit_iff not_le)
    qed
    then show "bit (push_bit n a AND b) k = bit 0 k"
      by (auto simp: bit_and_iff bit_push_bit_iff)
  qed
  then show ?thesis
    by (metis disjunctive_add_eq_or push_bit_eq_mult)
qed

lemma unat_pack:
  fixes a b :: "'a::len word"
  assumes "unat b < 2 ^ n" and "unat a * 2 ^ n < 2 ^ LENGTH('a)"
  shows "unat (push_bit n a OR b) = unat a * 2 ^ n + unat b"
proof -
  have "unat (push_bit n a) = push_bit n (unat a)"
    using assms(2) by (simp add: unsigned_push_bit_eq push_bit_eq_mult [of n "unat a"] take_bit_nat_eq_self)
  then show ?thesis
    using assms(1) by (simp add: unsigned_or_eq or_push_nat)
qed

text \<open>The digits of a number written in a mixed radix.\<close>

lemma radix3:
  fixes y m d p q :: nat
  assumes "m < p" and "d < q"
  shows "((y * p + m) * q + d) div (p * q) = y"
    and "((y * p + m) * q + d) div q mod p = m"
    and "((y * p + m) * q + d) mod q = d"
proof -
  have q: "((y * p + m) * q + d) div q = y * p + m"
    using assms by simp
  then show "((y * p + m) * q + d) div q mod p = m" using assms by simp
  show "((y * p + m) * q + d) mod q = d" using assms by simp
  have "((y * p + m) * q + d) div (p * q) = ((y * p + m) * q + d) div q div p"
    by (metis div_mult2_eq mult.commute)
  also have "\<dots> = y" using assms by (simp add: q)
  finally show "((y * p + m) * q + d) div (p * q) = y" .
qed

section \<open>Buffers\<close>

text \<open>
  \<open>put buf pos bs\<close> is Go's \<open>copy(buf[pos:], bs)\<close>: bytes beyond the end of the destination are
  dropped, everything else of the buffer is kept. \<open>make([]byte, n)\<close> is \<open>replicate n 0\<close>.
\<close>

definition put :: "'a list \<Rightarrow> nat \<Rightarrow> 'a list \<Rightarrow> 'a list" where
  "put buf pos bs =
     take pos buf @ take (length buf - pos) bs @ drop (pos + length bs) buf"

lemma length_put [simp]: "length (put buf pos bs) = length buf"
  by (simp add: put_def)

lemma put_append:
  "length xs = pos \<Longrightarrow> put (xs @ ys) pos bs = xs @ put ys 0 bs"
  by (simp add: put_def)

lemma put_exact: "length bs \<le> length buf \<Longrightarrow> put buf 0 bs = bs @ drop (length bs) buf"
  by (simp add: put_def)

text \<open>
  Filling a zeroed buffer from left to right, field by field, is concatenation: the one fact that
  turns the position arithmetic of every encoder into an equation between byte strings.
\<close>

lemma put_fill:
  assumes "length xs = pos" and "length bs \<le> n"
  shows "put (xs @ replicate n z) pos bs = (xs @ bs) @ replicate (n - length bs) z"
  using assms by (simp add: put_append put_exact)

lemma put_fill0: "length bs \<le> n \<Longrightarrow> put (replicate n z) 0 bs = bs @ replicate (n - length bs) z"
  using put_fill [of "[]" 0 bs n z] by simp

lemmas put_fills = put_fill0 put_fill

definition fit :: "nat \<Rightarrow> byte list \<Rightarrow> byte list" where
  "fit n bs = put (replicate n 0) 0 bs"

lemma length_fit [simp, wire]: "length (fit n bs) = n"
  by (simp add: fit_def)

lemma fit_exact [simp]: "length bs = n \<Longrightarrow> fit n bs = bs"
  by (simp add: fit_def put_def)

text \<open>A Go string is a sequence of bytes; \<open>[]byte(s)\<close> and \<open>string(b)\<close> convert without loss.\<close>

definition bytes_of :: "string \<Rightarrow> byte list" where
  "bytes_of s = map of_char s"

definition string_of :: "byte list \<Rightarrow> string" where
  "string_of bs = map (\<lambda>b. char_of (unat b)) bs"

lemma length_bytes_of [simp, wire]: "length (bytes_of s) = length s"
  by (simp add: bytes_of_def)

lemma of_char_byte: "unat (of_char c :: byte) = of_char c"
proof -
  have "(of_char c :: nat) < 2 ^ LENGTH(8)"
    using nat_of_char_less_256 [of c] by simp
  then have "unat (of_nat (of_char c) :: byte) = of_char c"
    by (rule unat_of_nat_small)
  then show ?thesis by (simp add: of_nat_of_char)
qed

lemma string_of_bytes_of [simp]: "string_of (bytes_of s) = s"
  by (induction s) (auto simp: string_of_def bytes_of_def of_char_byte)

lemma bytes_of_inject [simp]: "bytes_of s = bytes_of t \<longleftrightarrow> s = t"
  by (metis string_of_bytes_of)

end
