(* ===== verification/Contracts.thy ===== *)
theory Contracts
  imports Prelude
begin

text \<open>
  The contracts that several components share, each stated once as a locale with the facts that
  its clients use, and interpreted in the theory of every component that provides it: a keyed
  store (the mutex-protected Go maps of the session manager, the session, the connection pool, the
  request tracker, the schema cache and the relation cache of the streamer), a self-delimiting
  codec (the value, event and packet encoders), and a machine that keeps an invariant.
\<close>

section \<open>Keyed stores\<close>

datatype ('k, 'v) store_op = Put 'k 'v | Del 'k

primrec store_step ::
    "('k \<Rightarrow> 'v \<Rightarrow> 's \<Rightarrow> 's) \<Rightarrow> ('k \<Rightarrow> 's \<Rightarrow> 's) \<Rightarrow> ('k, 'v) store_op \<Rightarrow> 's \<Rightarrow> 's" where
  "store_step ins del (Put k v) s = ins k v s"
| "store_step ins del (Del k) s = del k s"

text \<open>The specification of a store: a finite map, updated pointwise.\<close>

definition map_put :: "'k \<Rightarrow> 'v \<Rightarrow> ('k \<rightharpoonup> 'v) \<Rightarrow> ('k \<rightharpoonup> 'v)" where
  "map_put k v m = m(k \<mapsto> v)"

definition map_del :: "'k \<Rightarrow> ('k \<rightharpoonup> 'v) \<Rightarrow> ('k \<rightharpoonup> 'v)" where
  "map_del k m = m(k := None)"

fun last_write :: "('k, 'v) store_op list \<Rightarrow> 'k \<Rightarrow> 'v option \<Rightarrow> 'v option" where
  "last_write [] k d = d"
| "last_write (Put k' v # ops) k d = last_write ops k (if k' = k then Some v else d)"
| "last_write (Del k' # ops) k d = last_write ops k (if k' = k then None else d)"

locale keyed_map =
  fixes lookup :: "'s \<Rightarrow> 'k \<Rightarrow> 'v option"
    and ins :: "'k \<Rightarrow> 'v \<Rightarrow> 's \<Rightarrow> 's"
  assumes lookup_ins: "lookup (ins k v s) k' = (if k' = k then Some v else lookup s k')"
begin

lemma lookup_ins_same: "lookup (ins k v s) k = Some v"
  by (simp add: lookup_ins)

lemma lookup_ins_other: "k' \<noteq> k \<Longrightarrow> lookup (ins k v s) k' = lookup s k'"
  by (simp add: lookup_ins)

lemma ins_overwrites: "lookup (ins k v (ins k w s)) = lookup (ins k v s)"
  by (simp add: fun_eq_iff lookup_ins)

lemma ins_commute: "k \<noteq> j \<Longrightarrow> lookup (ins k v (ins j w s)) = lookup (ins j w (ins k v s))"
  by (auto simp: fun_eq_iff lookup_ins)

lemma finite_dom_ins: "finite (dom (lookup s)) \<Longrightarrow> finite (dom (lookup (ins k v s)))"
  by (rule finite_subset [of _ "insert k (dom (lookup s))"])
     (auto simp: lookup_ins split: if_splits)

lemma card_dom_ins:
  assumes "finite (dom (lookup s))"
  shows "card (dom (lookup (ins k v s)))
       = (if lookup s k = None then Suc (card (dom (lookup s))) else card (dom (lookup s)))"
proof -
  have "dom (lookup (ins k v s)) = insert k (dom (lookup s))"
    by (auto simp: lookup_ins split: if_splits)
  then show ?thesis using assms by (simp add: card_insert_if domIff)
qed

end

locale keyed_store = keyed_map +
  fixes del :: "'k \<Rightarrow> 's \<Rightarrow> 's"
  assumes lookup_del: "lookup (del k s) k' = (if k' = k then None else lookup s k')"
begin

lemma lookup_del_same: "lookup (del k s) k = None"
  by (simp add: lookup_del)

lemma lookup_del_other: "k' \<noteq> k \<Longrightarrow> lookup (del k s) k' = lookup s k'"
  by (simp add: lookup_del)

lemma del_ins: "lookup s k = None \<Longrightarrow> lookup (del k (ins k v s)) = lookup s"
  by (auto simp: fun_eq_iff lookup_ins lookup_del)

lemma finite_dom_del: "finite (dom (lookup s)) \<Longrightarrow> finite (dom (lookup (del k s)))"
  by (rule finite_subset [of _ "dom (lookup s)"])
     (auto simp: lookup_del split: if_splits)

lemma card_dom_del:
  assumes "finite (dom (lookup s))"
  shows "card (dom (lookup (del k s)))
       = (if lookup s k = None then card (dom (lookup s)) else card (dom (lookup s)) - 1)"
proof -
  have "dom (lookup (del k s)) = dom (lookup s) - {k}"
    by (auto simp: lookup_del split: if_splits)
  then show ?thesis using assms by (simp add: card_Diff_singleton_if domIff)
qed

text \<open>The store refines a map: every sequence of operations commutes with \<open>lookup\<close>.\<close>

lemma refines_map:
  "lookup (fold (store_step ins del) ops s) = fold (store_step map_put map_del) ops (lookup s)"
proof (induction ops arbitrary: s)
  case Nil
  then show ?case by simp
next
  case (Cons op ops)
  have "lookup (store_step ins del op s) = store_step map_put map_del op (lookup s)"
    by (cases op) (auto simp: fun_eq_iff lookup_ins lookup_del map_put_def map_del_def)
  with Cons show ?case by simp
qed

lemma last_write_wins:
  "lookup (fold (store_step ins del) ops s) k = last_write ops k (lookup s k)"
proof (induction ops arbitrary: s)
  case Nil
  then show ?case by simp
next
  case (Cons op ops)
  then show ?case
    by (cases op) (simp_all add: lookup_ins lookup_del)
qed

end

section \<open>Self-delimiting codecs\<close>

fun decode_n :: "(byte list \<Rightarrow> ('a \<times> byte list) option) \<Rightarrow> nat \<Rightarrow> byte list \<Rightarrow> ('a list \<times> byte list) option" where
  "decode_n dec 0 bs = Some ([], bs)"
| "decode_n dec (Suc n) bs =
     (case dec bs of
        None \<Rightarrow> None
      | Some (x, rest) \<Rightarrow>
          (case decode_n dec n rest of
             None \<Rightarrow> None
           | Some (xs, rest') \<Rightarrow> Some (x # xs, rest')))"

locale codec =
  fixes enc :: "'a \<Rightarrow> byte list"
    and dec :: "byte list \<Rightarrow> ('a \<times> byte list) option"
    and ok :: "'a \<Rightarrow> bool"
  assumes dec_enc: "ok x \<Longrightarrow> dec (enc x @ rest) = Some (x, rest)"
begin

lemma enc_inject: "ok x \<Longrightarrow> ok y \<Longrightarrow> enc x @ r = enc y @ r' \<Longrightarrow> x = y \<and> r = r'"
  by (metis dec_enc option.inject prod.inject)

text \<open>No encoding is a proper prefix of another one: a reader always knows where a value ends.\<close>

lemma enc_prefix_free: "ok x \<Longrightarrow> ok y \<Longrightarrow> enc y = enc x @ r \<Longrightarrow> r = [] \<and> x = y"
  by (metis append_Nil2 enc_inject)

lemma decode_n_concat:
  "list_all ok xs \<Longrightarrow> decode_n dec (length xs) (concat (map enc xs) @ rest) = Some (xs, rest)"
  by (induction xs) (auto simp: dec_enc)

lemma stream_inject:
  "list_all ok xs \<Longrightarrow> list_all ok ys \<Longrightarrow> length xs = length ys \<Longrightarrow>
   concat (map enc xs) = concat (map enc ys) \<Longrightarrow> xs = ys"
  by (metis append_Nil2 decode_n_concat option.inject prod.inject)

end

section \<open>Machines with an invariant\<close>

locale invariant_machine =
  fixes inv :: "'s \<Rightarrow> bool"
    and step :: "'e \<Rightarrow> 's \<Rightarrow> 's"
  assumes inv_step: "inv s \<Longrightarrow> inv (step e s)"
begin

lemma inv_run: "inv s \<Longrightarrow> inv (fold step es s)"
  by (induction es arbitrary: s) (auto intro: inv_step)

lemma inv_prefix: "inv s \<Longrightarrow> inv (fold step (take n es) s)"
  by (rule inv_run)

end

end
