(* ===== verification/Go_Strings.thy ===== *)
theory Go_Strings
  imports Prelude
begin

text \<open>
  The parts of Go's \<open>strings\<close>, \<open>strconv\<close> and \<open>fmt\<close> packages that the proxy calls, on strings as
  sequences of bytes. Case conversion and white space are those of ASCII: a byte outside ASCII is
  an ordinary byte. \<open>fmt.Sscanf\<close> is modelled for formats made of \<open>%d\<close>, literal characters and single
  blanks; it returns the integers scanned before the first mismatch, since the callers ignore its
  error and read the variables, which keep their zero value from there on.
\<close>

section \<open>Characters\<close>

definition char_code :: "char \<Rightarrow> nat" where
  "char_code c = of_char c"

definition is_digit :: "char \<Rightarrow> bool" where
  "is_digit c \<longleftrightarrow> 48 \<le> char_code c \<and> char_code c \<le> 57"

definition digit_val :: "char \<Rightarrow> nat" where
  "digit_val c = char_code c - 48"

definition digit_char :: "nat \<Rightarrow> char" where
  "digit_char d = char_of (48 + d mod 10)"

definition is_space :: "char \<Rightarrow> bool" where
  "is_space c \<longleftrightarrow> char_code c = 32 \<or> 9 \<le> char_code c \<and> char_code c \<le> 13"

definition newline :: char where
  "newline = CHR 0x0A"

definition to_upper :: "char \<Rightarrow> char" where
  "to_upper c = (if 97 \<le> char_code c \<and> char_code c \<le> 122 then char_of (char_code c - 32) else c)"

definition to_lower :: "char \<Rightarrow> char" where
  "to_lower c = (if 65 \<le> char_code c \<and> char_code c \<le> 90 then char_of (char_code c + 32) else c)"

section \<open>Strings\<close>

definition ToUpper :: "string \<Rightarrow> string" where
  "ToUpper s = map to_upper s"

definition ToLower :: "string \<Rightarrow> string" where
  "ToLower s = map to_lower s"

definition trim_by :: "(char \<Rightarrow> bool) \<Rightarrow> string \<Rightarrow> string" where
  "trim_by p s = rev (dropWhile p (rev (dropWhile p s)))"

definition TrimSpace :: "string \<Rightarrow> string" where
  "TrimSpace s = trim_by is_space s"

definition Trim :: "string \<Rightarrow> string \<Rightarrow> string" where
  "Trim s cutset = trim_by (\<lambda>c. c \<in> set cutset) s"

definition HasPrefix :: "string \<Rightarrow> string \<Rightarrow> bool" where
  "HasPrefix s p \<longleftrightarrow> take (length p) s = p"

fun Index :: "string \<Rightarrow> string \<Rightarrow> nat option" where
  "Index [] p = (if p = [] then Some 0 else None)"
| "Index (c # s) p = (if HasPrefix (c # s) p then Some 0 else map_option Suc (Index s p))"

definition Contains :: "string \<Rightarrow> string \<Rightarrow> bool" where
  "Contains s p \<longleftrightarrow> Index s p \<noteq> None"

text \<open>\<open>strings.Fields\<close> and \<open>strings.FieldsFunc\<close>: maximal runs of characters outside \<open>p\<close>.\<close>

function FieldsFunc :: "(char \<Rightarrow> bool) \<Rightarrow> string \<Rightarrow> string list" where
  "FieldsFunc p s =
     (case dropWhile p s of
        [] \<Rightarrow> []
      | c # t \<Rightarrow> (c # takeWhile (Not \<circ> p) t) # FieldsFunc p (dropWhile (Not \<circ> p) t))"
  by pat_completeness auto
termination
proof (relation "measure (\<lambda>(p, s). length s)", goal_cases)
  case (2 p s c t)
  have "length (dropWhile (Not \<circ> p) t) \<le> length t"
    by (simp add: length_dropWhile_le)
  moreover have "length (c # t) \<le> length s"
    using 2 by (metis length_dropWhile_le)
  ultimately show ?case by simp
qed simp

declare FieldsFunc.simps [simp del]

definition Fields :: "string \<Rightarrow> string list" where
  "Fields s = FieldsFunc is_space s"

text \<open>\<open>strings.Split(s, sep)\<close> for a one-byte separator, and \<open>strings.SplitN(s, sep, 2)\<close>.\<close>

fun Split :: "string \<Rightarrow> char \<Rightarrow> string list" where
  "Split [] sep = [[]]"
| "Split (c # s) sep =
     (if c = sep then [] # Split s sep
      else case Split s sep of [] \<Rightarrow> [[c]] | w # ws \<Rightarrow> (c # w) # ws)"

definition SplitN2 :: "string \<Rightarrow> char \<Rightarrow> string list" where
  "SplitN2 s sep =
     (if sep \<in> set s
      then [takeWhile (\<lambda>c. c \<noteq> sep) s, tl (dropWhile (\<lambda>c. c \<noteq> sep) s)]
      else [s])"

text \<open>\<open>strings.ReplaceAll\<close> for a non-empty \<open>old\<close>: leftmost, non-overlapping.\<close>

function ReplaceAll :: "string \<Rightarrow> string \<Rightarrow> string \<Rightarrow> string" where
  "ReplaceAll s old new =
     (case s of
        [] \<Rightarrow> []
      | c # t \<Rightarrow>
          if old \<noteq> [] \<and> HasPrefix s old then new @ ReplaceAll (drop (length old) s) old new
          else c # ReplaceAll t old new)"
  by pat_completeness auto
termination
  by (relation "measure (\<lambda>(s, old, new). length s)") auto

declare ReplaceAll.simps [simp del]

section \<open>Numbers in decimal\<close>

fun dec_digits :: "nat \<Rightarrow> string" where
  "dec_digits n = (if n < 10 then [digit_char n] else dec_digits (n div 10) @ [digit_char n])"

declare dec_digits.simps [simp del]

definition fmt_int :: "int \<Rightarrow> string" where
  "fmt_int i = (if i < 0 then CHR ''-'' # dec_digits (nat (- i)) else dec_digits (nat i))"

definition pad_zeros :: "nat \<Rightarrow> string \<Rightarrow> string" where
  "pad_zeros n s = replicate (n - length s) (CHR ''0'') @ s"

definition digits_val :: "string \<Rightarrow> nat" where
  "digits_val s = foldl (\<lambda>n c. 10 * n + digit_val c) 0 s"

text \<open>\<open>strconv.ParseUint(s, 10, 32)\<close> with its error ignored, for fewer than ten digits.\<close>

definition parse_uint :: "string \<Rightarrow> nat" where
  "parse_uint s = (if s \<noteq> [] \<and> list_all is_digit s then digits_val s else 0)"

section \<open>Sscanf\<close>

datatype fmt_item = FInt | FLit char | FBlank

fun skip_space :: "string \<Rightarrow> string option" where
  "skip_space [] = Some []"
| "skip_space (c # s) =
     (if c = newline then None else if is_space c then skip_space s else Some (c # s))"

text \<open>\<open>%d\<close> into a signed integer of \<open>n\<close> bits; overflow is an error and assigns nothing.\<close>

definition scan_int :: "nat \<Rightarrow> string \<Rightarrow> (int \<times> string) option" where
  "scan_int n s =
     (case skip_space s of
        None \<Rightarrow> None
      | Some t \<Rightarrow>
          let neg = (t \<noteq> [] \<and> hd t = CHR ''-'');
              u = (if t \<noteq> [] \<and> (hd t = CHR ''-'' \<or> hd t = CHR ''+'') then tl t else t);
              ds = takeWhile is_digit u;
              v = (if neg then - int (digits_val ds) else int (digits_val ds))
          in if ds = [] then None
             else if - (2 ^ (n - 1)) \<le> v \<and> v < 2 ^ (n - 1) then Some (v, dropWhile is_digit u)
             else None)"

fun sscanf :: "nat \<Rightarrow> fmt_item list \<Rightarrow> string \<Rightarrow> int list" where
  "sscanf n [] s = []"
| "sscanf n (FInt # fs) s =
     (case scan_int n s of None \<Rightarrow> [] | Some (v, t) \<Rightarrow> v # sscanf n fs t)"
| "sscanf n (FLit c # fs) s =
     (case s of [] \<Rightarrow> [] | d # t \<Rightarrow> if d = c then sscanf n fs t else [])"
| "sscanf n (FBlank # fs) s =
     (case s of
        [] \<Rightarrow> sscanf n fs []
      | d # t \<Rightarrow> if is_space d \<and> d \<noteq> newline
                then sscanf n fs (dropWhile (\<lambda>c. is_space c \<and> c \<noteq> newline) t)
                else [])"

definition nth_int :: "int list \<Rightarrow> nat \<Rightarrow> int" where
  "nth_int xs i = (if i < length xs then xs ! i else 0)"

section \<open>Facts\<close>

lemma char_code_bound [simp]: "char_code c < 256"
  by (simp add: char_code_def)

lemma char_code_char_of [simp]: "char_code (char_of n) = n mod 256"
  by (simp add: char_code_def)

lemma char_code_inject: "char_code c = char_code d \<longleftrightarrow> c = d"
  by (simp add: char_code_def)

lemma is_digit_digit_char [simp]: "is_digit (digit_char d)"
proof -
  have "d mod 10 < 10" by simp
  then have "(48 + d mod 10) mod 256 = 48 + d mod 10" by (intro mod_less) linarith
  then show ?thesis using \<open>d mod 10 < 10\<close> by (simp add: is_digit_def digit_char_def)
qed

lemma digit_val_digit_char [simp]: "digit_val (digit_char d) = d mod 10"
proof -
  have "d mod 10 < 10" by simp
  then have "(48 + d mod 10) mod 256 = 48 + d mod 10" by (intro mod_less) linarith
  then show ?thesis by (simp add: digit_val_def digit_char_def)
qed

lemma digits_val_snoc [simp]: "digits_val (s @ [c]) = 10 * digits_val s + digit_val c"
  by (simp add: digits_val_def)

lemma digits_val_Nil [simp]: "digits_val [] = 0"
  by (simp add: digits_val_def)

lemma digits_val_append: "digits_val (s @ t) = digits_val s * 10 ^ length t + digits_val t"
  by (induction t rule: rev_induct) (auto simp flip: append_assoc simp: algebra_simps)

lemma digits_val_dec_digits [simp]: "digits_val (dec_digits n) = n"
proof (induction n rule: dec_digits.induct)
  case (1 n)
  show ?case
  proof (cases "n < 10")
    case True
    then show ?thesis
      by (subst dec_digits.simps) (simp add: digits_val_def)
  next
    case False
    then show ?thesis
      using 1 by (subst dec_digits.simps) simp
  qed
qed

lemma dec_digits_all_digits [simp]: "list_all is_digit (dec_digits n)"
proof (induction n rule: dec_digits.induct)
  case (1 n)
  then show ?case
    by (subst dec_digits.simps) simp
qed

lemma dec_digits_nonempty [simp]: "dec_digits n \<noteq> []"
  by (subst dec_digits.simps) simp

lemma digits_val_zeros [simp]: "digits_val (replicate k CHR ''0'' @ s) = digits_val s"
proof -
  have "digits_val (replicate k CHR ''0'') = 0"
    by (induction k) (auto simp: replicate_append_same [symmetric] digit_val_def char_code_def)
  then show ?thesis by (simp add: digits_val_append)
qed

lemma digits_val_bound: "list_all is_digit s \<Longrightarrow> digits_val s < 10 ^ length s"
proof (induction s rule: rev_induct)
  case (snoc c s)
  then have "digits_val s + 1 \<le> 10 ^ length s" and "digit_val c \<le> 9"
    by (auto simp: is_digit_def digit_val_def)
  then show ?case by simp
qed simp

lemma length_ToUpper [simp]: "length (ToUpper s) = length s"
  by (simp add: ToUpper_def)

lemma length_trim_by: "length (trim_by p s) \<le> length s"
  unfolding trim_by_def
  by (metis length_dropWhile_le length_rev order_trans)

lemma HasPrefix_append [simp]: "HasPrefix (p @ s) p"
  by (simp add: HasPrefix_def)

lemma HasPrefix_length: "HasPrefix s p \<Longrightarrow> length p \<le> length s"
  unfolding HasPrefix_def by (metis length_take min.absorb_iff2 min.commute)

lemma Index_bound: "Index s p = Some i \<Longrightarrow> i + length p \<le> length s \<and> HasPrefix (drop i s) p"
proof (induction s arbitrary: i)
  case (Cons c s)
  then show ?case
    by (auto split: if_splits dest: HasPrefix_length)
qed (auto simp: HasPrefix_def split: if_splits)

lemma is_digit_not_blank: "is_digit c \<Longrightarrow> \<not> is_space c \<and> c \<noteq> newline \<and> c \<noteq> CHR ''-'' \<and> c \<noteq> CHR ''+''"
  by (auto simp: is_digit_def is_space_def newline_def char_code_def)

lemma skip_space_digit: "is_digit c \<Longrightarrow> skip_space (c # s) = Some (c # s)"
  using is_digit_not_blank [of c] by simp

lemma takeWhile_digits:
  "list_all is_digit ds \<Longrightarrow> rest = [] \<or> \<not> is_digit (hd rest) \<Longrightarrow>
   takeWhile is_digit (ds @ rest) = ds \<and> dropWhile is_digit (ds @ rest) = rest"
  by (induction ds) (cases rest; auto)+

text \<open>Scanning a number that was printed in decimal, with or without leading zeros.\<close>

lemma scan_int_digits:
  assumes ds: "list_all is_digit ds" "ds \<noteq> []"
    and rest: "rest = [] \<or> \<not> is_digit (hd rest)"
    and small: "digits_val ds < 2 ^ (n - 1)"
  shows "scan_int n (ds @ rest) = Some (int (digits_val ds), rest)"
proof -
  obtain c cs where c: "ds = c # cs" using ds(2) by (cases ds) auto
  with ds(1) have d: "is_digit c" by simp
  have sk: "skip_space (ds @ rest) = Some (ds @ rest)"
    using skip_space_digit [OF d, of "cs @ rest"] by (simp only: c append_Cons)
  have hd: "hd (ds @ rest) \<noteq> CHR ''-''" "hd (ds @ rest) \<noteq> CHR ''+''"
    using is_digit_not_blank [OF d] by (simp_all add: c)
  have "int (digits_val ds) < 2 ^ (n - 1)"
    using small by (metis of_nat_less_iff of_nat_numeral of_nat_power)
  moreover have "- (2 ^ (n - 1)) \<le> int (digits_val ds)"
    by (rule order_trans [of _ 0]) auto
  ultimately show ?thesis
    using takeWhile_digits [OF ds(1) rest] sk hd ds(2)
    by (simp add: scan_int_def Let_def)
qed

lemma list_all_pad_zeros [simp]: "list_all is_digit (pad_zeros n (dec_digits k))"
  by (simp add: pad_zeros_def) (simp add: list_all_length is_digit_def char_code_def)

lemma digits_val_pad_zeros [simp]: "digits_val (pad_zeros n (dec_digits k)) = k"
  by (simp add: pad_zeros_def)

lemma pad_zeros_nonempty [simp]: "pad_zeros n (dec_digits k) \<noteq> []"
  by (simp add: pad_zeros_def)

lemma sscanf_padded:
  assumes "k < 2 ^ (n - 1)" and "rest = [] \<or> \<not> is_digit (hd rest)"
  shows "sscanf n (FInt # fs) (pad_zeros w (dec_digits k) @ rest) = int k # sscanf n fs rest"
proof -
  have "scan_int n (pad_zeros w (dec_digits k) @ rest) = Some (int k, rest)"
    using scan_int_digits [of "pad_zeros w (dec_digits k)" rest n] assms by simp
  then show ?thesis by simp
qed

lemma not_is_digit_chars [simp]:
  "\<not> is_digit CHR ''-''" "\<not> is_digit CHR '':''" "\<not> is_digit CHR '' ''" "\<not> is_digit CHR ''.''"
  by (simp_all add: is_digit_def char_code_def)

lemma is_space_blank [simp]: "is_space CHR '' ''" "CHR '' '' \<noteq> newline"
  by (simp_all add: is_space_def newline_def char_code_def)

end
