(* ===== verification/Go_Time.thy ===== *)
theory Go_Time
  imports Go_Strings
begin

text \<open>
  Go's \<open>time.Time\<close> as the civil fields of its location together with the offset of that location
  from UTC, the formats \<open>2006-01-02\<close>, \<open>15:04:05\<close> and their combinations, and \<open>time.Parse\<close> for the
  layout \<open>2006-01-02 15:04:05\<close> (four-digit year, two-digit month, day, minute and second, one- or
  two-digit hour, an optional fraction after the seconds, range checks last).
\<close>

record gtime =
  t_year :: int
  t_month :: nat
  t_day :: nat
  t_hour :: nat
  t_min :: nat
  t_sec :: nat
  t_nsec :: nat
  t_off :: int

definition zero_time :: gtime where
  "zero_time = \<lparr>t_year = 1, t_month = 1, t_day = 1, t_hour = 0, t_min = 0, t_sec = 0,
                t_nsec = 0, t_off = 0\<rparr>"

definition days_from_civil :: "int \<Rightarrow> nat \<Rightarrow> nat \<Rightarrow> int" where
  "days_from_civil y m d =
     (let y' = (if m \<le> 2 then y - 1 else y);
          era = y' div 400;
          yoe = y' - era * 400;
          doy = (153 * (if 2 < m then int m - 3 else int m + 9) + 2) div 5 + int d - 1;
          doe = yoe * 365 + yoe div 4 - yoe div 100 + doy
      in era * 146097 + doe - 719468)"

definition Unix :: "gtime \<Rightarrow> int" where
  "Unix t = days_from_civil (t_year t) (t_month t) (t_day t) * 86400
            + int (t_hour t) * 3600 + int (t_min t) * 60 + int (t_sec t) - t_off t"

definition is_leap :: "int \<Rightarrow> bool" where
  "is_leap y \<longleftrightarrow> y mod 4 = 0 \<and> (y mod 100 \<noteq> 0 \<or> y mod 400 = 0)"

definition days_in :: "nat \<Rightarrow> int \<Rightarrow> nat" where
  "days_in m y =
     (if m = 2 then (if is_leap y then 29 else 28)
      else if m \<in> {4, 6, 9, 11} then 30 else 31)"

definition valid_time :: "gtime \<Rightarrow> bool" where
  "valid_time t \<longleftrightarrow> 0 \<le> t_year t \<and> t_year t \<le> 9999 \<and> 1 \<le> t_month t \<and> t_month t \<le> 12
     \<and> 1 \<le> t_day t \<and> t_day t \<le> days_in (t_month t) (t_year t)
     \<and> t_hour t < 24 \<and> t_min t < 60 \<and> t_sec t < 60"

section \<open>Formatting\<close>

definition fmt_year :: "int \<Rightarrow> string" where
  "fmt_year y = (if y < 0 then CHR ''-'' # pad_zeros 4 (dec_digits (nat (- y)))
                 else pad_zeros 4 (dec_digits (nat y)))"

definition fmt_pad2 :: "nat \<Rightarrow> string" where
  "fmt_pad2 n = pad_zeros 2 (dec_digits n)"

definition fmt_date :: "gtime \<Rightarrow> string" where
  "fmt_date t = fmt_year (t_year t) @ ''-'' @ fmt_pad2 (t_month t) @ ''-'' @ fmt_pad2 (t_day t)"

definition fmt_clock :: "gtime \<Rightarrow> string" where
  "fmt_clock t = fmt_pad2 (t_hour t) @ '':'' @ fmt_pad2 (t_min t) @ '':'' @ fmt_pad2 (t_sec t)"

definition fmt_datetime :: "gtime \<Rightarrow> string" where
  "fmt_datetime t = fmt_date t @ '' '' @ fmt_clock t"

definition fmt_clock_micros :: "gtime \<Rightarrow> string" where
  "fmt_clock_micros t = fmt_clock t @ ''.'' @ pad_zeros 6 (dec_digits (t_nsec t div 1000))"

section \<open>Parsing\<close>

definition getnum :: "bool \<Rightarrow> string \<Rightarrow> (nat \<times> string) option" where
  "getnum fixed s =
     (case s of
        [] \<Rightarrow> None
      | c # t \<Rightarrow>
          if \<not> is_digit c then None
          else (case t of
                  d # u \<Rightarrow>
                    if is_digit d then Some (10 * digit_val c + digit_val d, u)
                    else if fixed then None else Some (digit_val c, t)
                | [] \<Rightarrow> if fixed then None else Some (digit_val c, [])))"

definition skip_lit :: "char \<Rightarrow> string \<Rightarrow> string option" where
  "skip_lit c s = (case s of [] \<Rightarrow> None | d # t \<Rightarrow> if d = c then Some t else None)"

definition skip_blank :: "string \<Rightarrow> string option" where
  "skip_blank s = (if s \<noteq> [] \<and> hd s \<noteq> CHR '' '' then None
                   else Some (dropWhile (\<lambda>c. c = CHR '' '') s))"

definition parse_long_year :: "string \<Rightarrow> (nat \<times> string) option" where
  "parse_long_year s =
     (if 4 \<le> length s \<and> list_all is_digit (take 4 s) then Some (digits_val (take 4 s), drop 4 s)
      else None)"

definition skip_fraction :: "string \<Rightarrow> nat \<times> string" where
  "skip_fraction s =
     (if 2 \<le> length s \<and> (hd s = CHR ''.'' \<or> hd s = CHR '','') \<and> is_digit (s ! 1)
      then (let ds = takeWhile is_digit (tl s); ds9 = take 9 ds
            in (digits_val ds9 * 10 ^ (9 - length ds9), dropWhile is_digit (tl s)))
      else (0, s))"

definition time_parse :: "string \<Rightarrow> gtime option" where
  "time_parse s =
     Option.bind (parse_long_year s) (\<lambda>(y, s).
     Option.bind (skip_lit (CHR ''-'') s) (\<lambda>s.
     Option.bind (getnum True s) (\<lambda>(mo, s).
     if mo < 1 \<or> 12 < mo then None else
     Option.bind (skip_lit (CHR ''-'') s) (\<lambda>s.
     Option.bind (getnum True s) (\<lambda>(d, s).
     Option.bind (skip_blank s) (\<lambda>s.
     Option.bind (getnum False s) (\<lambda>(h, s).
     if 24 \<le> h then None else
     Option.bind (skip_lit (CHR '':'') s) (\<lambda>s.
     Option.bind (getnum True s) (\<lambda>(mi, s).
     if 60 \<le> mi then None else
     Option.bind (skip_lit (CHR '':'') s) (\<lambda>s.
     Option.bind (getnum True s) (\<lambda>(sec, s).
     if 60 \<le> sec then None else
     (let (ns, rest) = skip_fraction s
      in if rest \<noteq> [] then None
         else if d < 1 \<or> days_in mo (int y) < d then None
         else Some \<lparr>t_year = int y, t_month = mo, t_day = d, t_hour = h, t_min = mi,
                    t_sec = sec, t_nsec = ns, t_off = 0\<rparr>))))))))))))"

text \<open>\<open>t, _ = time.Parse(layout, v)\<close>: the zero time when parsing fails.\<close>

definition time_parse_or_zero :: "string \<Rightarrow> gtime" where
  "time_parse_or_zero s = (case time_parse s of None \<Rightarrow> zero_time | Some t \<Rightarrow> t)"

section \<open>Facts\<close>

lemma Unix_epoch: "Unix \<lparr>t_year = 1970, t_month = 1, t_day = 1, t_hour = 0, t_min = 0, t_sec = 0,
    t_nsec = 0, t_off = 0\<rparr> = 0"
  by (simp add: Unix_def days_from_civil_def)

lemma Unix_zero_time: "Unix zero_time = - 62135596800"
  by (simp add: Unix_def days_from_civil_def zero_time_def)

lemma dec_digits_1: "n < 10 \<Longrightarrow> dec_digits n = [digit_char n]"
  by (subst dec_digits.simps) simp

lemma dec_digits_2: "10 \<le> n \<Longrightarrow> dec_digits n = dec_digits (n div 10) @ [digit_char n]"
  by (subst dec_digits.simps) simp

lemma digit_char_0: "digit_char 0 = CHR ''0''"
  by code_simp

lemma fmt_pad2_eq: "n < 100 \<Longrightarrow> fmt_pad2 n = [digit_char (n div 10), digit_char n]"
proof (cases "n < 10")
  case True
  then show ?thesis by (simp add: fmt_pad2_def pad_zeros_def dec_digits_1 digit_char_0)
next
  case False
  moreover assume "n < 100"
  ultimately show ?thesis
    by (simp add: fmt_pad2_def pad_zeros_def dec_digits_2 dec_digits_1)
qed

lemma getnum_pad2 [simp]: "n < 100 \<Longrightarrow> getnum fixed (fmt_pad2 n @ s) = Some (n, s)"
proof -
  assume n: "n < 100"
  have "10 * (n div 10 mod 10) + n mod 10 = n"
  proof -
    have "n div 10 < 10" using n by (simp add: less_mult_imp_div_less)
    then show ?thesis by simp
  qed
  with n show ?thesis by (simp add: fmt_pad2_eq getnum_def)
qed

lemma length_dec_digits: "n < 10 ^ k \<Longrightarrow> 0 < k \<Longrightarrow> length (dec_digits n) \<le> k"
proof (induction n arbitrary: k rule: dec_digits.induct)
  case (1 n)
  show ?case
  proof (cases "n < 10")
    case True
    with 1 show ?thesis by (simp add: dec_digits_1)
  next
    case False
    with 1 obtain j where j: "k = Suc j" and "0 < j"
      by (cases k; cases "k - 1") auto
    with 1 False have "length (dec_digits (n div 10)) \<le> j"
      by (intro "1.IH") (auto simp: less_mult_imp_div_less mult.commute)
    with False j show ?thesis by (simp add: dec_digits_2)
  qed
qed

lemma length_pad_zeros: "length s \<le> n \<Longrightarrow> length (pad_zeros n s) = n"
  by (simp add: pad_zeros_def)

lemma parse_long_year_fmt [simp]:
  "0 \<le> y \<Longrightarrow> y \<le> 9999 \<Longrightarrow> parse_long_year (fmt_year y @ s) = Some (nat y, s)"
proof -
  assume y: "0 \<le> y" "y \<le> 9999"
  then have "length (dec_digits (nat y)) \<le> 4"
    by (intro length_dec_digits) auto
  then have "length (fmt_year y) = 4"
    using y by (simp add: fmt_year_def length_pad_zeros)
  moreover have "list_all is_digit (fmt_year y)" and "digits_val (fmt_year y) = nat y"
    using y by (simp_all add: fmt_year_def)
  ultimately show ?thesis by (simp add: parse_long_year_def)
qed

lemma skip_lit_Cons [simp]: "skip_lit c (c # s) = Some s"
  by (simp add: skip_lit_def)

lemma skip_fraction_Nil [simp]: "skip_fraction [] = (0, [])"
  by (simp add: skip_fraction_def)

lemma skip_blank_pad2 [simp]: "n < 100 \<Longrightarrow> skip_blank (CHR '' '' # fmt_pad2 n @ s) = Some (fmt_pad2 n @ s)"
proof -
  have "digit_char k \<noteq> CHR '' ''" for k
    using is_digit_digit_char [of k] by (auto simp: is_digit_def char_code_def)
  moreover assume "n < 100"
  ultimately show ?thesis by (simp add: skip_blank_def fmt_pad2_eq)
qed

lemma days_in_le: "days_in m y \<le> 31"
  by (simp add: days_in_def)

text \<open>Formatting and parsing a time of day in UTC are inverse, up to the fraction of a second.\<close>

lemma time_parse_fmt_datetime:
  assumes "valid_time t"
  shows "time_parse (fmt_datetime t) = Some (t\<lparr>t_nsec := 0, t_off := 0\<rparr>)"
proof -
  have d: "t_day t < 100"
    using assms days_in_le [of "t_month t" "t_year t"] by (auto simp: valid_time_def)
  have last: "getnum True (fmt_pad2 (t_sec t)) = Some (t_sec t, [])"
    using getnum_pad2 [of "t_sec t" True "[]"] assms by (simp add: valid_time_def)
  from assms d last show ?thesis
    by (simp add: time_parse_def fmt_datetime_def fmt_date_def fmt_clock_def valid_time_def)
qed

end
