(* ===== verification/Mysql_Consts.thy ===== *)
theory Mysql_Consts
  imports Prelude
begin

text \<open>
  The column type codes of the MySQL protocol, as \<open>pkg/schema/cache.go\<close> and
  \<open>pkg/mapper/types.go\<close> list them (both copy the constants of the go-mysql library, which the
  replication package uses by name), together with the three codes with fractional seconds and
  the event type codes that the comments of \<open>pkg/replication/server.go\<close> number.
\<close>

definition MYSQL_TYPE_DECIMAL :: byte where "MYSQL_TYPE_DECIMAL = 0x00"
definition MYSQL_TYPE_TINY :: byte where "MYSQL_TYPE_TINY = 0x01"
definition MYSQL_TYPE_SHORT :: byte where "MYSQL_TYPE_SHORT = 0x02"
definition MYSQL_TYPE_LONG :: byte where "MYSQL_TYPE_LONG = 0x03"
definition MYSQL_TYPE_FLOAT :: byte where "MYSQL_TYPE_FLOAT = 0x04"
definition MYSQL_TYPE_DOUBLE :: byte where "MYSQL_TYPE_DOUBLE = 0x05"
definition MYSQL_TYPE_NULL :: byte where "MYSQL_TYPE_NULL = 0x06"
definition MYSQL_TYPE_TIMESTAMP :: byte where "MYSQL_TYPE_TIMESTAMP = 0x07"
definition MYSQL_TYPE_LONGLONG :: byte where "MYSQL_TYPE_LONGLONG = 0x08"
definition MYSQL_TYPE_INT24 :: byte where "MYSQL_TYPE_INT24 = 0x09"
definition MYSQL_TYPE_DATE :: byte where "MYSQL_TYPE_DATE = 0x0a"
definition MYSQL_TYPE_TIME :: byte where "MYSQL_TYPE_TIME = 0x0b"
definition MYSQL_TYPE_DATETIME :: byte where "MYSQL_TYPE_DATETIME = 0x0c"
definition MYSQL_TYPE_YEAR :: byte where "MYSQL_TYPE_YEAR = 0x0d"
definition MYSQL_TYPE_NEWDATE :: byte where "MYSQL_TYPE_NEWDATE = 0x0e"
definition MYSQL_TYPE_VARCHAR :: byte where "MYSQL_TYPE_VARCHAR = 0x0f"
definition MYSQL_TYPE_BIT :: byte where "MYSQL_TYPE_BIT = 0x10"
definition MYSQL_TYPE_TIMESTAMP2 :: byte where "MYSQL_TYPE_TIMESTAMP2 = 0x11"
definition MYSQL_TYPE_DATETIME2 :: byte where "MYSQL_TYPE_DATETIME2 = 0x12"
definition MYSQL_TYPE_TIME2 :: byte where "MYSQL_TYPE_TIME2 = 0x13"
definition MYSQL_TYPE_JSON :: byte where "MYSQL_TYPE_JSON = 0xf5"
definition MYSQL_TYPE_NEWDECIMAL :: byte where "MYSQL_TYPE_NEWDECIMAL = 0xf6"
definition MYSQL_TYPE_ENUM :: byte where "MYSQL_TYPE_ENUM = 0xf7"
definition MYSQL_TYPE_SET :: byte where "MYSQL_TYPE_SET = 0xf8"
definition MYSQL_TYPE_TINY_BLOB :: byte where "MYSQL_TYPE_TINY_BLOB = 0xf9"
definition MYSQL_TYPE_MEDIUM_BLOB :: byte where "MYSQL_TYPE_MEDIUM_BLOB = 0xfa"
definition MYSQL_TYPE_LONG_BLOB :: byte where "MYSQL_TYPE_LONG_BLOB = 0xfb"
definition MYSQL_TYPE_BLOB :: byte where "MYSQL_TYPE_BLOB = 0xfc"
definition MYSQL_TYPE_VAR_STRING :: byte where "MYSQL_TYPE_VAR_STRING = 0xfd"
definition MYSQL_TYPE_STRING :: byte where "MYSQL_TYPE_STRING = 0xfe"
definition MYSQL_TYPE_GEOMETRY :: byte where "MYSQL_TYPE_GEOMETRY = 0xff"

definition QUERY_EVENT :: byte where "QUERY_EVENT = 2"
definition FORMAT_DESCRIPTION_EVENT :: byte where "FORMAT_DESCRIPTION_EVENT = 15"
definition XID_EVENT :: byte where "XID_EVENT = 16"
definition TABLE_MAP_EVENT :: byte where "TABLE_MAP_EVENT = 19"
definition HEARTBEAT_EVENT :: byte where "HEARTBEAT_EVENT = 27"
definition WRITE_ROWS_EVENTv2 :: byte where "WRITE_ROWS_EVENTv2 = 30"
definition UPDATE_ROWS_EVENTv2 :: byte where "UPDATE_ROWS_EVENTv2 = 31"
definition DELETE_ROWS_EVENTv2 :: byte where "DELETE_ROWS_EVENTv2 = 32"
definition GTID_EVENT :: byte where "GTID_EVENT = 33"

lemmas mysql_type_defs =
  MYSQL_TYPE_DECIMAL_def MYSQL_TYPE_TINY_def MYSQL_TYPE_SHORT_def MYSQL_TYPE_LONG_def
  MYSQL_TYPE_FLOAT_def MYSQL_TYPE_DOUBLE_def MYSQL_TYPE_NULL_def MYSQL_TYPE_TIMESTAMP_def
  MYSQL_TYPE_LONGLONG_def MYSQL_TYPE_INT24_def MYSQL_TYPE_DATE_def MYSQL_TYPE_TIME_def
  MYSQL_TYPE_DATETIME_def MYSQL_TYPE_YEAR_def MYSQL_TYPE_NEWDATE_def MYSQL_TYPE_VARCHAR_def
  MYSQL_TYPE_BIT_def MYSQL_TYPE_TIMESTAMP2_def MYSQL_TYPE_DATETIME2_def MYSQL_TYPE_TIME2_def
  MYSQL_TYPE_JSON_def MYSQL_TYPE_NEWDECIMAL_def MYSQL_TYPE_ENUM_def MYSQL_TYPE_SET_def
  MYSQL_TYPE_TINY_BLOB_def MYSQL_TYPE_MEDIUM_BLOB_def MYSQL_TYPE_LONG_BLOB_def
  MYSQL_TYPE_BLOB_def MYSQL_TYPE_VAR_STRING_def MYSQL_TYPE_STRING_def MYSQL_TYPE_GEOMETRY_def

lemmas event_type_defs =
  QUERY_EVENT_def FORMAT_DESCRIPTION_EVENT_def XID_EVENT_def TABLE_MAP_EVENT_def
  HEARTBEAT_EVENT_def WRITE_ROWS_EVENTv2_def UPDATE_ROWS_EVENTv2_def DELETE_ROWS_EVENTv2_def
  GTID_EVENT_def

end
