(* ===== verification/Binlog_Values.thy ===== *)
theory Binlog_Values
  imports Contracts Go_Time Mysql_Consts
begin

text \<open>
  The value encoders of \<open>pkg/replication/binlog_encoder.go\<close>: one definition per \<open>encodeX\<close> method,
  except \<open>encodeDecimal\<close> (theory \<open>Binlog_Decimal\<close>), with the facts on their lengths and the values
  a reader of the MySQL row format gets back.
\<close>

section \<open>Values\<close>

text \<open>
  The dynamic values (\<open>interface{}\<close>) that reach the encoder and the type mapper. Integers carry
  their Go width, floats their IEEE bit pattern.
\<close>

datatype go_value =
    GNil
  | GInt u64 | GInt8 byte | GInt16 u16 | GInt32 u32 | GInt64 u64
  | GUint u64 | GUint8 byte | GUint16 u16 | GUint32 u32 | GUint64 u64
  | GBool bool
  | GFloat32 u32 | GFloat64 u64
  | GString string
  | GBytes "byte list"
  | GTime gtime

text \<open>
  Operations of the Go runtime on floating-point values and times that the model keeps abstract:
  conversion between the two widths, decimal formatting with a fixed number of digits, and the
  \<open>%v\<close> rendering of floats and times.
\<close>

record go_rt =
  f32_of_f64 :: "u64 \<Rightarrow> u32"
  f64_of_f32 :: "u32 \<Rightarrow> u64"
  format_float_f :: "u64 \<Rightarrow> nat \<Rightarrow> string"
  show_f32 :: "u32 \<Rightarrow> string"
  show_f64 :: "u64 \<Rightarrow> string"
  show_time :: "gtime \<Rightarrow> string"

text \<open>A runtime without floating-point support, for evaluating the encoders on other values.\<close>

definition plain_rt :: go_rt where
  "plain_rt = \<lparr>f32_of_f64 = (\<lambda>_. 0), f64_of_f32 = (\<lambda>_. 0), format_float_f = (\<lambda>_ _. []),
               show_f32 = (\<lambda>_. []), show_f64 = (\<lambda>_. []), show_time = fmt_datetime\<rparr>"

definition join_blank :: "string list \<Rightarrow> string" where
  "join_blank ws = (case ws of [] \<Rightarrow> [] | w # rest \<Rightarrow> w @ concat (map (\<lambda>x. CHR '' '' # x) rest))"

fun fmt_v :: "go_rt \<Rightarrow> go_value \<Rightarrow> string" where
  "fmt_v rt GNil = ''<nil>''"
| "fmt_v rt (GInt w) = fmt_int (sint w)"
| "fmt_v rt (GInt8 w) = fmt_int (sint w)"
| "fmt_v rt (GInt16 w) = fmt_int (sint w)"
| "fmt_v rt (GInt32 w) = fmt_int (sint w)"
| "fmt_v rt (GInt64 w) = fmt_int (sint w)"
| "fmt_v rt (GUint w) = dec_digits (unat w)"
| "fmt_v rt (GUint8 w) = dec_digits (unat w)"
| "fmt_v rt (GUint16 w) = dec_digits (unat w)"
| "fmt_v rt (GUint32 w) = dec_digits (unat w)"
| "fmt_v rt (GUint64 w) = dec_digits (unat w)"
| "fmt_v rt (GBool b) = (if b then ''true'' else ''false'')"
| "fmt_v rt (GFloat32 w) = show_f32 rt w"
| "fmt_v rt (GFloat64 w) = show_f64 rt w"
| "fmt_v rt (GString s) = s"
| "fmt_v rt (GBytes bs) = ''['' @ join_blank (map (\<lambda>b. dec_digits (unat b)) bs) @ '']''"
| "fmt_v rt (GTime t) = show_time rt t"

section \<open>Integers\<close>

fun encodeTiny :: "go_value \<Rightarrow> byte list" where
  "encodeTiny (GInt8 t) = [t]"
| "encodeTiny (GInt t) = [ucast t]"
| "encodeTiny (GInt64 t) = [ucast t]"
| "encodeTiny (GInt32 t) = [ucast t]"
| "encodeTiny (GInt16 t) = [ucast t]"
| "encodeTiny (GBool t) = [if t then 1 else 0]"
| "encodeTiny _ = [0]"

fun encodeShort :: "go_value \<Rightarrow> byte list" where
  "encodeShort (GInt16 t) = le_bytes 2 t"
| "encodeShort (GInt t) = le_bytes 2 (ucast t :: u16)"
| "encodeShort (GInt64 t) = le_bytes 2 (ucast t :: u16)"
| "encodeShort (GInt32 t) = le_bytes 2 (ucast t :: u16)"
| "encodeShort _ = le_bytes 2 (0 :: u16)"

fun encodeInt24 :: "go_value \<Rightarrow> byte list" where
  "encodeInt24 (GInt32 t) = le_bytes 3 t"
| "encodeInt24 (GInt t) = le_bytes 3 (ucast t :: u32)"
| "encodeInt24 (GInt64 t) = le_bytes 3 (ucast t :: u32)"
| "encodeInt24 _ = le_bytes 3 (0 :: u32)"

fun encodeLong :: "go_value \<Rightarrow> byte list" where
  "encodeLong (GInt32 t) = le_bytes 4 t"
| "encodeLong (GInt t) = le_bytes 4 (ucast t :: u32)"
| "encodeLong (GInt64 t) = le_bytes 4 (ucast t :: u32)"
| "encodeLong _ = le_bytes 4 (0 :: u32)"

fun encodeLongLong :: "go_value \<Rightarrow> byte list" where
  "encodeLongLong (GInt64 t) = le_bytes 8 t"
| "encodeLongLong (GInt t) = le_bytes 8 t"
| "encodeLongLong (GInt32 t) = le_bytes 8 (scast t :: u64)"
| "encodeLongLong _ = le_bytes 8 (0 :: u64)"

section \<open>Floats\<close>

fun encodeFloat :: "go_rt \<Rightarrow> go_value \<Rightarrow> byte list" where
  "encodeFloat rt (GFloat32 t) = le_bytes 4 t"
| "encodeFloat rt (GFloat64 t) = le_bytes 4 (f32_of_f64 rt t)"
| "encodeFloat rt _ = le_bytes 4 (0 :: u32)"

fun encodeDouble :: "go_rt \<Rightarrow> go_value \<Rightarrow> byte list" where
  "encodeDouble rt (GFloat64 t) = le_bytes 8 t"
| "encodeDouble rt (GFloat32 t) = le_bytes 8 (f64_of_f32 rt t)"
| "encodeDouble rt _ = le_bytes 8 (0 :: u64)"

section \<open>Dates and times\<close>

fun encodeYear :: "go_value \<Rightarrow> byte list" where
  "encodeYear (GInt t) = (if t = 0 then [0] else [ucast (t - 1900)])"
| "encodeYear (GInt64 t) = (if t = 0 then [0] else [ucast (t - 1900)])"
| "encodeYear (GInt32 t) = (if t = 0 then [0] else [ucast ((scast t :: u64) - 1900)])"
| "encodeYear _ = [0]"

definition date_fmt :: "fmt_item list" where
  "date_fmt = [FInt, FLit (CHR ''-''), FInt, FLit (CHR ''-''), FInt]"

definition clock_fmt :: "fmt_item list" where
  "clock_fmt = [FInt, FLit (CHR '':''), FInt, FLit (CHR '':''), FInt]"

definition pack_date :: "string \<Rightarrow> byte list" where
  "pack_date s =
     (let xs = sscanf 64 date_fmt s
      in le_bytes 3 (of_int (nth_int xs 0 * 16 * 32 + nth_int xs 1 * 32 + nth_int xs 2) :: u32))"

fun encodeDate :: "go_value \<Rightarrow> byte list" where
  "encodeDate (GString s) = pack_date s"
| "encodeDate (GTime t) = pack_date (fmt_date t)"
| "encodeDate _ = replicate 3 0"

fun encodeTime :: "go_value \<Rightarrow> byte list" where
  "encodeTime (GString s) =
     (let xs = sscanf 64 clock_fmt s
      in le_bytes 3 (of_int (nth_int xs 0 * 10000 + nth_int xs 1 * 100 + nth_int xs 2) :: u32))"
| "encodeTime _ = replicate 3 0"

definition frac_bytes :: "u16 \<Rightarrow> nat" where
  "frac_bytes meta = unat ((meta + 1) div 2)"

definition pack_time2 :: "string \<Rightarrow> u16 \<Rightarrow> byte list" where
  "pack_time2 s meta =
     (let parts = SplitN2 s (CHR ''.'');
          xs = sscanf 64 clock_fmt (hd parts);
          fracStr = (if length parts = 2
                     then take (unat meta)
                            (parts ! 1 @ replicate (unat meta - length (parts ! 1)) (CHR ''0''))
                     else []);
          frac = (of_int (nth_int (sscanf 64 [FInt] fracStr) 0) :: u64);
          negative = (nth_int xs 0 < 0);
          hour = (of_int (if negative then - nth_int xs 0 else nth_int xs 0) :: u64);
          minute = (of_int (nth_int xs 1) :: u64);
          second = (of_int (nth_int xs 2) :: u64);
          packed = (push_bit 12 hour OR push_bit 6 minute OR second);
          intPart = (if \<not> negative then packed + 0x800000 else 0x800000 - packed);
          fb = frac_bytes meta;
          fraction = (if 0 < fb \<and> 0 < meta \<and> fb \<le> 3 then be_bytes fb frac else [])
      in put (put (replicate (3 + fb) 0) 0 (be_bytes 3 intPart)) 3 fraction)"

fun encodeTime2 :: "go_value \<Rightarrow> u16 \<Rightarrow> byte list" where
  "encodeTime2 (GString s) meta = pack_time2 s meta"
| "encodeTime2 (GTime t) meta = pack_time2 (fmt_clock_micros t) meta"
| "encodeTime2 _ meta = replicate (3 + frac_bytes meta) 0"

definition datetime_fmt :: "fmt_item list" where
  "datetime_fmt = date_fmt @ [FBlank] @ clock_fmt"

definition pack_datetime :: "string \<Rightarrow> byte list" where
  "pack_datetime s =
     (let xs = sscanf 64 datetime_fmt s;
          d = nth_int xs 0 * 10000 + nth_int xs 1 * 100 + nth_int xs 2;
          t = nth_int xs 3 * 10000 + nth_int xs 4 * 100 + nth_int xs 5
      in le_bytes 8 (of_int (d * 1000000 + t) :: u64))"

fun encodeDatetime :: "go_value \<Rightarrow> byte list" where
  "encodeDatetime (GString s) = pack_datetime s"
| "encodeDatetime (GTime t) = pack_datetime (fmt_datetime t)"
| "encodeDatetime _ = replicate 8 0"

definition pack_datetime2 :: "gtime \<Rightarrow> u64" where
  "pack_datetime2 t =
     (let ym = (of_int (t_year t * 13 + int (t_month t)) :: u64);
          ymd = (push_bit 5 ym OR of_nat (t_day t));
          hms = (push_bit 12 (of_nat (t_hour t)) OR push_bit 6 (of_nat (t_min t)) OR of_nat (t_sec t))
      in (push_bit 17 ymd OR hms) + 0x8000000000)"

fun encodeDatetime2 :: "go_value \<Rightarrow> u16 \<Rightarrow> byte list" where
  "encodeDatetime2 (GTime t) meta = fit (5 + frac_bytes meta) (be_bytes 5 (pack_datetime2 t))"
| "encodeDatetime2 (GString s) meta =
     fit (5 + frac_bytes meta) (be_bytes 5 (pack_datetime2 (time_parse_or_zero s)))"
| "encodeDatetime2 _ meta = replicate (5 + frac_bytes meta) 0"

definition zero_datetime :: string where
  "zero_datetime = ''0000-00-00 00:00:00''"

fun encodeTimestamp :: "go_value \<Rightarrow> byte list" where
  "encodeTimestamp (GTime t) = le_bytes 4 (of_int (Unix t) :: u32)"
| "encodeTimestamp (GString s) =
     le_bytes 4 (of_int (if s = zero_datetime then 0 else Unix (time_parse_or_zero s)) :: u32)"
| "encodeTimestamp (GInt64 t) = le_bytes 4 (ucast t :: u32)"
| "encodeTimestamp _ = le_bytes 4 (0 :: u32)"

definition pack_timestamp2 :: "gtime \<Rightarrow> u16 \<Rightarrow> byte list" where
  "pack_timestamp2 t meta = fit (4 + frac_bytes meta) (be_bytes 4 (of_int (Unix t) :: u32))"

fun encodeTimestamp2 :: "go_value \<Rightarrow> u16 \<Rightarrow> byte list" where
  "encodeTimestamp2 (GTime t) meta = pack_timestamp2 t meta"
| "encodeTimestamp2 (GString s) meta =
     (if s = zero_datetime then replicate (4 + frac_bytes meta) 0
      else pack_timestamp2 (time_parse_or_zero s) meta)"
| "encodeTimestamp2 _ meta = pack_timestamp2 zero_time meta"

section \<open>Strings and blobs\<close>

fun text_of :: "go_rt \<Rightarrow> go_value \<Rightarrow> byte list" where
  "text_of rt (GString s) = bytes_of s"
| "text_of rt (GBytes bs) = bs"
| "text_of rt v = bytes_of (fmt_v rt v)"

definition encodeVarString :: "go_rt \<Rightarrow> go_value \<Rightarrow> u16 \<Rightarrow> byte list" where
  "encodeVarString rt v meta =
     (let s = text_of rt v
      in if unat meta < 256 then (of_nat (length s) :: byte) # s
         else le_bytes 2 (of_nat (length s) :: u16) @ s)"

definition encodeFixedString :: "go_rt \<Rightarrow> go_value \<Rightarrow> u16 \<Rightarrow> byte list" where
  "encodeFixedString rt v meta =
     encodeVarString rt v (if 256 \<le> unat meta then meta AND 0xFF else meta)"

fun blob_data :: "go_value \<Rightarrow> byte list option" where
  "blob_data (GBytes bs) = Some bs"
| "blob_data (GString s) = Some (bytes_of s)"
| "blob_data _ = None"

definition encodeBlob :: "go_value \<Rightarrow> u16 \<Rightarrow> byte list" where
  "encodeBlob v meta =
     (case blob_data v of
        None \<Rightarrow> []
      | Some d \<Rightarrow>
          if meta = 1 then (of_nat (length d) :: byte) # d
          else if meta = 2 then le_bytes 2 (of_nat (length d) :: u16) @ d
          else if meta = 3 then le_bytes 3 (of_nat (length d) :: u64) @ d
          else if meta = 4 then le_bytes 4 (of_nat (length d) :: u32) @ d
          else le_bytes 2 (of_nat (length d) :: u16) @ d)"

section \<open>Bits, enumerations, sets and JSON\<close>

text \<open>The loops \<open>buf[i] = byte(v); v >>= 8\<close> shift a signed integer: the sign is extended.\<close>

primrec le_sint :: "nat \<Rightarrow> u64 \<Rightarrow> byte list" where
  "le_sint 0 v = []"
| "le_sint (Suc n) v = ucast v # le_sint n (signed_drop_bit 8 v)"

fun small_int :: "go_value \<Rightarrow> u64" where
  "small_int (GInt64 t) = t"
| "small_int (GInt t) = t"
| "small_int _ = 0"

definition encodeBit :: "go_value \<Rightarrow> u16 \<Rightarrow> byte list" where
  "encodeBit v meta =
     (let nbits = drop_bit 8 meta * 8 + (meta AND 0xFF);
          n = unat (nbits + 7) div 8
      in rev (le_sint n (case v of GBool b \<Rightarrow> (if b then 1 else 0) | _ \<Rightarrow> small_int v)))"

definition encodeEnum :: "go_value \<Rightarrow> u16 \<Rightarrow> byte list" where
  "encodeEnum v meta =
     (if meta AND 0xFF = 1 then [ucast (small_int v)]
      else if meta AND 0xFF = 2 then le_bytes 2 (ucast (small_int v) :: u16)
      else [ucast (small_int v)])"

definition encodeSet :: "go_value \<Rightarrow> u16 \<Rightarrow> byte list" where
  "encodeSet v meta = le_sint (unat (meta AND 0xFF)) (small_int v)"

definition encodeJSON :: "go_value \<Rightarrow> u16 \<Rightarrow> byte list" where
  "encodeJSON v meta =
     (let d = (case blob_data v of None \<Rightarrow> bytes_of ''{}'' | Some d \<Rightarrow> d)
      in le_bytes (unat meta) (of_nat (length d) :: u64) @ d)"

end
