(* ===== verification/Binlog_Decimal.thy ===== *)
theory Binlog_Decimal
  imports Binlog_Values
begin

text \<open>
  \<open>encodeDecimal\<close> and \<open>encodeDecimalValue\<close> of \<open>pkg/replication/binlog_encoder.go\<close>: DECIMAL values in
  MySQL's packed format, nine digits to four bytes, with the leading and trailing groups
  compressed. The buffer of the source is filled from left to right without gaps, so its contents
  is the concatenation of the groups. The format is specified by a decoder, and encoding followed
  by decoding is proved to give the padded and truncated digits back.
\<close>

section \<open>The encoder\<close>

definition digitsPerInteger :: nat where
  "digitsPerInteger = 9"

definition decimalCompressedBytes :: "nat list" where
  "decimalCompressedBytes = [0, 1, 1, 2, 2, 3, 3, 4, 4, 4]"

definition encodeDecimalValue :: "u32 \<Rightarrow> nat \<Rightarrow> byte \<Rightarrow> byte list" where
  "encodeDecimalValue v sz mk = map (\<lambda>b. b XOR mk) (be_bytes sz v)"

fun decimal_text :: "go_rt \<Rightarrow> go_value \<Rightarrow> nat \<Rightarrow> string" where
  "decimal_text rt (GString s) scale = s"
| "decimal_text rt (GFloat64 t) scale = format_float_f rt t scale"
| "decimal_text rt (GFloat32 t) scale = format_float_f rt (f64_of_f32 rt t) scale"
| "decimal_text rt (GInt t) scale = fmt_int (sint t)"
| "decimal_text rt (GInt32 t) scale = fmt_int (sint t)"
| "decimal_text rt (GInt64 t) scale = fmt_int (sint t)"
| "decimal_text rt v scale = fmt_v rt v"

definition split_point :: "string \<Rightarrow> string \<times> string" where
  "split_point s =
     (if CHR ''.'' \<in> set s
      then (takeWhile (\<lambda>c. c \<noteq> CHR ''.'') s, tl (dropWhile (\<lambda>c. c \<noteq> CHR ''.'') s))
      else (s, []))"

definition strip_zeros :: "string \<Rightarrow> string" where
  "strip_zeros s = (let t = dropWhile (\<lambda>c. c = CHR ''0'') s in if t = [] then ''0'' else t)"

definition pad_int :: "nat \<Rightarrow> string \<Rightarrow> string" where
  "pad_int intDigits intPart =
     (if intDigits = 0 then []
      else if intDigits \<le> length intPart then drop (length intPart - intDigits) intPart
      else replicate (intDigits - length intPart) (CHR ''0'') @ intPart)"

definition pad_frac :: "nat \<Rightarrow> string \<Rightarrow> string" where
  "pad_frac scale fracPart =
     (if scale = 0 then []
      else if scale \<le> length fracPart then take scale fracPart
      else fracPart @ replicate (scale - length fracPart) (CHR ''0''))"

definition dec_chunk :: "byte \<Rightarrow> string \<Rightarrow> nat \<Rightarrow> byte list" where
  "dec_chunk mk digits sz = encodeDecimalValue (of_nat (parse_uint digits)) sz mk"

definition encode_groups :: "nat \<Rightarrow> nat \<Rightarrow> string \<Rightarrow> string \<Rightarrow> byte \<Rightarrow> byte list" where
  "encode_groups intDigits scale paddedInt paddedFrac mk =
     (let uncompIntegral = intDigits div digitsPerInteger;
          uncompFractional = scale div digitsPerInteger;
          compIntegral = intDigits - uncompIntegral * digitsPerInteger;
          compFractional = scale - uncompFractional * digitsPerInteger
      in (if 0 < compIntegral
          then dec_chunk mk (take compIntegral paddedInt) (decimalCompressedBytes ! compIntegral)
          else [])
         @ concat (map (\<lambda>i. dec_chunk mk
               (take digitsPerInteger (drop (compIntegral + i * digitsPerInteger) paddedInt)) 4)
             [0..<uncompIntegral])
         @ concat (map (\<lambda>i. dec_chunk mk
               (take digitsPerInteger (drop (i * digitsPerInteger) paddedFrac)) 4)
             [0..<uncompFractional])
         @ (if 0 < compFractional
            then dec_chunk mk
                   (take compFractional (drop (uncompFractional * digitsPerInteger) paddedFrac))
                   (decimalCompressedBytes ! compFractional)
            else []))"

definition flip_sign :: "byte list \<Rightarrow> byte list" where
  "flip_sign bs = (case bs of [] \<Rightarrow> [0 XOR 0x80] | b # rest \<Rightarrow> (b XOR 0x80) # rest)"

definition encodeDecimal :: "go_rt \<Rightarrow> go_value \<Rightarrow> u16 \<Rightarrow> byte list" where
  "encodeDecimal rt v meta =
     (let precision0 = unat (drop_bit 8 meta);
          scale = unat (meta AND 0xFF);
          precision = (if precision0 = 0 then 10 else precision0);
          s = decimal_text rt v scale;
          negative = HasPrefix s ''-'';
          s' = (if negative then tl s else s);
          (intPart0, fracPart) = split_point s';
          intPart = strip_zeros intPart0;
          intDigits = precision - scale;
          mk = (if negative then 0xFF else 0)
      in flip_sign
           (encode_groups intDigits scale (pad_int intDigits intPart) (pad_frac scale fracPart) mk))"

section \<open>The format\<close>

text \<open>
  The number of digits of each group, and a reader: the first bit is the sign (1 for positive),
  the bytes of a negative number are complemented, every group is a big-endian integer.
\<close>

definition decimal_layout :: "nat \<Rightarrow> nat \<Rightarrow> nat list" where
  "decimal_layout intDigits scale =
     (if intDigits mod 9 = 0 then [] else [intDigits mod 9]) @ replicate (intDigits div 9) 9
     @ replicate (scale div 9) 9 @ (if scale mod 9 = 0 then [] else [scale mod 9])"

fun dec_groups :: "nat list \<Rightarrow> nat \<Rightarrow> byte list \<Rightarrow> nat" where
  "dec_groups [] acc bs = acc"
| "dec_groups (k # ks) acc bs =
     (let n = decimalCompressedBytes ! k
      in dec_groups ks (acc * 10 ^ k + be_val (take n bs)) (drop n bs))"

definition decode_decimal :: "nat \<Rightarrow> nat \<Rightarrow> byte list \<Rightarrow> bool \<times> nat" where
  "decode_decimal intDigits scale bs =
     (let negative = \<not> bit (hd bs) 7;
          bs' = map (\<lambda>b. b XOR (if negative then 0xFF else 0)) (flip_sign bs)
      in (negative, dec_groups (decimal_layout intDigits scale) 0 bs'))"

definition decimal_size :: "nat \<Rightarrow> nat \<Rightarrow> nat" where
  "decimal_size intDigits scale =
     (let n = (\<Sum>k\<leftarrow>decimal_layout intDigits scale. decimalCompressedBytes ! k)
      in if n = 0 then 1 else n)"

section \<open>Facts\<close>

fun enc_groups :: "byte \<Rightarrow> nat list \<Rightarrow> string \<Rightarrow> byte list" where
  "enc_groups mk [] ds = []"
| "enc_groups mk (k # ks) ds =
     dec_chunk mk (take k ds) (decimalCompressedBytes ! k) @ enc_groups mk ks (drop k ds)"

lemma enc_groups_append:
  "enc_groups mk (ks @ ls) ds = enc_groups mk ks ds @ enc_groups mk ls (drop (sum_list ks) ds)"
  by (induction ks arbitrary: ds) (auto simp: add.commute)

lemma enc_groups_replicate9:
  "enc_groups mk (replicate n 9) ds =
   concat (map (\<lambda>i. dec_chunk mk (take 9 (drop (i * 9) ds)) 4) [0..<n])"
proof (induction n arbitrary: ds)
  case 0
  then show ?case by simp
next
  case (Suc n)
  have "[0..<Suc n] = 0 # map Suc [0..<n]"
    by (simp add: map_Suc_upt upt_conv_Cons del: upt_Suc)
  with Suc show ?case
    by (simp add: decimalCompressedBytes_def comp_def drop_drop add.commute del: upt_Suc)
qed

lemma enc_groups_take: "sum_list ks \<le> length xs \<Longrightarrow> enc_groups mk ks (xs @ ys) = enc_groups mk ks xs"
  by (induction ks arbitrary: xs) auto

lemma minus_div9: "(n::nat) - n div 9 * 9 = n mod 9"
  by (simp add: minus_div_mult_eq_mod)

text \<open>The four pieces of \<open>encodeDecimal\<close> are the groups of the layout, one after the other.\<close>

lemma encode_groups_eq:
  assumes "length ip = intDigits" and "length pf = scale"
  shows "encode_groups intDigits scale ip pf mk
         = enc_groups mk (decimal_layout intDigits scale) (ip @ pf)"
proof -
  have split: "intDigits mod 9 + 9 * (intDigits div 9) = intDigits"
    by simp
  have dropi: "drop (intDigits mod 9 + i * 9) ip = drop (i * 9) (drop (intDigits mod 9) ip)" for i
    by (simp add: add.commute)
  have sl: "sum_list (replicate n 9) = 9 * n" for n :: nat
    by (simp add: sum_list_replicate)
  have A: "enc_groups mk (if intDigits mod 9 = 0 then [] else [intDigits mod 9]) (ip @ pf)
         = (if 0 < intDigits mod 9
            then dec_chunk mk (take (intDigits mod 9) ip) (decimalCompressedBytes ! (intDigits mod 9))
            else [])"
    using assms by simp
  have B: "enc_groups mk (replicate (intDigits div 9) 9) (drop (intDigits mod 9) ip @ pf)
         = concat (map (\<lambda>i. dec_chunk mk (take 9 (drop (intDigits mod 9 + i * 9) ip)) 4)
                    [0..<intDigits div 9])"
    using assms split
    by (subst enc_groups_take) (auto simp: sl enc_groups_replicate9 dropi minus_mod_eq_mult_div)
  have C: "enc_groups mk (replicate (scale div 9) 9) pf
         = concat (map (\<lambda>i. dec_chunk mk (take 9 (drop (i * 9) pf)) 4) [0..<scale div 9])"
    by (rule enc_groups_replicate9)
  have D: "enc_groups mk (if scale mod 9 = 0 then [] else [scale mod 9]) (drop (9 * (scale div 9)) pf)
         = (if 0 < scale mod 9
            then dec_chunk mk (take (scale mod 9) (drop (scale div 9 * 9) pf))
                   (decimalCompressedBytes ! (scale mod 9))
            else [])"
    by (simp add: mult.commute)
  have le: "intDigits mod 9 \<le> length ip"
    using assms by simp
  have drop1: "drop (sum_list (if intDigits mod 9 = 0 then [] else [intDigits mod 9])) (ip @ pf)
      = drop (intDigits mod 9) ip @ pf"
    using le by simp
  have drop2: "drop (9 * (intDigits div 9)) (drop (intDigits mod 9) ip @ pf) = pf"
    using assms split by simp
  show ?thesis
    unfolding encode_groups_def decimal_layout_def enc_groups_append drop1 sl drop2 A B C D
      Let_def digitsPerInteger_def minus_div9
    by (rule refl)
qed

lemma be_val_Cons: "be_val (b # bs) = unat b * 256 ^ length bs + be_val bs"
  by (simp add: be_val_def le_val_append)

lemma xor_twice [simp]: "(b XOR m) XOR m = (b :: byte)"
  by (simp add: xor.assoc)

lemma map_xor_chunk:
  "map (\<lambda>b. b XOR mk) (dec_chunk mk ds n) = be_bytes n (of_nat (parse_uint ds) :: u32)"
  by (simp add: dec_chunk_def encodeDecimalValue_def comp_def)

lemma length_dec_chunk [simp]: "length (dec_chunk mk ds n) = n"
  by (simp add: dec_chunk_def encodeDecimalValue_def)

text \<open>A group of \<open>k\<close> digits always leaves the top bit of its bytes free, which is where the sign goes.\<close>

lemma group_capacity:
  assumes "1 \<le> k" and "k \<le> 9"
  shows "2 * 10 ^ k \<le> (256 :: nat) ^ (decimalCompressedBytes ! k)"
    and "10 ^ k \<le> (2 :: nat) ^ 32" and "1 \<le> decimalCompressedBytes ! k"
proof -
  have "k \<in> {1, 2, 3, 4, 5, 6, 7, 8, 9}" using assms by auto
  then show "2 * 10 ^ k \<le> (256 :: nat) ^ (decimalCompressedBytes ! k)"
    and "10 ^ k \<le> (2 :: nat) ^ 32" and "1 \<le> decimalCompressedBytes ! k"
    by (auto simp: decimalCompressedBytes_def)
qed

lemma chunk_value:
  assumes "list_all is_digit ds" and "1 \<le> length ds" and "length ds \<le> 9"
  shows "be_val (be_bytes (decimalCompressedBytes ! length ds) (of_nat (parse_uint ds) :: u32))
         = digits_val ds"
proof -
  note cap = group_capacity [OF assms(2,3)]
  have b: "digits_val ds < 10 ^ length ds"
    using assms(1) by (rule digits_val_bound)
  have p: "parse_uint ds = digits_val ds"
    using assms by (auto simp: parse_uint_def)
  have "digits_val ds < 2 ^ LENGTH(32)"
    using b cap(2) by simp
  moreover have "digits_val ds < 256 ^ (decimalCompressedBytes ! length ds)"
    using b cap(1) by linarith
  ultimately show ?thesis
    by (simp add: be_val_be_bytes p unat_of_nat_small)
qed

lemma dec_groups_enc_groups:
  assumes "list_all is_digit ds" and "length ds = sum_list ks" and "\<forall>k\<in>set ks. 1 \<le> k \<and> k \<le> 9"
  shows "dec_groups ks acc (map (\<lambda>b. b XOR mk) (enc_groups mk ks ds))
         = acc * 10 ^ length ds + digits_val ds"
  using assms
proof (induction ks arbitrary: ds acc)
  case Nil
  then show ?case by simp
next
  case (Cons k ks)
  let ?n = "decimalCompressedBytes ! k" and ?t = "take k ds" and ?d = "drop k ds"
  have lt: "length ?t = k" using Cons.prems by simp
  have all: "list_all is_digit ?t" "list_all is_digit ?d"
    using Cons.prems(1) by (metis append_take_drop_id list_all_append)+
  have v: "be_val (be_bytes ?n (of_nat (parse_uint ?t) :: u32)) = digits_val ?t"
    using chunk_value [OF all(1), unfolded lt] Cons.prems(3) by simp
  have IH: "dec_groups ks (acc * 10 ^ k + digits_val ?t) (map (\<lambda>b. b XOR mk) (enc_groups mk ks ?d))
      = (acc * 10 ^ k + digits_val ?t) * 10 ^ length ?d + digits_val ?d"
    using Cons.prems all(2) by (intro Cons.IH) auto
  have "dec_groups (k # ks) acc (map (\<lambda>b. b XOR mk) (enc_groups mk (k # ks) ds))
      = dec_groups ks (acc * 10 ^ k + digits_val ?t) (map (\<lambda>b. b XOR mk) (enc_groups mk ks ?d))"
    using v by (simp add: map_xor_chunk Let_def)
  also have "\<dots> = acc * 10 ^ (k + length ?d) + (digits_val ?t * 10 ^ length ?d + digits_val ?d)"
    by (simp only: IH power_add add_mult_distrib mult.assoc add.assoc)
  also have "\<dots> = acc * 10 ^ length ds + digits_val ds"
  proof -
    have "digits_val ?t * 10 ^ length ?d + digits_val ?d = digits_val ds"
      by (metis append_take_drop_id digits_val_append)
    moreover have "k + length ?d = length ds" using Cons.prems by simp
    ultimately show ?thesis by (simp only:)
  qed
  finally show ?case .
qed

lemma decimal_layout_sum [simp]: "sum_list (decimal_layout i sc) = i + sc"
proof -
  have one: "sum_list (if n mod 9 = 0 then [] else [n mod 9]) = n mod 9" for n :: nat
    by simp
  have "sum_list (decimal_layout i sc) = (i mod 9 + 9 * (i div 9)) + (9 * (sc div 9) + sc mod 9)"
    unfolding decimal_layout_def sum_list_append one by (simp add: sum_list_replicate)
  also have "\<dots> = i + sc"
    by (simp only: mod_mult_div_eq mult_div_mod_eq)
  finally show ?thesis .
qed

lemma decimal_layout_range: "k \<in> set (decimal_layout i sc) \<Longrightarrow> 1 \<le> k \<and> k \<le> 9"
  by (auto simp: decimal_layout_def split: if_splits)

lemma bit7_iff: "bit (b :: byte) 7 \<longleftrightarrow> 128 \<le> unat b"
proof -
  have "unat b < 256"
    using unsigned_less [of b, where ?'a = nat] by simp
  moreover have "bit b 7 \<longleftrightarrow> odd (unat b div 128)"
  proof -
    have "bit b 7 = bit (unat b) 7" by (simp add: bit_unsigned_iff)
    then show ?thesis by (simp add: bit_iff_odd)
  qed
  moreover have "unat b div 128 = 1" if "\<not> unat b < 128"
    using that \<open>unat b < 256\<close> by (intro div_nat_eqI) auto
  ultimately show ?thesis
    by (cases "unat b < 128") auto
qed

lemma chunk_top_bit:
  assumes "list_all is_digit ds" and "1 \<le> length ds" and "length ds \<le> 9"
  shows "\<exists>b bs. be_bytes (decimalCompressedBytes ! length ds) (of_nat (parse_uint ds) :: u32) = b # bs
                 \<and> \<not> bit b 7"
proof -
  note cap = group_capacity [OF assms(2,3)]
  let ?n = "decimalCompressedBytes ! length ds"
  obtain b bs where bbs: "be_bytes ?n (of_nat (parse_uint ds) :: u32) = b # bs"
    using cap(3) by (metis length_be_bytes list.exhaust list.size(3) not_one_le_zero)
  then have len: "Suc (length bs) = ?n"
    by (metis length_Cons length_be_bytes)
  have "unat b * 256 ^ length bs \<le> digits_val ds"
    using chunk_value [OF assms] bbs by (simp add: be_val_Cons)
  also have "\<dots> < 10 ^ length ds"
    using assms(1) by (rule digits_val_bound)
  also have "\<dots> \<le> 128 * 256 ^ length bs"
    using cap(1) len [symmetric] by simp
  finally have "unat b < 128" by simp
  then show ?thesis using bbs bit7_iff [of b] by auto
qed

lemma flip_sign_Cons [simp]: "flip_sign (b # bs) = (b XOR 0x80) # bs"
  by (simp add: flip_sign_def)

lemma enc_groups_head:
  assumes "list_all is_digit ds" and "length ds = sum_list ks" and "\<forall>k\<in>set ks. 1 \<le> k \<and> k \<le> 9"
    and "ks \<noteq> []"
  shows "\<exists>b bs. enc_groups mk ks ds = (b XOR mk) # bs \<and> \<not> bit b 7"
proof -
  obtain k ks' where ks: "ks = k # ks'" using assms(4) by (cases ks) auto
  have lt: "length (take k ds) = k" using assms(2) ks by simp
  have all: "list_all is_digit (take k ds)"
    using assms(1) by (metis append_take_drop_id list_all_append)
  obtain b bs where b: "be_bytes (decimalCompressedBytes ! k) (of_nat (parse_uint (take k ds)) :: u32) = b # bs"
      "\<not> bit b 7"
    using chunk_top_bit [OF all, unfolded lt] assms(3) ks by auto
  then have "enc_groups mk ks ds = (b XOR mk) # (map (\<lambda>b. b XOR mk) bs @ enc_groups mk ks' (drop k ds))"
    by (simp add: ks dec_chunk_def encodeDecimalValue_def)
  with b(2) show ?thesis by blast
qed

lemma decode_encode_groups:
  assumes "list_all is_digit (ip @ fp)" and "length ip = i" and "length fp = sc" and "0 < i + sc"
  shows "decode_decimal i sc (flip_sign (encode_groups i sc ip fp (if neg then 0xFF else 0)))
         = (neg, digits_val (ip @ fp))"
proof -
  let ?mk = "(if neg then 0xFF else 0) :: byte" and ?L = "decimal_layout i sc"
  have L: "length (ip @ fp) = sum_list ?L" "\<forall>k\<in>set ?L. 1 \<le> k \<and> k \<le> 9" "?L \<noteq> []"
    using assms(2-4) decimal_layout_range decimal_layout_sum [of i sc]
    by (simp, blast, force simp del: decimal_layout_sum)
  obtain b bs where b: "enc_groups ?mk ?L (ip @ fp) = (b XOR ?mk) # bs" "\<not> bit b 7"
    using enc_groups_head [OF assms(1) L] by blast
  have eg: "encode_groups i sc ip fp ?mk = (b XOR ?mk) # bs"
    using encode_groups_eq [OF assms(2,3)] b(1) by simp
  have "bit ((b XOR ?mk) XOR 0x80) 7 \<longleftrightarrow> \<not> neg"
    using b(2) by (simp add: bit_simps)
  moreover have "((b XOR ?mk) XOR 0x80) XOR 0x80 = b XOR ?mk"
    by (rule xor_twice)
  ultimately have "decode_decimal i sc (flip_sign (encode_groups i sc ip fp ?mk))
      = (neg, dec_groups ?L 0 (map (\<lambda>b. b XOR ?mk) (enc_groups ?mk ?L (ip @ fp))))"
    by (simp only: eg flip_sign_Cons decode_decimal_def Let_def list.sel not_not b(1))
  also have "\<dots> = (neg, digits_val (ip @ fp))"
    using dec_groups_enc_groups [OF assms(1) L(1,2), of 0 ?mk] by simp
  finally show ?thesis .
qed

lemma digits_val_Cons: "digits_val (c # s) = digit_val c * 10 ^ length s + digits_val s"
  using digits_val_append [of "[c]" s] by (simp add: digits_val_def)

lemma strip_zeros_digits: "list_all is_digit s \<Longrightarrow> list_all is_digit (strip_zeros s)"
  unfolding strip_zeros_def Let_def
  by (auto simp: list_all_iff is_digit_def char_code_def dest: set_dropWhileD)

lemma strip_zeros_val: "digits_val (strip_zeros s) = digits_val s"
proof (induction s)
  case (Cons c s)
  then show ?case
    by (auto simp: strip_zeros_def Let_def digits_val_Cons digit_val_def char_code_def
        split: if_splits)
qed (simp add: strip_zeros_def digits_val_Cons digit_val_def char_code_def)

lemma strip_zeros_length:
  assumes "list_all is_digit s" and "digits_val s < 10 ^ n" and "0 < n"
  shows "length (strip_zeros s) \<le> n"
proof (cases "dropWhile (\<lambda>c. c = CHR ''0'') s")
  case Nil
  then show ?thesis using assms(3) by (simp add: strip_zeros_def)
next
  case (Cons c t)
  then have st: "strip_zeros s = c # t" by (simp add: strip_zeros_def)
  have "c \<noteq> CHR ''0''" using Cons by (simp add: dropWhile_eq_Cons_conv)
  moreover have "is_digit c"
    using strip_zeros_digits [OF assms(1)] st by simp
  ultimately have "1 \<le> digit_val c"
    by (auto simp: is_digit_def digit_val_def char_code_inject [of c "CHR ''0''", symmetric] char_code_def)
  then have "10 ^ length t \<le> digits_val (c # t)"
    by (simp add: digits_val_Cons trans_le_add1)
  also have "\<dots> < 10 ^ n" using strip_zeros_val [of s] st assms(2) by simp
  finally show ?thesis by (simp add: st Suc_leI)
qed

lemma list_all_zeros [simp]: "list_all is_digit (replicate k CHR ''0'')"
  by (simp add: list_all_length is_digit_def char_code_def)

lemma pad_int_fits:
  assumes "list_all is_digit s" and "digits_val s < 10 ^ n"
  shows "length (pad_int n (strip_zeros s)) = n" and "list_all is_digit (pad_int n (strip_zeros s))"
    and "digits_val (pad_int n (strip_zeros s)) = digits_val s"
proof -
  show "length (pad_int n (strip_zeros s)) = n"
    by (simp add: pad_int_def)
  show "list_all is_digit (pad_int n (strip_zeros s))"
    using strip_zeros_digits [OF assms(1)]
    by (auto simp: pad_int_def list_all_iff dest: in_set_dropD)
       (simp add: is_digit_def char_code_def)
  show "digits_val (pad_int n (strip_zeros s)) = digits_val s"
    using strip_zeros_length [OF assms] strip_zeros_val [of s] assms(2)
    by (cases "n = 0") (auto simp: pad_int_def)
qed

lemma pad_frac_fits:
  assumes "list_all is_digit s" and "length s \<le> n"
  shows "length (pad_frac n s) = n" and "list_all is_digit (pad_frac n s)"
    and "digits_val (pad_frac n s) = digits_val s * 10 ^ (n - length s)"
proof -
  have z: "digits_val (replicate k CHR ''0'') = 0" for k
    using digits_val_zeros [of k "[]"] by simp
  show "length (pad_frac n s) = n"
    using assms by (simp add: pad_frac_def)
  show "list_all is_digit (pad_frac n s)"
    using assms by (auto simp: pad_frac_def)
  show "digits_val (pad_frac n s) = digits_val s * 10 ^ (n - length s)"
    using assms by (auto simp: pad_frac_def digits_val_append z)
qed

lemma split_point_digits:
  assumes "list_all is_digit ip"
  shows "split_point (ip @ CHR ''.'' # fp) = (ip, fp)"
proof -
  have "\<And>c. c \<in> set ip \<Longrightarrow> c \<noteq> CHR ''.''"
    using assms by (auto simp: list_all_iff)
  then have "takeWhile (\<lambda>c. c \<noteq> CHR ''.'') (ip @ CHR ''.'' # fp) = ip"
    and "dropWhile (\<lambda>c. c \<noteq> CHR ''.'') (ip @ CHR ''.'' # fp) = CHR ''.'' # fp"
    by (simp_all add: takeWhile_append2 dropWhile_append2)
  then show ?thesis
    by (simp add: split_point_def)
qed

lemma pad_int_strip:
  assumes "length s = n" and "0 < n"
  shows "pad_int n (strip_zeros (d @ s)) = s"
proof -
  let ?z = "\<lambda>c. c = CHR ''0''" and ?t = "d @ s"
  define u k where "u = dropWhile ?z ?t" and "k = length (takeWhile ?z ?t)"
  have "takeWhile ?z ?t = replicate k CHR ''0''"
    unfolding k_def by (rule replicate_eqI) (auto dest: set_takeWhileD)
  then have t: "?t = replicate k CHR ''0'' @ u"
    unfolding u_def by (metis takeWhile_dropWhile_id)
  have s: "s = drop (length ?t - n) ?t"
    using assms(1) by simp
  have len: "k + length u = length d + n"
    using t assms(1) by (metis length_append length_replicate)
  show ?thesis
  proof (cases "u = []")
    case True
    then have "s = replicate n CHR ''0''"
      using s t len by simp
    then show ?thesis
      using True assms(2) u_def by (cases n) (simp_all add: strip_zeros_def pad_int_def replicate_append_same)
  next
    case False
    then have st: "strip_zeros ?t = u"
      unfolding strip_zeros_def Let_def u_def [symmetric] by simp
    have "s = drop (length ?t - n) (replicate k CHR ''0'' @ u)"
      using s t by simp
    moreover have "n \<le> length u \<Longrightarrow> length u - n = length d - k"
      using len by arith
    ultimately show ?thesis
      using assms(2) st len by (auto simp: pad_int_def assms(1))
  qed
qed

lemma HasPrefix_minus: "list_all is_digit ip \<Longrightarrow> \<not> HasPrefix (ip @ CHR ''.'' # fp) ''-''"
  by (cases ip) (auto simp: HasPrefix_def)

section \<open>Properties\<close>

text \<open>C21: Round trip of DECIMAL values. A decimal string (optional sign, integer digits, fraction digits)
  that fits the precision and scale of its column is stored so that a reader of MySQL's packed
  decimal format gets the sign and the exact unscaled value back: nothing is rounded, no digit
  group overflows its bytes and the sign bit never collides with a digit.\<close>

theorem decimal_roundtrip:
  assumes ip: "list_all is_digit ip" and fp: "list_all is_digit fp"
    and p: "p = unat (drop_bit 8 (meta :: u16))" "0 < p" and sc: "sc = unat (meta AND 0xFF)"
    and fits: "digits_val ip < 10 ^ (p - sc)" "length fp \<le> sc" "sc \<le> p"
  shows "decode_decimal (p - sc) sc
           (encodeDecimal rt (GString ((if neg then ''-'' else []) @ ip @ ''.'' @ fp)) meta)
         = (neg, digits_val ip * 10 ^ sc + digits_val fp * 10 ^ (sc - length fp))"
proof -
  let ?i = "pad_int (p - sc) (strip_zeros ip)" and ?f = "pad_frac sc fp"
  note i = pad_int_fits [OF ip fits(1)] and f = pad_frac_fits [OF fp fits(2)]
  have "encodeDecimal rt (GString ((if neg then ''-'' else []) @ ip @ ''.'' @ fp)) meta
      = flip_sign (encode_groups (p - sc) sc ?i ?f (if neg then 0xFF else 0))"
    using p sc HasPrefix_minus [OF ip, of fp]
    by (cases neg)
       (simp_all add: encodeDecimal_def Let_def split_point_digits [OF ip] HasPrefix_def)
  also have "decode_decimal (p - sc) sc \<dots> = (neg, digits_val (?i @ ?f))"
    using i f p(2) fits(3) by (intro decode_encode_groups) auto
  finally show ?thesis
    using i f by (simp add: digits_val_append)
qed

theorem decimal_roundtrip_witness:
  "decode_decimal 10 4 (encodeDecimal plain_rt (GString ''-1234567890.5'') 0x0E04)
   = (True, 12345678905000)"
proof -
  have "decode_decimal (14 - 4) 4
          (encodeDecimal plain_rt
            (GString ((if True then ''-'' else []) @ ''1234567890'' @ ''.'' @ ''5'')) 0x0E04)
        = (True, digits_val ''1234567890'' * 10 ^ 4 + digits_val ''5'' * 10 ^ (4 - length ''5''))"
    by (rule decimal_roundtrip)
       (simp_all add: is_digit_def char_code_def digits_val_def digit_val_def)
  then show ?thesis
    by (simp add: digits_val_def digit_val_def char_code_def)
qed

text \<open>A value with more integer digits than its column allows is stored without an error:
  \<open>encodeDecimal\<close> keeps the low digits, so a value and the same value with any further leading
  digits have the same bytes. With the metadata that \<open>getColumnMeta\<close> gives every NUMERIC column
  (precision 10, scale 2), 123456789.00 is stored as 23456789.00.\<close>

theorem decimal_overflow_collides:
  assumes ip: "list_all is_digit (d @ ip)" and p: "p = unat (drop_bit 8 (meta :: u16))" "0 < p"
    and sc: "sc = unat (meta AND 0xFF)" and len: "length ip = p - sc" "sc < p"
  shows "encodeDecimal rt (GString (d @ ip @ ''.'' @ fp)) meta
         = encodeDecimal rt (GString (ip @ ''.'' @ fp)) meta"
proof -
  have ip': "list_all is_digit ip" using ip by simp
  have pads: "pad_int (p - sc) (strip_zeros (d @ ip)) = pad_int (p - sc) (strip_zeros ip)"
    using pad_int_strip [OF len(1), of d] pad_int_strip [OF len(1), of "[]"] len(2) by simp
  have s1: "split_point (d @ ip @ CHR ''.'' # fp) = (d @ ip, fp)"
    using split_point_digits [OF ip, of fp] by simp
  have h1: "\<not> HasPrefix (d @ ip @ CHR ''.'' # fp) ''-''"
    using HasPrefix_minus [OF ip, of fp] by simp
  show ?thesis
    using p sc pads s1 h1 HasPrefix_minus [OF ip', of fp]
    by (simp add: encodeDecimal_def Let_def split_point_digits [OF ip'])
qed

theorem decimal_overflow_collides_witness:
  "encodeDecimal plain_rt (GString ''123456789.00'') 0x0A02
   = encodeDecimal plain_rt (GString ''23456789.00'') 0x0A02"
proof -
  have "encodeDecimal plain_rt (GString (''1'' @ ''23456789'' @ ''.'' @ ''00'')) 0x0A02
      = encodeDecimal plain_rt (GString (''23456789'' @ ''.'' @ ''00'')) 0x0A02"
    by (rule decimal_overflow_collides [where p = 10 and sc = 2])
       (simp_all add: is_digit_def char_code_def)
  then show ?thesis by simp
qed

end
