(* ===== verification/Binlog_Events.thy ===== *)
theory Binlog_Events
  imports Binlog_Decimal
begin

text \<open>
  The event encoders of \<open>pkg/replication/binlog_encoder.go\<close>: \<open>EncodeEvent\<close> with its payload encoders
  for query, XID, table map and rows events. The event structures belong to the go-mysql library
  and appear here with the fields the code reads; the library's length-encoded integer
  (\<open>mysql.PutLengthEncodedInt\<close>) is the argument \<open>lenc\<close>. Buffers are built as in the source, a zeroed
  slice of the computed size that is filled position by position; a panic is \<open>None\<close>.
\<close>

section \<open>Events\<close>

record query_event =
  q_slave_proxy_id :: u32
  q_execution_time :: u32
  q_error_code :: u16
  q_status_vars :: "byte list"
  q_schema :: "byte list"
  q_query :: "byte list"

record table_map_event =
  tm_table_id :: u64
  tm_flags :: u16
  tm_schema :: "byte list"
  tm_table :: "byte list"
  tm_column_count :: u64
  tm_column_type :: "byte list"
  tm_column_meta :: "u16 list"
  tm_null_bitmap :: "byte list"
  tm_column_name :: "byte list list"

record rows_event =
  re_version :: nat
  re_table_id :: u64
  re_flags :: u16
  re_column_count :: u64
  re_bitmap1 :: "byte list"
  re_bitmap2 :: "byte list"
  re_rows :: "go_value list list"
  re_table :: "table_map_event option"

record gtid_event =
  g_commit_flag :: byte
  g_sid :: "byte list"
  g_gno :: u64
  g_last_committed :: u64
  g_sequence_number :: u64

datatype event_body =
    EQuery query_event
  | EXID u64
  | ETableMap table_map_event
  | ERows rows_event
  | EGTID gtid_event

record event_header =
  h_timestamp :: u32
  h_event_type :: byte
  h_server_id :: u32
  h_log_pos :: u32
  h_flags :: u16

record binlog_event =
  be_raw :: "byte list option"
  be_header :: event_header
  be_body :: event_body

record binlog_encoder =
  tableIDSize :: nat

definition NewBinlogEncoder :: binlog_encoder where
  "NewBinlogEncoder = \<lparr>tableIDSize = 6\<rparr>"

section \<open>CRC-32 (IEEE)\<close>

definition crc_step :: "u32 \<Rightarrow> u32" where
  "crc_step c = (if bit c 0 then drop_bit 1 c XOR 0xEDB88320 else drop_bit 1 c)"

definition crc_byte :: "u32 \<Rightarrow> byte \<Rightarrow> u32" where
  "crc_byte c b = (crc_step ^^ 8) (c XOR ucast b)"

definition crc32 :: "byte list \<Rightarrow> u32" where
  "crc32 bs = NOT (foldl crc_byte 0xFFFFFFFF bs)"

section \<open>Payloads\<close>

definition encodeQueryEvent :: "query_event \<Rightarrow> byte list" where
  "encodeQueryEvent e =
     (let schemaLen = length (q_schema e);
          statusVarsLen = length (q_status_vars e);
          queryLen = length (q_query e);
          payload = replicate (4 + 4 + 1 + 2 + 2 + statusVarsLen + schemaLen + 1 + queryLen) 0;
          payload = put payload 0 (le_bytes 4 (q_slave_proxy_id e));
          payload = put payload 4 (le_bytes 4 (q_execution_time e));
          payload = put payload 8 [of_nat schemaLen];
          payload = put payload 9 (le_bytes 2 (q_error_code e));
          payload = put payload 11 (le_bytes 2 (of_nat statusVarsLen :: u16));
          payload = put payload 13 (q_status_vars e);
          payload = put payload (13 + statusVarsLen) (q_schema e);
          payload = put payload (13 + statusVarsLen + schemaLen) [0]
      in put payload (14 + statusVarsLen + schemaLen) (q_query e))"

definition encodeXIDEvent :: "u64 \<Rightarrow> byte list" where
  "encodeXIDEvent xid = le_bytes 8 xid"

definition column_meta_bytes :: "byte \<Rightarrow> u16 \<Rightarrow> byte list" where
  "column_meta_bytes t meta =
     (if t = MYSQL_TYPE_STRING then [ucast (drop_bit 8 meta), ucast meta]
      else if t = MYSQL_TYPE_NEWDECIMAL then [ucast (drop_bit 8 meta), ucast meta]
      else if t \<in> {MYSQL_TYPE_VAR_STRING, MYSQL_TYPE_VARCHAR, MYSQL_TYPE_BIT}
        then [ucast meta, ucast (drop_bit 8 meta)]
      else if t \<in> {MYSQL_TYPE_BLOB, MYSQL_TYPE_DOUBLE, MYSQL_TYPE_FLOAT, MYSQL_TYPE_GEOMETRY, MYSQL_TYPE_JSON}
        then [ucast meta]
      else if t \<in> {MYSQL_TYPE_TIME2, MYSQL_TYPE_DATETIME2, MYSQL_TYPE_TIMESTAMP2}
        then [ucast meta]
      else [])"

fun encodeColumnMeta :: "byte list \<Rightarrow> u16 list \<Rightarrow> byte list" where
  "encodeColumnMeta [] ms = []"
| "encodeColumnMeta (t # ts) ms =
     column_meta_bytes t (case ms of [] \<Rightarrow> 0 | m # _ \<Rightarrow> m)
     @ encodeColumnMeta ts (case ms of [] \<Rightarrow> [] | _ # ms' \<Rightarrow> ms')"

definition table_id_bytes :: "binlog_encoder \<Rightarrow> u64 \<Rightarrow> byte list" where
  "table_id_bytes enc tid =
     (if tableIDSize enc = 6
      then le_bytes 4 (ucast tid :: u32) @ le_bytes 2 (ucast (drop_bit 32 tid) :: u16)
      else le_bytes 4 (ucast tid :: u32))"

definition encodeTableMapEvent ::
    "(u64 \<Rightarrow> byte list) \<Rightarrow> binlog_encoder \<Rightarrow> table_map_event \<Rightarrow> byte list" where
  "encodeTableMapEvent lenc enc e =
     (let schemaLen = length (tm_schema e);
          tableLen = length (tm_table e);
          columnCount = unat (tm_column_count e);
          metadata = encodeColumnMeta (tm_column_type e) (tm_column_meta e);
          metadataLen = length metadata;
          nullBitmapSize = (columnCount + 7) div 8;
          columnCountEncoded = lenc (tm_column_count e);
          metadataLenEncoded = lenc (of_nat metadataLen);
          payload = replicate (tableIDSize enc + 2 + 1 + schemaLen + 1 + 1 + tableLen + 1
                      + length columnCountEncoded + columnCount + length metadataLenEncoded
                      + metadataLen + nullBitmapSize) 0;
          payload = put payload 0 (table_id_bytes enc (tm_table_id e));
          pos = tableIDSize enc;
          payload = put payload pos (le_bytes 2 (tm_flags e));
          pos = pos + 2;
          payload = put payload pos [of_nat schemaLen];
          payload = put payload (pos + 1) (tm_schema e);
          pos = pos + 1 + schemaLen;
          payload = put payload pos [0];
          payload = put payload (pos + 1) [of_nat tableLen];
          payload = put payload (pos + 2) (tm_table e);
          pos = pos + 2 + tableLen;
          payload = put payload pos [0];
          payload = put payload (pos + 1) columnCountEncoded;
          pos = pos + 1 + length columnCountEncoded;
          payload = put payload pos (tm_column_type e);
          pos = pos + columnCount;
          payload = put payload pos metadataLenEncoded;
          pos = pos + length metadataLenEncoded;
          payload = put payload pos metadata;
          pos = pos + metadataLen
      in put payload pos (if tm_null_bitmap e \<noteq> [] then tm_null_bitmap e
                          else replicate nullBitmapSize 0xFF))"

text \<open>Column names as optional metadata (type 4, length, names with a one-byte length each); the table map
  encoder leaves it out.\<close>

definition TABLE_MAP_OPT_META_COLUMN_NAME :: byte where
  "TABLE_MAP_OPT_META_COLUMN_NAME = 4"

definition encodeOptionalMeta :: "(u64 \<Rightarrow> byte list) \<Rightarrow> table_map_event \<Rightarrow> byte list" where
  "encodeOptionalMeta lenc e =
     (if tm_column_name e = [] then []
      else let namesData = concat (map (\<lambda>n. (of_nat (length n) :: byte) # n) (tm_column_name e))
           in [TABLE_MAP_OPT_META_COLUMN_NAME] @ lenc (of_nat (length namesData)) @ namesData)"

section \<open>Values and rows\<close>

definition encodeValue :: "go_rt \<Rightarrow> go_value \<Rightarrow> byte \<Rightarrow> u16 \<Rightarrow> byte list" where
  "encodeValue rt v t meta =
     (if t = MYSQL_TYPE_NULL then []
      else if t = MYSQL_TYPE_TINY then encodeTiny v
      else if t = MYSQL_TYPE_SHORT then encodeShort v
      else if t = MYSQL_TYPE_INT24 then encodeInt24 v
      else if t = MYSQL_TYPE_LONG then encodeLong v
      else if t = MYSQL_TYPE_LONGLONG then encodeLongLong v
      else if t = MYSQL_TYPE_FLOAT then encodeFloat rt v
      else if t = MYSQL_TYPE_DOUBLE then encodeDouble rt v
      else if t = MYSQL_TYPE_NEWDECIMAL then encodeDecimal rt v meta
      else if t = MYSQL_TYPE_YEAR then encodeYear v
      else if t = MYSQL_TYPE_DATE then encodeDate v
      else if t = MYSQL_TYPE_TIME then encodeTime v
      else if t = MYSQL_TYPE_TIME2 then encodeTime2 v meta
      else if t = MYSQL_TYPE_DATETIME then encodeDatetime v
      else if t = MYSQL_TYPE_DATETIME2 then encodeDatetime2 v meta
      else if t = MYSQL_TYPE_TIMESTAMP then encodeTimestamp v
      else if t = MYSQL_TYPE_TIMESTAMP2 then encodeTimestamp2 v meta
      else if t = MYSQL_TYPE_VARCHAR \<or> t = MYSQL_TYPE_VAR_STRING then encodeVarString rt v meta
      else if t = MYSQL_TYPE_STRING then encodeFixedString rt v meta
      else if t = MYSQL_TYPE_BLOB then encodeBlob v meta
      else if t = MYSQL_TYPE_BIT then encodeBit v meta
      else if t = MYSQL_TYPE_ENUM then encodeEnum v meta
      else if t = MYSQL_TYPE_SET then encodeSet v meta
      else if t = MYSQL_TYPE_JSON then encodeJSON v meta
      else if t = MYSQL_TYPE_GEOMETRY then encodeBlob v meta
      else encodeVarString rt v 65535)"

definition col_type :: "table_map_event \<Rightarrow> nat \<Rightarrow> byte" where
  "col_type tm i = (if i < length (tm_column_type tm) then tm_column_type tm ! i else 0)"

definition col_meta :: "table_map_event \<Rightarrow> nat \<Rightarrow> u16" where
  "col_meta tm i = (if i < length (tm_column_meta tm) then tm_column_meta tm ! i else 0)"

text \<open>One row: the null bitmap grows bit by bit, an index beyond it panics.\<close>

fun encode_row :: "go_rt \<Rightarrow> table_map_event \<Rightarrow> nat \<Rightarrow> go_value list \<Rightarrow> byte list \<Rightarrow> byte list
    \<Rightarrow> (byte list \<times> byte list) option" where
  "encode_row rt tm i [] bitmap vals = Some (bitmap, vals)"
| "encode_row rt tm i (v # row) bitmap vals =
     (if v = GNil then
        (if i div 8 < length bitmap
         then encode_row rt tm (Suc i) row
                (bitmap[i div 8 := bitmap ! (i div 8) OR push_bit (i mod 8) 1]) vals
         else None)
      else encode_row rt tm (Suc i) row bitmap
             (vals @ encodeValue rt v (col_type tm i) (col_meta tm i)))"

fun encode_rows :: "go_rt \<Rightarrow> table_map_event \<Rightarrow> nat \<Rightarrow> go_value list list \<Rightarrow> byte list option" where
  "encode_rows rt tm n [] = Some []"
| "encode_rows rt tm n (row # rows) =
     (case encode_row rt tm 0 row (replicate n 0) [] of
        None \<Rightarrow> None
      | Some (bitmap, vals) \<Rightarrow> map_option (\<lambda>rest. bitmap @ vals @ rest) (encode_rows rt tm n rows))"

definition encodeRowData :: "go_rt \<Rightarrow> rows_event \<Rightarrow> byte list option" where
  "encodeRowData rt e =
     (case re_table e of
        None \<Rightarrow> Some []
      | Some tm \<Rightarrow> encode_rows rt tm ((unat (re_column_count e) + 7) div 8) (re_rows e))"

definition encodeRowsEvent ::
    "go_rt \<Rightarrow> (u64 \<Rightarrow> byte list) \<Rightarrow> binlog_encoder \<Rightarrow> rows_event \<Rightarrow> byte list option" where
  "encodeRowsEvent rt lenc enc e =
     map_option (\<lambda>rowData.
       (let columnCount = unat (re_column_count e);
            bitmapSize = (columnCount + 7) div 8;
            columnCountEncoded = lenc (re_column_count e);
            needBitmap2 = (1 \<le> re_version e \<and> re_bitmap2 e \<noteq> []);
            payload = replicate (tableIDSize enc + 2 + 2 + length columnCountEncoded + bitmapSize
                        + (if needBitmap2 then bitmapSize else 0) + length rowData) 0;
            payload = put payload 0 (table_id_bytes enc (re_table_id e));
            pos = tableIDSize enc;
            payload = put payload pos (le_bytes 2 (re_flags e));
            payload = put payload (pos + 2) (le_bytes 2 (2 :: u16));
            pos = pos + 4;
            payload = put payload pos columnCountEncoded;
            pos = pos + length columnCountEncoded;
            payload = put payload pos (if re_bitmap1 e \<noteq> [] then re_bitmap1 e
                                       else replicate bitmapSize 0xFF);
            pos = pos + bitmapSize;
            payload = (if needBitmap2 then put payload pos (re_bitmap2 e) else payload);
            pos = (if needBitmap2 then pos + bitmapSize else pos)
        in put payload pos rowData))
     (encodeRowData rt e)"

section \<open>Complete events\<close>

definition event_payload ::
    "go_rt \<Rightarrow> (u64 \<Rightarrow> byte list) \<Rightarrow> binlog_encoder \<Rightarrow> event_body \<Rightarrow> byte list option" where
  "event_payload rt lenc enc b =
     (case b of
        EQuery e \<Rightarrow> Some (encodeQueryEvent e)
      | EXID xid \<Rightarrow> Some (encodeXIDEvent xid)
      | ETableMap e \<Rightarrow> Some (encodeTableMapEvent lenc enc e)
      | ERows e \<Rightarrow> encodeRowsEvent rt lenc enc e
      | _ \<Rightarrow> Some (replicate 4 0))"

definition EncodeEvent ::
    "go_rt \<Rightarrow> (u64 \<Rightarrow> byte list) \<Rightarrow> binlog_encoder \<Rightarrow> binlog_event \<Rightarrow> byte list option" where
  "EncodeEvent rt lenc enc event =
     (case be_raw event of
        Some raw \<Rightarrow> Some raw
      | None \<Rightarrow>
          (case event_payload rt lenc enc (be_body event) of
             None \<Rightarrow> None
           | Some payload \<Rightarrow>
               if 2 ^ 32 \<le> 19 + length payload + 4 then None
               else
                 (let n = 19 + length payload;
                      eventSize = (of_nat (n + 4) :: u32);
                      h = be_header event;
                      data = replicate (n + 4) 0;
                      data = put data 0 (le_bytes 4 (h_timestamp h));
                      data = put data 4 [h_event_type h];
                      data = put data 5 (le_bytes 4 (h_server_id h));
                      data = put data 9 (le_bytes 4 eventSize);
                      data = put data 13 (le_bytes 4 (h_log_pos h));
                      data = put data 17 (le_bytes 2 (h_flags h));
                      data = put data 19 payload;
                      checksum = crc32 (take n data)
                  in Some (put data n (le_bytes 4 checksum)))))"

section \<open>Layout of the events\<close>

text \<open>Each buffer is filled without gaps and without overlap: the encoded event is the concatenation
  of its fields.\<close>

definition header_bytes :: "event_header \<Rightarrow> nat \<Rightarrow> byte list" where
  "header_bytes h n =
     le_bytes 4 (h_timestamp h) @ [h_event_type h] @ le_bytes 4 (h_server_id h)
     @ le_bytes 4 (of_nat n :: u32) @ le_bytes 4 (h_log_pos h) @ le_bytes 2 (h_flags h)"

lemma length_header_bytes [simp]: "length (header_bytes h n) = 19"
  by (simp add: header_bytes_def)

lemma encodeQueryEvent_layout:
  "encodeQueryEvent e =
     le_bytes 4 (q_slave_proxy_id e) @ le_bytes 4 (q_execution_time e)
     @ [of_nat (length (q_schema e))] @ le_bytes 2 (q_error_code e)
     @ le_bytes 2 (of_nat (length (q_status_vars e)) :: u16)
     @ q_status_vars e @ q_schema e @ [0] @ q_query e"
  unfolding encodeQueryEvent_def Let_def
  by (simp add: put_fills del: append_assoc append.simps replicate_Suc)

lemma length_table_id_bytes [simp]:
  "tableIDSize enc = 6 \<or> tableIDSize enc = 4 \<Longrightarrow> length (table_id_bytes enc t) = tableIDSize enc"
  by (auto simp: table_id_bytes_def)

lemma EncodeEvent_layout:
  assumes "be_raw ev = None" and "event_payload rt lenc enc (be_body ev) = Some p"
    and "length p + 23 < 2 ^ 32"
  shows "EncodeEvent rt lenc enc ev =
     Some (header_bytes (be_header ev) (length p + 23) @ p
           @ le_bytes 4 (crc32 (header_bytes (be_header ev) (length p + 23) @ p)))"
proof -
  have n: "19 + length p + 4 = length p + 23" by simp
  have "\<not> 2 ^ 32 \<le> 19 + length p + 4" using assms(3) by simp
  then show ?thesis
    using assms(1,2)
    by (simp add: EncodeEvent_def Let_def put_fills header_bytes_def
          del: append_assoc append.simps replicate_Suc)
       (simp add: add.commute)
qed

definition null_bitmap_bytes :: "table_map_event \<Rightarrow> byte list" where
  "null_bitmap_bytes e = (if tm_null_bitmap e \<noteq> [] then tm_null_bitmap e
                          else replicate ((unat (tm_column_count e) + 7) div 8) 0xFF)"

definition wf_table_map :: "table_map_event \<Rightarrow> bool" where
  "wf_table_map e \<longleftrightarrow> length (tm_column_type e) = unat (tm_column_count e)
     \<and> (tm_null_bitmap e = [] \<or> length (tm_null_bitmap e) = (unat (tm_column_count e) + 7) div 8)"

lemma encodeTableMapEvent_layout:
  assumes "wf_table_map e" and "tableIDSize enc = 6 \<or> tableIDSize enc = 4"
  shows "encodeTableMapEvent lenc enc e =
     table_id_bytes enc (tm_table_id e) @ le_bytes 2 (tm_flags e)
     @ [of_nat (length (tm_schema e))] @ tm_schema e @ [0]
     @ [of_nat (length (tm_table e))] @ tm_table e @ [0]
     @ lenc (tm_column_count e) @ tm_column_type e
     @ lenc (of_nat (length (encodeColumnMeta (tm_column_type e) (tm_column_meta e))))
     @ encodeColumnMeta (tm_column_type e) (tm_column_meta e) @ null_bitmap_bytes e"
proof -
  have nb: "length (null_bitmap_bytes e) = (unat (tm_column_count e) + 7) div 8"
    using assms(1) by (auto simp: wf_table_map_def null_bitmap_bytes_def)
  have ct: "unat (tm_column_count e) = length (tm_column_type e)"
    using assms(1) by (simp add: wf_table_map_def)
  show ?thesis
    unfolding encodeTableMapEvent_def Let_def
    unfolding null_bitmap_bytes_def [symmetric]
    unfolding ct
    using nb length_table_id_bytes [OF assms(2)]
    by (simp add: put_fills ct del: append_assoc append.simps replicate_Suc)
qed

lemma encodeRowsEvent_layout:
  assumes data: "encodeRowData rt e = Some d"
    and b1: "length (re_bitmap1 e) = (unat (re_column_count e) + 7) div 8" "re_bitmap1 e \<noteq> []"
    and b2: "re_bitmap2 e = [] \<or> length (re_bitmap2 e) = (unat (re_column_count e) + 7) div 8"
    and ver: "1 \<le> re_version e" and enc: "tableIDSize enc = 6 \<or> tableIDSize enc = 4"
  shows "encodeRowsEvent rt lenc enc e = Some
     (table_id_bytes enc (re_table_id e) @ le_bytes 2 (re_flags e) @ le_bytes 2 (2 :: u16)
      @ lenc (re_column_count e) @ re_bitmap1 e @ re_bitmap2 e @ d)"
proof (cases "re_bitmap2 e = []")
  case True
  then show ?thesis
    using data b1 length_table_id_bytes [OF enc] unfolding encodeRowsEvent_def Let_def
    by (simp add: put_fills b1(1) [symmetric] del: append_assoc append.simps replicate_Suc)
next
  case False
  then have l2: "length (re_bitmap2 e) = length (re_bitmap1 e)"
    using b1 b2 by simp
  show ?thesis
    using False data b1(2) ver length_table_id_bytes [OF enc] unfolding encodeRowsEvent_def Let_def
    by (simp add: put_fills b1(1) [symmetric] l2 del: append_assoc append.simps replicate_Suc)
qed

section \<open>Rows\<close>

definition row_cells :: "go_rt \<Rightarrow> table_map_event \<Rightarrow> nat \<Rightarrow> go_value list \<Rightarrow> byte list option list" where
  "row_cells rt tm i row =
     map (\<lambda>(k, v). if v = GNil then None else Some (encodeValue rt v (col_type tm k) (col_meta tm k)))
       (enumerate i row)"

definition cell_bytes :: "byte list option list \<Rightarrow> byte list" where
  "cell_bytes cs = concat (map (\<lambda>c. case c of None \<Rightarrow> [] | Some b \<Rightarrow> b) cs)"

definition null_bit :: "byte list \<Rightarrow> nat \<Rightarrow> bool" where
  "null_bit bm j \<longleftrightarrow> bit (bm ! (j div 8)) (j mod 8)"

lemma null_bit_set:
  assumes "i div 8 < length bm"
  shows "null_bit (bm[i div 8 := bm ! (i div 8) OR push_bit (i mod 8) 1]) j
         \<longleftrightarrow> null_bit bm j \<or> j = i"
proof (cases "j div 8 = i div 8")
  case True
  have "j mod 8 < 8" and "i mod 8 < 8" by simp_all
  have "j = i \<longleftrightarrow> j mod 8 = i mod 8"
    using True by (metis div_mult_mod_eq)
  then show ?thesis
    using True assms \<open>j mod 8 < 8\<close> \<open>i mod 8 < 8\<close>
    by (auto simp: null_bit_def bit_or_iff bit_exp_iff)
next
  case False
  then show ?thesis using assms by (auto simp: null_bit_def)
qed

text \<open>Encoding a row never panics when the bitmap has a bit for every column; it sets exactly the bits
  of the null columns and appends the encodings of the others in column order.\<close>

lemma row_cells_Cons:
  "row_cells rt tm i (v # row) = (if v = GNil then None else Some (encodeValue rt v (col_type tm i) (col_meta tm i)))
     # row_cells rt tm (Suc i) row"
  by (simp add: row_cells_def)

lemma nil_index_Cons:
  "(i \<le> j \<and> j < i + length (v # row) \<and> (v # row) ! (j - i) = GNil)
     \<longleftrightarrow> (j = i \<and> v = GNil) \<or> (Suc i \<le> j \<and> j < Suc i + length row \<and> row ! (j - Suc i) = GNil)"
  by (cases "j = i") (auto simp: nth_Cons' Suc_diff_Suc le_less)

lemma encode_row_spec:
  "i + length row \<le> 8 * length bm \<Longrightarrow>
   \<exists>bm'. encode_row rt tm i row bm vals = Some (bm', vals @ cell_bytes (row_cells rt tm i row))
     \<and> length bm' = length bm
     \<and> (\<forall>j. null_bit bm' j \<longleftrightarrow> null_bit bm j \<or> (i \<le> j \<and> j < i + length row \<and> row ! (j - i) = GNil))"
proof (induction row arbitrary: i bm vals)
  case Nil
  then show ?case by (auto simp: cell_bytes_def row_cells_def)
next
  case (Cons v row)
  show ?case
  proof (cases "v = GNil")
    case True
    let ?bm = "bm[i div 8 := bm ! (i div 8) OR push_bit (i mod 8) 1]"
    have lt: "i div 8 < length bm" using Cons.prems by (simp add: less_mult_imp_div_less mult.commute)
    obtain bm' where "encode_row rt tm (Suc i) row ?bm vals
        = Some (bm', vals @ cell_bytes (row_cells rt tm (Suc i) row))" "length bm' = length bm"
      and nb: "\<forall>j. null_bit bm' j \<longleftrightarrow> null_bit ?bm j
          \<or> (Suc i \<le> j \<and> j < Suc i + length row \<and> row ! (j - Suc i) = GNil)"
      using Cons.IH [of "Suc i" ?bm vals] Cons.prems by auto
    moreover have "\<forall>j. null_bit bm' j \<longleftrightarrow> null_bit bm j
        \<or> (i \<le> j \<and> j < i + length (v # row) \<and> (v # row) ! (j - i) = GNil)"
      using nb null_bit_set [OF lt] True unfolding nil_index_Cons by blast
    ultimately show ?thesis
      using True lt by (auto simp: cell_bytes_def row_cells_Cons)
  next
    case False
    let ?e = "encodeValue rt v (col_type tm i) (col_meta tm i)"
    obtain bm' where "encode_row rt tm (Suc i) row bm (vals @ ?e)
        = Some (bm', (vals @ ?e) @ cell_bytes (row_cells rt tm (Suc i) row))" "length bm' = length bm"
      and nb: "\<forall>j. null_bit bm' j \<longleftrightarrow> null_bit bm j
          \<or> (Suc i \<le> j \<and> j < Suc i + length row \<and> row ! (j - Suc i) = GNil)"
      using Cons.IH [of "Suc i" bm "vals @ ?e"] Cons.prems by auto
    then show ?thesis
      using False unfolding nil_index_Cons by (auto simp: cell_bytes_def row_cells_Cons)
  qed
qed

end
