(* ===== verification/Binlog_Wire.thy ===== *)
theory Binlog_Wire
  imports Binlog_Events
begin

text \<open>
  What a reader of the MySQL row format makes of the encoded bytes. The format is specified by
  \<open>value_len\<close> (how many bytes a stored value occupies, from its column type, metadata and first
  bytes) and by the readers of the packed date types; the theorems say that the encoders of
  \<open>Binlog_Values\<close> and \<open>Binlog_Events\<close> write what those readers expect.
\<close>

section \<open>Lengths of stored values\<close>

definition prefixed_len :: "nat \<Rightarrow> byte list \<Rightarrow> nat option" where
  "prefixed_len k bs = (if length bs < k then None else Some (k + le_val (take k bs)))"

definition value_len :: "byte \<Rightarrow> u16 \<Rightarrow> byte list \<Rightarrow> nat option" where
  "value_len t meta bs =
     (if t = MYSQL_TYPE_NULL then Some 0
      else if t = MYSQL_TYPE_TINY \<or> t = MYSQL_TYPE_YEAR then Some 1
      else if t = MYSQL_TYPE_SHORT then Some 2
      else if t = MYSQL_TYPE_INT24 \<or> t = MYSQL_TYPE_DATE \<or> t = MYSQL_TYPE_TIME then Some 3
      else if t = MYSQL_TYPE_LONG \<or> t = MYSQL_TYPE_FLOAT \<or> t = MYSQL_TYPE_TIMESTAMP then Some 4
      else if t = MYSQL_TYPE_LONGLONG \<or> t = MYSQL_TYPE_DOUBLE \<or> t = MYSQL_TYPE_DATETIME then Some 8
      else if t = MYSQL_TYPE_NEWDECIMAL
        then Some (decimal_size (unat (drop_bit 8 meta) - unat (meta AND 0xFF)) (unat (meta AND 0xFF)))
      else if t = MYSQL_TYPE_TIME2 then Some (3 + (unat meta + 1) div 2)
      else if t = MYSQL_TYPE_DATETIME2 then Some (5 + (unat meta + 1) div 2)
      else if t = MYSQL_TYPE_TIMESTAMP2 then Some (4 + (unat meta + 1) div 2)
      else if t = MYSQL_TYPE_VARCHAR \<or> t = MYSQL_TYPE_VAR_STRING
        then prefixed_len (if unat meta < 256 then 1 else 2) bs
      else if t = MYSQL_TYPE_STRING
        then (if unat meta < 256 then prefixed_len 1 bs else None)
      else if t = MYSQL_TYPE_BLOB \<or> t = MYSQL_TYPE_GEOMETRY
        then (if meta \<in> {1, 2, 3, 4} then prefixed_len (unat meta) bs else None)
      else if t = MYSQL_TYPE_JSON then prefixed_len (unat meta) bs
      else if t = MYSQL_TYPE_BIT
        then Some ((unat (drop_bit 8 meta) * 8 + unat (meta AND 0xFF) + 7) div 8)
      else if t = MYSQL_TYPE_ENUM
        then (if meta AND 0xFF = 1 then Some 1 else if meta AND 0xFF = 2 then Some 2 else None)
      else if t = MYSQL_TYPE_SET then Some (unat (meta AND 0xFF))
      else None)"

text \<open>
  The values that fit their column: a declared precision, a fraction of at most six digits, and a
  text no longer than its length prefix can count.
\<close>

definition fits_column :: "go_rt \<Rightarrow> go_value \<Rightarrow> byte \<Rightarrow> u16 \<Rightarrow> bool" where
  "fits_column rt v t meta \<longleftrightarrow>
     (if t = MYSQL_TYPE_NEWDECIMAL then 0 < unat (drop_bit 8 meta)
      else if t \<in> {MYSQL_TYPE_TIME2, MYSQL_TYPE_DATETIME2, MYSQL_TYPE_TIMESTAMP2} then unat meta \<le> 6
      else if t \<in> {MYSQL_TYPE_VARCHAR, MYSQL_TYPE_VAR_STRING}
        then length (text_of rt v) < (if unat meta < 256 then 2 ^ 8 else 2 ^ 16)
      else if t = MYSQL_TYPE_STRING then unat meta < 256 \<and> length (text_of rt v) < 2 ^ 8
      else if t \<in> {MYSQL_TYPE_BLOB, MYSQL_TYPE_GEOMETRY}
        then meta \<in> {1, 2, 3, 4} \<and> (case blob_data v of None \<Rightarrow> False | Some d \<Rightarrow> length d < 256 ^ unat meta)
      else if t = MYSQL_TYPE_JSON
        then 1 \<le> unat meta \<and> unat meta \<le> 4
             \<and> (case blob_data v of None \<Rightarrow> True | Some d \<Rightarrow> length d < 256 ^ unat meta)
      else if t = MYSQL_TYPE_BIT then unat (drop_bit 8 meta) \<le> 8 \<and> unat (meta AND 0xFF) \<le> 8
      else if t = MYSQL_TYPE_ENUM then meta AND 0xFF = 1 \<or> meta AND 0xFF = 2
      else t \<in> {MYSQL_TYPE_NULL, MYSQL_TYPE_TINY, MYSQL_TYPE_SHORT, MYSQL_TYPE_INT24,
                MYSQL_TYPE_LONG, MYSQL_TYPE_LONGLONG, MYSQL_TYPE_FLOAT, MYSQL_TYPE_DOUBLE,
                MYSQL_TYPE_YEAR, MYSQL_TYPE_DATE, MYSQL_TYPE_TIME, MYSQL_TYPE_DATETIME,
                MYSQL_TYPE_TIMESTAMP, MYSQL_TYPE_SET})"

lemma length_encode_ints [simp]:
  "length (encodeTiny v) = 1" "length (encodeShort v) = 2" "length (encodeInt24 v) = 3"
  "length (encodeLong v) = 4" "length (encodeLongLong v) = 8"
  "length (encodeFloat rt v) = 4" "length (encodeDouble rt v) = 8" "length (encodeYear v) = 1"
  by (cases v; simp)+

lemma length_encode_times [simp]:
  "length (encodeDate v) = 3" "length (encodeTime v) = 3" "length (encodeDatetime v) = 8"
  "length (encodeTimestamp v) = 4" "length (encodeTime2 v meta) = 3 + frac_bytes meta"
  "length (encodeDatetime2 v meta) = 5 + frac_bytes meta"
  "length (encodeTimestamp2 v meta) = 4 + frac_bytes meta"
  by (cases v; simp add: pack_date_def pack_datetime_def pack_timestamp2_def pack_time2_def Let_def)+

lemma length_le_sint [simp]: "length (le_sint n v) = n"
  by (induction n arbitrary: v) auto

lemma frac_bytes_small: "unat meta \<le> 6 \<Longrightarrow> frac_bytes meta = (unat meta + 1) div 2"
proof -
  assume m: "unat meta \<le> 6"
  then have "unat (meta + 1) = unat meta + 1"
    by (simp add: unat_word_ariths)
  then show ?thesis by (simp add: frac_bytes_def unat_div)
qed

lemma prefixed_len_enc:
  "n < 256 ^ k \<Longrightarrow> le_val pre = n \<Longrightarrow> length pre = k \<Longrightarrow> prefixed_len k (pre @ rest) = Some (k + n)"
  by (simp add: prefixed_len_def)

lemma framed_var_string:
  assumes "length (text_of rt v) < (if unat meta < 256 then 2 ^ 8 else 2 ^ 16)"
  shows "prefixed_len (if unat meta < 256 then 1 else 2) (encodeVarString rt v meta @ rest)
         = Some (length (encodeVarString rt v meta))"
proof (cases "unat meta < 256")
  case True
  then have "unat (of_nat (length (text_of rt v)) :: byte) = length (text_of rt v)"
    using assms by (simp add: unat_of_nat_small)
  with True show ?thesis
    by (simp add: encodeVarString_def Let_def prefixed_len_def)
next
  case False
  then have "le_val (le_bytes 2 (of_nat (length (text_of rt v)) :: u16)) = length (text_of rt v)"
    using assms by (simp add: le_bytes_u16 unat_of_nat_small)
  with False show ?thesis
    by (simp add: encodeVarString_def Let_def prefixed_len_def)
qed

lemma framed_fixed_string:
  assumes "unat meta < 256" and "length (text_of rt v) < 2 ^ 8"
  shows "prefixed_len 1 (encodeFixedString rt v meta @ rest) = Some (length (encodeFixedString rt v meta))"
  using framed_var_string [of rt v meta rest] assms by (simp add: encodeFixedString_def)

lemma framed_blob:
  assumes "meta \<in> {1, 2, 3, 4}" and "blob_data v = Some d" and "length d < 256 ^ unat meta"
  shows "prefixed_len (unat meta) (encodeBlob v meta @ rest) = Some (length (encodeBlob v meta))"
proof -
  have "meta = 1 \<or> meta = 2 \<or> meta = 3 \<or> meta = 4"
    using assms(1) by blast
  then show ?thesis
    using assms(2,3)
    by (elim disjE)
       (simp_all add: encodeBlob_def prefixed_len_def le_val_le_bytes unat_of_nat_small)
qed

lemma framed_json:
  assumes "1 \<le> unat meta" and "unat meta \<le> 4"
    and "\<forall>d. blob_data v = Some d \<longrightarrow> length d < 256 ^ unat meta"
  shows "prefixed_len (unat meta) (encodeJSON v meta @ rest) = Some (length (encodeJSON v meta))"
proof -
  define d where "d = (case blob_data v of None \<Rightarrow> bytes_of ''{}'' | Some d \<Rightarrow> d)"
  have "(256 :: nat) ^ 1 \<le> 256 ^ unat meta" and le: "(256 :: nat) ^ unat meta \<le> 256 ^ 4"
    using assms by (intro power_increasing; simp)+
  then have d: "length d < 256 ^ unat meta"
    using assms(3) by (auto simp: d_def split: option.splits)
  then have "unat (of_nat (length d) :: u64) = length d"
    using le by (intro unat_of_nat_small) simp
  then have "le_val (le_bytes (unat meta) (of_nat (length d) :: u64)) = length d"
    using d by (simp add: le_val_le_bytes)
  then show ?thesis
    by (simp add: encodeJSON_def d_def [symmetric] prefixed_len_def)
qed

lemma length_enc_groups:
  "length (enc_groups mk ks ds) = (\<Sum>k\<leftarrow>ks. decimalCompressedBytes ! k)"
  by (induction ks arbitrary: ds) auto

lemma length_flip_sign: "length (flip_sign bs) = (if length bs = 0 then 1 else length bs)"
  by (cases bs) (auto simp: flip_sign_def)

lemma length_encodeDecimal:
  assumes "0 < unat (drop_bit 8 meta)"
  shows "length (encodeDecimal rt v meta)
         = decimal_size (unat (drop_bit 8 meta) - unat (meta AND 0xFF)) (unat (meta AND 0xFF))"
proof -
  have "length (encode_groups i sc (pad_int i a) (pad_frac sc b) mk)
      = (\<Sum>k\<leftarrow>decimal_layout i sc. decimalCompressedBytes ! k)" for i sc a b mk
    by (subst encode_groups_eq) (auto simp: pad_int_def pad_frac_def length_enc_groups)
  then show ?thesis
    using assms
    by (simp add: encodeDecimal_def Let_def case_prod_beta decimal_size_def length_flip_sign)
qed

lemma length_encodeBit:
  assumes "unat (drop_bit 8 meta) \<le> 8" and "unat (meta AND 0xFF) \<le> 8"
  shows "length (encodeBit v meta) = (unat (drop_bit 8 meta) * 8 + unat (meta AND 0xFF) + 7) div 8"
proof -
  have "unat (drop_bit 8 meta * 8 + (meta AND 0xFF) + 7)
      = unat (drop_bit 8 meta) * 8 + unat (meta AND 0xFF) + 7"
    using assms by (simp add: unat_word_ariths)
  then show ?thesis by (simp add: encodeBit_def Let_def)
qed

lemma length_encodeSet: "length (encodeSet v meta) = unat (meta AND 0xFF)"
  by (simp add: encodeSet_def)

lemmas framed_values =
  framed_var_string framed_fixed_string framed_blob framed_json length_encodeDecimal
  length_encodeBit length_encodeSet frac_bytes_small

lemma var_column_framed:
  assumes "fits_column rt v t meta" and "t \<in> {MYSQL_TYPE_VARCHAR, MYSQL_TYPE_VAR_STRING}"
  shows "value_len t meta (encodeValue rt v t meta @ rest) = Some (length (encodeValue rt v t meta))"
proof -
  have "encodeValue rt v t meta = encodeVarString rt v meta"
    and "value_len t meta bs = prefixed_len (if unat meta < 256 then 1 else 2) bs" for bs
    using assms(2) by (auto simp: encodeValue_def value_len_def mysql_type_defs)
  then show ?thesis
    using assms framed_var_string [of rt v meta rest]
    by (auto simp: fits_column_def mysql_type_defs)
qed

lemma blob_column_framed:
  assumes "fits_column rt v t meta" and "t \<in> {MYSQL_TYPE_BLOB, MYSQL_TYPE_GEOMETRY}"
  shows "value_len t meta (encodeValue rt v t meta @ rest) = Some (length (encodeValue rt v t meta))"
proof -
  have enc: "encodeValue rt v t meta = encodeBlob v meta"
    and len: "meta \<in> {1, 2, 3, 4} \<Longrightarrow> value_len t meta bs = prefixed_len (unat meta) bs" for bs
    using assms(2) by (elim insertE emptyE; simp add: encodeValue_def value_len_def mysql_type_defs)+
  have "meta \<in> {1, 2, 3, 4} \<and> (case blob_data v of None \<Rightarrow> False | Some d \<Rightarrow> length d < 256 ^ unat meta)"
    using assms by (elim insertE emptyE; simp add: fits_column_def mysql_type_defs)
  then obtain d where "meta \<in> {1, 2, 3, 4}" "blob_data v = Some d" "length d < 256 ^ unat meta"
    by (auto simp del: insert_iff split: option.splits)
  then show ?thesis
    using enc len framed_blob [of meta v d rest] by simp
qed

lemma other_column_framed:
  assumes "fits_column rt v t meta" and "t \<in> {MYSQL_TYPE_STRING, MYSQL_TYPE_JSON, MYSQL_TYPE_BIT, MYSQL_TYPE_NEWDECIMAL, MYSQL_TYPE_ENUM}"
  shows "value_len t meta (encodeValue rt v t meta @ rest) = Some (length (encodeValue rt v t meta))"
  using assms framed_fixed_string [of meta rt v rest] framed_json [of meta v rest] length_encodeBit [of meta v]
    length_encodeDecimal [of meta rt v]
  by (elim insertE emptyE;
      auto simp: encodeValue_def value_len_def fits_column_def mysql_type_defs encodeEnum_def split: option.splits)

lemma value_framed:
  assumes "fits_column rt v t meta"
  shows "value_len t meta (encodeValue rt v t meta @ rest) = Some (length (encodeValue rt v t meta))"
proof -
  consider
      (var) "t \<in> {MYSQL_TYPE_VARCHAR, MYSQL_TYPE_VAR_STRING}"
    | (blob) "t \<in> {MYSQL_TYPE_BLOB, MYSQL_TYPE_GEOMETRY}"
    | (other) "t \<in> {MYSQL_TYPE_STRING, MYSQL_TYPE_JSON, MYSQL_TYPE_BIT, MYSQL_TYPE_NEWDECIMAL, MYSQL_TYPE_ENUM}"
    | (time) "t \<in> {MYSQL_TYPE_TIME2, MYSQL_TYPE_DATETIME2, MYSQL_TYPE_TIMESTAMP2}"
    | (fixed) "t \<in> {MYSQL_TYPE_NULL, MYSQL_TYPE_TINY, MYSQL_TYPE_SHORT, MYSQL_TYPE_INT24,
                MYSQL_TYPE_LONG, MYSQL_TYPE_LONGLONG, MYSQL_TYPE_FLOAT, MYSQL_TYPE_DOUBLE,
                MYSQL_TYPE_YEAR, MYSQL_TYPE_DATE, MYSQL_TYPE_TIME, MYSQL_TYPE_DATETIME,
                MYSQL_TYPE_TIMESTAMP, MYSQL_TYPE_SET}"
    using assms unfolding fits_column_def by (auto split: if_splits)
  then show ?thesis
  proof cases
    case time
    then show ?thesis
      using assms frac_bytes_small [of meta]
      by (elim insertE emptyE; simp add: encodeValue_def value_len_def fits_column_def mysql_type_defs)
  next
    case fixed
    then show ?thesis
      by (elim insertE emptyE)
         (simp_all add: encodeValue_def value_len_def length_encodeSet mysql_type_defs)
  qed (use assms var_column_framed blob_column_framed other_column_framed in blast)+
qed

section \<open>Reading a row\<close>

fun read_cells :: "byte list \<Rightarrow> byte list \<Rightarrow> u16 list \<Rightarrow> nat \<Rightarrow> byte list
    \<Rightarrow> (byte list option list \<times> byte list) option" where
  "read_cells bm [] ms i bs = Some ([], bs)"
| "read_cells bm (t # ts) ms i bs =
     (let m = (case ms of [] \<Rightarrow> 0 | m # _ \<Rightarrow> m); ms' = (case ms of [] \<Rightarrow> [] | _ # ms' \<Rightarrow> ms')
      in if null_bit bm i
         then map_option (\<lambda>(cs, r). (None # cs, r)) (read_cells bm ts ms' (Suc i) bs)
         else (case value_len t m bs of
                 None \<Rightarrow> None
               | Some n \<Rightarrow>
                   if length bs < n then None
                   else map_option (\<lambda>(cs, r). (Some (take n bs) # cs, r))
                          (read_cells bm ts ms' (Suc i) (drop n bs))))"

definition read_row :: "table_map_event \<Rightarrow> byte list \<Rightarrow> (byte list option list \<times> byte list) option" where
  "read_row tm bs =
     (let n = (length (tm_column_type tm) + 7) div 8
      in if length bs < n then None
         else read_cells (take n bs) (tm_column_type tm) (tm_column_meta tm) 0 (drop n bs))"

definition row_ok :: "go_rt \<Rightarrow> table_map_event \<Rightarrow> go_value list \<Rightarrow> bool" where
  "row_ok rt tm row \<longleftrightarrow> length row = length (tm_column_type tm)
     \<and> (\<forall>k < length row. row ! k \<noteq> GNil \<longrightarrow> fits_column rt (row ! k) (col_type tm k) (col_meta tm k))"

lemma row_cells_Nil [simp]: "row_cells rt tm i [] = []"
  by (simp add: row_cells_def)

text \<open>The reader takes the first value of a row and goes on with the rest.\<close>

lemma read_cells_step:
  assumes "i < length (tm_column_type tm)" and "null_bit bm i \<longleftrightarrow> v = GNil"
    and "v \<noteq> GNil \<Longrightarrow> fits_column rt v (col_type tm i) (col_meta tm i)"
    and "read_cells bm (drop (Suc i) (tm_column_type tm)) (drop (Suc i) (tm_column_meta tm)) (Suc i)
           (cell_bytes (row_cells rt tm (Suc i) row) @ rest) = Some (row_cells rt tm (Suc i) row, rest)"
  shows "read_cells bm (drop i (tm_column_type tm)) (drop i (tm_column_meta tm)) i
           (cell_bytes (row_cells rt tm i (v # row)) @ rest) = Some (row_cells rt tm i (v # row), rest)"
proof -
  have t: "drop i (tm_column_type tm) = col_type tm i # drop (Suc i) (tm_column_type tm)"
    using assms(1) by (simp add: col_type_def Cons_nth_drop_Suc)
  have m: "(case drop i (tm_column_meta tm) of [] \<Rightarrow> 0 | m # _ \<Rightarrow> m) = col_meta tm i"
    "(case drop i (tm_column_meta tm) of [] \<Rightarrow> [] | _ # ms' \<Rightarrow> ms') = drop (Suc i) (tm_column_meta tm)"
    by (cases "i < length (tm_column_meta tm)";
        simp add: col_meta_def Cons_nth_drop_Suc [symmetric])+
  show ?thesis
  proof (cases "v = GNil")
    case True
    then show ?thesis
      using assms(2,4) t m by (simp add: row_cells_Cons cell_bytes_def Let_def)
  next
    case False
    show ?thesis
      using False assms(2,4) t m value_framed [OF assms(3) [OF False]]
      by (simp add: row_cells_Cons cell_bytes_def Let_def)
  qed
qed

lemma read_cells_row:
  assumes "i + length row = length (tm_column_type tm)"
    and "\<forall>k < length row. null_bit bm (i + k) \<longleftrightarrow> row ! k = GNil"
    and "\<forall>k < length row. row ! k \<noteq> GNil \<longrightarrow>
           fits_column rt (row ! k) (col_type tm (i + k)) (col_meta tm (i + k))"
  shows "read_cells bm (drop i (tm_column_type tm)) (drop i (tm_column_meta tm)) i
           (cell_bytes (row_cells rt tm i row) @ rest)
         = Some (row_cells rt tm i row, rest)"
  using assms
proof (induction row arbitrary: i)
  case Nil
  then show ?case by (simp add: cell_bytes_def)
next
  case (Cons v row)
  show ?case
  proof (rule read_cells_step)
    show "i < length (tm_column_type tm)" using Cons.prems(1) by simp
    show "null_bit bm i \<longleftrightarrow> v = GNil" using Cons.prems(2) by fastforce
    show "v \<noteq> GNil \<Longrightarrow> fits_column rt v (col_type tm i) (col_meta tm i)" using Cons.prems(3) by fastforce
    show "read_cells bm (drop (Suc i) (tm_column_type tm)) (drop (Suc i) (tm_column_meta tm)) (Suc i)
        (cell_bytes (row_cells rt tm (Suc i) row) @ rest) = Some (row_cells rt tm (Suc i) row, rest)"
    proof (rule Cons.IH)
      show "Suc i + length row = length (tm_column_type tm)" using Cons.prems(1) by simp
      show "\<forall>k < length row. null_bit bm (Suc i + k) \<longleftrightarrow> row ! k = GNil"
        using Cons.prems(2) by (metis Suc_less_eq add_Suc_right add_Suc length_Cons nth_Cons_Suc)
      show "\<forall>k < length row. row ! k \<noteq> GNil \<longrightarrow>
          fits_column rt (row ! k) (col_type tm (Suc i + k)) (col_meta tm (Suc i + k))"
        using Cons.prems(3) by (metis Suc_less_eq add_Suc_right add_Suc length_Cons nth_Cons_Suc)
    qed
  qed
qed

end
