(* ===== verification/Binlog_Readers.thy ===== *)
theory Binlog_Readers
  imports Binlog_Wire
begin

text \<open>
  Readers of the MySQL binlog format for rows, events and temporal values, and the properties of the
  encoder stated against them: rows read back cell by cell, events are framed by their header and
  checksum, dates and datetimes survive, the metadata of a table map is recovered. The integer
  encoders and the event frame are interpreted as codecs.
\<close>

section \<open>Rows\<close>

text \<open>The bitmap of the null columns and the encoded values of one row.\<close>

lemma read_row_encode_row:
  assumes "row_ok rt tm row" and "n = (length (tm_column_type tm) + 7) div 8"
  shows "\<exists>bm vals. encode_row rt tm 0 row (replicate n 0) [] = Some (bm, vals)
           \<and> length bm = n
           \<and> (\<forall>j < length row. null_bit bm j \<longleftrightarrow> row ! j = GNil)
           \<and> read_row tm (bm @ vals @ rest) = Some (row_cells rt tm 0 row, rest)"
proof -
  have len: "length row = length (tm_column_type tm)"
    using assms(1) by (simp add: row_ok_def)
  have "length row \<le> 8 * n"
    using len assms(2) by simp
  then obtain bm where
      enc: "encode_row rt tm 0 row (replicate n 0) [] = Some (bm, cell_bytes (row_cells rt tm 0 row))"
    and lb: "length bm = n"
    and nb: "\<forall>j. null_bit bm j \<longleftrightarrow> null_bit (replicate n 0) j \<or> (j < length row \<and> row ! j = GNil)"
    using encode_row_spec [of 0 row "replicate n 0" rt tm "[]"] by auto
  have zero: "\<not> null_bit (replicate n 0) j" if "j < length row" for j
  proof -
    have "j div 8 < n" using that \<open>length row \<le> 8 * n\<close> by (simp add: less_mult_imp_div_less mult.commute)
    then show ?thesis by (simp add: null_bit_def)
  qed
  have bits: "\<forall>j < length row. null_bit bm j \<longleftrightarrow> row ! j = GNil"
    using nb zero by blast
  have "read_cells bm (tm_column_type tm) (tm_column_meta tm) 0 (cell_bytes (row_cells rt tm 0 row) @ rest)
      = Some (row_cells rt tm 0 row, rest)"
    using read_cells_row [of 0 row tm bm rt rest] assms(1) bits len by (simp add: row_ok_def)
  then have "read_row tm (bm @ cell_bytes (row_cells rt tm 0 row) @ rest) = Some (row_cells rt tm 0 row, rest)"
    using lb assms(2) by (simp add: read_row_def Let_def)
  with enc lb bits show ?thesis by blast
qed

lemma encode_rows_read:
  assumes "\<forall>row \<in> set rows. row_ok rt tm row" and "n = (length (tm_column_type tm) + 7) div 8"
  shows "\<exists>d. encode_rows rt tm n rows = Some d
           \<and> decode_n (read_row tm) (length rows) (d @ rest) = Some (map (row_cells rt tm 0) rows, rest)"
  using assms(1)
proof (induction rows)
  case Nil
  then show ?case by simp
next
  case (Cons row rows)
  then obtain d where d: "encode_rows rt tm n rows = Some d"
      "decode_n (read_row tm) (length rows) (d @ rest) = Some (map (row_cells rt tm 0) rows, rest)"
    by auto
  obtain bm vals where "encode_row rt tm 0 row (replicate n 0) [] = Some (bm, vals)"
      "read_row tm (bm @ vals @ d @ rest) = Some (row_cells rt tm 0 row, d @ rest)"
    using read_row_encode_row [of rt tm row n "d @ rest"] Cons.prems assms(2) by auto
  with d show ?case by simp
qed

text \<open>C22: Rows survive the wire. For rows whose values fit their columns, \<open>encodeRowData\<close> does not panic,
  and a reader of the row format that knows only the table map (types and metadata) splits the bytes
  back into exactly the rows written: as many rows as were encoded, every column either null (where
  the value was nil) or the bytes of its value, and nothing of what follows is consumed.\<close>

theorem rows_roundtrip:
  assumes "re_table e = Some tm" and "unat (re_column_count e) = length (tm_column_type tm)"
    and "\<forall>row \<in> set (re_rows e). row_ok rt tm row"
  shows "\<exists>d. encodeRowData rt e = Some d
           \<and> decode_n (read_row tm) (length (re_rows e)) (d @ rest)
               = Some (map (row_cells rt tm 0) (re_rows e), rest)"
  using encode_rows_read [OF assms(3) refl, of rest] assms(1,2) by (simp add: encodeRowData_def)

definition sample_map :: table_map_event where
  "sample_map = \<lparr>tm_table_id = 1, tm_flags = 1, tm_schema = bytes_of ''db'', tm_table = bytes_of ''t'',
     tm_column_count = 3, tm_column_type = [MYSQL_TYPE_LONG, MYSQL_TYPE_VARCHAR, MYSQL_TYPE_BLOB],
     tm_column_meta = [0, 100, 1], tm_null_bitmap = [], tm_column_name = []\<rparr>"

definition sample_rows :: rows_event where
  "sample_rows = \<lparr>re_version = 2, re_table_id = 1, re_flags = 1, re_column_count = 3, re_bitmap1 = [7],
     re_bitmap2 = [], re_rows = [[GInt32 5, GString ''ab'', GNil], [GNil, GString '''', GBytes [1, 2]]],
     re_table = Some sample_map\<rparr>"

lemma sample_rows_ok: "\<forall>row \<in> set (re_rows sample_rows). row_ok plain_rt sample_map row"
  by code_simp

theorem rows_roundtrip_witness:
  "\<exists>d. encodeRowData plain_rt sample_rows = Some d
     \<and> decode_n (read_row sample_map) 2 (d @ [9])
         = Some ([[Some [5, 0, 0, 0], Some [2, 97, 98], None],
                  [None, Some [0], Some [2, 1, 2]]], [9])"
proof -
  have "map (row_cells plain_rt sample_map 0) (re_rows sample_rows)
      = [[Some [5, 0, 0, 0], Some [2, 97, 98], None], [None, Some [0], Some [2, 1, 2]]]"
    by code_simp
  moreover have "re_table sample_rows = Some sample_map"
    "unat (re_column_count sample_rows) = length (tm_column_type sample_map)"
    "length (re_rows sample_rows) = 2"
    by (simp_all add: sample_rows_def sample_map_def)
  ultimately show ?thesis
    using rows_roundtrip [of sample_rows sample_map plain_rt "[9]"] sample_rows_ok by simp
qed

section \<open>Integers\<close>

definition read_uint :: "nat \<Rightarrow> byte list \<Rightarrow> (nat \<times> byte list) option" where
  "read_uint k bs = (if length bs < k then None else Some (le_val (take k bs), drop k bs))"

definition read_i32 :: "byte list \<Rightarrow> (u32 \<times> byte list) option" where
  "read_i32 bs = map_option (\<lambda>(n, r). (of_nat n, r)) (read_uint 4 bs)"

definition read_i64 :: "byte list \<Rightarrow> (u64 \<times> byte list) option" where
  "read_i64 bs = map_option (\<lambda>(n, r). (of_nat n, r)) (read_uint 8 bs)"

lemma read_uint_le_bytes: "read_uint k (le_bytes k v @ r) = Some (unat v mod 256 ^ k, r)"
  by (simp add: read_uint_def wire)

lemma read_u32_le_bytes [simp]: "read_i32 (le_bytes 4 v @ r) = Some (v, r)"
  by (simp add: read_i32_def read_uint_def le_bytes_u32)

lemma read_u64_le_bytes [simp]: "read_i64 (le_bytes 8 v @ r) = Some (v, r)"
  by (simp add: read_i64_def read_uint_def le_bytes_u64)

interpretation long_codec: codec "\<lambda>v. encodeLong (GInt32 v)" read_i32 "\<lambda>_. True"
  by unfold_locales simp

interpretation longlong_codec: codec "\<lambda>v. encodeLongLong (GInt64 v)" read_i64 "\<lambda>_. True"
  by unfold_locales simp

interpretation xid_codec: codec encodeXIDEvent read_i64 "\<lambda>_. True"
  by unfold_locales (simp add: encodeXIDEvent_def)

text \<open>BIGINT columns. A run of int64 values encoded one after the other (two's complement, little
  endian) is read back as exactly those values, so the sign of a negative number survives; and an
  int32 value is sign-extended, i.e. stored as the same integer.\<close>

theorem longlong_stream:
  "decode_n read_i64 (length vs) (concat (map (\<lambda>v. encodeLongLong (GInt64 v)) vs) @ rest) = Some (vs, rest)
   \<and> read_i64 (encodeLongLong (GInt32 w) @ rest) = Some (scast w, rest)
   \<and> sint (scast w :: u64) = sint w"
proof -
  have "list_all (\<lambda>_. True) vs" by (simp add: list_all_iff)
  then have "decode_n read_i64 (length vs) (concat (map (\<lambda>v. encodeLongLong (GInt64 v)) vs) @ rest) = Some (vs, rest)"
    by (rule longlong_codec.decode_n_concat)
  moreover have "sint (scast w :: u64) = sint w"
    using sint_lt [of w] sint_ge [of w] by (simp add: signed_scast_eq signed_take_bit_int_eq_self)
  ultimately show ?thesis by simp
qed

section \<open>Dates and datetimes\<close>

text \<open>
  MySQL keeps a DATE as year * 512 + month * 32 + day in three bytes, a DATETIME of the old format as the
  decimal number YYYYMMDDhhmmss, and a DATETIME2 as a 40-bit big-endian integer with the fields
  year * 13 + month, day, hour, minute and second.
\<close>

definition read_date :: "byte list \<Rightarrow> int \<times> nat \<times> nat" where
  "read_date bs = (let n = le_val bs in (int (n div 512), n div 32 mod 16, n mod 32))"

definition read_datetime :: "byte list \<Rightarrow> int \<times> nat \<times> nat \<times> nat \<times> nat \<times> nat" where
  "read_datetime bs =
     (let n = le_val bs; d = n div 1000000; t = n mod 1000000
      in (int (d div 10000), d div 100 mod 100, d mod 100, t div 10000, t div 100 mod 100, t mod 100))"

definition read_datetime2 :: "byte list \<Rightarrow> int \<times> nat \<times> nat \<times> nat \<times> nat \<times> nat" where
  "read_datetime2 bs =
     (let n = be_val (take 5 bs) - 0x8000000000; ymd = n div 2 ^ 17; hms = n mod 2 ^ 17; ym = ymd div 32
      in (int (ym div 13), ym mod 13, ymd mod 32, hms div 4096, hms div 64 mod 64, hms mod 64))"

lemma valid_timeD:
  assumes "valid_time t"
  shows "0 \<le> t_year t" "t_year t \<le> 9999" "1 \<le> t_month t" "t_month t \<le> 12" "1 \<le> t_day t" "t_day t \<le> 31"
    "t_hour t < 24" "t_min t < 60" "t_sec t < 60"
  using assms days_in_le [of "t_month t" "t_year t"] by (auto simp: valid_time_def)

lemma scan_int_pad2 [simp]:
  assumes "k < 100" and "rest = [] \<or> \<not> is_digit (hd rest)"
  shows "scan_int 64 (fmt_pad2 k @ rest) = Some (int k, rest)"
  using scan_int_digits [of "pad_zeros 2 (dec_digits k)" rest 64] assms by (simp add: fmt_pad2_def)

lemma scan_int_pad2_end [simp]: "k < 100 \<Longrightarrow> scan_int 64 (fmt_pad2 k) = Some (int k, [])"
  using scan_int_pad2 [of k "[]"] by simp

lemma scan_int_year [simp]:
  assumes "0 \<le> y" and "y \<le> 9999" and "rest = [] \<or> \<not> is_digit (hd rest)"
  shows "scan_int 64 (fmt_year y @ rest) = Some (y, rest)"
  using scan_int_digits [of "pad_zeros 4 (dec_digits (nat y))" rest 64] assms by (simp add: fmt_year_def)

lemma scan_date:
  "valid_time t \<Longrightarrow> sscanf 64 date_fmt (fmt_date t) = [t_year t, int (t_month t), int (t_day t)]"
  using valid_timeD [of t] by (simp add: date_fmt_def fmt_date_def)

lemma not_space_pad2 [simp]:
  assumes "k < 100"
  shows "dropWhile (\<lambda>c. is_space c \<and> c \<noteq> newline) (fmt_pad2 k @ rest) = fmt_pad2 k @ rest"
proof -
  have "\<not> is_space (digit_char n)" for n
    using is_digit_digit_char [of n] by (auto simp: is_digit_def is_space_def char_code_def)
  then show ?thesis using assms by (simp add: fmt_pad2_eq)
qed

lemma scan_datetime:
  "valid_time t \<Longrightarrow> sscanf 64 datetime_fmt (fmt_datetime t)
     = [t_year t, int (t_month t), int (t_day t), int (t_hour t), int (t_min t), int (t_sec t)]"
  using valid_timeD [of t]
  by (simp add: datetime_fmt_def date_fmt_def clock_fmt_def fmt_datetime_def fmt_date_def fmt_clock_def)

lemma pack_date_value:
  assumes "valid_time t"
  shows "le_val (pack_date (fmt_date t)) = 512 * nat (t_year t) + t_month t * 32 + t_day t"
proof -
  note b = valid_timeD [OF assms]
  let ?n = "512 * nat (t_year t) + t_month t * 32 + t_day t"
  have "t_year t * 16 * 32 + int (t_month t) * 32 + int (t_day t) = int ?n"
    using b(1) by simp
  then have "pack_date (fmt_date t) = le_bytes 3 (of_int (int ?n) :: u32)"
    by (simp add: pack_date_def Let_def scan_date [OF assms] nth_int_def del: of_int_add of_int_of_nat_eq)
  moreover have "?n < 2 ^ 24" using b by simp
  ultimately show ?thesis
    by (simp add: le_val_le_bytes unat_of_nat_small del: of_nat_add of_nat_mult)
qed

lemma pack_datetime_value:
  assumes "valid_time t"
  shows "le_val (pack_datetime (fmt_datetime t))
    = (nat (t_year t) * 10000 + t_month t * 100 + t_day t) * 1000000
      + (t_hour t * 10000 + t_min t * 100 + t_sec t)"
proof -
  note b = valid_timeD [OF assms]
  let ?n = "(nat (t_year t) * 10000 + t_month t * 100 + t_day t) * 1000000
      + (t_hour t * 10000 + t_min t * 100 + t_sec t)"
  have "(t_year t * 10000 + int (t_month t) * 100 + int (t_day t)) * 1000000
      + (int (t_hour t) * 10000 + int (t_min t) * 100 + int (t_sec t)) = int ?n"
    using b(1) by simp
  then have "pack_datetime (fmt_datetime t) = le_bytes 8 (of_int (int ?n) :: u64)"
    by (simp add: pack_datetime_def Let_def scan_datetime [OF assms] nth_int_def
        del: of_int_add of_int_mult of_int_of_nat_eq)
  moreover have "?n < 2 ^ 64" using b by simp
  ultimately show ?thesis
    by (simp add: le_val_le_bytes unat_of_nat_small del: of_nat_add of_nat_mult)
qed

text \<open>DATE columns. For every valid calendar date the three bytes written by \<open>encodeDate\<close>, from a time
  value or from its text \<open>YYYY-MM-DD\<close>, hold year, month and day in the fields where a MySQL reader looks
  for them.\<close>

theorem date_roundtrip:
  assumes "valid_time t"
  shows "read_date (encodeDate (GTime t)) = (t_year t, t_month t, t_day t)
       \<and> encodeDate (GString (fmt_date t)) = encodeDate (GTime t)"
proof -
  note b = valid_timeD [OF assms]
  let ?n = "512 * nat (t_year t) + t_month t * 32 + t_day t"
  have "?n div 512 = nat (t_year t)" "?n div 32 mod 16 = t_month t" "?n mod 32 = t_day t"
    using radix3 [of "t_month t" 16 "t_day t" 32 "nat (t_year t)"] b by (simp_all add: algebra_simps)
  then show ?thesis
    using pack_date_value [OF assms] b(1) by (simp add: read_date_def Let_def)
qed

definition leap_day :: gtime where
  "leap_day = \<lparr>t_year = 2024, t_month = 2, t_day = 29, t_hour = 23, t_min = 5, t_sec = 59,
               t_nsec = 250000000, t_off = 0\<rparr>"

lemma valid_leap_day [simp]: "valid_time leap_day"
  by (simp add: leap_day_def valid_time_def days_in_def is_leap_def)

theorem date_roundtrip_witness:
  "read_date (encodeDate (GTime leap_day)) = (2024, 2, 29)"
  using date_roundtrip [OF valid_leap_day] by (simp add: leap_day_def)

text \<open>DATETIME columns of the old format. The eight bytes written by \<open>encodeDatetime\<close> hold the
  decimal number YYYYMMDDhhmmss, from which all six fields are read back; the text form of the time is
  encoded identically.\<close>

theorem datetime_roundtrip:
  assumes "valid_time t"
  shows "read_datetime (encodeDatetime (GTime t))
           = (t_year t, t_month t, t_day t, t_hour t, t_min t, t_sec t)
       \<and> encodeDatetime (GString (fmt_datetime t)) = encodeDatetime (GTime t)"
proof -
  note b = valid_timeD [OF assms]
  let ?d = "nat (t_year t) * 10000 + t_month t * 100 + t_day t"
  let ?c = "t_hour t * 10000 + t_min t * 100 + t_sec t"
  have c: "?c < 1000000" using b by simp
  then have split: "(?d * 1000000 + ?c) div 1000000 = ?d" "(?d * 1000000 + ?c) mod 1000000 = ?c"
    by (simp_all only: div_mult_self3 mod_mult_self3 div_less mod_less add_0_right)
  have d: "?d div 10000 = nat (t_year t)" "?d div 100 mod 100 = t_month t" "?d mod 100 = t_day t"
    using radix3 [of "t_month t" 100 "t_day t" 100 "nat (t_year t)"] b by (simp_all add: algebra_simps)
  have t: "?c div 10000 = t_hour t" "?c div 100 mod 100 = t_min t" "?c mod 100 = t_sec t"
    using radix3 [of "t_min t" 100 "t_sec t" 100 "t_hour t"] b by (simp_all add: algebra_simps)
  show ?thesis
    using b(1)
    by (simp only: encodeDatetime.simps read_datetime_def Let_def pack_datetime_value [OF assms] split d t)
       simp
qed

theorem datetime_roundtrip_witness:
  "read_datetime (encodeDatetime (GTime leap_day)) = (2024, 2, 29, 23, 5, 59)"
  using datetime_roundtrip [OF valid_leap_day] by (simp add: leap_day_def)

text \<open>The 40-bit packing of DATETIME2: disjoint bit fields above the offset of the sign bit.\<close>

lemma pack_datetime2_value:
  assumes "valid_time t"
  shows "unat (pack_datetime2 t)
    = ((nat (t_year t) * 13 + t_month t) * 32 + t_day t) * 2 ^ 17
      + ((t_hour t * 64 + t_min t) * 64 + t_sec t) + 0x8000000000"
proof -
  note b = valid_timeD [OF assms]
  define ym :: u64 where "ym = of_int (t_year t * 13 + int (t_month t))"
  have "t_year t * 13 + int (t_month t) = int (nat (t_year t) * 13 + t_month t)"
    using b(1) by simp
  then have "ym = of_nat (nat (t_year t) * 13 + t_month t)"
    unfolding ym_def by (simp only: of_int_of_nat_eq)
  then have ym: "unat ym = nat (t_year t) * 13 + t_month t"
    using b by (simp add: unat_of_nat_small del: of_nat_add of_nat_mult)
  have f: "unat (of_nat (t_day t) :: u64) = t_day t" "unat (of_nat (t_hour t) :: u64) = t_hour t"
    "unat (of_nat (t_min t) :: u64) = t_min t" "unat (of_nat (t_sec t) :: u64) = t_sec t"
    using b by (simp_all add: unat_of_nat_small)
  have ymd: "unat (push_bit 5 ym OR of_nat (t_day t)) = unat ym * 32 + t_day t"
    using unat_pack [of "of_nat (t_day t)" 5 ym] f ym b by simp
  have ms: "unat (push_bit 6 (of_nat (t_min t)) OR of_nat (t_sec t) :: u64) = t_min t * 64 + t_sec t"
    using unat_pack [of "of_nat (t_sec t) :: u64" 6 "of_nat (t_min t)"] f b by simp
  have hms: "unat (push_bit 12 (of_nat (t_hour t)) OR (push_bit 6 (of_nat (t_min t)) OR of_nat (t_sec t)) :: u64)
      = t_hour t * 4096 + (t_min t * 64 + t_sec t)"
    using unat_pack [of "push_bit 6 (of_nat (t_min t)) OR of_nat (t_sec t) :: u64" 12 "of_nat (t_hour t)"]
      f ms b by simp
  have all: "unat (push_bit 17 (push_bit 5 ym OR of_nat (t_day t))
        OR (push_bit 12 (of_nat (t_hour t)) OR push_bit 6 (of_nat (t_min t)) OR of_nat (t_sec t)))
      = (unat ym * 32 + t_day t) * 2 ^ 17 + (t_hour t * 4096 + (t_min t * 64 + t_sec t))"
    using unat_pack [of "push_bit 12 (of_nat (t_hour t)) OR (push_bit 6 (of_nat (t_min t)) OR of_nat (t_sec t)) :: u64"
        17 "push_bit 5 ym OR of_nat (t_day t)"] ymd hms ym b
    by (simp add: or.assoc)
  show ?thesis
    unfolding pack_datetime2_def Let_def ym_def [symmetric]
    using all ym b by (simp add: unat_word_ariths)
qed

lemma read_datetime2_be:
  assumes "valid_time t"
  shows "read_datetime2 (fit (5 + n) (be_bytes 5 (pack_datetime2 t)))
         = (t_year t, t_month t, t_day t, t_hour t, t_min t, t_sec t)"
proof -
  note b = valid_timeD [OF assms]
  let ?d = "(nat (t_year t) * 13 + t_month t) * 32 + t_day t"
  let ?c = "(t_hour t * 64 + t_min t) * 64 + t_sec t"
  have tk: "take 5 (fit (5 + n) (be_bytes 5 v)) = be_bytes 5 v" for v :: u64
    by (simp add: fit_def put_fill0)
  have v: "unat (pack_datetime2 t) = ?d * 2 ^ 17 + ?c + 0x8000000000"
    by (rule pack_datetime2_value [OF assms])
  have c: "?c < 2 ^ 17" using b by simp
  have "?d * 2 ^ 17 + ?c + 0x8000000000 < 256 ^ 5" using b by simp
  then have n: "be_val (be_bytes 5 (pack_datetime2 t)) - 0x8000000000 = ?d * 2 ^ 17 + ?c"
    using v by (simp add: be_val_be_bytes)
  have "(?d * 2 ^ 17 + ?c) div 2 ^ 17 = ?d" "(?d * 2 ^ 17 + ?c) mod 2 ^ 17 = ?c"
    using c by (simp_all only: div_mult_self3 mod_mult_self3 div_less mod_less add_0_right)
  moreover have "t_day t < 32" using b by simp
  then have "?d div 32 = nat (t_year t) * 13 + t_month t" "?d mod 32 = t_day t"
    by (simp_all only: div_mult_self3 mod_mult_self3 div_less mod_less add_0_right)
  moreover have "(nat (t_year t) * 13 + t_month t) div 13 = nat (t_year t)"
    "(nat (t_year t) * 13 + t_month t) mod 13 = t_month t"
    using b by simp_all
  moreover have "?c div 4096 = t_hour t" "?c div 64 mod 64 = t_min t" "?c mod 64 = t_sec t"
    using radix3 [of "t_min t" 64 "t_sec t" 64 "t_hour t"] b by simp_all
  ultimately show ?thesis
    using b(1) by (simp only: read_datetime2_def Let_def tk n) simp
qed

text \<open>DATETIME2 columns, the format of every timestamp column that is replicated. Packing year, month,
  day, hour, minute and second with shifts into 40 bits loses nothing and the fields do not overlap;
  a time given as text \<open>YYYY-MM-DD hh:mm:ss\<close> is parsed and stored as the same bytes.\<close>

theorem datetime2_roundtrip:
  assumes "valid_time t"
  shows "read_datetime2 (encodeDatetime2 (GTime t) meta)
           = (t_year t, t_month t, t_day t, t_hour t, t_min t, t_sec t)
       \<and> encodeDatetime2 (GString (fmt_datetime t)) meta = encodeDatetime2 (GTime t) meta"
proof -
  have "pack_datetime2 (t\<lparr>t_nsec := 0, t_off := 0\<rparr>) = pack_datetime2 t"
    by (simp add: pack_datetime2_def)
  then show ?thesis
    using read_datetime2_be [OF assms, of "frac_bytes meta"] time_parse_fmt_datetime [OF assms]
    by (simp add: time_parse_or_zero_def)
qed

theorem datetime2_roundtrip_witness:
  "read_datetime2 (encodeDatetime2 (GTime leap_day) 6) = (2024, 2, 29, 23, 5, 59)"
  using datetime2_roundtrip [OF valid_leap_day, of 6] by (simp add: leap_day_def)

section \<open>Event frames\<close>

text \<open>
  A reader of a binlog stream takes the event size from the header (bytes 9 to 12), cuts the event
  off, and checks the last four bytes against the CRC-32 of the rest.
\<close>

definition split_event :: "byte list \<Rightarrow> (byte list \<times> byte list) option" where
  "split_event bs =
     (if length bs < 23 then None
      else let n = le_val (take 4 (drop 9 bs))
           in if n < 23 \<or> length bs < n then None else Some (take n bs, drop n bs))"

definition framed_event :: "byte list \<Rightarrow> bool" where
  "framed_event bs \<longleftrightarrow> 23 \<le> length bs \<and> le_val (take 4 (drop 9 bs)) = length bs"

definition checksum_ok :: "byte list \<Rightarrow> bool" where
  "checksum_ok bs \<longleftrightarrow> le_val (drop (length bs - 4) bs) = unat (crc32 (take (length bs - 4) bs))"

interpretation event_frame: codec "\<lambda>bs. bs" split_event framed_event
  by unfold_locales (simp add: split_event_def framed_event_def)

definition read_header :: "byte list \<Rightarrow> event_header" where
  "read_header bs =
     \<lparr>h_timestamp = of_nat (le_val (take 4 bs)), h_event_type = bs ! 4,
      h_server_id = of_nat (le_val (take 4 (drop 5 bs))),
      h_log_pos = of_nat (le_val (take 4 (drop 13 bs))),
      h_flags = of_nat (le_val (take 2 (drop 17 bs)))\<rparr>"

lemma read_header_bytes: "read_header (header_bytes h n @ r) = h"
  by (cases h)
     (simp add: read_header_def header_bytes_def nth_append wire del: le_val_le_bytes)

lemma frame_of_EncodeEvent:
  assumes "be_raw ev = None" and "event_payload rt lenc enc (be_body ev) = Some p"
    and "length p + 23 < 2 ^ 32"
  shows "\<exists>bs. EncodeEvent rt lenc enc ev = Some bs \<and> length bs = length p + 23
     \<and> framed_event bs \<and> checksum_ok bs
     \<and> read_header bs = be_header ev \<and> take (length p) (drop 19 bs) = p"
proof -
  let ?h = "header_bytes (be_header ev) (length p + 23)"
  let ?bs = "?h @ p @ le_bytes 4 (crc32 (?h @ p))"
  have "take 4 (drop 9 ?h) = le_bytes 4 (of_nat (length p + 23) :: u32)"
    by (simp add: header_bytes_def)
  then have "le_val (take 4 (drop 9 ?h)) = length p + 23"
    using assms(3) by (simp add: le_bytes_u32 unat_of_nat_small del: of_nat_add)
  then have "framed_event ?bs" by (simp add: framed_event_def)
  moreover have "checksum_ok ?bs"
    by (simp add: checksum_ok_def le_bytes_u32)
  ultimately show ?thesis
    using EncodeEvent_layout [OF assms] read_header_bytes by simp
qed

text \<open>C24: The frame of an encoded event. When \<open>EncodeEvent\<close> builds an event itself (no raw data), the event
  carries its own length in the header, the header fields and the payload are read back unchanged, the
  trailing checksum is the CRC-32 of everything before it, and the result is exactly 23 bytes (header
  and checksum) longer than the payload.\<close>

theorem EncodeEvent_frame:
  assumes "be_raw ev = None" and "event_payload rt lenc enc (be_body ev) = Some p"
    and "length p + 23 < 2 ^ 32"
  shows "\<exists>bs. EncodeEvent rt lenc enc ev = Some bs \<and> length bs = length p + 23
     \<and> framed_event bs \<and> checksum_ok bs
     \<and> read_header bs = be_header ev \<and> take (length p) (drop 19 bs) = p"
  using frame_of_EncodeEvent [OF assms] .

definition xid_sample :: "u64 \<Rightarrow> binlog_event" where
  "xid_sample n = \<lparr>be_raw = None, be_header = \<lparr>h_timestamp = 1, h_event_type = XID_EVENT, h_server_id = 1,
     h_log_pos = 200, h_flags = 0\<rparr>, be_body = EXID n\<rparr>"

lemma xid_sample_payload:
  "be_raw (xid_sample n) = None"
  "event_payload rt lenc enc (be_body (xid_sample n)) = Some (le_bytes 8 n)"
  "length (le_bytes 8 n) + 23 < 2 ^ 32"
  by (simp_all add: xid_sample_def event_payload_def encodeXIDEvent_def)

theorem EncodeEvent_frame_witness:
  "\<exists>bs. EncodeEvent plain_rt (\<lambda>_. []) NewBinlogEncoder (xid_sample 7) = Some bs
    \<and> length bs = 31 \<and> framed_event bs \<and> checksum_ok bs"
  using EncodeEvent_frame [OF xid_sample_payload, of plain_rt "\<lambda>_. []" NewBinlogEncoder 7] by auto

text \<open>A stream of events. Events encoded one after the other into one stream are cut apart again by a
  reader that only looks at the size fields: it finds every event, in order, with its bytes intact.\<close>

theorem event_stream:
  assumes "\<forall>bs \<in> set bss. \<exists>ev p. be_raw ev = None \<and> event_payload rt lenc enc (be_body ev) = Some p
             \<and> length p + 23 < 2 ^ 32 \<and> EncodeEvent rt lenc enc ev = Some bs"
  shows "decode_n split_event (length bss) (concat bss @ rest) = Some (bss, rest)"
proof -
  have "framed_event bs" if "bs \<in> set bss" for bs
  proof -
    from that assms obtain ev p where "be_raw ev = None" "event_payload rt lenc enc (be_body ev) = Some p"
      "length p + 23 < 2 ^ 32" and enc: "EncodeEvent rt lenc enc ev = Some bs" by blast
    then obtain bs' where "EncodeEvent rt lenc enc ev = Some bs'" "framed_event bs'"
      using frame_of_EncodeEvent by blast
    with enc show ?thesis by simp
  qed
  then have "list_all framed_event bss" by (simp add: list_all_iff)
  from event_frame.decode_n_concat [OF this, of rest] show ?thesis by simp
qed

theorem event_stream_witness:
  "\<exists>a b. EncodeEvent plain_rt (\<lambda>_. []) NewBinlogEncoder (xid_sample 1) = Some a
     \<and> EncodeEvent plain_rt (\<lambda>_. []) NewBinlogEncoder (xid_sample 2) = Some b
     \<and> decode_n split_event 2 (a @ b @ [1]) = Some ([a, b], [1])"
proof -
  obtain a b where ab: "EncodeEvent plain_rt (\<lambda>_. []) NewBinlogEncoder (xid_sample 1) = Some a"
    "EncodeEvent plain_rt (\<lambda>_. []) NewBinlogEncoder (xid_sample 2) = Some b"
    using frame_of_EncodeEvent [OF xid_sample_payload] by blast
  then have "\<forall>bs \<in> set [a, b]. \<exists>ev p. be_raw ev = None
      \<and> event_payload plain_rt (\<lambda>_. []) NewBinlogEncoder (be_body ev) = Some p \<and> length p + 23 < 2 ^ 32
      \<and> EncodeEvent plain_rt (\<lambda>_. []) NewBinlogEncoder ev = Some bs"
    using xid_sample_payload by (simp del: length_le_bytes) blast
  from event_stream [OF this, of "[1]"] ab show ?thesis by (auto simp: numeral_2_eq_2)
qed

section \<open>Table maps\<close>

text \<open>The metadata that a reader of a table map finds for a column: two bytes, one byte or none.\<close>

definition meta_width :: "byte \<Rightarrow> nat" where
  "meta_width t =
     (if t \<in> {MYSQL_TYPE_STRING, MYSQL_TYPE_NEWDECIMAL, MYSQL_TYPE_VAR_STRING, MYSQL_TYPE_VARCHAR, MYSQL_TYPE_BIT} then 2
      else if t \<in> {MYSQL_TYPE_BLOB, MYSQL_TYPE_DOUBLE, MYSQL_TYPE_FLOAT, MYSQL_TYPE_GEOMETRY, MYSQL_TYPE_JSON,
                   MYSQL_TYPE_TIME2, MYSQL_TYPE_DATETIME2, MYSQL_TYPE_TIMESTAMP2} then 1
      else 0)"

definition read_meta :: "byte \<Rightarrow> byte list \<Rightarrow> nat" where
  "read_meta t bs = (if t \<in> {MYSQL_TYPE_STRING, MYSQL_TYPE_NEWDECIMAL} then be_val bs else le_val bs)"

fun read_metas :: "byte list \<Rightarrow> byte list \<Rightarrow> (nat list \<times> byte list) option" where
  "read_metas [] bs = Some ([], bs)"
| "read_metas (t # ts) bs =
     (if length bs < meta_width t then None
      else map_option (\<lambda>(ms, r). (read_meta t (take (meta_width t) bs) # ms, r))
             (read_metas ts (drop (meta_width t) bs)))"

lemma column_meta_bytes_read:
  "length (column_meta_bytes t m) = meta_width t
   \<and> read_meta t (column_meta_bytes t m) = unat m mod 256 ^ meta_width t"
proof -
  have lt: "unat m < 65536" using unsigned_less [of m, where ?'a = nat] by simp
  have le: "[ucast m, ucast (drop_bit 8 m)] = le_bytes 2 m" and
    be: "[ucast (drop_bit 8 m), ucast m] = be_bytes 2 m" and one: "[ucast m] = le_bytes 1 m"
    by (simp_all add: numeral_2_eq_2 be_bytes_def)
  let ?be = "{MYSQL_TYPE_STRING, MYSQL_TYPE_NEWDECIMAL}"
    and ?le = "{MYSQL_TYPE_VAR_STRING, MYSQL_TYPE_VARCHAR, MYSQL_TYPE_BIT}"
    and ?one = "{MYSQL_TYPE_BLOB, MYSQL_TYPE_DOUBLE, MYSQL_TYPE_FLOAT, MYSQL_TYPE_GEOMETRY, MYSQL_TYPE_JSON,
             MYSQL_TYPE_TIME2, MYSQL_TYPE_DATETIME2, MYSQL_TYPE_TIMESTAMP2}"
  consider "t \<in> ?be" | "t \<in> ?le" | "t \<in> ?one" | "t \<notin> ?be" "t \<notin> ?le" "t \<notin> ?one"
    by argo
  then show ?thesis
  proof cases
    case 1
    then have "column_meta_bytes t m = be_bytes 2 m" "meta_width t = 2"
      unfolding column_meta_bytes_def meta_width_def be by auto
    with 1 lt show ?thesis by (simp add: read_meta_def be_val_be_bytes)
  next
    case 2
    then have "column_meta_bytes t m = le_bytes 2 m" "meta_width t = 2" "t \<notin> {MYSQL_TYPE_STRING, MYSQL_TYPE_NEWDECIMAL}"
      unfolding column_meta_bytes_def meta_width_def le
      by (elim insertE emptyE; simp add: mysql_type_defs)+
    with lt show ?thesis by (simp add: read_meta_def le_val_le_bytes)
  next
    case 3
    then have "column_meta_bytes t m = le_bytes 1 m" "meta_width t = 1" "t \<notin> {MYSQL_TYPE_STRING, MYSQL_TYPE_NEWDECIMAL}"
      unfolding column_meta_bytes_def meta_width_def one
      by (elim insertE emptyE; simp add: mysql_type_defs)+
    then show ?thesis by (simp add: read_meta_def le_val_le_bytes del: One_nat_def)
  next
    case 4
    then have "column_meta_bytes t m = []" "meta_width t = 0"
      unfolding column_meta_bytes_def meta_width_def by simp_all
    then show ?thesis by (simp add: read_meta_def be_val_def)
  qed
qed

lemma encodeColumnMeta_read:
  "length ms = length ts \<Longrightarrow> read_metas ts (encodeColumnMeta ts ms @ rest)
     = Some (map2 (\<lambda>t m. unat m mod 256 ^ meta_width t) ts ms, rest)"
proof (induction ts arbitrary: ms)
  case Nil
  then show ?case by simp
next
  case (Cons t ts)
  then obtain m ms' where ms: "ms = m # ms'" "length ms' = length ts" by (cases ms) auto
  show ?case
    using Cons.IH [OF ms(2)] column_meta_bytes_read [of t m] by (simp add: ms(1))
qed

definition read_name :: "byte list \<Rightarrow> (byte list \<times> byte list) option" where
  "read_name bs =
     Option.bind (read_uint 1 bs) (\<lambda>(n, r). if length r < n + 1 then None else Some (take n r, drop (n + 1) r))"

definition read_block :: "nat \<Rightarrow> byte list \<Rightarrow> (byte list \<times> byte list) option" where
  "read_block n bs = (if length bs < n then None else Some (take n bs, drop n bs))"

record table_map_view =
  v_table_id :: nat
  v_flags :: nat
  v_schema :: "byte list"
  v_table :: "byte list"
  v_types :: "byte list"
  v_metas :: "nat list"
  v_null_bitmap :: "byte list"

definition read_table_map :: "(byte list \<Rightarrow> (nat \<times> byte list) option) \<Rightarrow> byte list \<Rightarrow> table_map_view option" where
  "read_table_map ldec bs =
     Option.bind (read_uint 6 bs) (\<lambda>(tid, bs).
     Option.bind (read_uint 2 bs) (\<lambda>(flags, bs).
     Option.bind (read_name bs) (\<lambda>(schema, bs).
     Option.bind (read_name bs) (\<lambda>(table, bs).
     Option.bind (ldec bs) (\<lambda>(n, bs).
     Option.bind (read_block n bs) (\<lambda>(types, bs).
     Option.bind (ldec bs) (\<lambda>(m, bs).
     Option.bind (read_block m bs) (\<lambda>(meta, bs).
     Option.bind (read_metas types meta) (\<lambda>(metas, left).
     if left = [] \<and> length bs = (n + 7) div 8
     then Some \<lparr>v_table_id = tid, v_flags = flags, v_schema = schema, v_table = table, v_types = types,
                v_metas = metas, v_null_bitmap = bs\<rparr>
     else None)))))))))"

lemma read_uint_bytes [simp]: "length xs = k \<Longrightarrow> read_uint k (xs @ r) = Some (le_val xs, r)"
  by (simp add: read_uint_def)

lemma read_block_append [simp]: "length xs = n \<Longrightarrow> read_block n (xs @ r) = Some (xs, r)"
  by (simp add: read_block_def)

lemma read_name_append [simp]:
  "length xs < 256 \<Longrightarrow> read_name (of_nat (length xs) # xs @ 0 # r) = Some (xs, r)"
  by (simp add: read_name_def read_uint_def unat_of_nat_small)

lemma table_id_value: "le_val (table_id_bytes NewBinlogEncoder tid) = unat tid mod 2 ^ 48"
proof -
  have "unat (drop_bit 32 tid) = unat tid div 2 ^ 32"
    by (simp only: unat_drop_bit_eq) (simp add: drop_bit_eq_div)
  then have "le_val (table_id_bytes NewBinlogEncoder tid)
      = unat tid mod 2 ^ 32 + 2 ^ 32 * (unat tid div 2 ^ 32 mod 2 ^ 16)"
    by (simp add: table_id_bytes_def NewBinlogEncoder_def le_val_append le_bytes_u32 le_bytes_u16
        unsigned_ucast_eq take_bit_eq_mod)
  also have "\<dots> = unat tid mod (2 ^ 32 * 2 ^ 16)"
    using mod_mult2_eq [of "unat tid" "2 ^ 32" "2 ^ 16"] by linarith
  finally show ?thesis by simp
qed

lemma length_encodeColumnMeta: "length (encodeColumnMeta ts ms) \<le> 2 * length ts"
proof (induction ts arbitrary: ms)
  case (Cons t ts)
  show ?case
    using Cons [of "case ms of [] \<Rightarrow> [] | _ # ms' \<Rightarrow> ms'"]
      column_meta_bytes_read [of t "case ms of [] \<Rightarrow> 0 | m # _ \<Rightarrow> m"]
    by (simp add: meta_width_def split: if_splits)
qed simp

lemma table_map_read_back:
  assumes lenc: "\<And>n r. ldec (lenc n @ r) = Some (unat (n :: u64), r)"
    and wf: "wf_table_map e" "length (tm_column_meta e) = length (tm_column_type e)"
      "length (tm_column_type e) \<le> 4096"
    and names: "length (tm_schema e) < 256" "length (tm_table e) < 256"
  shows "read_table_map ldec (encodeTableMapEvent lenc NewBinlogEncoder e)
    = Some \<lparr>v_table_id = unat (tm_table_id e) mod 2 ^ 48, v_flags = unat (tm_flags e),
        v_schema = tm_schema e, v_table = tm_table e, v_types = tm_column_type e,
        v_metas = map2 (\<lambda>t m. unat m mod 256 ^ meta_width t) (tm_column_type e) (tm_column_meta e),
        v_null_bitmap = null_bitmap_bytes e\<rparr>"
proof -
  let ?meta = "encodeColumnMeta (tm_column_type e) (tm_column_meta e)"
  have n: "unat (tm_column_count e) = length (tm_column_type e)"
    and nb: "length (null_bitmap_bytes e) = (length (tm_column_type e) + 7) div 8"
    using wf(1) by (auto simp: wf_table_map_def null_bitmap_bytes_def)
  have m: "unat (of_nat (length ?meta) :: u64) = length ?meta"
    using length_encodeColumnMeta [of "tm_column_type e" "tm_column_meta e"] wf(3)
    by (intro unat_of_nat_small) simp
  have six: "length (table_id_bytes NewBinlogEncoder (tm_table_id e)) = 6"
    by (simp add: table_id_bytes_def NewBinlogEncoder_def)
  have "read_metas (tm_column_type e) ?meta
      = Some (map2 (\<lambda>t m. unat m mod 256 ^ meta_width t) (tm_column_type e) (tm_column_meta e), [])"
    using encodeColumnMeta_read [OF wf(2), of "[]"] by simp
  then show ?thesis
    using encodeTableMapEvent_layout [OF wf(1), of NewBinlogEncoder lenc] names six
    by (simp add: NewBinlogEncoder_def read_table_map_def lenc n m nb le_bytes_u16
        table_id_value [unfolded NewBinlogEncoder_def])
qed

text \<open>C23: Table maps are understood by the replica. A well-formed table map event (names shorter than 256
  bytes, one type and one metadata entry per column, at most 4096 columns) is encoded so that a reader
  recovers table id (its low 48 bits), flags, schema, table, the column types in order, for every column
  as much of its metadata as the type carries, and the bitmap of nullable columns. The length-encoded
  integers of the go-mysql library enter with their documented inverse \<open>ldec\<close>.\<close>

theorem table_map_roundtrip:
  assumes lenc: "\<And>n r. ldec (lenc n @ r) = Some (unat (n :: u64), r)"
    and wf: "wf_table_map e" "length (tm_column_meta e) = length (tm_column_type e)"
      "length (tm_column_type e) \<le> 4096"
    and names: "length (tm_schema e) < 256" "length (tm_table e) < 256"
  shows "read_table_map ldec (encodeTableMapEvent lenc NewBinlogEncoder e)
    = Some \<lparr>v_table_id = unat (tm_table_id e) mod 2 ^ 48, v_flags = unat (tm_flags e),
        v_schema = tm_schema e, v_table = tm_table e, v_types = tm_column_type e,
        v_metas = map2 (\<lambda>t m. unat m mod 256 ^ meta_width t) (tm_column_type e) (tm_column_meta e),
        v_null_bitmap = null_bitmap_bytes e\<rparr>"
  using table_map_read_back [OF lenc wf names] .

text \<open>MySQL's length-encoded integers, as the protocol documents them: the instance of \<open>lenc\<close> and \<open>ldec\<close>
  for the witnesses.\<close>

definition lenenc :: "u64 \<Rightarrow> byte list" where
  "lenenc n =
     (if unat n < 251 then [ucast n]
      else if unat n < 2 ^ 16 then 0xFC # le_bytes 2 n
      else if unat n < 2 ^ 24 then 0xFD # le_bytes 3 n
      else 0xFE # le_bytes 8 n)"

fun lenenc_dec :: "byte list \<Rightarrow> (nat \<times> byte list) option" where
  "lenenc_dec [] = None"
| "lenenc_dec (b # bs) =
     (if b = 0xFC then read_uint 2 bs else if b = 0xFD then read_uint 3 bs
      else if b = 0xFE then read_uint 8 bs else if unat b < 251 then Some (unat b, bs) else None)"

lemma lenenc_dec_lenenc: "lenenc_dec (lenenc n @ r) = Some (unat n, r)"
proof -
  have small: "(ucast n :: byte) \<notin> {0xFC, 0xFD, 0xFE} \<and> unat (ucast n :: byte) = unat n" if "unat n < 251"
  proof -
    have "unat (ucast n :: byte) = unat n" using that by (simp add: unat_ucast_byte)
    then show ?thesis using that by auto
  qed
  show ?thesis
    using small unsigned_less [of n, where ?'a = nat]
    by (auto simp: lenenc_def le_val_le_bytes)
qed

interpretation lenenc_codec: codec lenenc "\<lambda>bs. map_option (\<lambda>(n, r). (of_nat n, r)) (lenenc_dec bs)" "\<lambda>_. True"
  by unfold_locales (simp add: lenenc_dec_lenenc)

theorem table_map_roundtrip_witness:
  "read_table_map lenenc_dec (encodeTableMapEvent lenenc NewBinlogEncoder sample_map)
     = Some \<lparr>v_table_id = 1, v_flags = 1, v_schema = bytes_of ''db'', v_table = bytes_of ''t'',
         v_types = [MYSQL_TYPE_LONG, MYSQL_TYPE_VARCHAR, MYSQL_TYPE_BLOB], v_metas = [0, 100, 1],
         v_null_bitmap = [255]\<rparr>"
proof -
  have "wf_table_map sample_map" "length (tm_column_meta sample_map) = length (tm_column_type sample_map)"
    "length (tm_column_type sample_map) \<le> 4096" "length (tm_schema sample_map) < 256"
    "length (tm_table sample_map) < 256"
    by (simp_all add: sample_map_def wf_table_map_def)
  from table_map_roundtrip [of lenenc_dec lenenc, OF lenenc_dec_lenenc this] show ?thesis
    by (simp add: sample_map_def null_bitmap_bytes_def meta_width_def mysql_type_defs)
qed

text \<open>Column names: a codec for a single name gives the round trip of the optional metadata.\<close>

definition read_short :: "byte list \<Rightarrow> (byte list \<times> byte list) option" where
  "read_short bs = Option.bind (read_uint 1 bs) (\<lambda>(n, r). read_block n r)"

interpretation name_codec: codec "\<lambda>n. (of_nat (length n) :: byte) # n" read_short "\<lambda>n. length n < 256"
  by unfold_locales (simp add: read_short_def read_uint_def unat_of_nat_small)

lemma optional_meta_read:
  assumes "tm_column_name e \<noteq> []" and "list_all (\<lambda>n. length n < 256) (tm_column_name e)"
  shows "\<exists>d. encodeOptionalMeta lenc e = TABLE_MAP_OPT_META_COLUMN_NAME # lenc (of_nat (length d)) @ d
    \<and> decode_n read_short (length (tm_column_name e)) d = Some (tm_column_name e, [])"
  using assms name_codec.decode_n_concat [OF assms(2), of "[]"]
  by (auto simp: encodeOptionalMeta_def Let_def)

text \<open>GTID events reach the wire without their contents. \<open>EncodeEvent\<close> has no case for them and falls
  back to four zero bytes of payload, so two GTID events with the same header are encoded identically,
  whatever source id and transaction number they carry: a replica cannot recover the GTID.\<close>

theorem gtid_payload_lost:
  "EncodeEvent rt lenc enc \<lparr>be_raw = None, be_header = h, be_body = EGTID g\<rparr>
     = EncodeEvent rt lenc enc \<lparr>be_raw = None, be_header = h, be_body = EGTID g'\<rparr>
   \<and> event_payload rt lenc enc (EGTID g) = Some [0, 0, 0, 0]"
proof
  show "event_payload rt lenc enc (EGTID g) = Some [0, 0, 0, 0]"
    by (simp add: event_payload_def numeral_eq_Suc)
qed (simp add: EncodeEvent_def event_payload_def)

end
