(* ===== verification/Repl_Server.thy ===== *)
theory Repl_Server
  imports Binlog_Readers
begin

text \<open>
  The binlog replication server of \<open>pkg/replication/server.go\<close>: configuration, change events, the
  conversion of a change event into binlog events, packets with sequence numbers, the dump clients and
  the operations on them. \<open>time.Now()\<close> is an input: operations that read the clock take the readings
  (nanoseconds) in the order in which the code makes them. A client connection is a stream of written
  bytes with a fate for every write; dump clients live in a store and the \<open>clients\<close> map holds addresses,
  because a streaming goroutine keeps its client after \<open>Stop\<close> has emptied the map.
\<close>

section \<open>Configuration and change events\<close>

record server_config =
  cfg_enabled :: bool
  cfg_server_id :: u32
  cfg_pg_host :: string
  cfg_pg_port :: int
  cfg_pg_database :: string
  cfg_pg_user :: string
  cfg_pg_password :: string
  cfg_slot :: string
  cfg_publication :: string
  cfg_binlog_filename :: string
  cfg_binlog_position :: u32
  cfg_backpressure_timeout :: int
  cfg_checkpoint_file :: string
  cfg_checkpoint_interval :: int
  cfg_reconnect_enabled :: bool
  cfg_reconnect_max_retries :: int
  cfg_reconnect_initial_wait :: int
  cfg_reconnect_max_wait :: int

definition second :: int where "second = 1000000000"

definition DefaultServerConfig :: server_config where
  "DefaultServerConfig =
     \<lparr>cfg_enabled = False, cfg_server_id = 1, cfg_pg_host = ''localhost'', cfg_pg_port = 5432,
      cfg_pg_database = ''postgres'', cfg_pg_user = ''postgres'', cfg_pg_password = [],
      cfg_slot = ''aproxy_cdc'', cfg_publication = ''aproxy_pub'',
      cfg_binlog_filename = ''mysql-bin.000001'', cfg_binlog_position = 4,
      cfg_backpressure_timeout = 30 * 60 * second,
      cfg_checkpoint_file = ''./data/cdc_checkpoint.json'', cfg_checkpoint_interval = 10 * second,
      cfg_reconnect_enabled = True, cfg_reconnect_max_retries = 0,
      cfg_reconnect_initial_wait = second, cfg_reconnect_max_wait = 30 * second\<rparr>"

datatype change_type =
    ChangeTypeInsert | ChangeTypeUpdate | ChangeTypeDelete | ChangeTypeBegin | ChangeTypeCommit
  | ChangeTypeDDL | ChangeTypeTruncate | ChangeTypeUnknown byte

fun changeTypeToString :: "change_type \<Rightarrow> string" where
  "changeTypeToString ChangeTypeInsert = ''INSERT''"
| "changeTypeToString ChangeTypeUpdate = ''UPDATE''"
| "changeTypeToString ChangeTypeDelete = ''DELETE''"
| "changeTypeToString ChangeTypeBegin = ''BEGIN''"
| "changeTypeToString ChangeTypeCommit = ''COMMIT''"
| "changeTypeToString ChangeTypeDDL = ''DDL''"
| "changeTypeToString ChangeTypeTruncate = ''TRUNCATE''"
| "changeTypeToString (ChangeTypeUnknown _) = ''UNKNOWN''"

record column =
  c_name :: string
  c_type :: byte
  c_nullable :: bool
  c_unsigned :: bool

text \<open>A nil slice of values is \<open>None\<close>.\<close>

record change_event =
  ce_type :: change_type
  ce_timestamp :: gtime
  ce_database :: string
  ce_schema :: string
  ce_table :: string
  ce_table_id :: u64
  ce_columns :: "column list"
  ce_old_values :: "go_value list option"
  ce_new_values :: "go_value list option"
  ce_lsn :: u64

section \<open>Clients and server state\<close>

text \<open>
  \<open>cn_fate k\<close> is what the network does with the \<open>k\<close>-th write: \<open>None\<close> when all bytes are taken, \<open>Some n\<close>
  when the write fails after \<open>n\<close> bytes. A closed connection takes nothing.
\<close>

record conn =
  cn_open :: bool
  cn_out :: "byte list"
  cn_writes :: nat
  cn_fate :: "nat \<Rightarrow> nat option"

definition conn_write :: "byte list \<Rightarrow> conn \<Rightarrow> bool \<times> conn" where
  "conn_write p c =
     (if \<not> cn_open c then (False, c)
      else (case cn_fate c (cn_writes c) of
              None \<Rightarrow> (True, c\<lparr>cn_out := cn_out c @ p, cn_writes := Suc (cn_writes c)\<rparr>)
            | Some n \<Rightarrow> (False, c\<lparr>cn_out := cn_out c @ take n p, cn_writes := Suc (cn_writes c)\<rparr>)))"

record position =
  p_name :: string
  p_pos :: u32

record dump_client =
  dc_id :: u32
  dc_server_id :: u32
  dc_conn :: conn
  dc_position :: position
  dc_start :: int
  dc_events_sent :: u64
  dc_seq :: byte
  dc_done :: bool

record server =
  sv_config :: server_config
  sv_position :: position
  sv_server_id :: u32
  sv_uuid :: string
  sv_gtid_enabled :: bool
  sv_transaction_id :: u64
  sv_clients :: "u32 \<rightharpoonup> nat"
  sv_heap :: "nat \<rightharpoonup> dump_client"
  sv_alloc :: nat
  sv_next_client_id :: u32
  sv_cancelled :: bool
  sv_running :: bool
  sv_streamer :: bool
  sv_metrics :: bool
  sv_gauge :: int
  sv_event_counts :: "string \<Rightarrow> nat"
  sv_last_lsn :: u64

section \<open>Packets\<close>

text \<open>\<open>sendBinlogPacketToClient\<close>: length (3 bytes), sequence number, OK byte, data.\<close>

definition packet_bytes :: "byte \<Rightarrow> byte list \<Rightarrow> byte list" where
  "packet_bytes seq data =
     (let packet = replicate (4 + 1 + length data) 0;
          packet = put packet 0 (le_bytes 3 (of_nat (length data + 1) :: u32));
          packet = put packet 3 [seq];
          packet = put packet 4 [0x00]
      in put packet 5 data)"

definition sendBinlogPacketToClient :: "byte list \<Rightarrow> dump_client \<Rightarrow> bool \<times> dump_client" where
  "sendBinlogPacketToClient data client =
     (let seq = dc_seq client;
          client = client\<lparr>dc_seq := seq + 1\<rparr>;
          (ok, c) = conn_write (packet_bytes seq data) (dc_conn client)
      in (ok, client\<lparr>dc_conn := c\<rparr>))"

definition encodeBinlogEvent :: "go_rt \<Rightarrow> (u64 \<Rightarrow> byte list) \<Rightarrow> binlog_event \<Rightarrow> byte list option" where
  "encodeBinlogEvent rt lenc ev = EncodeEvent rt lenc NewBinlogEncoder ev"

definition sendBinlogEvent ::
    "go_rt \<Rightarrow> (u64 \<Rightarrow> byte list) \<Rightarrow> binlog_event \<Rightarrow> dump_client \<Rightarrow> (bool \<times> dump_client) option" where
  "sendBinlogEvent rt lenc ev client =
     (case encodeBinlogEvent rt lenc ev of
        None \<Rightarrow> None
      | Some data \<Rightarrow> Some (sendBinlogPacketToClient data client))"

section \<open>Server UUID\<close>

definition hex_char :: "nat \<Rightarrow> char" where
  "hex_char d = char_of (if d < 10 then 48 + d else 87 + d)"

fun hex_digits :: "nat \<Rightarrow> string" where
  "hex_digits n = (if n < 16 then [hex_char n] else hex_digits (n div 16) @ [hex_char (n mod 16)])"

declare hex_digits.simps [simp del]

definition hex_pad :: "nat \<Rightarrow> u64 \<Rightarrow> string" where
  "hex_pad w n = pad_zeros w (hex_digits (unat n))"

text \<open>\<open>generateUUID\<close> reads the clock (\<open>UnixNano\<close>, an int64) five times.\<close>

definition generateUUID :: "(nat \<Rightarrow> u64) \<Rightarrow> string" where
  "generateUUID now =
     hex_pad 8 (now 0 AND 0xFFFFFFFF) @ ''-''
     @ hex_pad 4 (signed_drop_bit 32 (now 1) AND 0xFFFF) @ ''-''
     @ hex_pad 4 (0x4000 OR (signed_drop_bit 48 (now 2) AND 0x0FFF)) @ ''-''
     @ hex_pad 4 (0x8000 OR (signed_drop_bit 60 (now 3) AND 0x3FFF)) @ ''-''
     @ hex_pad 12 (now 4 AND 0xFFFFFFFFFFFF)"

definition hex_val :: "char \<Rightarrow> nat option" where
  "hex_val c =
     (let n = char_code c
      in if 48 \<le> n \<and> n \<le> 57 then Some (n - 48)
         else if 97 \<le> n \<and> n \<le> 102 then Some (n - 87)
         else if 65 \<le> n \<and> n \<le> 70 then Some (n - 55) else None)"

text \<open>\<open>fmt.Sscanf(s, "%02x", &b)\<close> on two characters: blanks are skipped, then the leading hexadecimal
  digits are read; without one the destination keeps its zero.\<close>

fun hex_prefix :: "nat \<Rightarrow> string \<Rightarrow> nat" where
  "hex_prefix acc [] = acc"
| "hex_prefix acc (c # cs) = (case hex_val c of None \<Rightarrow> acc | Some d \<Rightarrow> hex_prefix (acc * 16 + d) cs)"

definition scan_hex2 :: "string \<Rightarrow> byte" where
  "scan_hex2 s = (case skip_space s of None \<Rightarrow> 0 | Some r \<Rightarrow> of_nat (hex_prefix 0 r))"

fun uuid_bytes :: "nat \<Rightarrow> string \<Rightarrow> byte list" where
  "uuid_bytes 0 s = []"
| "uuid_bytes (Suc n) (a # b # s) = scan_hex2 [a, b] # uuid_bytes n s"
| "uuid_bytes (Suc n) s = replicate (Suc n) 0"

definition uuidStringToBytes :: "string \<Rightarrow> byte list" where
  "uuidStringToBytes uuid = uuid_bytes 16 (filter (\<lambda>c. c \<noteq> CHR ''-'') uuid)"

section \<open>Conversion of change events\<close>

definition unix_u32 :: "int \<Rightarrow> u32" where
  "unix_u32 ns = of_int (ns div second)"

definition mk_event :: "server \<Rightarrow> int \<Rightarrow> byte \<Rightarrow> event_body \<Rightarrow> binlog_event" where
  "mk_event s now ty body =
     \<lparr>be_raw = None,
      be_header = \<lparr>h_timestamp = unix_u32 now, h_event_type = ty, h_server_id = sv_server_id s,
                   h_log_pos = p_pos (sv_position s), h_flags = 0\<rparr>,
      be_body = body\<rparr>"

definition createQueryEvent :: "server \<Rightarrow> int \<Rightarrow> string \<Rightarrow> binlog_event" where
  "createQueryEvent s now query =
     mk_event s now QUERY_EVENT
       (EQuery \<lparr>q_slave_proxy_id = 0, q_execution_time = 0, q_error_code = 0, q_status_vars = [],
                q_schema = [], q_query = bytes_of query\<rparr>)"

definition createXIDEvent :: "server \<Rightarrow> int \<Rightarrow> int \<Rightarrow> binlog_event" where
  "createXIDEvent s now now' = mk_event s now XID_EVENT (EXID (of_int now'))"

definition createGTIDEvent :: "server \<Rightarrow> int \<Rightarrow> binlog_event" where
  "createGTIDEvent s now =
     mk_event s now GTID_EVENT
       (EGTID \<lparr>g_commit_flag = 1, g_sid = uuidStringToBytes (sv_uuid s), g_gno = sv_transaction_id s,
               g_last_committed = sv_transaction_id s - 1, g_sequence_number = sv_transaction_id s\<rparr>)"

definition getColumnMeta :: "byte \<Rightarrow> u16" where
  "getColumnMeta t =
     (if t = MYSQL_TYPE_VARCHAR \<or> t = MYSQL_TYPE_VAR_STRING then 65535
      else if t = MYSQL_TYPE_STRING then 255
      else if t = MYSQL_TYPE_BLOB then 2
      else if t = MYSQL_TYPE_JSON then 4
      else if t = MYSQL_TYPE_NEWDECIMAL then push_bit 8 10 OR 2
      else if t = MYSQL_TYPE_DATETIME2 \<or> t = MYSQL_TYPE_TIMESTAMP2 \<or> t = MYSQL_TYPE_TIME2 then 0
      else if t = MYSQL_TYPE_FLOAT then 4
      else if t = MYSQL_TYPE_DOUBLE then 8
      else 0)"

fun nullable_bits :: "nat \<Rightarrow> column list \<Rightarrow> byte list \<Rightarrow> byte list" where
  "nullable_bits i [] bm = bm"
| "nullable_bits i (c # cs) bm =
     nullable_bits (Suc i) cs
       (if c_nullable c then bm[i div 8 := bm ! (i div 8) OR push_bit (i mod 8) 1] else bm)"

definition createTableMapEvent :: "server \<Rightarrow> int \<Rightarrow> change_event \<Rightarrow> binlog_event" where
  "createTableMapEvent s now e =
     mk_event s now TABLE_MAP_EVENT
       (ETableMap \<lparr>tm_table_id = ce_table_id e, tm_flags = 0, tm_schema = bytes_of (ce_schema e),
          tm_table = bytes_of (ce_table e), tm_column_count = of_nat (length (ce_columns e)),
          tm_column_type = map c_type (ce_columns e),
          tm_column_meta = map (getColumnMeta \<circ> c_type) (ce_columns e),
          tm_null_bitmap = nullable_bits 0 (ce_columns e) (replicate ((length (ce_columns e) + 7) div 8) 0),
          tm_column_name = map (bytes_of \<circ> c_name) (ce_columns e)\<rparr>)"

definition slice :: "'a list option \<Rightarrow> 'a list" where
  "slice o_vals = (case o_vals of None \<Rightarrow> [] | Some vs \<Rightarrow> vs)"

definition old_or_new :: "change_event \<Rightarrow> go_value list" where
  "old_or_new e = slice (if ce_old_values e = None then ce_new_values e else ce_old_values e)"

definition rows_of :: "change_event \<Rightarrow> go_value list list" where
  "rows_of e =
     (if ce_type e = ChangeTypeUpdate then [old_or_new e, slice (ce_new_values e)]
      else if ce_type e = ChangeTypeInsert then [slice (ce_new_values e)]
      else [old_or_new e])"

definition rows_table_map :: "change_event \<Rightarrow> table_map_event" where
  "rows_table_map e =
     \<lparr>tm_table_id = ce_table_id e, tm_flags = 0, tm_schema = bytes_of (ce_schema e),
      tm_table = bytes_of (ce_table e), tm_column_count = of_nat (length (ce_columns e)),
      tm_column_type = map c_type (ce_columns e),
      tm_column_meta = map (getColumnMeta \<circ> c_type) (ce_columns e),
      tm_null_bitmap = [], tm_column_name = []\<rparr>"

definition createRowsEvent :: "server \<Rightarrow> int \<Rightarrow> change_event \<Rightarrow> binlog_event" where
  "createRowsEvent s now e =
     (let eventType = (case ce_type e of
                         ChangeTypeInsert \<Rightarrow> WRITE_ROWS_EVENTv2
                       | ChangeTypeUpdate \<Rightarrow> UPDATE_ROWS_EVENTv2
                       | ChangeTypeDelete \<Rightarrow> DELETE_ROWS_EVENTv2
                       | _ \<Rightarrow> 0);
          needBitmap2 = (ce_type e = ChangeTypeUpdate);
          columnBitmap = replicate ((length (ce_columns e) + 7) div 8) 0xFF
      in mk_event s now eventType
           (ERows \<lparr>re_version = 2, re_table_id = ce_table_id e, re_flags = 1,
              re_column_count = of_nat (length (ce_columns e)), re_bitmap1 = columnBitmap,
              re_bitmap2 = (if needBitmap2 then columnBitmap else []),
              re_rows = rows_of e, re_table = Some (rows_table_map e)\<rparr>))"

definition begin_transaction :: "server \<Rightarrow> server" where
  "begin_transaction s = s\<lparr>sv_transaction_id := sv_transaction_id s + 1\<rparr>"

definition with_gtid :: "server \<Rightarrow> (nat \<Rightarrow> int) \<Rightarrow> string \<Rightarrow> binlog_event list" where
  "with_gtid s now query =
     (if sv_gtid_enabled s then [createGTIDEvent s (now 0), createQueryEvent s (now 1) query]
      else [createQueryEvent s (now 0) query])"

definition convertToMySQLEvents ::
    "(nat \<Rightarrow> int) \<Rightarrow> change_event \<Rightarrow> server \<Rightarrow> binlog_event list \<times> server" where
  "convertToMySQLEvents now e s =
     (case ce_type e of
        ChangeTypeBegin \<Rightarrow> (let s = begin_transaction s in (with_gtid s now ''BEGIN'', s))
      | ChangeTypeCommit \<Rightarrow> ([createXIDEvent s (now 0) (now 1)], s)
      | ChangeTypeInsert \<Rightarrow> ([createTableMapEvent s (now 0) e, createRowsEvent s (now 1) e], s)
      | ChangeTypeUpdate \<Rightarrow> ([createTableMapEvent s (now 0) e, createRowsEvent s (now 1) e], s)
      | ChangeTypeDelete \<Rightarrow> ([createTableMapEvent s (now 0) e, createRowsEvent s (now 1) e], s)
      | ChangeTypeDDL \<Rightarrow> (let s = begin_transaction s in (with_gtid s now ''-- DDL event'', s))
      | ChangeTypeTruncate \<Rightarrow>
          (let s = begin_transaction s
           in (with_gtid s now (''TRUNCATE TABLE `'' @ ce_schema e @ ''`.`'' @ ce_table e @ ''`''), s))
      | ChangeTypeUnknown _ \<Rightarrow> ([], s))"

section \<open>Events built by hand\<close>

definition post_header_lengths :: "byte list" where
  "post_header_lengths =
     [0, 13, 0, 8, 0, 0, 0, 0, 0, 0, 0, 0, 0, 0, 0, 0, 8, 0, 0, 8,
      0, 0, 0, 10, 10, 10, 0, 0, 0, 0, 10, 10, 10, 0, 0, 0, 0, 0, 0, 0]"

definition raw_header :: "u32 \<Rightarrow> byte \<Rightarrow> u32 \<Rightarrow> u32 \<Rightarrow> u32 \<Rightarrow> byte list \<Rightarrow> byte list" where
  "raw_header ts ty sid eventSize logPos event =
     (let event = put event 0 (le_bytes 4 ts);
          event = put event 4 [ty];
          event = put event 5 (le_bytes 4 sid);
          event = put event 9 (le_bytes 4 eventSize);
          event = put event 13 (le_bytes 4 logPos)
      in put event 17 (le_bytes 2 (0 :: u16)))"

definition format_description_event :: "u32 \<Rightarrow> u32 \<Rightarrow> byte list" where
  "format_description_event serverID ts =
     (let versionBytes = put (replicate 50 0) 0 (bytes_of ''8.0.11-aproxy'');
          payload = [4, 0] @ versionBytes @ le_bytes 4 ts @ [19] @ post_header_lengths @ [1];
          eventSize = (of_nat (19 + length payload + 4) :: u32);
          nextPos = 4 + eventSize;
          event = replicate (unat eventSize) 0;
          event = raw_header ts FORMAT_DESCRIPTION_EVENT serverID eventSize nextPos event
      in put event 19 payload)"

definition sendFormatDescriptionEvent :: "server \<Rightarrow> int \<Rightarrow> dump_client \<Rightarrow> bool \<times> dump_client" where
  "sendFormatDescriptionEvent s now client =
     sendBinlogPacketToClient (format_description_event (sv_server_id s) (unix_u32 now)) client"

definition heartbeat_event :: "u32 \<Rightarrow> u32 \<Rightarrow> u32 \<Rightarrow> byte list" where
  "heartbeat_event serverID pos ts =
     raw_header ts HEARTBEAT_EVENT serverID (19 + 4) pos (replicate (unat (19 + 4 :: u32)) 0)"

definition sendHeartbeat :: "server \<Rightarrow> int \<Rightarrow> dump_client \<Rightarrow> bool \<times> dump_client" where
  "sendHeartbeat s now client =
     sendBinlogPacketToClient
       (heartbeat_event (sv_server_id s) (p_pos (sv_position s)) (unix_u32 now)) client"

section \<open>Lifecycle\<close>

text \<open>\<open>NewServer\<close> returns no server when replication is disabled.\<close>

definition NewServer :: "server_config option \<Rightarrow> bool \<Rightarrow> (nat \<Rightarrow> u64) \<Rightarrow> server option" where
  "NewServer config metrics now =
     (let config = (case config of None \<Rightarrow> DefaultServerConfig | Some c \<Rightarrow> c)
      in if \<not> cfg_enabled config then None
         else Some \<lparr>sv_config = config,
                sv_position = \<lparr>p_name = cfg_binlog_filename config, p_pos = cfg_binlog_position config\<rparr>,
                sv_server_id = cfg_server_id config, sv_uuid = generateUUID now, sv_gtid_enabled = True,
                sv_transaction_id = 0, sv_clients = Map.empty, sv_heap = Map.empty, sv_alloc = 0,
                sv_next_client_id = 0, sv_cancelled = False, sv_running = False, sv_streamer = False,
                sv_metrics = metrics, sv_gauge = 0, sv_event_counts = (\<lambda>_. 0), sv_last_lsn = 0\<rparr>)"

datatype server_error =
    AlreadyRunning | StreamerFailed | NotInitialized | FormatDescriptionFailed

text \<open>\<open>Start\<close>; whether \<open>NewPGStreamer\<close> succeeds is an input.\<close>

definition Start :: "bool \<Rightarrow> server option \<Rightarrow> (server_error + unit) \<times> server option" where
  "Start streamer_ok so =
     (case so of
        None \<Rightarrow> (Inr (), None)
      | Some s \<Rightarrow>
          if \<not> cfg_enabled (sv_config s) then (Inr (), Some s)
          else if sv_running s then (Inl AlreadyRunning, Some s)
          else if \<not> streamer_ok then (Inl StreamerFailed, Some (s\<lparr>sv_running := False\<rparr>))
          else (Inr (), Some (s\<lparr>sv_running := True, sv_streamer := True\<rparr>)))"

definition close_conn :: "dump_client \<Rightarrow> dump_client" where
  "close_conn c = c\<lparr>dc_conn := (dc_conn c)\<lparr>cn_open := False\<rparr>\<rparr>"

definition Stop :: "server option \<Rightarrow> server option" where
  "Stop so =
     (case so of
        None \<Rightarrow> None
      | Some s \<Rightarrow>
          if \<not> sv_running s then Some s
          else Some (s\<lparr>sv_cancelled := True, sv_streamer := False,
                 sv_heap := (\<lambda>a. if a \<in> ran (sv_clients s) then map_option close_conn (sv_heap s a)
                                 else sv_heap s a),
                 sv_clients := Map.empty, sv_running := False\<rparr>))"

section \<open>Dump clients\<close>

definition upd_client :: "nat \<Rightarrow> (dump_client \<Rightarrow> dump_client) \<Rightarrow> server \<Rightarrow> server" where
  "upd_client a f s = s\<lparr>sv_heap := (sv_heap s)(a := map_option f (sv_heap s a))\<rparr>"

definition removeDumpClient :: "u32 \<Rightarrow> server \<Rightarrow> server" where
  "removeDumpClient clientID s =
     (case sv_clients s clientID of
        None \<Rightarrow> s
      | Some a \<Rightarrow>
          (upd_client a close_conn s)
            \<lparr>sv_clients := (sv_clients s)(clientID := None),
             sv_gauge := (if sv_metrics s then sv_gauge s - 1 else sv_gauge s)\<rparr>)"

text \<open>
  \<open>HandleBinlogDump\<close> registers the client and sends the format description; then it blocks on the
  streaming goroutine, which is the result \<open>Inr a\<close> with the address of the client.
\<close>

definition HandleBinlogDump ::
    "conn \<Rightarrow> u32 \<Rightarrow> position \<Rightarrow> (nat \<Rightarrow> int) \<Rightarrow> server option \<Rightarrow> (server_error + nat) \<times> server option" where
  "HandleBinlogDump c serverID pos now so =
     (case so of
        None \<Rightarrow> (Inl NotInitialized, None)
      | Some s \<Rightarrow>
          (let clientID = sv_next_client_id s + 1;
               a = sv_alloc s;
               client = \<lparr>dc_id = clientID, dc_server_id = serverID, dc_conn = c, dc_position = pos,
                         dc_start = now 0, dc_events_sent = 0, dc_seq = 1, dc_done = False\<rparr>;
               s = s\<lparr>sv_next_client_id := clientID, sv_alloc := Suc a,
                     sv_clients := (sv_clients s)(clientID \<mapsto> a),
                     sv_gauge := (if sv_metrics s then sv_gauge s + 1 else sv_gauge s)\<rparr>;
               (ok, client') = sendFormatDescriptionEvent s (now 1) client;
               s = s\<lparr>sv_heap := (sv_heap s)(a \<mapsto> client')\<rparr>
           in if \<not> ok then (Inl FormatDescriptionFailed, Some (removeDumpClient clientID s))
              else (Inr a, Some s)))"

text \<open>
  The streaming goroutine of the client at address \<open>a\<close>: a tick sends a heartbeat and ends the
  goroutine when that fails; a cancelled context ends it.
\<close>

definition end_stream :: "nat \<Rightarrow> dump_client \<Rightarrow> server \<Rightarrow> server" where
  "end_stream a client s = upd_client a (\<lambda>c. c\<lparr>dc_done := True\<rparr>) (removeDumpClient (dc_id client) s)"

definition stream_tick :: "nat \<Rightarrow> int \<Rightarrow> server \<Rightarrow> server" where
  "stream_tick a now s =
     (case sv_heap s a of
        None \<Rightarrow> s
      | Some client \<Rightarrow>
          if dc_done client then s
          else (let (ok, client') = sendHeartbeat s now client;
                    s = s\<lparr>sv_heap := (sv_heap s)(a \<mapsto> client')\<rparr>
                in if ok then s else end_stream a client' s))"

definition stream_cancel :: "nat \<Rightarrow> server \<Rightarrow> server" where
  "stream_cancel a s =
     (case sv_heap s a of
        None \<Rightarrow> s
      | Some client \<Rightarrow> if dc_done client \<or> \<not> sv_cancelled s then s else end_stream a client s)"

definition GetPosition :: "server \<Rightarrow> position" where
  "GetPosition s = sv_position s"

definition GetClientCount :: "server \<Rightarrow> nat" where
  "GetClientCount s = card (dom (sv_clients s))"

section \<open>Broadcast\<close>

fun send_events ::
    "go_rt \<Rightarrow> (u64 \<Rightarrow> byte list) \<Rightarrow> binlog_event list \<Rightarrow> dump_client \<Rightarrow> dump_client option" where
  "send_events rt lenc [] client = Some client"
| "send_events rt lenc (ev # evs) client =
     (case sendBinlogEvent rt lenc ev client of
        None \<Rightarrow> None
      | Some (ok, client') \<Rightarrow>
          send_events rt lenc evs
            (if ok then client'\<lparr>dc_events_sent := dc_events_sent client' + 1\<rparr> else client'))"

text \<open>The loop \<open>for _, client := range s.clients\<close>; \<open>order\<close> is the iteration order of the map.\<close>

fun broadcast ::
    "go_rt \<Rightarrow> (u64 \<Rightarrow> byte list) \<Rightarrow> binlog_event list \<Rightarrow> u32 list \<Rightarrow> server \<Rightarrow> server option" where
  "broadcast rt lenc evs [] s = Some s"
| "broadcast rt lenc evs (k # order) s =
     (case Option.bind (sv_clients s k) (\<lambda>a. map_option (\<lambda>c. (a, c)) (sv_heap s a)) of
        None \<Rightarrow> broadcast rt lenc evs order s
      | Some (a, c) \<Rightarrow>
          (case send_events rt lenc evs c of
             None \<Rightarrow> None
           | Some c' \<Rightarrow> broadcast rt lenc evs order (s\<lparr>sv_heap := (sv_heap s)(a \<mapsto> c')\<rparr>)))"

definition count_event :: "change_event \<Rightarrow> server \<Rightarrow> server" where
  "count_event e s =
     (if sv_metrics s
      then s\<lparr>sv_event_counts := (sv_event_counts s)
               (changeTypeToString (ce_type e) := Suc (sv_event_counts s (changeTypeToString (ce_type e)))),
             sv_last_lsn := ce_lsn e\<rparr>
      else s)"

definition processChangeEvent ::
    "go_rt \<Rightarrow> (u64 \<Rightarrow> byte list) \<Rightarrow> u32 list \<Rightarrow> (nat \<Rightarrow> int) \<Rightarrow> change_event \<Rightarrow> server \<Rightarrow> server option" where
  "processChangeEvent rt lenc order now e s =
     (let (evs, s) = convertToMySQLEvents now e (count_event e s)
      in map_option (\<lambda>s. s\<lparr>sv_position := (sv_position s)
                             \<lparr>p_pos := p_pos (sv_position s) + of_nat (length evs * 100)\<rparr>\<rparr>)
           (broadcast rt lenc evs order s))"

end
