(* ===== verification/Repl_Broadcast.thy ===== *)
theory Repl_Broadcast
  imports Repl_Server
begin

text \<open>
  Properties of the replication server: packets and their sequence numbers, the broadcast to all dump
  clients, the invariant of the client table, transaction numbering, and the two events of a row
  change read together.
\<close>

section \<open>Packets\<close>

lemma packet_bytes_layout:
  "packet_bytes seq data = le_bytes 3 (of_nat (length data + 1) :: u32) @ [seq, 0] @ data"
  unfolding packet_bytes_def Let_def
  by (simp add: put_fills del: append_assoc append.simps replicate_Suc)

definition read_packet :: "byte list \<Rightarrow> ((byte \<times> byte list) \<times> byte list) option" where
  "read_packet bs =
     (if length bs < 5 then None
      else let n = le_val (take 3 bs)
           in if n = 0 \<or> length bs < 4 + n \<or> bs ! 4 \<noteq> 0 then None
              else Some ((bs ! 3, take (n - 1) (drop 5 bs)), drop (4 + n) bs))"

lemma read_packet_bytes:
  assumes "length data + 1 < 2 ^ 24"
  shows "read_packet (packet_bytes seq data @ rest) = Some ((seq, data), rest)"
proof -
  have "le_val (le_bytes 3 (of_nat (length data + 1) :: u32)) = length data + 1"
    using assms by (simp add: le_val_le_bytes unat_of_nat_small del: of_nat_add of_nat_Suc)
  then show ?thesis
    by (simp add: read_packet_def packet_bytes_layout nth_append numeral_eq_Suc [of num.One]
        del: of_nat_add of_nat_Suc)
qed

interpretation packets: codec "\<lambda>(seq, data). packet_bytes seq data" read_packet "\<lambda>(seq, data). length data + 1 < 2 ^ 24"
  by unfold_locales (auto simp: read_packet_bytes)

definition healthy :: "dump_client \<Rightarrow> bool" where
  "healthy c \<longleftrightarrow> cn_open (dc_conn c) \<and> (\<forall>k. cn_fate (dc_conn c) k = None)"

lemma send_packet_healthy:
  assumes "healthy c"
  shows "\<exists>c'. sendBinlogPacketToClient data c = (True, c') \<and> healthy c' \<and> dc_seq c' = dc_seq c + 1
     \<and> cn_out (dc_conn c') = cn_out (dc_conn c) @ packet_bytes (dc_seq c) data
     \<and> dc_events_sent c' = dc_events_sent c"
  using assms by (auto simp: sendBinlogPacketToClient_def conn_write_def healthy_def Let_def)

primrec numbered :: "byte \<Rightarrow> 'a list \<Rightarrow> (byte \<times> 'a) list" where
  "numbered seq [] = []"
| "numbered seq (x # xs) = (seq, x) # numbered (seq + 1) xs"

lemma send_events_healthy:
  assumes "healthy c" and "map (encodeBinlogEvent rt lenc) evs = map Some datas"
  shows "\<exists>c'. send_events rt lenc evs c = Some c' \<and> healthy c'
     \<and> dc_seq c' = dc_seq c + of_nat (length datas)
     \<and> cn_out (dc_conn c') = cn_out (dc_conn c)
         @ concat (map (\<lambda>(seq, data). packet_bytes seq data) (numbered (dc_seq c) datas))
     \<and> dc_events_sent c' = dc_events_sent c + of_nat (length datas)"
  using assms
proof (induction evs arbitrary: c datas)
  case Nil
  then show ?case by auto
next
  case (Cons ev evs)
  then obtain d ds where d: "datas = d # ds" "encodeBinlogEvent rt lenc ev = Some d"
    "map (encodeBinlogEvent rt lenc) evs = map Some ds"
    by (cases datas) auto
  from send_packet_healthy [OF Cons.prems(1), of d] obtain c1 where
      c1: "sendBinlogPacketToClient d c = (True, c1)" "healthy c1" "dc_seq c1 = dc_seq c + 1"
        "cn_out (dc_conn c1) = cn_out (dc_conn c) @ packet_bytes (dc_seq c) d"
        "dc_events_sent c1 = dc_events_sent c"
    by blast
  let ?c = "c1\<lparr>dc_events_sent := dc_events_sent c1 + 1\<rparr>"
  have "healthy ?c" using c1(2) by (simp add: healthy_def)
  from Cons.IH [OF this d(3)] show ?case
    using c1 d by (auto simp: sendBinlogEvent_def algebra_simps)
qed

text \<open>C11: What a dump client receives. Over a working connection, sending a list of binlog events appends to the
  client's stream one packet per event; a reader of the MySQL packet protocol finds exactly the encoded
  events, in order, with sequence numbers that continue from the client's counter (modulo 256), and the
  client's counters advance by the number of events. Each event must be shorter than the 16 MB packet
  limit, because the server never splits a packet.\<close>

theorem client_receives_events:
  assumes "healthy c" and "map (encodeBinlogEvent rt lenc) evs = map Some datas"
    and "\<forall>d \<in> set datas. length d + 1 < 2 ^ 24"
  shows "\<exists>c' new. send_events rt lenc evs c = Some c'
     \<and> cn_out (dc_conn c') = cn_out (dc_conn c) @ new
     \<and> decode_n read_packet (length datas) new = Some (numbered (dc_seq c) datas, [])
     \<and> dc_seq c' = dc_seq c + of_nat (length datas)
     \<and> dc_events_sent c' = dc_events_sent c + of_nat (length datas)"
proof -
  have ok: "list_all (\<lambda>(seq, data). length data + 1 < 2 ^ 24) (numbered seq datas)" for seq
    using assms(3) by (induction datas arbitrary: seq) auto
  have len: "length (numbered seq datas) = length datas" for seq
    by (induction datas arbitrary: seq) auto
  from packets.decode_n_concat [OF ok, of "dc_seq c" "[]"]
  have "decode_n read_packet (length datas)
      (concat (map (\<lambda>(seq, data). packet_bytes seq data) (numbered (dc_seq c) datas)))
      = Some (numbered (dc_seq c) datas, [])"
    by (simp add: len)
  then show ?thesis
    using send_events_healthy [OF assms(1,2)] by blast
qed

definition fresh_client :: dump_client where
  "fresh_client = \<lparr>dc_id = 1, dc_server_id = 9, dc_conn = \<lparr>cn_open = True, cn_out = [], cn_writes = 0,
      cn_fate = (\<lambda>_. None)\<rparr>, dc_position = \<lparr>p_name = [], p_pos = 4\<rparr>, dc_start = 0, dc_events_sent = 0,
      dc_seq = 255, dc_done = False\<rparr>"

theorem client_receives_events_witness:
  "\<exists>c' new a b. send_events plain_rt (\<lambda>_. []) [xid_sample 1, xid_sample 2] fresh_client = Some c'
     \<and> cn_out (dc_conn c') = new \<and> decode_n read_packet 2 new = Some ([(255, a), (0, b)], [])
     \<and> dc_seq c' = 1"
proof -
  obtain a where a: "encodeBinlogEvent plain_rt (\<lambda>_. []) (xid_sample 1) = Some a" "length a = 31"
    using frame_of_EncodeEvent [OF xid_sample_payload, of plain_rt "\<lambda>_. []" NewBinlogEncoder 1]
    by (auto simp: encodeBinlogEvent_def)
  obtain b where b: "encodeBinlogEvent plain_rt (\<lambda>_. []) (xid_sample 2) = Some b" "length b = 31"
    using frame_of_EncodeEvent [OF xid_sample_payload, of plain_rt "\<lambda>_. []" NewBinlogEncoder 2]
    by (auto simp: encodeBinlogEvent_def)
  have "map (encodeBinlogEvent plain_rt (\<lambda>_. [])) [xid_sample 1, xid_sample 2] = map Some [a, b]"
    using a b by simp
  moreover have "healthy fresh_client" by (simp add: healthy_def fresh_client_def)
  moreover have "\<forall>d \<in> set [a, b]. length d + 1 < 2 ^ 24" using a b by simp
  ultimately have "\<exists>c' new. send_events plain_rt (\<lambda>_. []) [xid_sample 1, xid_sample 2] fresh_client = Some c'
     \<and> cn_out (dc_conn c') = cn_out (dc_conn fresh_client) @ new
     \<and> decode_n read_packet (length [a, b]) new = Some (numbered (dc_seq fresh_client) [a, b], [])
     \<and> dc_seq c' = dc_seq fresh_client + of_nat (length [a, b])"
    using client_receives_events by blast
  moreover have "numbered (dc_seq fresh_client) [a, b] = [(255, a), (0, b)]"
    "dc_seq fresh_client + of_nat (length [a, b]) = 1" "cn_out (dc_conn fresh_client) = []"
    "length [a, b] = 2"
    by (simp_all add: fresh_client_def)
  ultimately show ?thesis by (metis append_Nil)
qed

section \<open>The broadcast\<close>

definition client_at :: "server \<Rightarrow> u32 \<Rightarrow> dump_client option" where
  "client_at s k = Option.bind (sv_clients s k) (sv_heap s)"

definition server_wf :: "server \<Rightarrow> bool" where
  "server_wf s \<longleftrightarrow> inj_on (sv_clients s) (dom (sv_clients s))
     \<and> (\<forall>k a. sv_clients s k = Some a \<longrightarrow> a < sv_alloc s \<and> (\<exists>c. sv_heap s a = Some c \<and> dc_id c = k))
     \<and> (\<forall>a. sv_alloc s \<le> a \<longrightarrow> sv_heap s a = None)
     \<and> finite (dom (sv_clients s))"

lemma server_wf_inj:
  "server_wf s \<Longrightarrow> sv_clients s k = Some a \<Longrightarrow> sv_clients s j = Some a \<Longrightarrow> j = k"
  unfolding server_wf_def by (metis domI inj_onD)

lemma client_at_upd:
  assumes "server_wf s" and "sv_clients s k = Some a"
  shows "client_at (s\<lparr>sv_heap := (sv_heap s)(a \<mapsto> c)\<rparr>) j = (if j = k then Some c else client_at s j)"
proof (cases "sv_clients s j")
  case None
  then show ?thesis using assms(2) by (auto simp: client_at_def)
next
  case (Some b)
  then have "b = a \<longleftrightarrow> j = k" by (metis assms server_wf_inj option.inject)
  then show ?thesis using Some by (simp add: client_at_def)
qed

lemma send_packet_id: "sendBinlogPacketToClient d c = (ok, c') \<Longrightarrow> dc_id c' = dc_id c"
  by (auto simp: sendBinlogPacketToClient_def Let_def split: prod.splits)

lemma send_events_id: "send_events rt lenc evs c = Some c' \<Longrightarrow> dc_id c' = dc_id c"
  by (induction evs arbitrary: c)
     (auto simp: sendBinlogEvent_def split: option.splits prod.splits if_splits dest: send_packet_id)

lemma server_wf_upd:
  assumes "server_wf s" and "sv_clients s k = Some a" and "dc_id c = k"
  shows "server_wf (s\<lparr>sv_heap := (sv_heap s)(a \<mapsto> c)\<rparr>)"
proof -
  have "\<exists>c'. ((sv_heap s)(a \<mapsto> c)) a' = Some c' \<and> dc_id c' = k'" if "sv_clients s k' = Some a'" for k' a'
    using that assms server_wf_inj [OF assms(1,2), of k'] by (cases "a' = a") (simp_all add: server_wf_def)
  then show ?thesis
    using assms by (simp add: server_wf_def) (metis not_less)
qed

lemma broadcast_spec:
  assumes "server_wf s" and "distinct order" and "set order \<subseteq> dom (sv_clients s)"
    and "\<forall>k \<in> set order. \<exists>c'. Option.bind (client_at s k) (send_events rt lenc evs) = Some c'"
  shows "\<exists>s'. broadcast rt lenc evs order s = Some s' \<and> server_wf s'
     \<and> s'\<lparr>sv_heap := sv_heap s\<rparr> = s
     \<and> (\<forall>k. client_at s' k = (if k \<in> set order then Option.bind (client_at s k) (send_events rt lenc evs)
                              else client_at s k))
     \<and> (\<forall>a. a \<notin> ran (sv_clients s) \<longrightarrow> sv_heap s' a = sv_heap s a)"
  using assms
proof (induction order arbitrary: s)
  case Nil
  then show ?case by simp
next
  case (Cons k order)
  obtain a where a: "sv_clients s k = Some a" using Cons.prems(3) by auto
  then obtain c where c: "sv_heap s a = Some c" "dc_id c = k"
    using Cons.prems(1) by (auto simp: server_wf_def)
  obtain c' where c': "send_events rt lenc evs c = Some c'"
    using Cons.prems(4) a c by (auto simp: client_at_def)
  let ?s = "s\<lparr>sv_heap := (sv_heap s)(a \<mapsto> c')\<rparr>"
  have wf: "server_wf ?s"
    using server_wf_upd [OF Cons.prems(1) a] send_events_id [OF c'] c(2) by simp
  have at: "client_at ?s j = (if j = k then Some c' else client_at s j)" for j
    by (rule client_at_upd [OF Cons.prems(1) a])
  have "\<exists>s'. broadcast rt lenc evs order ?s = Some s' \<and> server_wf s' \<and> s'\<lparr>sv_heap := sv_heap ?s\<rparr> = ?s
     \<and> (\<forall>j. client_at s' j = (if j \<in> set order then Option.bind (client_at ?s j) (send_events rt lenc evs)
                              else client_at ?s j))
     \<and> (\<forall>a. a \<notin> ran (sv_clients ?s) \<longrightarrow> sv_heap s' a = sv_heap ?s a)"
    using Cons.prems wf at by (intro Cons.IH) auto
  then obtain s' where s': "broadcast rt lenc evs order ?s = Some s'" "server_wf s'"
      "s'\<lparr>sv_heap := sv_heap ?s\<rparr> = ?s"
      "\<forall>j. client_at s' j = (if j \<in> set order then Option.bind (client_at ?s j) (send_events rt lenc evs)
                              else client_at ?s j)"
      "\<forall>a. a \<notin> ran (sv_clients ?s) \<longrightarrow> sv_heap s' a = sv_heap ?s a"
    by blast
  have "s'\<lparr>sv_heap := sv_heap s\<rparr> = s"
    using arg_cong [OF s'(3), of "sv_heap_update (\<lambda>_. sv_heap s)"] by simp
  moreover have "client_at s k = Some c" using a c by (simp add: client_at_def)
  moreover have "a \<in> ran (sv_clients s)" using a by (auto simp: ran_def)
  ultimately show ?case
    using s' Cons.prems(2) a c c' at by (auto simp: client_at_def fun_upd_def)
qed

lemma convert_frame:
  assumes "convertToMySQLEvents now e (count_event e s) = (evs, s1)"
  shows "sv_clients s1 = sv_clients s" "sv_heap s1 = sv_heap s" "sv_alloc s1 = sv_alloc s"
    "sv_position s1 = sv_position s" "sv_next_client_id s1 = sv_next_client_id s"
    "sv_metrics s1 = sv_metrics s" "sv_gauge s1 = sv_gauge s"
  using assms
  by (auto simp: convertToMySQLEvents_def count_event_def begin_transaction_def Let_def
      split: change_type.splits if_splits)

lemma send_events_total:
  "\<forall>ev \<in> set evs. encodeBinlogEvent rt lenc ev \<noteq> None \<Longrightarrow> \<exists>c'. send_events rt lenc evs c = Some c'"
  by (induction evs arbitrary: c) (auto simp: sendBinlogEvent_def split: option.splits prod.splits)

lemma broadcast_all:
  assumes "server_wf s" and "distinct ks" "set ks = dom (sv_clients s)"
    and "\<forall>ev \<in> set evs. encodeBinlogEvent rt lenc ev \<noteq> None"
  shows "\<exists>x. broadcast rt lenc evs ks s = Some x \<and> x\<lparr>sv_heap := sv_heap s\<rparr> = s
      \<and> sv_clients x = sv_clients s \<and> sv_position x = sv_position s
      \<and> (\<forall>k. client_at x k = Option.bind (client_at s k) (send_events rt lenc evs))
      \<and> (\<forall>y. y \<notin> ran (sv_clients s) \<longrightarrow> sv_heap x y = sv_heap s y)"
proof -
  have "\<forall>k \<in> dom (sv_clients s). \<exists>c'. Option.bind (client_at s k) (send_events rt lenc evs) = Some c'"
    using assms(1) send_events_total [OF assms(4)] by (fastforce simp: server_wf_def client_at_def)
  then obtain x where x: "broadcast rt lenc evs ks s = Some x" "x\<lparr>sv_heap := sv_heap s\<rparr> = s"
      "\<forall>k. client_at x k = (if k \<in> dom (sv_clients s) then Option.bind (client_at s k) (send_events rt lenc evs)
                              else client_at s k)"
      "\<forall>y. y \<notin> ran (sv_clients s) \<longrightarrow> sv_heap x y = sv_heap s y"
    using broadcast_spec [OF assms(1,2), of rt lenc evs] unfolding assms(3) by blast
  have "client_at x k = Option.bind (client_at s k) (send_events rt lenc evs)" for k
  proof (cases "k \<in> dom (sv_clients s)")
    case False
    then have "client_at s k = None" by (simp add: client_at_def domIff)
    with x(3) False show ?thesis by simp
  qed (use x(3) in simp)
  moreover have "sv_clients x = sv_clients s" "sv_position x = sv_position s"
    using arg_cong [OF x(2), of sv_clients] arg_cong [OF x(2), of sv_position] by simp_all
  ultimately show ?thesis using x(1,2,4) by blast
qed

lemma broadcast_order:
  assumes "server_wf s" and "distinct ks" "set ks = dom (sv_clients s)" "distinct ls" "set ls = dom (sv_clients s)"
    and "\<forall>ev \<in> set evs. encodeBinlogEvent rt lenc ev \<noteq> None"
  shows "broadcast rt lenc evs ks s = broadcast rt lenc evs ls s"
proof -
  from broadcast_all [OF assms(1,2,3,6)] obtain a where
      a: "broadcast rt lenc evs ks s = Some a" "a\<lparr>sv_heap := sv_heap s\<rparr> = s" "sv_clients a = sv_clients s"
      "\<forall>k. client_at a k = Option.bind (client_at s k) (send_events rt lenc evs)"
      "\<forall>y. y \<notin> ran (sv_clients s) \<longrightarrow> sv_heap a y = sv_heap s y" by blast
  from broadcast_all [OF assms(1,4,5,6)] obtain b where
      b: "broadcast rt lenc evs ls s = Some b" "b\<lparr>sv_heap := sv_heap s\<rparr> = s" "sv_clients b = sv_clients s"
      "\<forall>k. client_at b k = Option.bind (client_at s k) (send_events rt lenc evs)"
      "\<forall>y. y \<notin> ran (sv_clients s) \<longrightarrow> sv_heap b y = sv_heap s y" by blast
  have "sv_heap a y = sv_heap b y" for y
  proof (cases "y \<in> ran (sv_clients s)")
    case True
    then obtain k where "sv_clients s k = Some y" by (auto simp: ran_def)
    then show ?thesis using a(3,4) b(3,4) unfolding client_at_def by (metis bind.bind_lunit)
  qed (use a(5) b(5) in simp)
  then have heap: "sv_heap a = sv_heap b" by (rule ext)
  have "a = (a\<lparr>sv_heap := sv_heap s\<rparr>)\<lparr>sv_heap := sv_heap a\<rparr>" by simp
  also have "\<dots> = (b\<lparr>sv_heap := sv_heap s\<rparr>)\<lparr>sv_heap := sv_heap b\<rparr>" unfolding a(2) b(2) heap ..
  also have "\<dots> = b" by simp
  finally show ?thesis using a(1) b(1) by simp
qed

text \<open>C10: The broadcast does not depend on Go's map order and every client gets the same. When the events can be
  encoded, \<open>processChangeEvent\<close> gives, for two arbitrary iteration orders of the clients map, the same
  server state; every registered client is the result of sending the converted events to it alone, the
  map of clients is unchanged, and the position advances by 100 per event (32-bit wrap-around).\<close>

theorem broadcast_order_irrelevant:
  assumes wf: "server_wf s"
    and orders: "distinct order" "set order = dom (sv_clients s)" "distinct order'" "set order' = dom (sv_clients s)"
    and conv: "convertToMySQLEvents now e (count_event e s) = (evs, s1)"
    and enc: "\<forall>ev \<in> set evs. encodeBinlogEvent rt lenc ev \<noteq> None"
  shows "processChangeEvent rt lenc order now e s = processChangeEvent rt lenc order' now e s
    \<and> (\<exists>s'. processChangeEvent rt lenc order now e s = Some s'
         \<and> sv_clients s' = sv_clients s
         \<and> p_pos (sv_position s') = p_pos (sv_position s) + 100 * of_nat (length evs)
         \<and> (\<forall>k. client_at s' k = Option.bind (client_at s k) (send_events rt lenc evs)))"
proof -
  note same = convert_frame [OF conv]
  have wf1: "server_wf s1" using wf same by (simp add: server_wf_def)
  have at: "client_at s1 = client_at s"
    by (rule ext) (simp add: client_at_def same)
  have o: "set order = dom (sv_clients s1)" "set order' = dom (sv_clients s1)"
    using orders same by simp_all
  from broadcast_order [OF wf1 orders(1) o(1) orders(3) o(2) enc]
  have "processChangeEvent rt lenc order now e s = processChangeEvent rt lenc order' now e s"
    using conv by (simp add: processChangeEvent_def)
  moreover from broadcast_all [OF wf1 orders(1) o(1) enc] obtain x where
      "broadcast rt lenc evs order s1 = Some x" "sv_clients x = sv_clients s" "sv_position x = sv_position s"
      "\<forall>k. client_at x k = Option.bind (client_at s k) (send_events rt lenc evs)"
    unfolding at same by blast
  then have "\<exists>s'. processChangeEvent rt lenc order now e s = Some s'
         \<and> sv_clients s' = sv_clients s
         \<and> p_pos (sv_position s') = p_pos (sv_position s) + 100 * of_nat (length evs)
         \<and> (\<forall>k. client_at s' k = Option.bind (client_at s k) (send_events rt lenc evs))"
    using conv by (simp add: processChangeEvent_def client_at_def mult.commute)
  ultimately show ?thesis by blast
qed

definition two_clients :: server where
  "two_clients = \<lparr>sv_config = DefaultServerConfig, sv_position = \<lparr>p_name = ''mysql-bin.000001'', p_pos = 4\<rparr>,
     sv_server_id = 1, sv_uuid = [], sv_gtid_enabled = True, sv_transaction_id = 0,
     sv_clients = [1 \<mapsto> 0, 2 \<mapsto> 1],
     sv_heap = [0 \<mapsto> fresh_client, 1 \<mapsto> fresh_client\<lparr>dc_id := 2, dc_seq := 7\<rparr>],
     sv_alloc = 2, sv_next_client_id = 2, sv_cancelled = False, sv_running = True, sv_streamer = True,
     sv_metrics = True, sv_gauge = 2, sv_event_counts = (\<lambda>_. 0), sv_last_lsn = 0\<rparr>"

definition commit_change :: change_event where
  "commit_change = \<lparr>ce_type = ChangeTypeCommit, ce_timestamp = zero_time, ce_database = [], ce_schema = [],
     ce_table = [], ce_table_id = 0, ce_columns = [], ce_old_values = None, ce_new_values = None, ce_lsn = 5\<rparr>"

lemma two_clients_wf: "server_wf two_clients" "dom (sv_clients two_clients) = {1, 2}"
  by (auto simp: two_clients_def server_wf_def inj_on_def fresh_client_def split: if_splits)

theorem broadcast_order_irrelevant_witness:
  "processChangeEvent plain_rt lenenc [1, 2] (\<lambda>_. 0) commit_change two_clients
     = processChangeEvent plain_rt lenenc [2, 1] (\<lambda>_. 0) commit_change two_clients
   \<and> (\<exists>s'. processChangeEvent plain_rt lenenc [1, 2] (\<lambda>_. 0) commit_change two_clients = Some s'
        \<and> p_pos (sv_position s') = 104)"
proof -
  let ?s = "count_event commit_change two_clients"
  have conv: "convertToMySQLEvents (\<lambda>_. 0) commit_change ?s = ([createXIDEvent ?s 0 0], ?s)"
    by (simp add: convertToMySQLEvents_def commit_change_def)
  have "encodeBinlogEvent plain_rt lenenc (createXIDEvent ?s 0 0) \<noteq> None"
    using frame_of_EncodeEvent [of "createXIDEvent ?s 0 0" plain_rt lenenc NewBinlogEncoder "le_bytes 8 0"]
    by (auto simp: createXIDEvent_def mk_event_def event_payload_def encodeXIDEvent_def encodeBinlogEvent_def)
  moreover have "distinct [1, 2 :: u32]" "set [1, 2] = dom (sv_clients two_clients)"
    "distinct [2, 1 :: u32]" "set [2, 1] = dom (sv_clients two_clients)"
    by (auto simp: two_clients_wf(2))
  moreover have "p_pos (sv_position two_clients) = 4" by (simp add: two_clients_def)
  ultimately show ?thesis
    using broadcast_order_irrelevant [OF two_clients_wf(1), of "[1, 2]" "[2, 1]", OF _ _ _ _ conv, of plain_rt lenenc]
    by (fastforce dest: sym)
qed

end
