(* ===== verification/Repl_Invariants.thy ===== *)
theory Repl_Invariants
  imports Repl_Broadcast
begin

text \<open>
  The life of the dump clients: the replication server as a machine whose steps are \<open>Start\<close>, \<open>Stop\<close>, the handlers and
  the goroutine steps of \<open>server.go\<close>, the invariant of its client table, and what \<open>Stop\<close> leaves behind. The
  clients map is interpreted as a keyed store.
\<close>

section \<open>The clients map as a store\<close>

definition put_client :: "u32 \<Rightarrow> nat \<Rightarrow> server \<Rightarrow> server" where
  "put_client k a s = s\<lparr>sv_clients := (sv_clients s)(k \<mapsto> a)\<rparr>"

lemma sv_clients_remove: "sv_clients (removeDumpClient k s) k' = (if k' = k then None else sv_clients s k')"
  by (auto simp: removeDumpClient_def upd_client_def split: option.splits)

interpretation client_store: keyed_store sv_clients put_client removeDumpClient
  by unfold_locales (auto simp: put_client_def sv_clients_remove)

section \<open>The machine\<close>

text \<open>
  \<open>Stop\<close> runs beside the goroutines of the clients: it cancels the context first, and empties the clients map later, when
  some of them may already have removed themselves. Its two halves, between which the server is still marked as running:
\<close>

definition stop_begin :: "server \<Rightarrow> server" where
  "stop_begin s = (if \<not> sv_running s then s else s\<lparr>sv_cancelled := True, sv_streamer := False\<rparr>)"

definition stopping :: "server \<Rightarrow> bool" where
  "stopping s \<longleftrightarrow> sv_running s \<and> sv_cancelled s \<and> \<not> sv_streamer s"

definition stop_end :: "server \<Rightarrow> server" where
  "stop_end s =
     (if \<not> stopping s then s
      else s\<lparr>sv_heap := (\<lambda>a. if a \<in> ran (sv_clients s) then map_option close_conn (sv_heap s a) else sv_heap s a),
             sv_clients := Map.empty, sv_running := False\<rparr>)"

lemma stop_halves: "Stop (Some s) = Some (if sv_running s then stop_end (stop_begin s) else s)"
  by (auto simp: Stop_def stop_end_def stop_begin_def stopping_def cong: if_cong)

datatype server_event =
    SStart bool
  | SStopBegin
  | SStopEnd
  | SDump conn u32 position "nat \<Rightarrow> int"
  | STick nat int
  | SCancel nat
  | SChange "u32 list" "nat \<Rightarrow> int" change_event

text \<open>Dump requests are counted in 32 bits; the machine takes no further one when the counter is full.\<close>

definition server_step ::
    "go_rt \<Rightarrow> (u64 \<Rightarrow> byte list) \<Rightarrow> server_event \<Rightarrow> server \<Rightarrow> server" where
  "server_step rt lenc ev s =
     (case ev of
        SStart streamer_ok \<Rightarrow> the (snd (Start streamer_ok (Some s)))
      | SStopBegin \<Rightarrow> stop_begin s
      | SStopEnd \<Rightarrow> stop_end s
      | SDump c sid pos now \<Rightarrow>
          if sv_next_client_id s = - 1 then s else the (snd (HandleBinlogDump c sid pos now (Some s)))
      | STick a now \<Rightarrow> stream_tick a now s
      | SCancel a \<Rightarrow> stream_cancel a s
      | SChange order now e \<Rightarrow> (case processChangeEvent rt lenc order now e s of None \<Rightarrow> s | Some s' \<Rightarrow> s'))"

definition client_inv :: "(u32 \<rightharpoonup> nat) \<Rightarrow> (nat \<rightharpoonup> dump_client) \<Rightarrow> nat \<Rightarrow> bool" where
  "client_inv cl hp n \<longleftrightarrow>
     (\<forall>a c. hp a = Some c \<longrightarrow> a < n \<and> unat (dc_id c) = Suc a)
     \<and> (\<forall>k a. cl k = Some a \<longrightarrow> (\<exists>c. hp a = Some c \<and> dc_id c = k \<and> \<not> dc_done c))
     \<and> finite (dom cl)"

text \<open>The clients that the \<open>Stop\<close>s of a run take out of the map themselves.\<close>

definition dropped_here :: "server_event \<Rightarrow> server \<Rightarrow> nat" where
  "dropped_here ev s = (if ev = SStopEnd \<and> stopping s then GetClientCount s else 0)"

fun dropped_by_stop :: "go_rt \<Rightarrow> (u64 \<Rightarrow> byte list) \<Rightarrow> server_event list \<Rightarrow> server \<Rightarrow> nat" where
  "dropped_by_stop rt lenc [] s = 0"
| "dropped_by_stop rt lenc (ev # evs) s = dropped_here ev s + dropped_by_stop rt lenc evs (server_step rt lenc ev s)"

text \<open>The invariant, with the number \<open>d\<close> of clients dropped so far: the metric still counts them.\<close>

definition server_inv :: "nat \<Rightarrow> server \<Rightarrow> bool" where
  "server_inv d s \<longleftrightarrow> client_inv (sv_clients s) (sv_heap s) (sv_alloc s)
     \<and> unat (sv_next_client_id s) = sv_alloc s
     \<and> (sv_metrics s \<longrightarrow> sv_gauge s = int (card (dom (sv_clients s))) + int d)"

lemma client_invD:
  assumes "client_inv cl hp n"
  shows "hp a = Some c \<Longrightarrow> a < n \<and> unat (dc_id c) = Suc a"
    and "cl k = Some a \<Longrightarrow> \<exists>c. hp a = Some c \<and> dc_id c = k \<and> \<not> dc_done c"
    and "finite (dom cl)"
  using assms by (simp_all add: client_inv_def)

lemma client_inv_upd:
  assumes "client_inv cl hp n" and "hp a = Some c" and "dc_id c' = dc_id c"
    and "dc_done c' = dc_done c \<or> a \<notin> ran cl"
  shows "client_inv cl (hp(a \<mapsto> c')) n"
  unfolding client_inv_def
proof (intro conjI allI impI)
  fix b x assume "(hp(a \<mapsto> c')) b = Some x"
  then show "b < n" "unat (dc_id x) = Suc b"
    using client_invD(1) [OF assms(1), of b] assms(2,3) by (auto split: if_splits)
next
  fix k b assume k: "cl k = Some b"
  then show "\<exists>x. (hp(a \<mapsto> c')) b = Some x \<and> dc_id x = k \<and> \<not> dc_done x"
    using client_invD(2) [OF assms(1) k] assms(2,3,4) by (auto simp: ran_def)
qed (rule client_invD(3) [OF assms(1)])

lemma client_inv_del:
  assumes "client_inv cl hp n"
  shows "client_inv (cl(k := None)) hp n"
  using assms by (auto simp: client_inv_def)

lemma card_map_del:
  assumes "finite (dom cl)" and "cl k = Some a"
  shows "int (card (dom (cl(k := None)))) = int (card (dom cl)) - 1"
proof -
  have "k \<in> dom cl" using assms(2) by auto
  then have "card (dom cl) = Suc (card (dom cl - {k}))"
    using assms(1) card_Suc_Diff1 by metis
  moreover have d: "dom (cl(k := None)) = dom cl - {k}" by auto
  ultimately show ?thesis unfolding d by linarith
qed

lemma close_conn_id [simp]: "dc_id (close_conn c) = dc_id c" "dc_done (close_conn c) = dc_done c"
  by (simp_all add: close_conn_def)

lemma removeDumpClient_inv:
  assumes "server_inv d s"
  shows "server_inv d (removeDumpClient k s)"
proof (cases "sv_clients s k")
  case None
  then show ?thesis using assms by (simp add: removeDumpClient_def)
next
  case (Some a)
  have ci: "client_inv (sv_clients s) (sv_heap s) (sv_alloc s)" using assms unfolding server_inv_def by blast
  then obtain c where c: "sv_heap s a = Some c" using Some client_invD(2) by blast
  have "client_inv ((sv_clients s)(k := None)) ((sv_heap s)(a \<mapsto> close_conn c)) (sv_alloc s)"
    by (rule client_inv_del [OF client_inv_upd [OF ci c]]) simp_all
  moreover have "finite (dom (sv_clients s))" using ci by (simp add: client_inv_def)
  ultimately show ?thesis
    using assms Some c card_map_del [of "sv_clients s" k a]
    by (simp add: server_inv_def removeDumpClient_def upd_client_def)
qed

lemma removeDumpClient_same [simp]:
  "sv_alloc (removeDumpClient k s) = sv_alloc s" "sv_metrics (removeDumpClient k s) = sv_metrics s"
  "sv_next_client_id (removeDumpClient k s) = sv_next_client_id s"
  by (simp_all add: removeDumpClient_def upd_client_def split: option.splits)

text \<open>Once a client is out of the map, marking it as done cannot break the invariant.\<close>

lemma end_stream_inv:
  assumes "server_inv d s" and "sv_heap s a = Some c"
  shows "server_inv d (end_stream a c s)"
proof -
  let ?s = "removeDumpClient (dc_id c) s"
  have inv: "server_inv d ?s" by (rule removeDumpClient_inv [OF assms(1)])
  obtain c1 where c1: "sv_heap ?s a = Some c1" "dc_id c1 = dc_id c"
    using assms(2)
    by (cases "sv_clients s (dc_id c)"; cases "sv_clients s (dc_id c) = Some a")
       (auto simp: removeDumpClient_def upd_client_def)
  have ci: "client_inv (sv_clients ?s) (sv_heap ?s) (sv_alloc ?s)"
    using inv unfolding server_inv_def by blast
  have "sv_clients ?s k \<noteq> Some a" for k
  proof
    assume k: "sv_clients ?s k = Some a"
    then have "k = dc_id c" using client_invD(2) [OF ci k] c1 by auto
    with k show False by (simp add: sv_clients_remove)
  qed
  then have "a \<notin> ran (sv_clients ?s)" by (auto simp: ran_def)
  then have "client_inv (sv_clients ?s) ((sv_heap ?s)(a \<mapsto> c1\<lparr>dc_done := True\<rparr>)) (sv_alloc ?s)"
    by (intro client_inv_upd [OF ci c1(1)]) simp_all
  then show ?thesis
    using inv c1(1) by (simp add: end_stream_def upd_client_def server_inv_def)
qed

lemma send_packet_done: "sendBinlogPacketToClient d c = (ok, c') \<Longrightarrow> dc_done c' = dc_done c"
  by (auto simp: sendBinlogPacketToClient_def Let_def split: prod.splits)

lemmas send_packet_keeps = send_packet_id send_packet_done

lemma heap_upd_inv:
  assumes "server_inv d s" and "sv_heap s a = Some c" and "dc_id c' = dc_id c" "dc_done c' = dc_done c"
  shows "server_inv d (s\<lparr>sv_heap := (sv_heap s)(a \<mapsto> c')\<rparr>)"
  using assms client_inv_upd [of "sv_clients s" "sv_heap s" "sv_alloc s" a c c'] by (simp add: server_inv_def)

lemma stream_tick_inv: "server_inv d s \<Longrightarrow> server_inv d (stream_tick a now s)"
proof (cases "sv_heap s a")
  case (Some c)
  assume inv: "server_inv d s"
  obtain ok c' where send: "sendHeartbeat s now c = (ok, c')" by fastforce
  then have keep: "dc_id c' = dc_id c" "dc_done c' = dc_done c"
    by (auto simp: sendHeartbeat_def dest: send_packet_keeps)
  note upd = heap_upd_inv [OF inv Some keep]
  then show ?thesis
    using Some send inv end_stream_inv [OF upd, of a c'] by (simp add: stream_tick_def Let_def)
qed (simp add: stream_tick_def)

lemma stream_cancel_inv: "server_inv d s \<Longrightarrow> server_inv d (stream_cancel a s)"
  by (auto simp: stream_cancel_def end_stream_inv split: option.splits)

lemma send_events_keeps: "send_events rt lenc evs c = Some c' \<Longrightarrow> dc_id c' = dc_id c \<and> dc_done c' = dc_done c"
proof (induction evs arbitrary: c)
  case (Cons ev evs)
  then show ?case
    by (auto simp: sendBinlogEvent_def split: option.splits prod.splits if_splits dest: send_packet_keeps)
qed simp

lemma broadcast_inv:
  "server_inv d s \<Longrightarrow> broadcast rt lenc evs order s = Some s' \<Longrightarrow> server_inv d s'"
proof (induction order arbitrary: s)
  case (Cons k order)
  show ?case
  proof (cases "Option.bind (sv_clients s k) (\<lambda>a. map_option (\<lambda>c. (a, c)) (sv_heap s a))")
    case None
    then show ?thesis using Cons by simp
  next
    case (Some ac)
    obtain a c where ac: "ac = (a, c)" by fastforce
    then have c: "sv_heap s a = Some c" using Some by (auto simp: bind_eq_Some_conv)
    obtain c' where c': "send_events rt lenc evs c = Some c'"
      and rest: "broadcast rt lenc evs order (s\<lparr>sv_heap := (sv_heap s)(a \<mapsto> c')\<rparr>) = Some s'"
      using Cons.prems(2) Some ac by (auto split: option.splits)
    from Cons.IH [OF heap_upd_inv [OF Cons.prems(1) c] rest] show ?thesis
      using send_events_keeps [OF c'] by simp
  qed
qed simp

lemma processChangeEvent_inv:
  assumes "server_inv d s" and "processChangeEvent rt lenc order now e s = Some s'"
  shows "server_inv d s'"
proof -
  obtain evs s1 where conv: "convertToMySQLEvents now e (count_event e s) = (evs, s1)" by fastforce
  then have "server_inv d s1"
    using assms(1) convert_frame [OF conv] by (simp add: server_inv_def)
  moreover obtain x where "broadcast rt lenc evs order s1 = Some x"
      "s' = x\<lparr>sv_position := (sv_position x)\<lparr>p_pos := p_pos (sv_position x) + of_nat (length evs * 100)\<rparr>\<rparr>"
    using assms(2) conv by (auto simp: processChangeEvent_def)
  ultimately show ?thesis
    using broadcast_inv [of d s1 rt lenc evs order x] by (simp add: server_inv_def)
qed

lemma fresh_id:
  assumes "server_inv d s" and "sv_next_client_id s \<noteq> - 1"
  shows "unat (sv_next_client_id s + 1) = Suc (sv_alloc s)" and "sv_clients s (sv_next_client_id s + 1) = None"
proof -
  have "unat (sv_next_client_id s) \<noteq> unat (- 1 :: u32)"
    using assms(2) by (simp only: word_unat_eq_iff not_False_eq_True)
  then have "unat (sv_next_client_id s) < 2 ^ 32 - 1"
    using unsigned_less [of "sv_next_client_id s", where ?'a = nat] by (simp add: unsigned_minus_1_eq_mask mask_eq_exp_minus_1)
  then show u: "unat (sv_next_client_id s + 1) = Suc (sv_alloc s)"
    using assms(1) by (simp add: server_inv_def unat_word_ariths)
  have ci: "client_inv (sv_clients s) (sv_heap s) (sv_alloc s)"
    using assms(1) unfolding server_inv_def by blast
  show "sv_clients s (sv_next_client_id s + 1) = None"
  proof (rule ccontr)
    assume "sv_clients s (sv_next_client_id s + 1) \<noteq> None"
    then obtain a where "sv_clients s (sv_next_client_id s + 1) = Some a" by blast
    then obtain c where "sv_heap s a = Some c" "dc_id c = sv_next_client_id s + 1"
      using client_invD(2) [OF ci] by blast
    then show False using client_invD(1) [OF ci, of a c] u by auto
  qed
qed

lemma HandleBinlogDump_inv:
  assumes "server_inv d s" and "sv_next_client_id s \<noteq> - 1"
  shows "\<exists>s'. snd (HandleBinlogDump c sid pos now (Some s)) = Some s' \<and> server_inv d s'"
proof -
  let ?id = "sv_next_client_id s + 1" and ?a = "sv_alloc s"
  let ?c = "\<lparr>dc_id = ?id, dc_server_id = sid, dc_conn = c, dc_position = pos, dc_start = now 0,
             dc_events_sent = 0, dc_seq = 1, dc_done = False\<rparr>"
  let ?s = "s\<lparr>sv_next_client_id := ?id, sv_alloc := Suc ?a, sv_clients := (sv_clients s)(?id \<mapsto> ?a),
              sv_gauge := (if sv_metrics s then sv_gauge s + 1 else sv_gauge s)\<rparr>"
  note id = fresh_id [OF assms]
  obtain ok c' where send: "sendFormatDescriptionEvent ?s (now 1) ?c = (ok, c')" by fastforce
  then have keep: "dc_id c' = ?id" "\<not> dc_done c'"
    by (auto simp: sendFormatDescriptionEvent_def dest: send_packet_keeps)
  have ci: "client_inv (sv_clients s) (sv_heap s) (sv_alloc s)"
    using assms(1) unfolding server_inv_def by blast
  let ?s' = "?s\<lparr>sv_heap := (sv_heap s)(?a \<mapsto> c')\<rparr>"
  have "client_inv (sv_clients ?s') (sv_heap ?s') (sv_alloc ?s')"
    unfolding client_inv_def
  proof (intro conjI allI impI)
    fix b x assume "sv_heap ?s' b = Some x"
    then show "b < sv_alloc ?s'" "unat (dc_id x) = Suc b"
      using client_invD(1) [OF ci, of b x] id(1) keep by (auto split: if_splits)
  next
    fix k b assume k: "sv_clients ?s' k = Some b"
    then show "\<exists>x. sv_heap ?s' b = Some x \<and> dc_id x = k \<and> \<not> dc_done x"
    proof (cases "k = ?id")
      case False
      then have "sv_clients s k = Some b" using k by simp
      with client_invD(2) [OF ci this] show ?thesis using client_invD(1) [OF ci, of b] by fastforce
    qed (use k keep in simp)
  qed (use client_invD(3) [OF ci] in simp)
  moreover have "card (insert ?id (dom (sv_clients s))) = Suc (card (dom (sv_clients s)))"
    using client_invD(3) [OF ci] id(2) by (simp add: card_insert_if domIff)
  ultimately have inv: "server_inv d ?s'"
    using assms(1) id(1) by (simp add: server_inv_def)
  show ?thesis
    using send inv removeDumpClient_inv [OF inv, of ?id] by (simp add: HandleBinlogDump_def Let_def)
qed

lemma stop_end_inv:
  assumes "server_inv d s"
  shows "server_inv (d + dropped_here SStopEnd s) (stop_end s)"
proof -
  have ci: "client_inv (sv_clients s) (sv_heap s) (sv_alloc s)" using assms unfolding server_inv_def by blast
  have "client_inv Map.empty (\<lambda>a. if a \<in> ran (sv_clients s) then map_option close_conn (sv_heap s a) else sv_heap s a) (sv_alloc s)"
    using client_invD(1) [OF ci] by (auto simp: client_inv_def split: if_splits)
  then show ?thesis
    using assms by (auto simp: server_inv_def stop_end_def dropped_here_def GetClientCount_def)
qed

lemma server_step_inv:
  assumes inv: "server_inv d s"
  shows "server_inv (d + dropped_here ev s) (server_step rt lenc ev s)"
proof (cases ev)
  case (SDump c sid pos now)
  then show ?thesis using inv HandleBinlogDump_inv [OF inv, of c sid pos now] by (auto simp: server_step_def dropped_here_def)
next
  case (SChange order now e)
  then show ?thesis
    using inv processChangeEvent_inv [OF inv, of rt lenc order now e]
    by (auto simp: server_step_def dropped_here_def split: option.splits)
next
  case (SStart ok)
  then show ?thesis using inv by (simp add: server_step_def dropped_here_def Start_def server_inv_def)
next
  case SStopBegin
  then show ?thesis using inv by (simp add: server_step_def dropped_here_def stop_begin_def server_inv_def)
next
  case SStopEnd
  then show ?thesis using stop_end_inv [OF inv] by (simp add: server_step_def)
qed (use inv stream_tick_inv stream_cancel_inv in \<open>simp_all add: server_step_def dropped_here_def\<close>)

text \<open>The machine with the dropped clients counted beside it.\<close>

definition counting_step :: "go_rt \<Rightarrow> (u64 \<Rightarrow> byte list) \<Rightarrow> server_event \<Rightarrow> nat \<times> server \<Rightarrow> nat \<times> server" where
  "counting_step rt lenc ev ds = (case ds of (d, s) \<Rightarrow> (d + dropped_here ev s, server_step rt lenc ev s))"

lemma counting_run:
  "fold (counting_step rt lenc) evs (d, s) = (d + dropped_by_stop rt lenc evs s, fold (server_step rt lenc) evs s)"
  by (induction evs arbitrary: d s) (simp_all add: counting_step_def)

interpretation dump_machine: invariant_machine "\<lambda>(d, s). server_inv d s" "counting_step rt lenc" for rt lenc
  by unfold_locales (auto simp: counting_step_def server_step_inv split: prod.splits)

text \<open>
  The goroutine of \<open>eventProcessor\<close>, over what its \<open>select\<close> receives in turn: the end of the server's context or a change event, with the
  iteration order of the clients and the clock for it.
\<close>

datatype processor_input = ContextDone | ChangeReceived "u32 list" "nat \<Rightarrow> int" change_event

fun eventProcessor :: "go_rt \<Rightarrow> (u64 \<Rightarrow> byte list) \<Rightarrow> processor_input list \<Rightarrow> server \<Rightarrow> server option" where
  "eventProcessor rt lenc [] s = Some s"
| "eventProcessor rt lenc (ContextDone # _) s = Some s"
| "eventProcessor rt lenc (ChangeReceived order now e # inputs) s =
     (case processChangeEvent rt lenc order now e s of None \<Rightarrow> None | Some s \<Rightarrow> eventProcessor rt lenc inputs s)"

text \<open>Its runs are runs of the machine: the changes received before the context ends.\<close>

fun changes_received :: "processor_input list \<Rightarrow> server_event list" where
  "changes_received (ChangeReceived order now e # inputs) = SChange order now e # changes_received inputs"
| "changes_received _ = []"

lemma eventProcessor_steps:
  "eventProcessor rt lenc inputs s = Some s' \<Longrightarrow> s' = fold (server_step rt lenc) (changes_received inputs) s"
  by (induction rt lenc inputs s rule: eventProcessor.induct) (auto simp: server_step_def split: option.splits)

lemma eventProcessor_inv:
  "server_inv d s \<Longrightarrow> eventProcessor rt lenc inputs s = Some s' \<Longrightarrow> server_inv d s'"
  by (induction rt lenc inputs s rule: eventProcessor.induct) (auto dest: processChangeEvent_inv split: option.splits)

lemma NewServer_inv: "NewServer config metrics now = Some s \<Longrightarrow> server_inv 0 s"
  by (auto simp: NewServer_def Let_def server_inv_def client_inv_def split: if_splits)

text \<open>C9: Bookkeeping of dump clients. In every state that a new server reaches through any sequence of starts and
  stops (interleaved with the goroutines of the clients), dump
  requests, heartbeats, cancellations and change events (with any network failures), the clients map
  and the client records agree: each registered client is filed under its own id, is not finished, and two ids never share a
  record. The connected-clients metric is the number of registered clients plus the number of those that a \<open>Stop\<close> took out of the map:
  these are never subtracted, so the metric is exact exactly until a \<open>Stop\<close> finds a client.\<close>

theorem dump_clients_consistent:
  assumes "NewServer config metrics now = Some s0"
    and "s = fold (server_step rt lenc) evs s0"
  shows "(\<forall>k a. sv_clients s k = Some a \<longrightarrow> (\<exists>c. sv_heap s a = Some c \<and> dc_id c = k \<and> \<not> dc_done c))
    \<and> inj_on (sv_clients s) (dom (sv_clients s))
    \<and> (sv_metrics s \<longrightarrow> sv_gauge s = int (GetClientCount s) + int (dropped_by_stop rt lenc evs s0))"
proof -
  have inv: "server_inv (dropped_by_stop rt lenc evs s0) s"
    using dump_machine.inv_run [of "(0, s0)" rt lenc evs] NewServer_inv [OF assms(1)] assms(2) by (simp add: counting_run)
  then have ci: "client_inv (sv_clients s) (sv_heap s) (sv_alloc s)" unfolding server_inv_def by blast
  have "inj_on (sv_clients s) (dom (sv_clients s))"
  proof (rule inj_onI)
    fix j k assume "j \<in> dom (sv_clients s)" and jk: "sv_clients s j = sv_clients s k"
    then obtain a where j: "sv_clients s j = Some a" by blast
    then have "sv_clients s k = Some a" using jk by simp
    from client_invD(2) [OF ci j] client_invD(2) [OF ci this] show "j = k" by auto
  qed
  then show ?thesis
    using inv client_invD(2) [OF ci] by (simp add: server_inv_def GetClientCount_def)
qed

definition enabled_config :: server_config where
  "enabled_config = DefaultServerConfig\<lparr>cfg_enabled := True\<rparr>"

definition good_conn :: conn where
  "good_conn = \<lparr>cn_open = True, cn_out = [], cn_writes = 0, cn_fate = (\<lambda>_. None)\<rparr>"

text \<open>A client that can be written to is registered; a run with two of them of which the first is dropped by a \<open>Stop\<close>.\<close>

lemma dump_good:
  assumes "server_step rt lenc (SDump good_conn sid pos now) s = s'" and "sv_next_client_id s \<noteq> - 1"
  shows "sv_clients s' = (sv_clients s)(sv_next_client_id s + 1 \<mapsto> sv_alloc s) \<and> sv_running s' = sv_running s
    \<and> sv_cancelled s' = sv_cancelled s \<and> sv_streamer s' = sv_streamer s \<and> sv_metrics s' = sv_metrics s
    \<and> sv_next_client_id s' = sv_next_client_id s + 1"
  using assms
  by (auto simp: server_step_def HandleBinlogDump_def sendFormatDescriptionEvent_def sendBinlogPacketToClient_def conn_write_def
      good_conn_def Let_def split: if_splits)

lemma cancel_dropped:
  assumes "server_step rt lenc (SCancel a) s = s'" and "sv_clients s = Map.empty"
  shows "sv_clients s' = Map.empty \<and> sv_metrics s' = sv_metrics s \<and> sv_next_client_id s' = sv_next_client_id s"
  using assms
  by (auto simp: server_step_def stream_cancel_def end_stream_def removeDumpClient_def upd_client_def split: option.splits if_splits)

definition stopped_run :: "server_event list" where
  "stopped_run = [SStart True, SDump good_conn 5 \<lparr>p_name = [], p_pos = 4\<rparr> (\<lambda>_. 0), SStopBegin, SStopEnd, SCancel 0,
                  SDump good_conn 6 \<lparr>p_name = [], p_pos = 4\<rparr> (\<lambda>_. 0)]"

theorem dump_clients_consistent_witness:
  "\<exists>s0 s. NewServer (Some enabled_config) True (\<lambda>_. 0) = Some s0 \<and> s = fold (server_step plain_rt lenenc) stopped_run s0
     \<and> sv_gauge s = 2 \<and> GetClientCount s = 1 \<and> dropped_by_stop plain_rt lenenc stopped_run s0 = 1"
proof -
  obtain s0 where s0: "NewServer (Some enabled_config) True (\<lambda>_. 0) = Some s0"
    by (auto simp: NewServer_def enabled_config_def)
  let ?step = "server_step plain_rt lenenc"
  define s1 where "s1 = ?step (SStart True) s0"
  define s2 where "s2 = ?step (SDump good_conn 5 \<lparr>p_name = [], p_pos = 4\<rparr> (\<lambda>_. 0)) s1"
  define s3 where "s3 = ?step SStopBegin s2"
  define s4 where "s4 = ?step SStopEnd s3"
  define s5 where "s5 = ?step (SCancel 0) s4"
  define s6 where "s6 = ?step (SDump good_conn 6 \<lparr>p_name = [], p_pos = 4\<rparr> (\<lambda>_. 0)) s5"
  have 1: "sv_running s1" "sv_clients s1 = Map.empty" "sv_next_client_id s1 = 0" "sv_metrics s1"
    using s0 by (auto simp: s1_def server_step_def Start_def NewServer_def enabled_config_def Let_def)
  have 2: "sv_running s2" "GetClientCount s2 = 1" "sv_next_client_id s2 = 1" "sv_metrics s2"
    using dump_good [OF s2_def [symmetric]] 1 by (simp_all add: GetClientCount_def)
  have 3: "stopping s3" "GetClientCount s3 = 1" "sv_next_client_id s3 = 1" "sv_metrics s3"
    using 2 by (simp_all add: s3_def server_step_def stop_begin_def stopping_def GetClientCount_def)
  have 4: "sv_clients s4 = Map.empty" "sv_next_client_id s4 = 1" "sv_metrics s4"
    using 3 by (simp_all add: s4_def server_step_def stop_end_def)
  have 5: "sv_clients s5 = Map.empty" "sv_next_client_id s5 = 1" "sv_metrics s5"
    using cancel_dropped [OF s5_def [symmetric]] 4 by simp_all
  have 6: "GetClientCount s6 = 1" "sv_metrics s6"
    using dump_good [OF s6_def [symmetric]] 5 by (simp_all add: GetClientCount_def)
  have run: "fold ?step stopped_run s0 = s6"
    by (simp add: stopped_run_def s1_def s2_def s3_def s4_def s5_def s6_def)
  moreover have dropped: "dropped_by_stop plain_rt lenenc stopped_run s0 = 1"
    using 3 by (simp add: stopped_run_def dropped_here_def flip: s1_def s2_def s3_def s4_def s5_def)
  moreover have "sv_gauge s6 = 2"
    using dump_clients_consistent [OF s0 refl, of plain_rt lenenc stopped_run] 6 unfolding run dropped by simp
  ultimately show ?thesis using s0 6(1) by blast
qed

section \<open>What Stop leaves behind\<close>

lemma stream_cancel_unregistered:
  "sv_clients s = Map.empty \<Longrightarrow>
   sv_gauge (stream_cancel a s) = sv_gauge s \<and> sv_clients (stream_cancel a s) = Map.empty"
  by (auto simp: stream_cancel_def end_stream_def removeDumpClient_def upd_client_def split: option.splits)

text \<open>After \<open>Stop\<close> the connected-clients metric is stale. \<open>Stop\<close> empties the clients map itself, so the
  deferred \<open>removeDumpClient\<close> of each streaming goroutine finds no entry and never decrements the metric:
  with \<open>n\<close> clients connected it stays at \<open>n\<close>, however many goroutines notice the cancellation, while no
  client is registered any more.\<close>

theorem stop_leaves_gauge:
  assumes "server_inv 0 s" and "sv_running s" and "sv_metrics s"
  shows "\<exists>s'. Stop (Some s) = Some s' \<and> \<not> sv_running s' \<and> GetClientCount s' = 0
     \<and> sv_gauge (fold stream_cancel as s') = int (GetClientCount s)
     \<and> GetClientCount (fold stream_cancel as s') = 0"
proof -
  let ?s = "the (Stop (Some s))"
  have s: "Stop (Some s) = Some ?s" "sv_clients ?s = Map.empty" "sv_gauge ?s = sv_gauge s" "\<not> sv_running ?s"
    using assms(2) by (simp_all add: Stop_def)
  have "sv_gauge (fold stream_cancel as x) = sv_gauge x \<and> sv_clients (fold stream_cancel as x) = Map.empty"
    if "sv_clients x = Map.empty" for x
    using that by (induction as arbitrary: x) (use stream_cancel_unregistered in auto)
  from this [OF s(2)] have "sv_gauge (fold stream_cancel as ?s) = int (GetClientCount s)"
    "GetClientCount (fold stream_cancel as ?s) = 0"
    using s(3) assms by (simp_all add: server_inv_def GetClientCount_def)
  with s show ?thesis by (auto simp: GetClientCount_def)
qed

lemma two_clients_inv: "server_inv 0 two_clients"
proof -
  have "dom (sv_clients two_clients) = {1, 2}" by (rule two_clients_wf)
  then show ?thesis
    by (auto simp: two_clients_def server_inv_def client_inv_def fresh_client_def split: if_splits)
qed

theorem stop_leaves_gauge_witness:
  "\<exists>s'. Stop (Some two_clients) = Some s' \<and> GetClientCount s' = 0
     \<and> sv_gauge (fold stream_cancel [0, 1] s') = 2"
proof -
  have "sv_running two_clients" "sv_metrics two_clients" "GetClientCount two_clients = 2"
    by (simp_all add: two_clients_def GetClientCount_def card_insert_if)
  then show ?thesis
    using stop_leaves_gauge [OF two_clients_inv, of "[0, 1]"] by auto
qed

section \<open>Transaction numbering\<close>

text \<open>The binlog events of a sequence of change events, each with its clock readings.\<close>

fun convert_all :: "((nat \<Rightarrow> int) \<times> change_event) list \<Rightarrow> server \<Rightarrow> binlog_event list" where
  "convert_all [] s = []"
| "convert_all ((now, e) # es) s =
     (let (evs, s') = convertToMySQLEvents now e s in evs @ convert_all es s')"

fun gnos :: "binlog_event list \<Rightarrow> u64 list" where
  "gnos [] = []"
| "gnos (ev # evs) = (case be_body ev of EGTID g \<Rightarrow> g_gno g # gnos evs | _ \<Rightarrow> gnos evs)"

definition opens_transaction :: "change_event \<Rightarrow> bool" where
  "opens_transaction e \<longleftrightarrow> ce_type e \<in> {ChangeTypeBegin, ChangeTypeDDL, ChangeTypeTruncate}"

text \<open>Every GTID event is directly followed by the query event it belongs to.\<close>

fun gtids_paired :: "binlog_event list \<Rightarrow> bool" where
  "gtids_paired [] = True"
| "gtids_paired (ev # evs) =
     ((case be_body ev of
         EGTID _ \<Rightarrow> (case evs of q # _ \<Rightarrow> (case be_body q of EQuery _ \<Rightarrow> True | _ \<Rightarrow> False) | [] \<Rightarrow> False)
       | _ \<Rightarrow> True)
      \<and> gtids_paired evs)"

lemma gnos_append: "gnos (xs @ ys) = gnos xs @ gnos ys"
  by (induction xs) (auto split: event_body.splits)

lemma gtids_paired_append: "gtids_paired xs \<Longrightarrow> gtids_paired ys \<Longrightarrow> gtids_paired (xs @ ys)"
  by (induction xs) (auto split: event_body.splits list.splits)

lemma convert_one:
  assumes "sv_gtid_enabled s" and "convertToMySQLEvents now e s = (evs, s')"
  shows "gnos evs = (if opens_transaction e then [sv_transaction_id s + 1] else [])
    \<and> gtids_paired evs \<and> sv_gtid_enabled s'
    \<and> sv_transaction_id s' = (if opens_transaction e then sv_transaction_id s + 1 else sv_transaction_id s)"
  using assms
  by (cases "ce_type e")
     (auto simp: convertToMySQLEvents_def opens_transaction_def with_gtid_def begin_transaction_def Let_def
        createGTIDEvent_def createQueryEvent_def createXIDEvent_def createTableMapEvent_def
        createRowsEvent_def mk_event_def)

text \<open>Transactions are numbered without gaps. With GTIDs enabled, the GTID events that any sequence of change
  events produces carry the numbers that follow the server's transaction id, one by one and in order
  (modulo 2^64), exactly one per BEGIN, DDL or TRUNCATE change, and each is directly followed by its
  query event.\<close>

theorem gtids_consecutive:
  assumes "sv_gtid_enabled s"
  shows "gnos (convert_all es s)
       = map (\<lambda>i. sv_transaction_id s + of_nat (Suc i)) [0 ..< length (filter (opens_transaction \<circ> snd) es)]
     \<and> gtids_paired (convert_all es s)"
  using assms
proof (induction es arbitrary: s)
  case Nil
  then show ?case by simp
next
  case (Cons x es)
  obtain now e where x: "x = (now, e)" by fastforce
  obtain evs s' where conv: "convertToMySQLEvents now e s = (evs, s')" by fastforce
  note one = convert_one [OF Cons.prems conv]
  let ?n = "length (filter (opens_transaction \<circ> snd) es)"
  have shift: "map f [0 ..< Suc n] = f 0 # map (\<lambda>i. f (Suc i)) [0 ..< n]" for f :: "nat \<Rightarrow> u64" and n
    by (induction n) auto
  show ?case
    using one Cons.IH [of s'] conv
    by (auto simp: x gnos_append gtids_paired_append shift add.assoc simp del: upt_Suc)
qed

theorem gtids_consecutive_witness:
  "gnos (convert_all [(\<lambda>_. 0, commit_change\<lparr>ce_type := ChangeTypeBegin\<rparr>), (\<lambda>_. 1, commit_change),
                      (\<lambda>_. 2, commit_change\<lparr>ce_type := ChangeTypeDDL\<rparr>)] two_clients) = [1, 2]"
proof -
  have "sv_gtid_enabled two_clients" by (simp add: two_clients_def)
  from gtids_consecutive [OF this, of "[(\<lambda>_. 0, commit_change\<lparr>ce_type := ChangeTypeBegin\<rparr>),
      (\<lambda>_. 1, commit_change), (\<lambda>_. 2, commit_change\<lparr>ce_type := ChangeTypeDDL\<rparr>)]"]
  show ?thesis by (simp add: opens_transaction_def commit_change_def two_clients_def)
qed

end
