(* ===== verification/Repl_Rows.thy ===== *)
theory Repl_Rows
  imports Repl_Broadcast
begin

text \<open>
  A row change read by a replica: the table map event and the rows event that
  \<open>convertToMySQLEvents\<close> produces for it, decoded together by a reader that knows nothing but the two
  payloads; and the server UUID in its text and binary forms.
\<close>

section \<open>The table map of a change\<close>

lemma getColumnMeta_fits: "unat (getColumnMeta t) mod 256 ^ meta_width t = unat (getColumnMeta t)"
proof -
  consider "t = MYSQL_TYPE_VARCHAR \<or> t = MYSQL_TYPE_VAR_STRING \<or> t = MYSQL_TYPE_STRING \<or> t = MYSQL_TYPE_NEWDECIMAL"
    | "t = MYSQL_TYPE_BLOB \<or> t = MYSQL_TYPE_JSON \<or> t = MYSQL_TYPE_FLOAT \<or> t = MYSQL_TYPE_DOUBLE"
    | "\<not> (t = MYSQL_TYPE_VARCHAR \<or> t = MYSQL_TYPE_VAR_STRING \<or> t = MYSQL_TYPE_STRING \<or> t = MYSQL_TYPE_NEWDECIMAL)"
      "\<not> (t = MYSQL_TYPE_BLOB \<or> t = MYSQL_TYPE_JSON \<or> t = MYSQL_TYPE_FLOAT \<or> t = MYSQL_TYPE_DOUBLE)"
    by argo
  then show ?thesis
  proof cases
    case 1
    then have "meta_width t = 2" by (auto simp: meta_width_def)
    moreover have "unat (getColumnMeta t) < 2 ^ LENGTH(16)" by (rule unsigned_less)
    ultimately show ?thesis by simp
  next
    case 2
    then show ?thesis
      by (elim disjE; simp add: meta_width_def getColumnMeta_def mysql_type_defs)
  next
    case 3
    then have "getColumnMeta t = 0" by (simp add: getColumnMeta_def)
    then show ?thesis by simp
  qed
qed

lemma nullable_bits_spec:
  "i + length cs \<le> 8 * length bm \<Longrightarrow>
   length (nullable_bits i cs bm) = length bm
   \<and> (\<forall>j. null_bit (nullable_bits i cs bm) j
         \<longleftrightarrow> null_bit bm j \<or> (i \<le> j \<and> j < i + length cs \<and> c_nullable (cs ! (j - i))))"
proof (induction cs arbitrary: i bm)
  case Nil
  then show ?case by auto
next
  case (Cons c cs)
  have idx: "(i \<le> j \<and> j < i + length (c # cs) \<and> c_nullable ((c # cs) ! (j - i)))
      \<longleftrightarrow> (j = i \<and> c_nullable c) \<or> (Suc i \<le> j \<and> j < Suc i + length cs \<and> c_nullable (cs ! (j - Suc i)))" for j
    by (cases "j = i") (auto simp: nth_Cons' Suc_diff_Suc le_less)
  have lt: "i div 8 < length bm" using Cons.prems by (simp add: less_mult_imp_div_less mult.commute)
  show ?case
    unfolding idx
    using Cons.IH [of "Suc i" "if c_nullable c then bm[i div 8 := bm ! (i div 8) OR push_bit (i mod 8) 1] else bm"]
      Cons.prems null_bit_set [OF lt]
    by (simp split: if_splits)
qed

definition table_map_of :: "change_event \<Rightarrow> table_map_event" where
  "table_map_of e =
     (rows_table_map e)
       \<lparr>tm_null_bitmap := nullable_bits 0 (ce_columns e) (replicate ((length (ce_columns e) + 7) div 8) 0),
        tm_column_name := map (bytes_of \<circ> c_name) (ce_columns e)\<rparr>"

lemma createTableMapEvent_body: "be_body (createTableMapEvent s now e) = ETableMap (table_map_of e)"
  by (simp add: createTableMapEvent_def mk_event_def table_map_of_def rows_table_map_def)

lemma table_map_of_wf:
  assumes "length (ce_columns e) \<le> 4096"
  shows "wf_table_map (table_map_of e)"
proof -
  have "unat (of_nat (length (ce_columns e)) :: u64) = length (ce_columns e)"
    using assms by (intro unat_of_nat_small) simp
  then show ?thesis
    using nullable_bits_spec [of 0 "ce_columns e" "replicate ((length (ce_columns e) + 7) div 8) 0"]
    by (simp add: wf_table_map_def table_map_of_def rows_table_map_def)
qed

text \<open>The bitmap of nullable columns. The table map event of a change has, for a table of any number of
  columns, exactly one bit set per nullable column, at the column's position; the padding bits of the
  last byte are clear.\<close>

theorem nullable_bitmap_correct:
  assumes "be_body (createTableMapEvent s now e) = ETableMap tm" and "j < 8 * length (tm_null_bitmap tm)"
  shows "null_bit (tm_null_bitmap tm) j \<longleftrightarrow> j < length (ce_columns e) \<and> c_nullable (ce_columns e ! j)"
proof -
  let ?n = "(length (ce_columns e) + 7) div 8"
  have tm: "tm_null_bitmap tm = nullable_bits 0 (ce_columns e) (replicate ?n 0)"
    using assms(1) by (auto simp: createTableMapEvent_body table_map_of_def)
  note spec = nullable_bits_spec [of 0 "ce_columns e" "replicate ?n 0"]
  then have "j div 8 < ?n"
    using assms(2) tm by (simp add: less_mult_imp_div_less mult.commute)
  then have "\<not> null_bit (replicate ?n 0) j" by (simp add: null_bit_def)
  then show ?thesis using spec tm by simp
qed

definition sample_change :: change_event where
  "sample_change = \<lparr>ce_type = ChangeTypeUpdate, ce_timestamp = zero_time, ce_database = ''postgres'',
     ce_schema = ''public'', ce_table = ''t'', ce_table_id = 16384,
     ce_columns = [\<lparr>c_name = ''id'', c_type = MYSQL_TYPE_LONG, c_nullable = False, c_unsigned = False\<rparr>,
                   \<lparr>c_name = ''doc'', c_type = MYSQL_TYPE_LONGLONG, c_nullable = True, c_unsigned = False\<rparr>],
     ce_old_values = None, ce_new_values = Some [GInt32 1, GNil], ce_lsn = 7\<rparr>"

theorem nullable_bitmap_correct_witness:
  "\<exists>tm. be_body (createTableMapEvent two_clients 0 sample_change) = ETableMap tm
     \<and> \<not> null_bit (tm_null_bitmap tm) 0 \<and> null_bit (tm_null_bitmap tm) 1 \<and> \<not> null_bit (tm_null_bitmap tm) 2"
proof -
  let ?tm = "table_map_of sample_change"
  have tm: "be_body (createTableMapEvent two_clients 0 sample_change) = ETableMap ?tm"
    by (rule createTableMapEvent_body)
  have len: "j < 8 * length (tm_null_bitmap ?tm)" if "j < 8" for j
    using that by (simp add: table_map_of_def sample_change_def)
  have "null_bit (tm_null_bitmap ?tm) j \<longleftrightarrow> j = 1" if "j < 8" for j
    unfolding nullable_bitmap_correct [OF tm len [OF that]]
    by (auto simp: sample_change_def less_Suc_eq nth_Cons')
  then show ?thesis using tm by auto
qed

section \<open>Reading a row change\<close>

definition tm_of_view :: "table_map_view \<Rightarrow> table_map_event" where
  "tm_of_view v = \<lparr>tm_table_id = of_nat (v_table_id v), tm_flags = 0, tm_schema = v_schema v,
     tm_table = v_table v, tm_column_count = of_nat (length (v_types v)), tm_column_type = v_types v,
     tm_column_meta = map of_nat (v_metas v), tm_null_bitmap = v_null_bitmap v, tm_column_name = []\<rparr>"

definition read_rows_event ::
    "(byte list \<Rightarrow> (nat \<times> byte list) option) \<Rightarrow> bool \<Rightarrow> table_map_view \<Rightarrow> byte list
     \<Rightarrow> byte list option list list option" where
  "read_rows_event ldec upd v bs =
     Option.bind (read_uint 6 bs) (\<lambda>(tid, bs).
     Option.bind (read_uint 2 bs) (\<lambda>(flags, bs).
     Option.bind (read_uint 2 bs) (\<lambda>(extra, bs).
     Option.bind (read_block (extra - 2) bs) (\<lambda>(_, bs).
     Option.bind (ldec bs) (\<lambda>(cols, bs).
     Option.bind (read_block ((cols + 7) div 8) bs) (\<lambda>(_, bs).
     Option.bind (if upd then read_block ((cols + 7) div 8) bs else Some ([], bs)) (\<lambda>(_, bs).
     Option.bind (decode_n (read_row (tm_of_view v)) (if upd then 2 else 1) bs) (\<lambda>(rows, rest).
     if tid = v_table_id v \<and> rest = [] then Some rows else None))))))))"

lemma read_block_0 [simp]: "read_block 0 bs = Some ([], bs)"
  by (simp add: read_block_def)

lemma read_row_cong:
  "tm_column_type a = tm_column_type b \<Longrightarrow> tm_column_meta a = tm_column_meta b \<Longrightarrow> read_row a = read_row b"
  by (rule ext) (simp add: read_row_def Let_def)

definition view_of :: "change_event \<Rightarrow> table_map_view" where
  "view_of e = \<lparr>v_table_id = unat (ce_table_id e) mod 2 ^ 48, v_flags = 0, v_schema = bytes_of (ce_schema e),
     v_table = bytes_of (ce_table e), v_types = map c_type (ce_columns e),
     v_metas = map (\<lambda>c. unat (getColumnMeta (c_type c))) (ce_columns e),
     v_null_bitmap = null_bitmap_bytes (table_map_of e)\<rparr>"

lemma read_table_map_of:
  assumes lenc: "\<And>n r. ldec (lenc n @ r) = Some (unat (n :: u64), r)"
    and "length (ce_columns e) \<le> 4096" "length (ce_schema e) < 256" "length (ce_table e) < 256"
  shows "read_table_map ldec (encodeTableMapEvent lenc NewBinlogEncoder (table_map_of e)) = Some (view_of e)"
proof -
  have "map2 (\<lambda>t m. unat m mod 256 ^ meta_width t) (map c_type cs) (map (getColumnMeta \<circ> c_type) cs)
      = map (\<lambda>c. unat (getColumnMeta (c_type c))) cs" for cs
    by (induction cs) (simp_all add: getColumnMeta_fits)
  then show ?thesis
    using table_map_read_back [OF lenc table_map_of_wf [OF assms(2)]] assms(2-4)
    by (simp add: view_of_def table_map_of_def rows_table_map_def null_bitmap_bytes_def)
qed

lemma read_rows_of:
  assumes lenc: "\<And>n r. ldec (lenc n @ r) = Some (unat (n :: u64), r)"
    and cols: "length (ce_columns e) \<le> 4096" "ce_columns e \<noteq> []"
    and rows: "\<forall>row \<in> set (rows_of e). row_ok rt (rows_table_map e) row"
    and body: "be_body (createRowsEvent s now e) = ERows re"
  shows "\<exists>p. encodeRowsEvent rt lenc NewBinlogEncoder re = Some p
    \<and> read_rows_event ldec (ce_type e = ChangeTypeUpdate) (view_of e) p
        = Some (map (row_cells rt (rows_table_map e) 0) (rows_of e))"
proof -
  let ?n = "length (ce_columns e)" and ?upd = "ce_type e = ChangeTypeUpdate"
  let ?bm = "replicate ((?n + 7) div 8) (0xFF :: byte)"
  have n: "unat (of_nat ?n :: u64) = ?n"
    using cols(1) by (intro unat_of_nat_small) simp
  have re: "re_table re = Some (rows_table_map e)" "re_rows re = rows_of e" "re_column_count re = of_nat ?n"
    "re_bitmap1 re = ?bm" "re_bitmap2 re = (if ?upd then ?bm else [])" "re_version re = 2"
    "re_table_id re = ce_table_id e" "re_flags re = 1"
    using body by (auto simp: createRowsEvent_def mk_event_def Let_def)
  have pos: "0 < (?n + 7) div 8"
    using cols(2) by (cases "ce_columns e") (simp_all add: div_greater_zero_iff)
  have types: "unat (re_column_count re) = length (tm_column_type (rows_table_map e))"
    by (simp add: re n rows_table_map_def)
  obtain d where d: "encodeRowData rt re = Some d"
      "decode_n (read_row (rows_table_map e)) (length (rows_of e)) d
        = Some (map (row_cells rt (rows_table_map e) 0) (rows_of e), [])"
    using encode_rows_read [OF rows refl, of "[]"] types re(1,2,3)
    by (auto simp: encodeRowData_def)
  have six: "length (table_id_bytes NewBinlogEncoder (ce_table_id e)) = 6"
    by (simp add: table_id_bytes_def NewBinlogEncoder_def)
  have "encodeRowsEvent rt lenc NewBinlogEncoder re = Some
     (table_id_bytes NewBinlogEncoder (ce_table_id e) @ le_bytes 2 (1 :: u16) @ le_bytes 2 (2 :: u16)
      @ lenc (of_nat ?n) @ ?bm @ (if ?upd then ?bm else []) @ d)"
    using encodeRowsEvent_layout [OF d(1), of NewBinlogEncoder lenc] pos
    by (cases ?upd) (simp_all add: re n NewBinlogEncoder_def)
  moreover have "read_row (tm_of_view (view_of e)) = read_row (rows_table_map e)"
    by (rule read_row_cong) (simp_all add: tm_of_view_def view_of_def rows_table_map_def)
  moreover have "length (rows_of e) = (if ?upd then 2 else 1)"
    by (simp add: rows_of_def)
  ultimately show ?thesis
    using d(2) six
    by (auto simp: read_rows_event_def lenc n le_bytes_u16 table_id_value view_of_def simp del: decode_n.simps)
qed

lemma row_change_read_back:
  assumes lenc: "\<And>n r. ldec (lenc n @ r) = Some (unat (n :: u64), r)"
    and change: "ce_type e \<in> {ChangeTypeInsert, ChangeTypeUpdate, ChangeTypeDelete}"
    and cols: "length (ce_columns e) \<le> 4096" "ce_columns e \<noteq> []"
    and names: "length (ce_schema e) < 256" "length (ce_table e) < 256"
    and rows: "\<forall>row \<in> set (rows_of e). row_ok rt (rows_table_map e) row"
  shows "\<exists>tev rev tp rp v. convertToMySQLEvents now e s = ([tev, rev], s)
    \<and> event_payload rt lenc NewBinlogEncoder (be_body tev) = Some tp
    \<and> event_payload rt lenc NewBinlogEncoder (be_body rev) = Some rp
    \<and> read_table_map ldec tp = Some v
    \<and> v_schema v = bytes_of (ce_schema e) \<and> v_table v = bytes_of (ce_table e)
    \<and> v_types v = map c_type (ce_columns e)
    \<and> read_rows_event ldec (ce_type e = ChangeTypeUpdate) v rp
        = Some (map (row_cells rt (rows_table_map e) 0) (rows_of e))"
proof -
  obtain re where re: "be_body (createRowsEvent s (now 1) e) = ERows re"
    by (simp add: createRowsEvent_def mk_event_def Let_def)
  obtain rp where rp: "encodeRowsEvent rt lenc NewBinlogEncoder re = Some rp"
      "read_rows_event ldec (ce_type e = ChangeTypeUpdate) (view_of e) rp
        = Some (map (row_cells rt (rows_table_map e) 0) (rows_of e))"
    using read_rows_of [OF lenc cols rows re] by blast
  have "convertToMySQLEvents now e s = ([createTableMapEvent s (now 0) e, createRowsEvent s (now 1) e], s)"
    using change by (auto simp: convertToMySQLEvents_def)
  moreover have "v_schema (view_of e) = bytes_of (ce_schema e)" "v_table (view_of e) = bytes_of (ce_table e)"
    "v_types (view_of e) = map c_type (ce_columns e)"
    by (simp_all add: view_of_def)
  ultimately show ?thesis
    using rp re read_table_map_of [OF lenc cols(1) names]
    by (auto simp: event_payload_def createTableMapEvent_body)
qed

text \<open>The row images of a change as the MySQL binlog format has them.\<close>

definition before_image :: "change_event \<Rightarrow> go_value list" where
  "before_image e = (case ce_old_values e of Some vs \<Rightarrow> vs | None \<Rightarrow> slice (ce_new_values e))"

definition row_images :: "change_event \<Rightarrow> go_value list list" where
  "row_images e =
     (case ce_type e of
        ChangeTypeInsert \<Rightarrow> [slice (ce_new_values e)]
      | ChangeTypeUpdate \<Rightarrow> [before_image e, slice (ce_new_values e)]
      | _ \<Rightarrow> [before_image e])"

lemma rows_of_images: "rows_of e = row_images e"
  by (cases "ce_type e")
     (auto simp: rows_of_def row_images_def old_or_new_def before_image_def slice_def split: option.splits)

text \<open>C2: Row changes are readable end to end. For an INSERT, UPDATE or DELETE whose values fit their columns, the
  conversion produces a table map event and a rows event such that a replica that decodes the first
  payload and uses only what it read there (types and metadata) to decode the second recovers the table's
  identity and every row, cell by cell: the new row of an insert, old and new row of an update, the old
  row of a delete. Nothing is left over in the payload.\<close>

theorem row_change_readable:
  assumes lenc: "\<And>n r. ldec (lenc n @ r) = Some (unat (n :: u64), r)"
    and change: "ce_type e \<in> {ChangeTypeInsert, ChangeTypeUpdate, ChangeTypeDelete}"
    and cols: "length (ce_columns e) \<le> 4096" "ce_columns e \<noteq> []"
    and names: "length (ce_schema e) < 256" "length (ce_table e) < 256"
    and rows: "\<forall>row \<in> set (row_images e). row_ok rt (rows_table_map e) row"
  shows "\<exists>tev rev tp rp v. convertToMySQLEvents now e s = ([tev, rev], s)
    \<and> event_payload rt lenc NewBinlogEncoder (be_body tev) = Some tp
    \<and> event_payload rt lenc NewBinlogEncoder (be_body rev) = Some rp
    \<and> read_table_map ldec tp = Some v
    \<and> v_schema v = bytes_of (ce_schema e) \<and> v_table v = bytes_of (ce_table e)
    \<and> v_types v = map c_type (ce_columns e)
    \<and> read_rows_event ldec (ce_type e = ChangeTypeUpdate) v rp
        = Some (map (row_cells rt (rows_table_map e) 0) (row_images e))"
  using row_change_read_back [OF lenc change cols names rows [folded rows_of_images]] by (simp only: rows_of_images)

lemma sample_change_rows_ok: "\<forall>row \<in> set (row_images sample_change). row_ok plain_rt (rows_table_map sample_change) row"
  by code_simp

theorem row_change_readable_witness:
  "\<exists>tev rev tp rp v. convertToMySQLEvents (\<lambda>_. 0) sample_change two_clients = ([tev, rev], two_clients)
    \<and> event_payload plain_rt lenenc NewBinlogEncoder (be_body tev) = Some tp
    \<and> event_payload plain_rt lenenc NewBinlogEncoder (be_body rev) = Some rp
    \<and> read_table_map lenenc_dec tp = Some v
    \<and> read_rows_event lenenc_dec True v rp = Some [[Some [1, 0, 0, 0], None], [Some [1, 0, 0, 0], None]]"
proof -
  have f: "ce_type sample_change \<in> {ChangeTypeInsert, ChangeTypeUpdate, ChangeTypeDelete}"
    "length (ce_columns sample_change) \<le> 4096" "ce_columns sample_change \<noteq> []"
    "length (ce_schema sample_change) < 256" "length (ce_table sample_change) < 256"
    by (simp_all add: sample_change_def)
  have upd: "(ce_type sample_change = ChangeTypeUpdate) = True" by (simp add: sample_change_def)
  have cells: "map (row_cells plain_rt (rows_table_map sample_change) 0) (row_images sample_change)
      = [[Some [1, 0, 0, 0], None], [Some [1, 0, 0, 0], None]]"
    by code_simp
  show ?thesis
    using row_change_readable [OF lenenc_dec_lenenc f sample_change_rows_ok, of "\<lambda>_. 0" two_clients]
    unfolding upd cells by blast
qed

section \<open>The server UUID\<close>

primrec hex_fixed :: "nat \<Rightarrow> nat \<Rightarrow> string" where
  "hex_fixed 0 n = []"
| "hex_fixed (Suc w) n = hex_fixed w (n div 16) @ [hex_char (n mod 16)]"

lemma length_hex_fixed [simp]: "length (hex_fixed w n) = w"
  by (induction w arbitrary: n) auto

lemma hex_fixed_zero: "hex_fixed w 0 = replicate w (CHR ''0'')"
proof -
  have "hex_char 0 = CHR ''0''" by code_simp
  then show ?thesis by (induction w) (auto simp: replicate_append_same)
qed

lemma length_hex_digits: "n < 16 ^ w \<Longrightarrow> 0 < w \<Longrightarrow> length (hex_digits n) \<le> w"
proof (induction n arbitrary: w rule: hex_digits.induct)
  case (1 n)
  show ?case
  proof (cases "n < 16")
    case True
    then show ?thesis using 1 by (subst hex_digits.simps) simp
  next
    case False
    obtain v where "w = Suc v" using 1(3) by (cases w) auto
    moreover have "0 < v" using False 1(2) calculation by (cases v) auto
    ultimately have w: "w = Suc v" "0 < v" by simp_all
    have "n div 16 < 16 ^ v" using 1(2) w by (simp add: less_mult_imp_div_less mult.commute)
    then show ?thesis using 1(1) [OF False _ w(2)] False w by (subst hex_digits.simps) simp
  qed
qed

lemma pad_hex_digits: "n < 16 ^ w \<Longrightarrow> 0 < w \<Longrightarrow> pad_zeros w (hex_digits n) = hex_fixed w n"
proof (induction n arbitrary: w rule: hex_digits.induct)
  case (1 n)
  obtain v where w: "w = Suc v" using 1(3) by (cases w) auto
  show ?case
  proof (cases "n < 16")
    case True
    then show ?thesis
      by (subst hex_digits.simps) (simp add: w pad_zeros_def hex_fixed_zero)
  next
    case False
    then have v: "0 < v" using 1(2) w by (cases v) auto
    have lt: "n div 16 < 16 ^ v" using 1(2) w by (simp add: less_mult_imp_div_less mult.commute)
    have "pad_zeros w (hex_digits n) = pad_zeros v (hex_digits (n div 16)) @ [hex_char (n mod 16)]"
      using False length_hex_digits [OF lt v] by (subst hex_digits.simps) (simp add: w pad_zeros_def)
    then show ?thesis using 1(1) [OF False lt v] by (simp add: w)
  qed
qed

lemma hex_val_hex_char [simp]: "d < 16 \<Longrightarrow> hex_val (hex_char d) = Some d"
  by (auto simp: hex_val_def hex_char_def char_code_def)

lemma hex_char_not_dash [simp]: "d < 16 \<Longrightarrow> hex_char d \<noteq> CHR ''-''"
proof
  assume d: "d < 16" and "hex_char d = CHR ''-''"
  then have "hex_val (CHR ''-'') = Some d" by (metis hex_val_hex_char)
  moreover have "hex_val (CHR ''-'') = None" by code_simp
  ultimately show False by simp
qed

lemma hex_char_plain [simp]:
  assumes "d < 16"
  shows "\<not> is_space (hex_char d)" and "hex_char d \<noteq> newline"
proof -
  show "\<not> is_space (hex_char d)"
    using assms by (auto simp: hex_char_def is_space_def char_code_def)
  moreover have "is_space newline" by code_simp
  ultimately show "hex_char d \<noteq> newline" by auto
qed

lemma filter_hex_fixed [simp]: "filter (\<lambda>c. c \<noteq> CHR ''-'') (hex_fixed w n) = hex_fixed w n"
  by (induction w arbitrary: n) auto

lemma be_bytes_Suc: "be_bytes (Suc k) w = be_bytes k (drop_bit 8 w) @ [ucast w]"
  by (simp add: be_bytes_def)

text \<open>Two hexadecimal digits are one byte.\<close>

lemma scan_hex2_pair: "scan_hex2 [hex_char (n div 16 mod 16), hex_char (n mod 16)] = of_nat (n mod 256)"
proof -
  have "n div 16 mod 16 * 16 + n mod 16 = n mod 256"
    using mod_mult2_eq [of n 16 16] by (simp add: mult.commute)
  then show ?thesis by (simp add: scan_hex2_def)
qed

lemma uuid_bytes_hex:
  "uuid_bytes (k + m) (hex_fixed (2 * k) (unat (w :: u64)) @ rest) = be_bytes k w @ uuid_bytes m rest"
proof (induction k arbitrary: w m rest)
  case 0
  then show ?case by (simp add: be_bytes_def)
next
  case (Suc k)
  have hex: "hex_fixed (2 * Suc k) (unat w)
      = hex_fixed (2 * k) (unat (drop_bit 8 w)) @ [hex_char (unat w div 16 mod 16), hex_char (unat w mod 16)]"
    by (simp add: unat_drop_bit8 div_mult2_eq [symmetric])
  have "(of_nat (unat w mod 256) :: byte) = ucast w"
    by (simp add: unat_ucast_byte [symmetric])
  then show ?case
    using Suc.IH [of "Suc m" "drop_bit 8 w" "[hex_char (unat w div 16 mod 16), hex_char (unat w mod 16)] @ rest"]
    by (simp only: hex append_assoc) (simp add: scan_hex2_pair be_bytes_Suc)
qed

lemma unat_and_less: "unat (y :: u64) < b \<Longrightarrow> unat (x AND y) < b"
  using word_and_le1 [of x y] by (simp add: word_le_nat_alt)

lemma unat_or_less: "unat x < 2 ^ n \<Longrightarrow> unat y < 2 ^ n \<Longrightarrow> unat (x OR y :: u64) < 2 ^ n"
  by (metis take_bit_nat_eq_self_iff take_bit_or unsigned_or_eq)

lemma hex_pad_fixed: "unat v < 16 ^ w \<Longrightarrow> 0 < w \<Longrightarrow> hex_pad w v = hex_fixed w (unat v)"
  by (simp add: hex_pad_def pad_hex_digits)

text \<open>The server UUID survives its text form. \<open>uuidStringToBytes\<close> applied to a UUID that \<open>generateUUID\<close>
  printed gives exactly the sixteen bytes of its five fields in network order, and the bytes say version 4,
  variant 10: whatever the clock readings are, every field has its full width and no digit is lost or
  misread.\<close>

theorem uuid_roundtrip:
  "uuidStringToBytes (generateUUID now)
     = be_bytes 4 (now 0 AND 0xFFFFFFFF)
       @ be_bytes 2 (signed_drop_bit 32 (now 1) AND 0xFFFF)
       @ be_bytes 2 (0x4000 OR (signed_drop_bit 48 (now 2) AND 0x0FFF))
       @ be_bytes 2 (0x8000 OR (signed_drop_bit 60 (now 3) AND 0x3FFF))
       @ be_bytes 6 (now 4 AND 0xFFFFFFFFFFFF)
   \<and> length (uuidStringToBytes (generateUUID now)) = 16"
proof -
  let ?a = "now 0 AND 0xFFFFFFFF" and ?b = "signed_drop_bit 32 (now 1) AND 0xFFFF"
    and ?c = "0x4000 OR (signed_drop_bit 48 (now 2) AND 0x0FFF)"
    and ?d = "0x8000 OR (signed_drop_bit 60 (now 3) AND 0x3FFF)" and ?e = "now 4 AND 0xFFFFFFFFFFFF"
  have "unat ?a < 16 ^ 8" "unat ?b < 16 ^ 4" "unat ?e < 16 ^ 12"
    by (rule unat_and_less; simp)+
  moreover have "unat ?c < 2 ^ 16" "unat ?d < 2 ^ 16"
    by (rule unat_or_less, simp, rule unat_and_less, simp)+
  ultimately have "filter (\<lambda>c. c \<noteq> CHR ''-'') (generateUUID now)
      = hex_fixed 8 (unat ?a) @ hex_fixed 4 (unat ?b) @ hex_fixed 4 (unat ?c) @ hex_fixed 4 (unat ?d)
        @ hex_fixed 12 (unat ?e)"
    by (simp add: generateUUID_def hex_pad_fixed)
  then have "uuidStringToBytes (generateUUID now)
      = be_bytes 4 ?a @ be_bytes 2 ?b @ be_bytes 2 ?c @ be_bytes 2 ?d @ be_bytes 6 ?e"
    using uuid_bytes_hex [of 4 12 ?a] uuid_bytes_hex [of 2 10 ?b] uuid_bytes_hex [of 2 8 ?c]
      uuid_bytes_hex [of 2 6 ?d] uuid_bytes_hex [of 6 0 ?e "[]"]
    by (simp add: uuidStringToBytes_def)
  then show ?thesis by simp
qed

section \<open>Hand-made events\<close>

lemma raw_header_fill:
  assumes "19 \<le> n"
  shows "raw_header ts ty sid sz pos (replicate n 0)
    = (le_bytes 4 ts @ [ty] @ le_bytes 4 sid @ le_bytes 4 sz @ le_bytes 4 pos @ le_bytes 2 (0 :: u16))
      @ replicate (n - 19) 0"
  using assms unfolding raw_header_def Let_def
  by (simp add: put_fills del: append_assoc append.simps replicate_Suc)

text \<open>The format description event and the heartbeat, which the server assembles by hand, carry the right
  header: event type, server id, their own length (121 and 23 bytes), the position where the next event
  starts (125 after the format description) or the current position; and both end in four zero bytes where the format
  description announces a CRC-32.\<close>

theorem handmade_events:
  "length (format_description_event sid ts) = 121 \<and> framed_event (format_description_event sid ts)
   \<and> read_header (format_description_event sid ts)
       = \<lparr>h_timestamp = ts, h_event_type = FORMAT_DESCRIPTION_EVENT, h_server_id = sid, h_log_pos = 125, h_flags = 0\<rparr>
   \<and> drop 117 (format_description_event sid ts) = [0, 0, 0, 0]
   \<and> framed_event (heartbeat_event sid pos ts)
   \<and> read_header (heartbeat_event sid pos ts)
       = \<lparr>h_timestamp = ts, h_event_type = HEARTBEAT_EVENT, h_server_id = sid, h_log_pos = pos, h_flags = 0\<rparr>
   \<and> drop 19 (heartbeat_event sid pos ts) = [0, 0, 0, 0]"
proof -
  let ?p = "[4, 0] @ put (replicate 50 0) 0 (bytes_of ''8.0.11-aproxy'') @ le_bytes 4 ts @ [19]
            @ post_header_lengths @ [1]"
  let ?h = "\<lambda>ty pos. \<lparr>h_timestamp = ts, h_event_type = ty, h_server_id = sid, h_log_pos = pos, h_flags = 0\<rparr>"
  have p: "length ?p = 98" by (simp add: post_header_lengths_def)
  have fde: "format_description_event sid ts
      = header_bytes (?h FORMAT_DESCRIPTION_EVENT 125) 121 @ ?p @ replicate 4 0"
    unfolding format_description_event_def Let_def p
    using p
    by (simp add: raw_header_fill header_bytes_def put_fill del: append_assoc append.simps replicate_Suc)
  have hb: "heartbeat_event sid pos ts = header_bytes (?h HEARTBEAT_EVENT pos) 23 @ replicate 4 0"
    by (simp add: heartbeat_event_def raw_header_fill header_bytes_def)
  have len: "le_val (take 4 (drop 9 (header_bytes h n))) = n" if "n < 2 ^ 32" for h n
    using that by (simp add: header_bytes_def le_bytes_u32 unat_of_nat_small)
  have four: "replicate 4 0 = [0, 0, 0, 0 :: byte]" by (simp add: numeral_eq_Suc)
  show ?thesis
    unfolding fde hb framed_event_def read_header_bytes
    using p by (simp add: len four)
qed

end
