(* ===== verification/Pg_Streamer.thy ===== *)
theory Pg_Streamer
  imports Repl_Server
begin

text \<open>
  The logical replication streamer of \<open>pkg/replication/pg_streamer.go\<close>: message handlers, value conversion,
  event channel with backpressure, checkpoints, connection set-up, and the streaming loop with its reconnect policy. The
  parsers of the pglogrepl library (\<open>parse\<close>, \<open>parse_xlog\<close>, \<open>parse_keepalive\<close>), scanning of floats, the JSON
  functions and the answers of PostgreSQL are arguments.
\<close>

section \<open>State\<close>

record column_info =
  ci_name :: string
  ci_data_type :: u32
  ci_type_name :: string
  ci_nullable :: bool

record table_info =
  ti_id :: u32
  ti_schema :: string
  ti_name :: string
  ti_columns :: "column_info list"

record checkpoint =
  cp_lsn :: u64
  cp_timestamp :: int
  cp_slot_name :: string

record streamer =
  sm_config :: server_config
  sm_chan :: "change_event list"
  sm_conn :: bool
  sm_admin_conn :: bool
  sm_cancelled :: bool
  sm_running :: bool
  sm_pos :: u64
  sm_standby_timeout :: int
  sm_deadline :: "int option"
  sm_table_cache :: "u32 \<rightharpoonup> table_info"
  sm_replica_identity :: "string set"
  sm_backpressure :: nat
  sm_dropped :: nat
  sm_reconnects :: nat

text \<open>Messages of the logical replication protocol, as pglogrepl hands them out.\<close>

record tuple_column =
  tc_kind :: byte
  tc_data :: "byte list"

datatype pg_message =
    RelationMessage u32 string string "(string \<times> u32) list"
  | InsertMessage u32 "tuple_column list option"
  | UpdateMessage u32 "tuple_column list option" "tuple_column list option"
  | DeleteMessage u32 "tuple_column list option"
  | TruncateMessage byte "u32 list"
  | OtherMessage

section \<open>Types and values\<close>

definition pgTypeToMySQLType :: "u32 \<Rightarrow> byte" where
  "pgTypeToMySQLType pgType =
     (if pgType = 16 then 1
      else if pgType = 21 then 2
      else if pgType = 23 then 3
      else if pgType = 20 then 8
      else if pgType = 26 then 3
      else if pgType = 700 then 4
      else if pgType = 701 then 5
      else if pgType = 1700 then 246
      else if pgType = 1082 then 10
      else if pgType = 1083 then 11
      else if pgType = 1266 then 11
      else if pgType = 1114 then 12
      else if pgType = 1184 then 12
      else if pgType = 1186 then 253
      else if pgType = 18 then 254
      else if pgType = 25 then 252
      else if pgType = 1042 then 254
      else if pgType = 1043 then 253
      else if pgType = 19 then 253
      else if pgType = 17 then 252
      else if pgType = 2950 then 254
      else if pgType = 114 \<or> pgType = 3802 then 245
      else if pgType \<in> {869, 650, 829, 774} then 253
      else if pgType \<in> {600, 601, 602, 603, 604, 718} then 253
      else if pgType \<in> {1560, 1562} then 16
      else if pgType \<in> {1000, 1005, 1007, 1016, 1009, 1015, 1021, 1022} then 245
      else if pgType = 142 then 253
      else if pgType = 790 then 246
      else 253)"

record pg_scan =
  scan_f32 :: "string \<Rightarrow> u32"
  scan_f64 :: "string \<Rightarrow> u64"

definition scan_d :: "nat \<Rightarrow> string \<Rightarrow> int" where
  "scan_d bits s = nth_int (sscanf bits [FInt] s) 0"

definition array_text :: "string \<Rightarrow> string" where
  "array_text v =
     (if 0 < length v \<and> hd v = CHR ''{'' \<and> last v = CHR ''}'' then ''['' @ butlast (tl v) @ '']'' else v)"

definition convertPGValue :: "pg_scan \<Rightarrow> string \<Rightarrow> u32 \<Rightarrow> go_value" where
  "convertPGValue sc v pgType =
     (if pgType = 16 then GInt8 (if v = ''t'' \<or> v = ''true'' \<or> v = ''1'' then 1 else 0)
      else if pgType = 21 then GInt16 (of_int (scan_d 16 v))
      else if pgType = 23 \<or> pgType = 26 then GInt32 (of_int (scan_d 32 v))
      else if pgType = 20 then GInt64 (of_int (scan_d 64 v))
      else if pgType = 700 then GFloat32 (scan_f32 sc v)
      else if pgType = 701 then GFloat64 (scan_f64 sc v)
      else if pgType \<in> {1000, 1005, 1007, 1016, 1009, 1015, 1021, 1022} then GString (array_text v)
      else GString v)"

definition decode_column ::
    "pg_scan \<Rightarrow> table_info \<Rightarrow> go_value list option \<Rightarrow> nat \<Rightarrow> tuple_column \<Rightarrow> go_value" where
  "decode_column sc ti fallback i col =
     (if tc_kind col = of_char CHR ''n'' then GNil
      else if tc_kind col = of_char CHR ''u'' then
        (case fallback of
           Some vs \<Rightarrow> if i < length vs then vs ! i else GNil
         | None \<Rightarrow> GNil)
      else if tc_kind col = of_char CHR ''t'' then
        (if i < length (ti_columns ti)
         then convertPGValue sc (string_of (tc_data col)) (ci_data_type (ti_columns ti ! i))
         else GString (string_of (tc_data col)))
      else GBytes (tc_data col))"

definition decodeTupleData ::
    "pg_scan \<Rightarrow> tuple_column list option \<Rightarrow> table_info \<Rightarrow> go_value list option \<Rightarrow> go_value list option" where
  "decodeTupleData sc tup ti fallback =
     map_option (\<lambda>cols. map (\<lambda>(i, col). decode_column sc ti fallback i col) (enumerate 0 cols)) tup"

definition convertColumns :: "table_info \<Rightarrow> column list" where
  "convertColumns ti =
     map (\<lambda>col. \<lparr>c_name = ci_name col, c_type = pgTypeToMySQLType (ci_data_type col),
                 c_nullable = ci_nullable col, c_unsigned = False\<rparr>) (ti_columns ti)"

section \<open>The event channel\<close>

text \<open>
  The two \<open>select\<close> statements of \<open>sendEvent\<close>: \<open>done_first\<close> says which ready case Go picks when there is room and
  the context is cancelled; when the channel is full, the second \<open>select\<close> ends with the consumer having taken
  \<open>Suc k\<close> events, with a shutdown, or with the timeout. A full channel holds 10000 events.
\<close>

datatype wait_result = ConsumerTook nat | ShutDown | TimedOut

record send_env =
  se_done_first :: bool
  se_wait :: wait_result

definition chan_capacity :: nat where
  "chan_capacity = 10000"

definition sendEvent :: "send_env \<Rightarrow> change_event \<Rightarrow> streamer \<Rightarrow> streamer" where
  "sendEvent env event s =
     (let event = event\<lparr>ce_lsn := sm_pos s\<rparr>;
          room = (length (sm_chan s) < chan_capacity)
      in if room \<and> \<not> (sm_cancelled s \<and> se_done_first env) then s\<lparr>sm_chan := sm_chan s @ [event]\<rparr>
         else if sm_cancelled s then s
         else
           (let s = s\<lparr>sm_backpressure := Suc (sm_backpressure s)\<rparr>
            in case se_wait env of
                 ConsumerTook k \<Rightarrow> s\<lparr>sm_chan := drop (Suc k) (sm_chan s) @ [event]\<rparr>
               | ShutDown \<Rightarrow> s\<lparr>sm_cancelled := True\<rparr>
               | TimedOut \<Rightarrow> s\<lparr>sm_dropped := Suc (sm_dropped s)\<rparr>))"

section \<open>Message handlers\<close>

definition base_event :: "change_type \<Rightarrow> gtime \<Rightarrow> change_event" where
  "base_event ty now =
     \<lparr>ce_type = ty, ce_timestamp = now, ce_database = [], ce_schema = [], ce_table = [], ce_table_id = 0,
      ce_columns = [], ce_old_values = None, ce_new_values = None, ce_lsn = 0\<rparr>"

definition table_event :: "change_type \<Rightarrow> gtime \<Rightarrow> u32 \<Rightarrow> table_info \<Rightarrow> change_event" where
  "table_event ty now rid ti =
     (base_event ty now)\<lparr>ce_schema := ti_schema ti, ce_table := ti_name ti, ce_table_id := ucast rid\<rparr>"

definition getTableInfo :: "streamer \<Rightarrow> u32 \<Rightarrow> table_info option" where
  "getTableInfo s rid = sm_table_cache s rid"

definition cache_table :: "u32 \<Rightarrow> table_info \<Rightarrow> streamer \<Rightarrow> streamer" where
  "cache_table rid ti s = s\<lparr>sm_table_cache := (sm_table_cache s)(rid \<mapsto> ti)\<rparr>"

interpretation table_cache: keyed_map getTableInfo cache_table
  by unfold_locales (simp add: getTableInfo_def cache_table_def)

text \<open>The goroutine started by a relation message; whether the ALTER TABLE succeeds is an input.\<close>

definition ensureReplicaIdentityFull :: "bool \<Rightarrow> string \<Rightarrow> string \<Rightarrow> streamer \<Rightarrow> streamer" where
  "ensureReplicaIdentityFull alter_ok schema table s =
     (let fullName = schema @ ''.'' @ table
      in if fullName \<in> sm_replica_identity s then s
         else if \<not> sm_admin_conn s then s
         else if \<not> alter_ok then s
         else s\<lparr>sm_replica_identity := insert fullName (sm_replica_identity s)\<rparr>)"

definition handleRelationMessage ::
    "(byte list \<Rightarrow> pg_message option) \<Rightarrow> bool \<Rightarrow> byte list \<Rightarrow> streamer \<Rightarrow> streamer" where
  "handleRelationMessage parse alter_ok data s =
     (case parse data of
        Some (RelationMessage rid ns name cols) \<Rightarrow>
          (let ti = \<lparr>ti_id = rid, ti_schema = ns, ti_name = name,
                     ti_columns = map (\<lambda>(n, t). \<lparr>ci_name = n, ci_data_type = t, ci_type_name = [],
                                                 ci_nullable = False\<rparr>) cols\<rparr>
           in ensureReplicaIdentityFull alter_ok ns name (cache_table rid ti s))
      | _ \<Rightarrow> s)"

definition handleBeginMessage :: "send_env \<Rightarrow> gtime \<Rightarrow> streamer \<Rightarrow> streamer" where
  "handleBeginMessage env now s = sendEvent env (base_event ChangeTypeBegin now) s"

definition handleCommitMessage :: "send_env \<Rightarrow> gtime \<Rightarrow> streamer \<Rightarrow> streamer" where
  "handleCommitMessage env now s = sendEvent env (base_event ChangeTypeCommit now) s"

definition handleInsertMessage ::
    "(byte list \<Rightarrow> pg_message option) \<Rightarrow> pg_scan \<Rightarrow> send_env \<Rightarrow> gtime \<Rightarrow> byte list \<Rightarrow> streamer \<Rightarrow> streamer" where
  "handleInsertMessage parse sc env now data s =
     (case parse data of
        Some (InsertMessage rid tup) \<Rightarrow>
          (case getTableInfo s rid of
             None \<Rightarrow> s
           | Some ti \<Rightarrow>
               sendEvent env
                 ((table_event ChangeTypeInsert now rid ti)
                    \<lparr>ce_columns := convertColumns ti, ce_new_values := decodeTupleData sc tup ti None\<rparr>) s)
      | _ \<Rightarrow> s)"

definition handleUpdateMessage ::
    "(byte list \<Rightarrow> pg_message option) \<Rightarrow> pg_scan \<Rightarrow> send_env \<Rightarrow> gtime \<Rightarrow> byte list \<Rightarrow> streamer \<Rightarrow> streamer" where
  "handleUpdateMessage parse sc env now data s =
     (case parse data of
        Some (UpdateMessage rid old new) \<Rightarrow>
          (case getTableInfo s rid of
             None \<Rightarrow> s
           | Some ti \<Rightarrow>
               (let oldValues = decodeTupleData sc old ti None;
                    newValues = decodeTupleData sc new ti oldValues
                in sendEvent env
                     ((table_event ChangeTypeUpdate now rid ti)
                        \<lparr>ce_columns := convertColumns ti, ce_old_values := oldValues,
                         ce_new_values := newValues\<rparr>) s))
      | _ \<Rightarrow> s)"

definition handleDeleteMessage ::
    "(byte list \<Rightarrow> pg_message option) \<Rightarrow> pg_scan \<Rightarrow> send_env \<Rightarrow> gtime \<Rightarrow> byte list \<Rightarrow> streamer \<Rightarrow> streamer" where
  "handleDeleteMessage parse sc env now data s =
     (case parse data of
        Some (DeleteMessage rid old) \<Rightarrow>
          (case getTableInfo s rid of
             None \<Rightarrow> s
           | Some ti \<Rightarrow>
               sendEvent env
                 ((table_event ChangeTypeDelete now rid ti)
                    \<lparr>ce_columns := convertColumns ti, ce_old_values := decodeTupleData sc old ti None\<rparr>) s)
      | _ \<Rightarrow> s)"

fun truncate_loop :: "(nat \<Rightarrow> send_env) \<Rightarrow> (nat \<Rightarrow> gtime) \<Rightarrow> nat \<Rightarrow> u32 list \<Rightarrow> streamer \<Rightarrow> streamer" where
  "truncate_loop env now i [] s = s"
| "truncate_loop env now i (rid # rids) s =
     truncate_loop env now (Suc i) rids
       (case getTableInfo s rid of
          None \<Rightarrow> s
        | Some ti \<Rightarrow> sendEvent (env i) (table_event ChangeTypeTruncate (now i) rid ti) s)"

definition handleTruncateMessage ::
    "(byte list \<Rightarrow> pg_message option) \<Rightarrow> (nat \<Rightarrow> send_env) \<Rightarrow> (nat \<Rightarrow> gtime) \<Rightarrow> byte list \<Rightarrow> streamer \<Rightarrow> streamer" where
  "handleTruncateMessage parse env now data s =
     (case parse data of
        Some (TruncateMessage opt rids) \<Rightarrow> truncate_loop env now 0 rids s
      | _ \<Rightarrow> s)"

text \<open>The environment of one message: parser, ALTER TABLE outcome, clock readings and channel behaviour.\<close>

record msg_env =
  me_parse :: "byte list \<Rightarrow> pg_message option"
  me_scan :: pg_scan
  me_alter_ok :: bool
  me_send :: "nat \<Rightarrow> send_env"
  me_now :: "nat \<Rightarrow> gtime"

definition parseLogicalReplicationMessage :: "msg_env \<Rightarrow> byte list \<Rightarrow> streamer \<Rightarrow> streamer" where
  "parseLogicalReplicationMessage me data s =
     (case data of
        [] \<Rightarrow> s
      | msgType # _ \<Rightarrow>
          if msgType = of_char CHR ''R'' then handleRelationMessage (me_parse me) (me_alter_ok me) data s
          else if msgType = of_char CHR ''B'' then handleBeginMessage (me_send me 0) (me_now me 0) s
          else if msgType = of_char CHR ''C'' then handleCommitMessage (me_send me 0) (me_now me 0) s
          else if msgType = of_char CHR ''I''
            then handleInsertMessage (me_parse me) (me_scan me) (me_send me 0) (me_now me 0) data s
          else if msgType = of_char CHR ''U''
            then handleUpdateMessage (me_parse me) (me_scan me) (me_send me 0) (me_now me 0) data s
          else if msgType = of_char CHR ''D''
            then handleDeleteMessage (me_parse me) (me_scan me) (me_send me 0) (me_now me 0) data s
          else if msgType = of_char CHR ''T''
            then handleTruncateMessage (me_parse me) (me_send me) (me_now me) data s
          else s)"

text \<open>\<open>handleKeepalive\<close>: a requested reply makes the deadline the zero time, i.e. due at once.\<close>

definition handleKeepalive :: "(byte list \<Rightarrow> bool option) \<Rightarrow> byte list \<Rightarrow> streamer \<Rightarrow> streamer" where
  "handleKeepalive parse_keepalive data s =
     (case parse_keepalive data of
        None \<Rightarrow> s
      | Some reply_requested \<Rightarrow> if reply_requested then s\<lparr>sm_deadline := None\<rparr> else s)"

definition handleXLogData ::
    "(byte list \<Rightarrow> (u64 \<times> byte list) option) \<Rightarrow> msg_env \<Rightarrow> byte list \<Rightarrow> streamer \<Rightarrow> streamer" where
  "handleXLogData parse_xlog me data s =
     (case parse_xlog data of
        None \<Rightarrow> s
      | Some (walStart, walData) \<Rightarrow>
          (parseLogicalReplicationMessage me walData s)\<lparr>sm_pos := walStart + of_nat (length walData)\<rparr>)"

section \<open>The streaming loop\<close>

datatype recv_result = RTimeout | RError | RErrorResponse | RCopyData "byte list" | ROther

text \<open>What one pass of the loop in \<open>doStream\<close> meets.\<close>

record iter_env =
  ie_cancel_before :: bool
  ie_now :: int
  ie_standby_ok :: bool
  ie_now2 :: int
  ie_recv :: recv_result
  ie_cancel_during :: bool
  ie_msg :: msg_env

record stream_api =
  sa_parse_xlog :: "byte list \<Rightarrow> (u64 \<times> byte list) option"
  sa_parse_keepalive :: "byte list \<Rightarrow> bool option"
  sa_keepalive_id :: byte
  sa_xlog_id :: byte

datatype stream_end = NormalShutdown | StreamFailed | Panicked

definition standby_due :: "int \<Rightarrow> streamer \<Rightarrow> bool" where
  "standby_due now s = (case sm_deadline s of None \<Rightarrow> True | Some d \<Rightarrow> d < now)"

definition stream_iter :: "stream_api \<Rightarrow> iter_env \<Rightarrow> streamer \<Rightarrow> stream_end option \<times> streamer" where
  "stream_iter api ie s0 =
     (let s = s0\<lparr>sm_cancelled := sm_cancelled s0 \<or> ie_cancel_before ie\<rparr>
      in if sm_cancelled s then (Some NormalShutdown, s)
         else if standby_due (ie_now ie) s \<and> \<not> ie_standby_ok ie then (Some StreamFailed, s)
         else
           (let s = (if standby_due (ie_now ie) s
                     then s\<lparr>sm_deadline := Some (ie_now2 ie + sm_standby_timeout s)\<rparr> else s);
                s = s\<lparr>sm_cancelled := sm_cancelled s \<or> ie_cancel_during ie\<rparr>
            in case ie_recv ie of
                 RTimeout \<Rightarrow> (None, s)
               | RError \<Rightarrow> (if sm_cancelled s then Some NormalShutdown else Some StreamFailed, s)
               | RErrorResponse \<Rightarrow> (None, s)
               | ROther \<Rightarrow> (None, s)
               | RCopyData [] \<Rightarrow> (Some Panicked, s)
               | RCopyData (b # bs) \<Rightarrow>
                   if b = sa_keepalive_id api then (None, handleKeepalive (sa_parse_keepalive api) bs s)
                   else if b = sa_xlog_id api then (None, handleXLogData (sa_parse_xlog api) (ie_msg ie) bs s)
                   else (None, s)))"

text \<open>\<open>doStream\<close> on the passes it makes; \<open>None\<close> when it is still running after the last of them. Without a
  connection, \<open>StartReplication\<close> dereferences a nil pointer.\<close>

fun stream_passes :: "stream_api \<Rightarrow> iter_env list \<Rightarrow> streamer \<Rightarrow> stream_end option \<times> streamer" where
  "stream_passes api [] s = (None, s)"
| "stream_passes api (ie # ies) s =
     (case stream_iter api ie s of
        (Some r, s') \<Rightarrow> (Some r, s')
      | (None, s') \<Rightarrow> stream_passes api ies s')"

definition doStream ::
    "stream_api \<Rightarrow> bool \<Rightarrow> int \<Rightarrow> iter_env list \<Rightarrow> streamer \<Rightarrow> stream_end option \<times> streamer" where
  "doStream api start_ok now ies s =
     (if \<not> sm_conn s then (Some Panicked, s)
      else if \<not> start_ok then (Some StreamFailed, s)
      else stream_passes api ies (s\<lparr>sm_deadline := Some (now + sm_standby_timeout s)\<rparr>))"

section \<open>Connections\<close>

datatype pg_answer = Done | AlreadyExists | PgFailed

record connect_env =
  ce_parse_ok :: bool
  ce_connect_ok :: bool
  ce_slot :: pg_answer
  ce_admin_ok :: bool
  ce_publication :: pg_answer
  ce_tables :: "(string list \<times> bool) list option"

datatype connect_error = ConfigError | ConnectError | SlotError | PublicationError

definition ensureReplicationSlot :: "pg_answer \<Rightarrow> bool" where
  "ensureReplicationSlot r = (r = Done \<or> r = AlreadyExists)"

text \<open>\<open>setReplicaIdentityForAllTables\<close>: the rows of the query and, per row, whether the ALTER succeeds.\<close>

definition setReplicaIdentityForAllTables :: "(string list \<times> bool) list option \<Rightarrow> streamer \<Rightarrow> streamer" where
  "setReplicaIdentityForAllTables rows s =
     (if \<not> sm_admin_conn s then s
      else case rows of
             None \<Rightarrow> s
           | Some rs \<Rightarrow>
               s\<lparr>sm_replica_identity := sm_replica_identity s
                   \<union> set (map (\<lambda>(row, _). row ! 0 @ ''.'' @ row ! 1)
                            (filter (\<lambda>(row, alter_ok). 2 \<le> length row \<and> alter_ok) rs))\<rparr>)"

definition ensurePublication :: "connect_env \<Rightarrow> streamer \<Rightarrow> bool \<times> streamer" where
  "ensurePublication ce s =
     (if \<not> ce_admin_ok ce then (False, s)
      else let s = s\<lparr>sm_admin_conn := True\<rparr>
           in if ce_publication ce = PgFailed then (False, s)
              else (True, setReplicaIdentityForAllTables (ce_tables ce) s))"

definition connect :: "connect_env \<Rightarrow> streamer \<Rightarrow> (connect_error + unit) \<times> streamer" where
  "connect ce s =
     (if \<not> ce_parse_ok ce then (Inl ConfigError, s)
      else if \<not> ce_connect_ok ce then (Inl ConnectError, s)
      else let s = s\<lparr>sm_conn := True\<rparr>
           in if \<not> ensureReplicationSlot (ce_slot ce) then (Inl SlotError, s)
              else let (ok, s) = ensurePublication ce s
                   in if ok then (Inr (), s) else (Inl PublicationError, s))"

definition reconnect :: "connect_env \<Rightarrow> streamer \<Rightarrow> (connect_error + unit) \<times> streamer" where
  "reconnect ce s = connect ce (s\<lparr>sm_conn := False, sm_admin_conn := False\<rparr>)"

section \<open>Reconnect policy\<close>

definition initial_wait :: "server_config \<Rightarrow> int" where
  "initial_wait cfg = (if cfg_reconnect_initial_wait cfg \<le> 0 then second else cfg_reconnect_initial_wait cfg)"

definition max_wait :: "server_config \<Rightarrow> int" where
  "max_wait cfg = (if cfg_reconnect_max_wait cfg \<le> 0 then 30 * second else cfg_reconnect_max_wait cfg)"

text \<open>
  One round of \<open>streamLoop\<close>: what \<open>doStream\<close> meets in it, whether the context is cancelled at the top, after the
  failure or during the wait, and the answers to the reconnect. Durations are assumed to stay far below the 292 years of a 64-bit nanosecond count.
  A panic of \<open>doStream\<close> is not recovered in the goroutine of the loop: it ends the process.
\<close>

record round_env =
  re_cancel_top :: bool
  re_api :: stream_api
  re_start_ok :: bool
  re_now :: int
  re_passes :: "iter_env list"
  re_cancel_after :: bool
  re_cancel_wait :: bool
  re_connect :: connect_env

record loop_state =
  ls_retry :: int
  ls_wait :: int

datatype round_result = StillStreaming | LoopEnds | LoopCrashes | WaitedThen int loop_state

abbreviation round_stream :: "round_env \<Rightarrow> streamer \<Rightarrow> stream_end option \<times> streamer" where
  "round_stream re \<equiv> doStream (re_api re) (re_start_ok re) (re_now re) (re_passes re)"

definition stream_round :: "round_env \<Rightarrow> loop_state \<Rightarrow> streamer \<Rightarrow> round_result \<times> streamer" where
  "stream_round re ls s =
     (let cfg = sm_config s
      in if sm_cancelled s \<or> re_cancel_top re then (LoopEnds, s)
         else
           (case round_stream re s of
              (None, s) \<Rightarrow> (StillStreaming, s)
            | (Some Panicked, s) \<Rightarrow> (LoopCrashes, s)
            | (Some NormalShutdown, s) \<Rightarrow> (LoopEnds, s)
            | (Some StreamFailed, s) \<Rightarrow>
                if sm_cancelled s \<or> re_cancel_after re then (LoopEnds, s)
                else if \<not> cfg_reconnect_enabled cfg then (LoopEnds, s)
                else
                  (let retry = ls_retry ls + 1
                   in if 0 < cfg_reconnect_max_retries cfg \<and> cfg_reconnect_max_retries cfg < retry
                      then (LoopEnds, s)
                      else
                        (let s = s\<lparr>sm_reconnects := Suc (sm_reconnects s)\<rparr>
                         in if re_cancel_wait re then (LoopEnds, s)
                            else
                              (let w = min (ls_wait ls * 2) (max_wait cfg);
                                   (r, s) = reconnect (re_connect re) s
                               in case r of
                                    Inl _ \<Rightarrow> (WaitedThen (ls_wait ls) \<lparr>ls_retry = retry, ls_wait = w\<rparr>, s)
                                  | Inr _ \<Rightarrow>
                                      (WaitedThen (ls_wait ls) \<lparr>ls_retry = 0, ls_wait = initial_wait cfg\<rparr>, s))))))"

text \<open>The loop on the rounds it makes: the delays it waits and whether it is still running after the last of the rounds, has
  returned, or has crashed.\<close>

datatype loop_end = Running | Ended | Crashed

fun stream_rounds :: "round_env list \<Rightarrow> loop_state \<Rightarrow> streamer \<Rightarrow> int list \<times> loop_end \<times> loop_state \<times> streamer" where
  "stream_rounds [] ls s = ([], Running, ls, s)"
| "stream_rounds (re # res) ls s =
     (case stream_round re ls s of
        (StillStreaming, s') \<Rightarrow> ([], Running, ls, s')
      | (LoopEnds, s') \<Rightarrow> ([], Ended, ls, s')
      | (LoopCrashes, s') \<Rightarrow> ([], Crashed, ls, s')
      | (WaitedThen w ls', s') \<Rightarrow>
          (let (ws, le, ls'', s'') = stream_rounds res ls' s' in (w # ws, le, ls'', s'')))"

definition streamLoop :: "round_env list \<Rightarrow> streamer \<Rightarrow> int list \<times> loop_end \<times> loop_state \<times> streamer" where
  "streamLoop res s = stream_rounds res \<lparr>ls_retry = 0, ls_wait = initial_wait (sm_config s)\<rparr> s"

section \<open>Checkpoints\<close>

text \<open>
  The checkpoint file: files are byte strings by name. \<open>saveCheckpoint\<close> is a sequence of file operations, each
  of which may fail; the list of file systems after each operation is what a crash can leave behind.
\<close>

type_synonym files = "string \<rightharpoonup> byte list"

datatype load_error = ReadFailed | ParseError

datatype read_result = NotExist | ReadError | Content "byte list"

definition read_file :: "bool \<Rightarrow> files \<Rightarrow> string \<Rightarrow> read_result" where
  "read_file ok fs f = (if \<not> ok then ReadError else case fs f of None \<Rightarrow> NotExist | Some d \<Rightarrow> Content d)"

definition loadCheckpoint ::
    "(byte list \<Rightarrow> checkpoint option) \<Rightarrow> bool \<Rightarrow> files \<Rightarrow> streamer \<Rightarrow> (load_error + unit) \<times> streamer" where
  "loadCheckpoint unmarshal read_ok fs s =
     (if cfg_checkpoint_file (sm_config s) = [] then (Inr (), s)
      else case read_file read_ok fs (cfg_checkpoint_file (sm_config s)) of
             NotExist \<Rightarrow> (Inr (), s)
           | ReadError \<Rightarrow> (Inl ReadFailed, s)
           | Content d \<Rightarrow>
               (case unmarshal d of
                  None \<Rightarrow> (Inl ParseError, s)
                | Some cp \<Rightarrow>
                    if cp_slot_name cp \<noteq> [] \<and> cp_slot_name cp \<noteq> cfg_slot (sm_config s) then (Inr (), s)
                    else (Inr (), s\<lparr>sm_pos := cp_lsn cp\<rparr>)))"

datatype save_error = MarshalFailed | MkdirFailed | WriteFailed | RenameFailed

record save_env =
  sv_mkdir_ok :: bool
  sv_write :: "nat option"
  sv_rename_ok :: bool

text \<open>\<open>sv_write = Some n\<close>: the write of the temporary file fails after \<open>n\<close> bytes.\<close>

definition saveCheckpoint ::
    "(checkpoint \<Rightarrow> byte list option) \<Rightarrow> save_env \<Rightarrow> int \<Rightarrow> streamer \<Rightarrow> files \<Rightarrow> (save_error + unit) \<times> files list" where
  "saveCheckpoint marshal se now s fs =
     (let file = cfg_checkpoint_file (sm_config s)
      in if file = [] then (Inr (), [])
         else
           (case marshal \<lparr>cp_lsn = sm_pos s, cp_timestamp = now, cp_slot_name = cfg_slot (sm_config s)\<rparr> of
              None \<Rightarrow> (Inl MarshalFailed, [])
            | Some d \<Rightarrow>
                if \<not> sv_mkdir_ok se then (Inl MkdirFailed, [])
                else
                  (let tmp = file @ ''.tmp''
                   in case sv_write se of
                        Some n \<Rightarrow> (Inl WriteFailed, [fs(tmp \<mapsto> take n d)])
                      | None \<Rightarrow>
                          (let fs1 = fs(tmp \<mapsto> d)
                           in if sv_rename_ok se then (Inr (), [fs1, fs1(tmp := None, file \<mapsto> d)])
                              else (Inl RenameFailed, [fs1, fs1(tmp := None)])))))"

definition files_after :: "files \<Rightarrow> files list \<Rightarrow> files" where
  "files_after fs states = (if states = [] then fs else last states)"

text \<open>
  \<open>checkpointLoop\<close>: one save per tick of the ticker and a last one when the context is cancelled, each with the
  streamer as it is at that moment; a failed save is only logged.
\<close>

definition checkpoint_interval :: "server_config \<Rightarrow> int" where
  "checkpoint_interval cfg = (if cfg_checkpoint_interval cfg \<le> 0 then 10 * second else cfg_checkpoint_interval cfg)"

fun checkpointLoop ::
    "(checkpoint \<Rightarrow> byte list option) \<Rightarrow> (save_env \<times> int \<times> streamer) list \<Rightarrow> files \<Rightarrow> files" where
  "checkpointLoop marshal [] fs = fs"
| "checkpointLoop marshal ((se, now, s) # saves) fs =
     checkpointLoop marshal saves (files_after fs (snd (saveCheckpoint marshal se now s fs)))"

section \<open>Lifecycle\<close>

datatype start_error = StreamerRunning | ConnectFailed connect_error

definition StreamerStart :: "connect_env \<Rightarrow> streamer \<Rightarrow> (start_error + unit) \<times> streamer" where
  "StreamerStart ce s =
     (if sm_running s then (Inl StreamerRunning, s)
      else (case connect ce (s\<lparr>sm_running := True\<rparr>) of
              (Inl e, s) \<Rightarrow> (Inl (ConnectFailed e), s\<lparr>sm_running := False\<rparr>)
            | (Inr _, s) \<Rightarrow> (Inr (), s)))"

definition StreamerStop :: "streamer \<Rightarrow> streamer" where
  "StreamerStop s =
     (if \<not> sm_running s then s
      else s\<lparr>sm_cancelled := True, sm_conn := False, sm_admin_conn := False, sm_running := False\<rparr>)"

definition new_streamer :: "server_config \<Rightarrow> streamer" where
  "new_streamer cfg =
     \<lparr>sm_config = cfg, sm_chan = [], sm_conn = False, sm_admin_conn = False, sm_cancelled = False,
      sm_running = False, sm_pos = 0, sm_standby_timeout = 10 * second, sm_deadline = None,
      sm_table_cache = Map.empty, sm_replica_identity = {}, sm_backpressure = 0, sm_dropped = 0,
      sm_reconnects = 0\<rparr>"

text \<open>\<open>NewPGStreamer\<close>: a checkpoint that cannot be loaded is only logged.\<close>

definition NewPGStreamer ::
    "(byte list \<Rightarrow> checkpoint option) \<Rightarrow> bool \<Rightarrow> files \<Rightarrow> connect_env \<Rightarrow> server_config
     \<Rightarrow> (start_error + streamer)" where
  "NewPGStreamer unmarshal read_ok fs ce cfg =
     (case StreamerStart ce (snd (loadCheckpoint unmarshal read_ok fs (new_streamer cfg))) of
        (Inl e, _) \<Rightarrow> Inl e
      | (Inr _, s) \<Rightarrow> Inr s)"

end
