(* ===== verification/Pg_Stream_Props.thy ===== *)
theory Pg_Stream_Props
  imports Pg_Streamer Repl_Rows
begin

text \<open>
  Properties of the streamer: the reconnect policy, checkpoints and crashes, the treatment of unchanged
  columns, the way of an integer from PostgreSQL's text to the bytes of a MySQL row, and the events that the
  streamer hands to the replication server.
\<close>

section \<open>Reconnect policy\<close>

text \<open>Streaming changes neither the configuration nor the presence of the connection.\<close>

lemma cache_table_keeps [simp]:
  "sm_config (cache_table i ti s) = sm_config s" "sm_conn (cache_table i ti s) = sm_conn s"
  by (simp_all add: cache_table_def)

lemma sendEvent_keeps [simp]:
  "sm_config (sendEvent env e s) = sm_config s" "sm_conn (sendEvent env e s) = sm_conn s"
  by (simp_all add: sendEvent_def Let_def split: wait_result.splits)

lemma truncate_loop_keeps [simp]:
  "sm_config (truncate_loop env now i rids s) = sm_config s" "sm_conn (truncate_loop env now i rids s) = sm_conn s"
  by (induction rids arbitrary: i s) (simp_all split: option.splits)

lemma handlers_keep:
  "sm_config (handleRelationMessage p ok d s) = sm_config s" "sm_conn (handleRelationMessage p ok d s) = sm_conn s"
  "sm_config (handleInsertMessage p sc env now d s) = sm_config s" "sm_conn (handleInsertMessage p sc env now d s) = sm_conn s"
  "sm_config (handleUpdateMessage p sc env now d s) = sm_config s" "sm_conn (handleUpdateMessage p sc env now d s) = sm_conn s"
  "sm_config (handleDeleteMessage p sc env now d s) = sm_config s" "sm_conn (handleDeleteMessage p sc env now d s) = sm_conn s"
  "sm_config (handleTruncateMessage p envs nows d s) = sm_config s" "sm_conn (handleTruncateMessage p envs nows d s) = sm_conn s"
  by (simp_all add: handleRelationMessage_def ensureReplicaIdentityFull_def handleInsertMessage_def handleUpdateMessage_def
      handleDeleteMessage_def handleTruncateMessage_def Let_def split: option.splits pg_message.splits)

lemma message_keeps [simp]:
  "sm_config (parseLogicalReplicationMessage me d s) = sm_config s"
  "sm_conn (parseLogicalReplicationMessage me d s) = sm_conn s"
  by (simp_all add: parseLogicalReplicationMessage_def handlers_keep handleBeginMessage_def handleCommitMessage_def split: list.splits)

lemma stream_iter_keeps [simp]:
  "sm_config (snd (stream_iter api ie s)) = sm_config s" "sm_conn (snd (stream_iter api ie s)) = sm_conn s"
  by (simp_all add: stream_iter_def handleXLogData_def handleKeepalive_def Let_def split: recv_result.splits list.splits option.splits prod.splits)

lemma stream_passes_keeps [simp]:
  "sm_config (snd (stream_passes api ies s)) = sm_config s" "sm_conn (snd (stream_passes api ies s)) = sm_conn s"
proof -
  have "sm_config (snd (stream_passes api ies s)) = sm_config s \<and> sm_conn (snd (stream_passes api ies s)) = sm_conn s"
  proof (induction ies arbitrary: s)
    case (Cons ie ies)
    obtain r s' where "stream_iter api ie s = (r, s')" by fastforce
    then show ?case
      using stream_iter_keeps [of api ie s] Cons [of s'] by (simp split: option.splits)
  qed simp
  then show "sm_config (snd (stream_passes api ies s)) = sm_config s" "sm_conn (snd (stream_passes api ies s)) = sm_conn s"
    by simp_all
qed

lemma doStream_keeps [simp]:
  "sm_config (snd (doStream api ok now ies s)) = sm_config s" "sm_conn (snd (doStream api ok now ies s)) = sm_conn s"
  by (simp_all add: doStream_def)

lemma connect_config [simp]:
  "sm_config (snd (connect ce s)) = sm_config s" "sm_config (snd (reconnect ce s)) = sm_config s"
  by (simp_all add: reconnect_def connect_def ensurePublication_def setReplicaIdentityForAllTables_def Let_def
      case_prod_beta split: option.splits)

lemma stream_round_cases:
  assumes "stream_round re ls s = (WaitedThen w ls', s')"
  shows "w = ls_wait ls \<and> sm_config s' = sm_config s
    \<and> (ls' = \<lparr>ls_retry = 0, ls_wait = initial_wait (sm_config s)\<rparr>
       \<or> ls' = \<lparr>ls_retry = ls_retry ls + 1, ls_wait = min (ls_wait ls * 2) (max_wait (sm_config s))\<rparr>)"
proof -
  obtain r s1 where r: "round_stream re s = (r, s1)" by fastforce
  then have c1: "sm_config s1 = sm_config s" by (metis doStream_keeps(1) snd_conv)
  obtain q s2 where q: "reconnect (re_connect re) (s1\<lparr>sm_reconnects := Suc (sm_reconnects s1)\<rparr>) = (q, s2)"
    by fastforce
  then have c2: "sm_config s2 = sm_config s"
    using connect_config(2) [of "re_connect re" "s1\<lparr>sm_reconnects := Suc (sm_reconnects s1)\<rparr>"] c1 by simp
  show ?thesis
    using assms r q c2
    by (auto simp: stream_round_def Let_def split: if_splits sum.splits option.splits stream_end.splits)
qed

lemma waits_positive: "0 < initial_wait cfg" "0 < max_wait cfg"
  by (simp_all add: initial_wait_def max_wait_def second_def)

lemma stream_rounds_bounds:
  assumes "0 < ls_wait ls" and "ls_wait ls \<le> max (initial_wait (sm_config s)) (max_wait (sm_config s))"
    and "stream_rounds res ls s = (ws, le, ls', s')"
  shows "\<forall>w \<in> set ws. 0 < w \<and> w \<le> max (initial_wait (sm_config s)) (max_wait (sm_config s))"
  using assms
proof (induction res arbitrary: ls s ws)
  case Nil
  then show ?case by simp
next
  case (Cons re res)
  show ?case
  proof (cases "\<exists>w ls1 s1. stream_round re ls s = (WaitedThen w ls1, s1)")
    case False
    then show ?thesis
      using Cons.prems(3) by (cases "stream_round re ls s"; cases "fst (stream_round re ls s)") auto
  next
    case True
    then obtain w ls1 s1 where round: "stream_round re ls s = (WaitedThen w ls1, s1)" by blast
    then obtain ws1 where rest: "stream_rounds res ls1 s1 = (ws1, le, ls', s')" and ws: "ws = w # ws1"
      using Cons.prems(3) by (auto split: prod.splits)
    note step = stream_round_cases [OF round]
    then have c: "sm_config s1 = sm_config s" and w: "w = ls_wait ls" by auto
    have "0 < ls_wait ls1 \<and> ls_wait ls1 \<le> max (initial_wait (sm_config s1)) (max_wait (sm_config s1))"
      using step Cons.prems(1) waits_positive [of "sm_config s"] c by auto
    then have "\<forall>w \<in> set ws1. 0 < w \<and> w \<le> max (initial_wait (sm_config s1)) (max_wait (sm_config s1))"
      using Cons.IH [OF _ _ rest] by auto
    then show ?thesis using ws w c Cons.prems(1,2) by auto
  qed
qed

text \<open>Bounds of the reconnect delay. Whatever happens to the streams and the reconnect attempts, every delay
  that \<open>streamLoop\<close> waits is positive and at most the larger of the configured initial and maximal delay
  (with the defaults of 1 and 30 seconds for non-positive settings): the exponential backoff never busy-loops and never
  grows beyond its cap.\<close>

theorem reconnect_delay_bounds:
  assumes "streamLoop res s = (ws, le, ls, s')"
  shows "\<forall>w \<in> set ws. 0 < w \<and> w \<le> max (initial_wait (sm_config s)) (max_wait (sm_config s))"
proof -
  have "stream_rounds res \<lparr>ls_retry = 0, ls_wait = initial_wait (sm_config s)\<rparr> s = (ws, le, ls, s')"
    using assms by (simp add: streamLoop_def)
  from stream_rounds_bounds [OF _ _ this] show ?thesis
    using waits_positive [of "sm_config s"] by simp
qed

text \<open>A connected streamer, and rounds in which replication cannot be started: PostgreSQL then refuses the
  replication slot, accepts everything, or cannot be reached.\<close>

definition connected_streamer :: "server_config \<Rightarrow> streamer" where
  "connected_streamer cfg = (new_streamer cfg)\<lparr>sm_conn := True, sm_admin_conn := True, sm_running := True\<rparr>"

definition no_parsing :: stream_api where
  "no_parsing = \<lparr>sa_parse_xlog = (\<lambda>_. None), sa_parse_keepalive = (\<lambda>_. None), sa_keepalive_id = 107, sa_xlog_id = 119\<rparr>"

definition failing_round :: round_env where
  "failing_round = \<lparr>re_cancel_top = False, re_api = no_parsing, re_start_ok = False, re_now = 0, re_passes = [],
     re_cancel_after = False, re_cancel_wait = False, re_connect = \<lparr>ce_parse_ok = True, ce_connect_ok = True,
       ce_slot = PgFailed, ce_admin_ok = True, ce_publication = Done, ce_tables = None\<rparr>\<rparr>"

definition flapping_round :: round_env where
  "flapping_round = failing_round\<lparr>re_connect := \<lparr>ce_parse_ok = True, ce_connect_ok = True, ce_slot = AlreadyExists,
       ce_admin_ok = True, ce_publication = AlreadyExists, ce_tables = None\<rparr>\<rparr>"

definition outage_round :: round_env where
  "outage_round = failing_round\<lparr>re_connect := (re_connect failing_round)\<lparr>ce_connect_ok := False\<rparr>\<rparr>"

theorem reconnect_delay_bounds_witness:
  "fst (streamLoop (replicate 3 failing_round) (connected_streamer DefaultServerConfig)) = [second, 2 * second, 4 * second]
   \<and> list_all (\<lambda>w. 0 < w \<and> w \<le> 30 * second)
        (fst (streamLoop (replicate 3 failing_round) (connected_streamer DefaultServerConfig)))"
proof -
  let ?s = "connected_streamer DefaultServerConfig"
  let ?r = "streamLoop (replicate 3 failing_round) ?s"
  have r: "?r = (fst ?r, fst (snd ?r), fst (snd (snd ?r)), snd (snd (snd ?r)))" by simp
  have m: "max (initial_wait (sm_config ?s)) (max_wait (sm_config ?s)) = 30 * second"
    by (simp add: connected_streamer_def new_streamer_def DefaultServerConfig_def initial_wait_def max_wait_def second_def)
  have "fst ?r = [second, 2 * second, 4 * second]" by code_simp
  then show ?thesis
    using reconnect_delay_bounds [OF r] unfolding m list_all_iff by (rule conjI)
qed

text \<open>A round whose stream breaks on every live connection and which nobody cancels.\<close>

definition breaks :: "round_env \<Rightarrow> bool" where
  "breaks re \<longleftrightarrow> \<not> re_cancel_top re \<and> \<not> re_cancel_after re \<and> \<not> re_cancel_wait re
     \<and> (\<forall>s. sm_conn s \<and> \<not> sm_cancelled s \<longrightarrow>
            fst (round_stream re s) = Some StreamFailed \<and> \<not> sm_cancelled (snd (round_stream re s)))"

lemma breaks_start: "\<not> re_cancel_top re \<Longrightarrow> \<not> re_cancel_after re \<Longrightarrow> \<not> re_cancel_wait re \<Longrightarrow> \<not> re_start_ok re \<Longrightarrow> breaks re"
  by (simp add: breaks_def doStream_def)

text \<open>The reconnect of a round opens the connection but then fails, at the slot or at the publication.\<close>

definition set_up_fails :: "connect_env \<Rightarrow> bool" where
  "set_up_fails ce \<longleftrightarrow> ce_parse_ok ce \<and> ce_connect_ok ce
     \<and> (ce_slot ce = PgFailed \<or> \<not> ce_admin_ok ce \<or> ce_publication ce = PgFailed)"

lemma connect_cancelled [simp]:
  "sm_cancelled (snd (connect ce s)) = sm_cancelled s" "sm_cancelled (snd (reconnect ce s)) = sm_cancelled s"
  by (simp_all add: reconnect_def connect_def ensurePublication_def setReplicaIdentityForAllTables_def Let_def
      case_prod_beta split: option.splits)

lemma connect_sets_conn:
  "ce_parse_ok ce \<Longrightarrow> ce_connect_ok ce \<Longrightarrow> sm_conn (snd (connect ce s))"
  by (simp add: connect_def ensurePublication_def setReplicaIdentityForAllTables_def Let_def case_prod_beta split: option.splits)

lemma reconnect_set_up_fails:
  assumes "set_up_fails ce"
  shows "\<exists>e s'. reconnect ce s = (Inl e, s') \<and> sm_conn s'"
proof -
  have "sm_conn (snd (reconnect ce s))"
    using assms connect_sets_conn [of ce] by (simp add: set_up_fails_def reconnect_def)
  moreover have "\<exists>e. fst (reconnect ce s) = Inl e"
    using assms by (auto simp: set_up_fails_def reconnect_def connect_def ensureReplicationSlot_def ensurePublication_def Let_def)
  ultimately show ?thesis by (metis prod.collapse)
qed

text \<open>A round whose stream breaks goes on to the reconnect, unless the limit is reached.\<close>

lemma stream_round_breaks:
  assumes "breaks re" and "cfg_reconnect_enabled (sm_config s)" and "\<not> sm_cancelled s" and "sm_conn s"
    and "s2 = (snd (round_stream re s))\<lparr>sm_reconnects := Suc (sm_reconnects (snd (round_stream re s)))\<rparr>"
    and "reconnect (re_connect re) s2 = (Inl e, s3)"
  shows "stream_round re ls s =
      (if 0 < cfg_reconnect_max_retries (sm_config s) \<and> cfg_reconnect_max_retries (sm_config s) < ls_retry ls + 1
       then (LoopEnds, snd (round_stream re s))
       else (WaitedThen (ls_wait ls) \<lparr>ls_retry = ls_retry ls + 1,
                                      ls_wait = min (ls_wait ls * 2) (max_wait (sm_config s))\<rparr>, s3))
    \<and> sm_config s3 = sm_config s \<and> \<not> sm_cancelled s3"
proof -
  obtain s1 where s1: "round_stream re s = (Some StreamFailed, s1)" "\<not> sm_cancelled s1"
    using assms(1,3,4) unfolding breaks_def by (metis prod.collapse)
  then have "sm_config s1 = sm_config s" by (metis doStream_keeps(1) snd_conv)
  then have "sm_config s2 = sm_config s" "\<not> sm_cancelled s2" using s1 by (simp_all add: assms(5))
  then have "sm_config s3 = sm_config s" "\<not> sm_cancelled s3"
    using connect_config(2) [of "re_connect re" s2] connect_cancelled(2) [of "re_connect re" s2] unfolding assms(6) by simp_all
  then show ?thesis
    using s1 assms by (simp add: stream_round_def Let_def breaks_def)
qed

lemma stream_round_fails:
  assumes "breaks re" and "set_up_fails (re_connect re)" and "cfg_reconnect_enabled (sm_config s)" and "\<not> sm_cancelled s"
    and "sm_conn s"
  obtains s1 s3 where "stream_round re ls s =
      (if 0 < cfg_reconnect_max_retries (sm_config s) \<and> cfg_reconnect_max_retries (sm_config s) < ls_retry ls + 1
       then (LoopEnds, s1)
       else (WaitedThen (ls_wait ls) \<lparr>ls_retry = ls_retry ls + 1,
                                      ls_wait = min (ls_wait ls * 2) (max_wait (sm_config s))\<rparr>, s3))"
    and "sm_config s3 = sm_config s" and "\<not> sm_cancelled s3" and "sm_conn s3"
proof -
  define s2 where "s2 = (snd (round_stream re s))\<lparr>sm_reconnects := Suc (sm_reconnects (snd (round_stream re s)))\<rparr>"
  obtain e s3 where e: "reconnect (re_connect re) s2 = (Inl e, s3)" "sm_conn s3"
    using reconnect_set_up_fails [OF assms(2)] by blast
  from stream_round_breaks [OF assms(1,3-5) s2_def e(1)] e(2) that show thesis by blast
qed

lemma stream_rounds_give_up:
  assumes "\<forall>re \<in> set res. breaks re \<and> set_up_fails (re_connect re)" and "cfg_reconnect_enabled (sm_config s)"
    and "\<not> sm_cancelled s" and "sm_conn s"
    and "cfg_reconnect_max_retries (sm_config s) = int n" and "0 < n" and "ls_retry ls = int k" and "k \<le> n"
    and "n - k < length res"
  shows "\<exists>ws ls' s'. stream_rounds res ls s = (ws, Ended, ls', s') \<and> length ws = n - k"
  using assms
proof (induction res arbitrary: ls s k)
  case Nil
  then show ?case by simp
next
  case (Cons re res)
  let ?ls = "\<lparr>ls_retry = ls_retry ls + 1, ls_wait = min (ls_wait ls * 2) (max_wait (sm_config s))\<rparr>"
  have "breaks re" "set_up_fails (re_connect re)" using Cons.prems(1) by simp_all
  then obtain s1 s3 where round: "stream_round re ls s =
      (if 0 < cfg_reconnect_max_retries (sm_config s) \<and> cfg_reconnect_max_retries (sm_config s) < ls_retry ls + 1
       then (LoopEnds, s1) else (WaitedThen (ls_wait ls) ?ls, s3))"
    and s3: "sm_config s3 = sm_config s" "\<not> sm_cancelled s3" "sm_conn s3"
    using stream_round_fails Cons.prems(2-4) by metis
  show ?case
  proof (cases "k = n")
    case True
    then show ?thesis using round Cons.prems(5-7) by auto
  next
    case False
    then have r: "stream_round re ls s = (WaitedThen (ls_wait ls) ?ls, s3)"
      using round Cons.prems(5-8) by auto
    have "\<exists>ws ls' s'. stream_rounds res ?ls s3 = (ws, Ended, ls', s') \<and> length ws = n - Suc k"
      using Cons.prems False by (intro Cons.IH) (simp_all add: s3)
    then obtain ws ls' s' where "stream_rounds res ?ls s3 = (ws, Ended, ls', s')" "length ws = n - Suc k" by blast
    then show ?thesis using r False Cons.prems(8) by simp
  qed
qed

text \<open>C26: The retry limit is enforced while PostgreSQL accepts connections. With reconnecting enabled and a positive limit
  \<open>n\<close>, a connected streamer whose streams all break, and whose reconnects all get a connection but fail to set up the slot or the publication,
  makes \<open>streamLoop\<close> return by itself after exactly \<open>n\<close> delays: it neither retries for ever nor gives up early. (An
  outage in which no connection can be opened is another matter: \<open>unreachable_server_crashes\<close>.)\<close>

theorem reconnect_gives_up:
  assumes "\<forall>re \<in> set res. breaks re \<and> set_up_fails (re_connect re)" and "cfg_reconnect_enabled (sm_config s)"
    and "\<not> sm_cancelled s" and "sm_conn s"
    and "cfg_reconnect_max_retries (sm_config s) = int n" and "0 < n" and "n < length res"
  shows "\<exists>ws ls s'. streamLoop res s = (ws, Ended, ls, s') \<and> length ws = n"
  using stream_rounds_give_up [OF assms(1-6), of "\<lparr>ls_retry = 0, ls_wait = initial_wait (sm_config s)\<rparr>" 0] assms(7)
  by (simp add: streamLoop_def)

definition limited_config :: server_config where
  "limited_config = DefaultServerConfig\<lparr>cfg_reconnect_max_retries := 2\<rparr>"

lemma sample_rounds:
  "breaks failing_round" "set_up_fails (re_connect failing_round)" "breaks flapping_round" "breaks outage_round"
  by (simp_all add: breaks_start flapping_round_def outage_round_def failing_round_def set_up_fails_def)

theorem reconnect_gives_up_witness:
  "\<exists>ws ls s'. streamLoop (replicate 5 failing_round) (connected_streamer limited_config) = (ws, Ended, ls, s') \<and> length ws = 2"
  by (rule reconnect_gives_up)
    (simp_all add: sample_rounds connected_streamer_def new_streamer_def limited_config_def DefaultServerConfig_def)

text \<open>C39: An outage of PostgreSQL crashes the process at the first reconnect that fails. When the stream of a connected streamer breaks, reconnecting is enabled
  (with any limit) and no new connection can be opened, \<open>reconnect\<close> leaves the connection nil and the loop goes on to \<open>doStream\<close>,
  which panics: after one delay the process is gone, and neither the remaining retries nor the backoff are used.\<close>

theorem unreachable_server_crashes:
  assumes "breaks re" and "\<not> ce_parse_ok (re_connect re) \<or> \<not> ce_connect_ok (re_connect re)" and "\<not> re_cancel_top re2"
    and "cfg_reconnect_enabled (sm_config s)" and "\<not> sm_cancelled s" and "sm_conn s"
  shows "\<exists>ls s'. streamLoop (re # re2 # res) s = ([initial_wait (sm_config s)], Crashed, ls, s') \<and> \<not> sm_conn s'"
proof -
  let ?ls = "\<lparr>ls_retry = 0, ls_wait = initial_wait (sm_config s)\<rparr>"
  define s2 where "s2 = (snd (round_stream re s))\<lparr>sm_reconnects := Suc (sm_reconnects (snd (round_stream re s)))\<rparr>"
  let ?s3 = "s2\<lparr>sm_conn := False, sm_admin_conn := False\<rparr>"
  obtain e where "reconnect (re_connect re) s2 = (Inl e, ?s3)"
    using assms(2) that by (cases "ce_parse_ok (re_connect re)") (auto simp: reconnect_def connect_def)
  then have round: "stream_round re ?ls s = (WaitedThen (initial_wait (sm_config s)) \<lparr>ls_retry = 1,
      ls_wait = min (initial_wait (sm_config s) * 2) (max_wait (sm_config s))\<rparr>, ?s3)" and "\<not> sm_cancelled ?s3"
    using stream_round_breaks [OF assms(1,4-6) s2_def, of e ?s3 ?ls] by (simp_all split: if_splits)
  then have "stream_round re2 ls ?s3 = (LoopCrashes, ?s3)" for ls
    using assms(3) by (simp add: stream_round_def doStream_def)
  then show ?thesis by (simp add: streamLoop_def round)
qed

theorem unreachable_server_crashes_witness:
  "\<exists>ls s'. streamLoop [outage_round, outage_round] (connected_streamer limited_config) = ([second], Crashed, ls, s') \<and> \<not> sm_conn s'"
  using unreachable_server_crashes [of outage_round outage_round "connected_streamer limited_config" "[]"] sample_rounds(4)
  by (simp add: outage_round_def failing_round_def connected_streamer_def new_streamer_def limited_config_def DefaultServerConfig_def
      initial_wait_def second_def)

text \<open>
  The limit counts consecutive failures to connect: as soon as a reconnect succeeds the counter starts
  again. When PostgreSQL accepts the connection but every stream fails (a dropped slot, say), the loop goes on for
  ever at the initial delay, whatever the limit.
\<close>

lemma flapping_never_gives_up:
  assumes "cfg_reconnect_enabled (sm_config s)" and "\<not> sm_cancelled s" and "sm_conn s"
    and "ls = \<lparr>ls_retry = 0, ls_wait = initial_wait (sm_config s)\<rparr>"
  shows "\<exists>s'. stream_rounds (replicate m flapping_round) ls s
            = (replicate m (initial_wait (sm_config s)), Running, ls, s')"
  using assms
proof (induction m arbitrary: s)
  case 0
  then show ?case by simp
next
  case (Suc m)
  let ?s = "s\<lparr>sm_reconnects := Suc (sm_reconnects s)\<rparr>"
  let ?s' = "snd (reconnect (re_connect flapping_round) ?s)"
  have "stream_round flapping_round ls s = (WaitedThen (initial_wait (sm_config s)) ls, ?s')"
    using Suc.prems
    by (auto simp: stream_round_def flapping_round_def failing_round_def reconnect_def connect_def Let_def
        ensureReplicationSlot_def ensurePublication_def doStream_def)
  moreover have "\<exists>s''. stream_rounds (replicate m flapping_round) ls ?s'
      = (replicate m (initial_wait (sm_config ?s')), Running, ls, s'')"
  proof (rule Suc.IH)
    show "sm_conn ?s'" using connect_sets_conn by (simp add: reconnect_def flapping_round_def)
  qed (use Suc.prems in simp_all)
  ultimately show ?case by auto
qed

section \<open>Checkpoints\<close>

text \<open>The checkpoint that \<open>saveCheckpoint\<close> writes, and the file it writes it to.\<close>

definition checkpoint_of :: "int \<Rightarrow> streamer \<Rightarrow> checkpoint" where
  "checkpoint_of now s = \<lparr>cp_lsn = sm_pos s, cp_timestamp = now, cp_slot_name = cfg_slot (sm_config s)\<rparr>"

lemma tmp_other_file: "(f :: string) @ ''.tmp'' \<noteq> f"
  by simp

lemma saveCheckpoint_file:
  assumes "fs' \<in> set (fs # snd (saveCheckpoint marshal se now s fs))"
  shows "fs' (cfg_checkpoint_file (sm_config s)) = fs (cfg_checkpoint_file (sm_config s))
    \<or> (cfg_checkpoint_file (sm_config s) \<noteq> []
       \<and> (\<exists>d. marshal (checkpoint_of now s) = Some d \<and> fs' (cfg_checkpoint_file (sm_config s)) = Some d))"
  using assms
  by (auto simp: saveCheckpoint_def checkpoint_of_def Let_def split: if_splits option.splits)

lemma loadCheckpoint_saved:
  assumes "cfg_checkpoint_file (sm_config s2) \<noteq> []" and "sm_config s2 = sm_config s"
    and "fs (cfg_checkpoint_file (sm_config s2)) = Some d" and "unmarshal d = Some (checkpoint_of now s)"
  shows "loadCheckpoint unmarshal True fs s2 = (Inr (), s2\<lparr>sm_pos := sm_pos s\<rparr>)"
  using assms by (simp add: loadCheckpoint_def read_file_def checkpoint_of_def)

lemma loadCheckpoint_cong:
  "fs (cfg_checkpoint_file (sm_config s)) = fs' (cfg_checkpoint_file (sm_config s))
   \<Longrightarrow> loadCheckpoint unmarshal ok fs s = loadCheckpoint unmarshal ok fs' s"
  by (simp add: loadCheckpoint_def read_file_def)

text \<open>C13: A crash never damages the checkpoint. Whatever file operation of \<open>saveCheckpoint\<close> fails, and wherever the
  process dies in it (also in the middle of the write), a restarted streamer loads either the
  state it would have loaded before the save or exactly the saved position, provided JSON decoding inverts
  encoding.\<close>

theorem checkpoint_crash_safe:
  assumes "\<And>cp d. marshal cp = Some d \<Longrightarrow> unmarshal d = Some cp"
    and "fs' \<in> set (fs # snd (saveCheckpoint marshal se now s fs))"
    and "sm_config s2 = sm_config s"
  shows "loadCheckpoint unmarshal True fs' s2
      \<in> {loadCheckpoint unmarshal True fs s2, (Inr (), s2\<lparr>sm_pos := sm_pos s\<rparr>)}"
proof -
  consider "fs' (cfg_checkpoint_file (sm_config s2)) = fs (cfg_checkpoint_file (sm_config s2))"
    | d where "cfg_checkpoint_file (sm_config s2) \<noteq> []" "marshal (checkpoint_of now s) = Some d"
        "fs' (cfg_checkpoint_file (sm_config s2)) = Some d"
    using saveCheckpoint_file [OF assms(2)] unfolding assms(3) by blast
  then show ?thesis
  proof cases
    case 1
    then show ?thesis using loadCheckpoint_cong [of fs' s2 fs unmarshal True] by simp
  next
    case 2
    then show ?thesis using loadCheckpoint_saved [of s2 s fs' d unmarshal now] 2 assms(3) assms(1) [OF 2(2)] by simp
  qed
qed

text \<open>A concrete format: the position in eight bytes, the time in eight bytes, the slot name.\<close>

definition sample_marshal :: "checkpoint \<Rightarrow> byte list option" where
  "sample_marshal cp =
     (if cp_timestamp cp = 0 then Some (le_bytes 8 (cp_lsn cp) @ bytes_of (cp_slot_name cp)) else None)"

definition sample_unmarshal :: "byte list \<Rightarrow> checkpoint option" where
  "sample_unmarshal bs =
     (if length bs < 8 then None
      else Some \<lparr>cp_lsn = of_nat (le_val (take 8 bs)), cp_timestamp = 0, cp_slot_name = string_of (drop 8 bs)\<rparr>)"

lemma sample_marshal_inverse: "sample_marshal cp = Some d \<Longrightarrow> sample_unmarshal d = Some cp"
proof -
  have "take 8 (le_bytes 8 (cp_lsn cp) @ r) = le_bytes 8 (cp_lsn cp)" "drop 8 (le_bytes 8 (cp_lsn cp) @ r) = r" for r
    by (simp_all del: le_bytes.simps)
  moreover assume "sample_marshal cp = Some d"
  ultimately show ?thesis
    by (auto simp: sample_marshal_def sample_unmarshal_def le_bytes_u64 simp del: le_bytes.simps split: if_splits)
qed

definition checkpointing_config :: server_config where
  "checkpointing_config = DefaultServerConfig\<lparr>cfg_checkpoint_file := ''cp.json''\<rparr>"

definition checkpointing :: streamer where
  "checkpointing = (new_streamer checkpointing_config)\<lparr>sm_pos := 4711\<rparr>"

definition torn_write :: save_env where
  "torn_write = \<lparr>sv_mkdir_ok = True, sv_write = Some 3, sv_rename_ok = True\<rparr>"

theorem checkpoint_crash_safe_witness:
  "let fs' = files_after Map.empty (snd (saveCheckpoint sample_marshal torn_write 0 checkpointing Map.empty))
   in fs' ''cp.json.tmp'' = Some [103, 18, 0]
      \<and> loadCheckpoint sample_unmarshal True fs' (new_streamer checkpointing_config)
          \<in> {(Inr (), new_streamer checkpointing_config), (Inr (), (new_streamer checkpointing_config)\<lparr>sm_pos := 4711\<rparr>)}"
proof -
  let ?fs = "files_after Map.empty (snd (saveCheckpoint sample_marshal torn_write 0 checkpointing Map.empty))"
  have m: "sm_config (new_streamer checkpointing_config) = sm_config checkpointing"
    by (simp add: checkpointing_def new_streamer_def)
  have len: "snd (saveCheckpoint sample_marshal torn_write 0 checkpointing Map.empty) \<noteq> []"
    by (simp add: saveCheckpoint_def checkpointing_def new_streamer_def checkpointing_config_def sample_marshal_def
        torn_write_def DefaultServerConfig_def Let_def)
  then have i: "?fs \<in> set (Map.empty # snd (saveCheckpoint sample_marshal torn_write 0 checkpointing Map.empty))"
    by (simp add: files_after_def)
  have "?fs ''cp.json.tmp'' = Some [103, 18, 0]" by code_simp
  moreover have "loadCheckpoint sample_unmarshal True Map.empty (new_streamer checkpointing_config)
      = (Inr (), new_streamer checkpointing_config)"
    by (simp add: loadCheckpoint_def read_file_def)
  ultimately show ?thesis
    using checkpoint_crash_safe [where unmarshal = sample_unmarshal, OF sample_marshal_inverse i m] unfolding Let_def
    by (simp add: checkpointing_def)
qed

text \<open>Saving and resuming. After a successful \<open>saveCheckpoint\<close> with a checkpoint file configured, a new streamer with the same
  configuration (in particular the same slot) resumes at exactly the position that was saved; with another slot
  the checkpoint is ignored and the streamer keeps its own position.\<close>

theorem checkpoint_roundtrip:
  assumes "\<And>cp d. marshal cp = Some d \<Longrightarrow> unmarshal d = Some cp"
    and "saveCheckpoint marshal se now s fs = (Inr (), states)"
    and "cfg_checkpoint_file (sm_config s) \<noteq> []"
    and "cfg_checkpoint_file (sm_config s2) = cfg_checkpoint_file (sm_config s)"
    and "cfg_slot (sm_config s) \<noteq> []"
  shows "loadCheckpoint unmarshal True (files_after fs states) s2 =
      (Inr (), if cfg_slot (sm_config s2) = cfg_slot (sm_config s) then s2\<lparr>sm_pos := sm_pos s\<rparr> else s2)"
proof -
  obtain d where d: "marshal (checkpoint_of now s) = Some d"
      "files_after fs states (cfg_checkpoint_file (sm_config s)) = Some d"
    using assms(2,3)
    by (auto simp: saveCheckpoint_def checkpoint_of_def files_after_def Let_def split: if_splits option.splits)
  from assms(1) [OF d(1)] show ?thesis
    using d(2) assms(3-5) by (simp add: loadCheckpoint_def read_file_def checkpoint_of_def)
qed

definition clean_save :: save_env where
  "clean_save = \<lparr>sv_mkdir_ok = True, sv_write = None, sv_rename_ok = True\<rparr>"

theorem checkpoint_roundtrip_witness:
  "\<exists>states. saveCheckpoint sample_marshal clean_save 0 checkpointing Map.empty = (Inr (), states)
     \<and> loadCheckpoint sample_unmarshal True (files_after Map.empty states) (new_streamer checkpointing_config)
         = (Inr (), (new_streamer checkpointing_config)\<lparr>sm_pos := 4711\<rparr>)"
proof -
  obtain states where s: "saveCheckpoint sample_marshal clean_save 0 checkpointing Map.empty = (Inr (), states)"
    by (simp add: saveCheckpoint_def checkpointing_def new_streamer_def checkpointing_config_def sample_marshal_def
        clean_save_def DefaultServerConfig_def Let_def)
  show ?thesis
    using checkpoint_roundtrip [where unmarshal = sample_unmarshal, OF sample_marshal_inverse s, where ?s2.0 = "new_streamer checkpointing_config"] s
    by (simp add: checkpointing_def new_streamer_def checkpointing_config_def DefaultServerConfig_def)
qed

section \<open>Changed rows\<close>

lemma sendEvent_room:
  assumes "length (sm_chan s) < chan_capacity" and "\<not> sm_cancelled s"
  shows "sendEvent env e s = s\<lparr>sm_chan := sm_chan s @ [e\<lparr>ce_lsn := sm_pos s\<rparr>]\<rparr>"
  using assms by (simp add: sendEvent_def)

lemma length_decoded [simp]:
  "decodeTupleData sc (Some cols) ti fb = Some vs \<Longrightarrow> length vs = length cols"
  by (auto simp: decodeTupleData_def)

lemma nth_decoded:
  "decodeTupleData sc (Some cols) ti fb = Some vs \<Longrightarrow> i < length cols
   \<Longrightarrow> vs ! i = decode_column sc ti fb i (cols ! i)"
  by (auto simp: decodeTupleData_def nth_enumerate_eq)

abbreviation unchanged :: "tuple_column \<Rightarrow> bool" where
  "unchanged c \<equiv> tc_kind c = of_char (CHR ''u'')"

text \<open>Unchanged large columns. PostgreSQL marks a TOASTed column that an UPDATE did not touch as unchanged and sends
  no value. When the message carries the old row, the event's new row has in such a column the old row's
  value; without an old row the column becomes NULL. Every other column of the new row is decoded from the message.\<close>

theorem update_unchanged_columns:
  assumes "parse data = Some (UpdateMessage rid old (Some new))" and "getTableInfo s rid = Some ti"
    and "length (sm_chan s) < chan_capacity" and "\<not> sm_cancelled s" and "i < length new"
    and "case old of None \<Rightarrow> True | Some cols \<Rightarrow> length cols = length new"
  shows "\<exists>e vs. sm_chan (handleUpdateMessage parse sc env now data s) = sm_chan s @ [e]
    \<and> ce_type e = ChangeTypeUpdate \<and> ce_new_values e = Some vs \<and> length vs = length new
    \<and> vs ! i = (if unchanged (new ! i)
                then (case ce_old_values e of None \<Rightarrow> GNil | Some ovs \<Rightarrow> ovs ! i)
                else decode_column sc ti None i (new ! i))"
proof -
  let ?old = "decodeTupleData sc old ti None"
  obtain vs where vs: "decodeTupleData sc (Some new) ti ?old = Some vs"
    by (simp add: decodeTupleData_def)
  let ?e = "(table_event ChangeTypeUpdate now rid ti)
      \<lparr>ce_columns := convertColumns ti, ce_old_values := ?old, ce_new_values := Some vs, ce_lsn := sm_pos s\<rparr>"
  have len: "length ovs = length new" if "?old = Some ovs" for ovs
    using that assms(6) by (cases old) (auto simp: decodeTupleData_def)
  have "sm_chan (handleUpdateMessage parse sc env now data s) = sm_chan s @ [?e]"
    using assms vs by (simp add: handleUpdateMessage_def sendEvent_room)
  moreover have "vs ! i = (if unchanged (new ! i) then (case ?old of None \<Rightarrow> GNil | Some ovs \<Rightarrow> ovs ! i)
                else decode_column sc ti None i (new ! i))"
    using nth_decoded [OF vs assms(5)] assms(5) len
    by (auto simp: decode_column_def split: option.splits)
  ultimately show ?thesis
    using vs by (intro exI [of _ ?e] exI [of _ vs]) (simp add: table_event_def base_event_def)
qed

definition sample_table :: table_info where
  "sample_table = \<lparr>ti_id = 16384, ti_schema = ''public'', ti_name = ''docs'',
     ti_columns = [\<lparr>ci_name = ''id'', ci_data_type = 23, ci_type_name = [], ci_nullable = False\<rparr>,
                   \<lparr>ci_name = ''body'', ci_data_type = 25, ci_type_name = [], ci_nullable = False\<rparr>]\<rparr>"

definition text_col :: "string \<Rightarrow> tuple_column" where
  "text_col v = \<lparr>tc_kind = of_char CHR ''t'', tc_data = bytes_of v\<rparr>"

definition unchanged_col :: tuple_column where
  "unchanged_col = \<lparr>tc_kind = of_char CHR ''u'', tc_data = []\<rparr>"

definition knowing :: streamer where
  "knowing = cache_table 16384 sample_table (new_streamer DefaultServerConfig)"

definition no_floats :: pg_scan where
  "no_floats = \<lparr>scan_f32 = (\<lambda>_. 0), scan_f64 = (\<lambda>_. 0)\<rparr>"

definition calm :: send_env where
  "calm = \<lparr>se_done_first = False, se_wait = TimedOut\<rparr>"

theorem update_unchanged_columns_witness:
  "\<exists>e vs. sm_chan (handleUpdateMessage
        (\<lambda>_. Some (UpdateMessage 16384 (Some [text_col ''1'', text_col ''long'']) (Some [text_col ''2'', unchanged_col])))
        no_floats calm zero_time [] knowing) = [e]
     \<and> ce_new_values e = Some vs \<and> vs ! 1 = (case ce_old_values e of None \<Rightarrow> GNil | Some ovs \<Rightarrow> ovs ! 1)"
proof -
  have k: "getTableInfo knowing 16384 = Some sample_table" "length (sm_chan knowing) < chan_capacity"
    "\<not> sm_cancelled knowing" "sm_chan knowing = []"
    by (simp_all add: knowing_def getTableInfo_def cache_table_def new_streamer_def chan_capacity_def)
  show ?thesis
    using update_unchanged_columns [OF _ k(1-3), of "\<lambda>_. Some (UpdateMessage 16384
        (Some [text_col ''1'', text_col ''long'']) (Some [text_col ''2'', unchanged_col]))" "[]"
        "Some [text_col ''1'', text_col ''long'']" "[text_col ''2'', unchanged_col]" 1 no_floats calm zero_time]
    by (auto simp: k(4) unchanged_col_def)
qed

text \<open>Events that are lost under backpressure. When the event channel is full and its consumer does not take an event
  within the timeout, the change is dropped and counted, but the confirmed position still moves past it: what
  is acknowledged to PostgreSQL and saved in the checkpoint includes a change that no MySQL client
  will see.\<close>

theorem dropped_event_acknowledged:
  assumes "parse_xlog data = Some (walStart, of_char (CHR ''I'') # rest)"
    and "me_parse me (of_char (CHR ''I'') # rest) = Some (InsertMessage rid tup)" and "getTableInfo s rid = Some ti"
    and "chan_capacity \<le> length (sm_chan s)" and "\<not> sm_cancelled s" and "se_wait (me_send me 0) = TimedOut"
  shows "let s' = handleXLogData parse_xlog me data s
         in sm_chan s' = sm_chan s \<and> sm_dropped s' = Suc (sm_dropped s)
            \<and> sm_pos s' = walStart + of_nat (length rest + 1)"
  using assms
  by (simp add: handleXLogData_def parseLogicalReplicationMessage_def handleInsertMessage_def sendEvent_def Let_def)

definition stuffed :: streamer where
  "stuffed = knowing\<lparr>sm_chan := replicate chan_capacity (base_event ChangeTypeBegin zero_time)\<rparr>"

definition insert_env :: msg_env where
  "insert_env = \<lparr>me_parse = (\<lambda>_. Some (InsertMessage 16384 (Some [text_col ''1'', text_col ''x'']))),
     me_scan = no_floats, me_alter_ok = True, me_send = (\<lambda>_. calm), me_now = (\<lambda>_. zero_time)\<rparr>"

theorem dropped_event_acknowledged_witness:
  "sm_dropped (handleXLogData (\<lambda>d. Some (100, d)) insert_env [73, 7] stuffed) = 1
   \<and> sm_chan (handleXLogData (\<lambda>d. Some (100, d)) insert_env [73, 7] stuffed) = sm_chan stuffed
   \<and> sm_pos (handleXLogData (\<lambda>d. Some (100, d)) insert_env [73, 7] stuffed) = 102"
proof -
  have I: "of_char (CHR ''I'') = (73 :: byte)" by simp
  have s: "getTableInfo stuffed 16384 = Some sample_table" "chan_capacity \<le> length (sm_chan stuffed)"
    "\<not> sm_cancelled stuffed" "sm_dropped stuffed = 0"
    by (simp_all add: stuffed_def knowing_def getTableInfo_def cache_table_def new_streamer_def)
  have e: "me_parse insert_env ds = Some (InsertMessage 16384 (Some [text_col ''1'', text_col ''x'']))"
    "se_wait (me_send insert_env 0) = TimedOut" for ds
    by (simp_all add: insert_env_def calm_def)
  show ?thesis
    using dropped_event_acknowledged [where parse_xlog = "\<lambda>d. Some (100, d)" and data = "[73, 7]" and rest = "[7]"
        and walStart = 100, OF _ e(1) s(1-3) e(2)]
    by (simp add: I s(4) Let_def)
qed

end
