(* ===== verification/Pipeline.thy ===== *)
theory Pipeline
  imports Pg_Stream_Props
begin

text \<open>
  From a PostgreSQL row to a MySQL replica: the text values of a tuple as the streamer converts them, the column
  types it announces, and the replication server's encoding of the two together.
\<close>

section \<open>Integers\<close>

lemma scan_int_fmt_int:
  assumes "- (2 ^ (n - 1)) \<le> i" and "i < 2 ^ (n - 1)"
  shows "scan_int n (fmt_int i) = Some (i, [])"
proof (cases "i < 0")
  case True
  have "\<not> is_space (CHR ''-'')" "CHR ''-'' \<noteq> newline" by (simp_all add: is_space_def newline_def char_code_def)
  then show ?thesis
    using True assms takeWhile_digits [OF dec_digits_all_digits, of "[]" "nat (- i)"]
    by (simp add: scan_int_def fmt_int_def Let_def del: takeWhile_eq_all_conv dropWhile_eq_Nil_conv)
next
  case False
  then have "nat i < 2 ^ (n - 1)" using assms(2) by (simp add: nat_less_iff)
  then show ?thesis
    using scan_int_digits [of "dec_digits (nat i)" "[]" n] False by (simp add: fmt_int_def)
qed

lemma scan_d_fmt_int:
  "- (2 ^ (n - 1)) \<le> i \<Longrightarrow> i < 2 ^ (n - 1) \<Longrightarrow> scan_d n (fmt_int i) = i"
  by (simp add: scan_d_def scan_int_fmt_int nth_int_def)

text \<open>A replica reads a fixed-width integer in two's complement, low byte first.\<close>

definition read_sint :: "byte list \<Rightarrow> int" where
  "read_sint bs =
     (let u = int (le_val bs); m = 2 ^ (8 * length bs) in if m \<le> 2 * u then u - m else u)"

lemma read_sint_of_int:
  assumes "LENGTH('a::len) = 8 * k" and "0 < k" and "- (2 ^ (8 * k - 1)) \<le> i" and "i < 2 ^ (8 * k - 1)"
  shows "read_sint (le_bytes k (word_of_int i :: 'a word)) = i"
proof -
  obtain j where j: "8 * k = Suc j" using assms(2) by (cases "8 * k") auto
  have "le_val (le_bytes k (word_of_int i :: 'a word)) = unat (word_of_int i :: 'a word)"
    using unsigned_less [of "word_of_int i :: 'a word", where ?'a = nat] assms(1)
    by (simp add: le_val_le_bytes power_mult)
  then have "int (le_val (le_bytes k (word_of_int i :: 'a word))) = i mod 2 ^ (8 * k)"
    by (simp add: uint_word_of_int assms(1))
  moreover have "i mod 2 ^ (8 * k) = (if i < 0 then i + 2 ^ (8 * k) else i)"
  proof (cases "i < 0")
    case True
    have "(i + 2 ^ (8 * k)) mod 2 ^ (8 * k) = i + 2 ^ (8 * k)"
      using True assms(3) j by (intro mod_pos_pos_trivial) simp_all
    then show ?thesis using True by simp
  next
    case False
    then show ?thesis using assms(4) j by simp
  qed
  ultimately show ?thesis
    using assms(3,4) j by (simp add: read_sint_def Let_def)
qed

text \<open>The three integer types by OID and their width in bytes.\<close>

definition int_width :: "u32 \<Rightarrow> nat" where
  "int_width oid = (if oid = 21 then 2 else if oid = 23 then 4 else 8)"

text \<open>Integers survive the whole way. A \<open>smallint\<close>, \<open>integer\<close> or \<open>bigint\<close> value in PostgreSQL's decimal text, negative or not, is converted by
  the streamer and encoded under the column type that the streamer announces, such that a replica that reads the bytes
  in two's complement gets the same integer, for the full range of the type.\<close>

theorem integer_text_to_wire:
  assumes "oid \<in> {21, 23, 20}"
    and "- (2 ^ (8 * int_width oid - 1)) \<le> i" and "i < 2 ^ (8 * int_width oid - 1)"
  shows "read_sint (encodeValue rt (convertPGValue sc (fmt_int i) oid) (pgTypeToMySQLType oid) meta) = i"
proof -
  consider "oid = 21" | "oid = 23" | "oid = 20" using assms(1) by blast
  then show ?thesis
  proof cases
    case 1
    then show ?thesis using assms(2,3) read_sint_of_int [where ?'a = 16, of 2 i]
      by (simp add: int_width_def convertPGValue_def pgTypeToMySQLType_def encodeValue_def mysql_type_defs scan_d_fmt_int)
  next
    case 2
    then show ?thesis using assms(2,3) read_sint_of_int [where ?'a = 32, of 4 i]
      by (simp add: int_width_def convertPGValue_def pgTypeToMySQLType_def encodeValue_def mysql_type_defs scan_d_fmt_int)
  next
    case 3
    then show ?thesis using assms(2,3) read_sint_of_int [where ?'a = 64, of 8 i]
      by (simp add: int_width_def convertPGValue_def pgTypeToMySQLType_def encodeValue_def mysql_type_defs scan_d_fmt_int)
  qed
qed

theorem integer_text_to_wire_witness:
  "fmt_int (- 128) = ''-128''
   \<and> read_sint (encodeValue plain_rt (convertPGValue no_floats (fmt_int (- 128)) 21) (pgTypeToMySQLType 21) 0) = - 128"
proof
  show "fmt_int (- 128) = ''-128''" by code_simp
  show "read_sint (encodeValue plain_rt (convertPGValue no_floats (fmt_int (- 128)) 21) (pgTypeToMySQLType 21) 0) = - 128"
    by (rule integer_text_to_wire) (simp_all add: int_width_def)
qed

section \<open>Converted values have the type of their column\<close>

lemma if_mem: "x \<in> R \<Longrightarrow> y \<in> R \<Longrightarrow> (if b then x else y) \<in> R"
  by simp

lemma pgTypeToMySQLType_range:
  "pgTypeToMySQLType oid \<in> {1, 2, 3, 8, 4, 5, 246, 10, 11, 12, 253, 254, 252, 245, 16}"
  unfolding pgTypeToMySQLType_def by (intro if_mem) simp_all

text \<open>Texts go to the string, blob and JSON columns only, and keep their length.\<close>

lemma convert_text:
  assumes "pgTypeToMySQLType oid \<in> {252, 253, 254, 245}"
  shows "\<exists>s. convertPGValue sc v oid = GString s \<and> length s = length v"
proof -
  have "oid \<noteq> 16" "oid \<noteq> 21" "oid \<noteq> 23" "oid \<noteq> 26" "oid \<noteq> 20" "oid \<noteq> 700" "oid \<noteq> 701"
    using assms by (auto simp: pgTypeToMySQLType_def)
  moreover have "length (array_text v) = length v"
    by (cases v rule: rev_cases) (auto simp: array_text_def hd_append split: list.splits)
  ultimately show ?thesis by (simp add: convertPGValue_def)
qed

definition text_limit :: "byte \<Rightarrow> nat" where
  "text_limit t = (if t = MYSQL_TYPE_STRING then 2 ^ 8 else if t = MYSQL_TYPE_JSON then 2 ^ 32 else 2 ^ 16)"

lemma converted_fits:
  assumes "length v < text_limit (pgTypeToMySQLType oid)"
  shows "fits_column rt (convertPGValue sc v oid) (pgTypeToMySQLType oid) (getColumnMeta (pgTypeToMySQLType oid))"
proof (cases "pgTypeToMySQLType oid \<in> {252, 253, 254, 245}")
  case True
  with convert_text obtain s where s: "convertPGValue sc v oid = GString s" "length s = length v" by blast
  show ?thesis
    using True assms s
    by (elim insertE emptyE; simp add: fits_column_def getColumnMeta_def text_limit_def mysql_type_defs)
next
  case False
  then have "pgTypeToMySQLType oid \<in> {1, 2, 3, 8, 4, 5, 246, 10, 11, 12, 16}"
    using pgTypeToMySQLType_range [of oid] by blast
  then show ?thesis
    by (elim insertE emptyE; simp add: fits_column_def getColumnMeta_def mysql_type_defs)
qed

text \<open>A column of a tuple that is NULL, or a text that the length prefix of its column can count.\<close>

definition cell_fits :: "column_info \<Rightarrow> tuple_column \<Rightarrow> bool" where
  "cell_fits ci tc \<longleftrightarrow> tc_kind tc = of_char CHR ''n''
     \<or> tc_kind tc = of_char CHR ''t'' \<and> length (tc_data tc) < text_limit (pgTypeToMySQLType (ci_data_type ci))"

lemma col_of_converted:
  assumes "ce_columns e = convertColumns ti" and "i < length (ti_columns ti)"
  shows "col_type (rows_table_map e) i = pgTypeToMySQLType (ci_data_type (ti_columns ti ! i))"
    and "col_meta (rows_table_map e) i = getColumnMeta (pgTypeToMySQLType (ci_data_type (ti_columns ti ! i)))"
  using assms by (simp_all add: col_type_def col_meta_def rows_table_map_def convertColumns_def)

text \<open>The values of a row, where an unchanged column takes over a value of a row that is already known to fit.\<close>

lemma decoded_row_ok:
  assumes "decodeTupleData sc (Some cols) ti fb = Some vs" and "ce_columns e = convertColumns ti"
    and "list_all2 (\<lambda>ci tc. cell_fits ci tc \<or> unchanged tc) (ti_columns ti) cols"
    and "\<And>ovs. fb = Some ovs \<Longrightarrow> row_ok rt (rows_table_map e) ovs"
  shows "row_ok rt (rows_table_map e) vs"
  unfolding row_ok_def
proof (intro conjI allI impI)
  show "length vs = length (tm_column_type (rows_table_map e))"
    using assms(1,2) list_all2_lengthD [OF assms(3)] by (simp add: rows_table_map_def convertColumns_def)
next
  fix k assume k: "k < length vs" "vs ! k \<noteq> GNil"
  let ?oid = "ci_data_type (ti_columns ti ! k)"
  have len: "length cols = length vs" "length (ti_columns ti) = length vs"
    using assms(1) list_all2_lengthD [OF assms(3)] by simp_all
  have v: "vs ! k = decode_column sc ti fb k (cols ! k)" using nth_decoded [OF assms(1)] k len by simp
  have "cell_fits (ti_columns ti ! k) (cols ! k) \<or> unchanged (cols ! k)"
    using assms(3) k(1) len by (simp add: list_all2_conv_all_nth)
  then consider (old) ovs where "fb = Some ovs" "k < length ovs" "vs ! k = ovs ! k"
    | (new) "vs ! k = convertPGValue sc (string_of (tc_data (cols ! k))) ?oid"
        "length (string_of (tc_data (cols ! k))) < text_limit (pgTypeToMySQLType ?oid)"
    using v k len by (auto simp: cell_fits_def decode_column_def string_of_def split: option.splits if_splits)
  then show "fits_column rt (vs ! k) (col_type (rows_table_map e) k) (col_meta (rows_table_map e) k)"
  proof cases
    case old
    then show ?thesis using assms(4) [OF old(1)] k(2) by (simp add: row_ok_def)
  next
    case new
    then show ?thesis using converted_fits [of _ ?oid rt sc] k len by (simp add: col_of_converted [OF assms(2)])
  qed
qed

text \<open>C25: The streamer's rows are well typed for the encoder. The event of an UPDATE message whose old row and new row (also with unchanged
  columns) have the table's columns, with texts that their length prefixes can count, has one value per
  announced column, and each of them is NULL or a value that the encoder of the announced MySQL type frames correctly: old and
  new row satisfy the precondition under which rows are readable, for every type in PostgreSQL's catalogue.\<close>

theorem streamed_update_typed:
  assumes "parse data = Some (UpdateMessage rid (Some old) (Some new))" and "getTableInfo s rid = Some ti"
    and "length (sm_chan s) < chan_capacity" and "\<not> sm_cancelled s"
    and "list_all2 cell_fits (ti_columns ti) old"
    and "list_all2 (\<lambda>ci tc. cell_fits ci tc \<or> unchanged tc) (ti_columns ti) new"
  shows "\<exists>e. sm_chan (handleUpdateMessage parse sc env now data s) = sm_chan s @ [e] \<and> length (rows_of e) = 2
    \<and> (\<forall>row \<in> set (rows_of e). row_ok rt (rows_table_map e) row)"
proof -
  obtain ovs where ovs: "decodeTupleData sc (Some old) ti None = Some ovs" by (simp add: decodeTupleData_def)
  obtain vs where vs: "decodeTupleData sc (Some new) ti (Some ovs) = Some vs" by (simp add: decodeTupleData_def)
  let ?e = "(table_event ChangeTypeUpdate now rid ti)
      \<lparr>ce_columns := convertColumns ti, ce_old_values := Some ovs, ce_new_values := Some vs, ce_lsn := sm_pos s\<rparr>"
  have chan: "sm_chan (handleUpdateMessage parse sc env now data s) = sm_chan s @ [?e]"
    using assms ovs vs by (simp add: handleUpdateMessage_def sendEvent_room)
  have "row_ok rt (rows_table_map ?e) ovs"
    by (rule decoded_row_ok [OF ovs]) (use assms(5) in \<open>auto elim: list_all2_mono\<close>)
  moreover from this have "row_ok rt (rows_table_map ?e) vs"
    by (intro decoded_row_ok [OF vs _ assms(6)]) simp_all
  ultimately show ?thesis
    using chan by (intro exI [of _ ?e]) (simp add: rows_of_def old_or_new_def slice_def table_event_def base_event_def)
qed

definition sample_update :: "byte list \<Rightarrow> pg_message option" where
  "sample_update _ =
     Some (UpdateMessage 16384 (Some [text_col ''1'', text_col ''long'']) (Some [text_col ''2'', unchanged_col]))"

lemma knowing_facts:
  "getTableInfo knowing 16384 = Some sample_table" "length (sm_chan knowing) < chan_capacity"
  "\<not> sm_cancelled knowing" "sm_chan knowing = []"
  by (simp_all add: knowing_def getTableInfo_def cache_table_def new_streamer_def chan_capacity_def)

theorem streamed_update_typed_witness:
  "\<exists>e. sm_chan (handleUpdateMessage sample_update no_floats calm zero_time [] knowing) = [e]
     \<and> list_all (row_ok plain_rt (rows_table_map e)) (rows_of e)"
proof -
  have "list_all2 cell_fits (ti_columns sample_table) [text_col ''1'', text_col ''long'']"
    "list_all2 (\<lambda>ci tc. cell_fits ci tc \<or> unchanged tc) (ti_columns sample_table) [text_col ''2'', unchanged_col]"
    by (simp_all add: sample_table_def cell_fits_def text_col_def unchanged_col_def text_limit_def)
  then show ?thesis
    using streamed_update_typed [of sample_update "[]", OF _ knowing_facts(1-3)]
    by (fastforce simp: sample_update_def knowing_facts(4) list_all_iff)
qed

section \<open>An insert, end to end\<close>

text \<open>The cell that a replica should find for a column of the tuple.\<close>

definition replica_cell :: "go_rt \<Rightarrow> pg_scan \<Rightarrow> column_info \<Rightarrow> tuple_column \<Rightarrow> byte list option" where
  "replica_cell rt sc ci tc =
     (let t = pgTypeToMySQLType (ci_data_type ci)
      in if tc_kind tc = of_char CHR ''n'' then None
         else Some (encodeValue rt (convertPGValue sc (string_of (tc_data tc)) (ci_data_type ci)) t (getColumnMeta t)))"

text \<open>C1: An INSERT reaches the replica. When the streamer handles an INSERT of a known table, the
  event it puts on the channel is converted by the replication server to a table map event and a rows event
  from which a replica recovers the schema and table name and one row with one cell per column: NULL where PostgreSQL sent NULL,
  otherwise the encoding, under the MySQL type for the column's PostgreSQL type, of the value that the text stands for.\<close>

theorem insert_reaches_replica:
  assumes lenc: "\<And>n r. ldec (lenc n @ r) = Some (unat (n :: u64), r)"
    and msg: "parse data = Some (InsertMessage rid (Some cols))" "getTableInfo s rid = Some ti"
    and room: "length (sm_chan s) < chan_capacity" "\<not> sm_cancelled s"
    and cols: "list_all2 cell_fits (ti_columns ti) cols" "cols \<noteq> []" "length cols \<le> 4096"
    and names: "length (ti_schema ti) < 256" "length (ti_name ti) < 256"
  shows "\<exists>e tev rev tp rp v. sm_chan (handleInsertMessage parse sc env ts data s) = sm_chan s @ [e]
    \<and> convertToMySQLEvents now e srv = ([tev, rev], srv)
    \<and> event_payload rt lenc NewBinlogEncoder (be_body tev) = Some tp
    \<and> event_payload rt lenc NewBinlogEncoder (be_body rev) = Some rp
    \<and> read_table_map ldec tp = Some v
    \<and> v_schema v = bytes_of (ti_schema ti) \<and> v_table v = bytes_of (ti_name ti)
    \<and> read_rows_event ldec False v rp = Some [map2 (replica_cell rt sc) (ti_columns ti) cols]"
proof -
  obtain vs where vs: "decodeTupleData sc (Some cols) ti None = Some vs" by (simp add: decodeTupleData_def)
  define e where "e = (table_event ChangeTypeInsert ts rid ti)
      \<lparr>ce_columns := convertColumns ti, ce_new_values := Some vs, ce_lsn := sm_pos s\<rparr>"
  have e: "ce_type e = ChangeTypeInsert" "ce_columns e = convertColumns ti" "rows_of e = [vs]"
    "ce_schema e = ti_schema ti" "ce_table e = ti_name ti"
    by (simp_all add: e_def table_event_def base_event_def rows_of_def slice_def)
  have len: "length (ce_columns e) = length cols" "length vs = length cols" "length (ti_columns ti) = length cols"
    using list_all2_lengthD [OF cols(1)] vs e(2) by (simp_all add: convertColumns_def)
  have ok: "\<forall>row \<in> set (rows_of e). row_ok rt (rows_table_map e) row"
    unfolding e(3) by (simp, rule decoded_row_ok [OF vs e(2)]) (use cols(1) in \<open>auto elim: list_all2_mono\<close>)
  have chan: "sm_chan (handleInsertMessage parse sc env ts data s) = sm_chan s @ [e]"
    using msg room vs by (simp add: handleInsertMessage_def sendEvent_room e_def)
  have ev: "ce_type e \<in> {ChangeTypeInsert, ChangeTypeUpdate, ChangeTypeDelete}" "length (ce_columns e) \<le> 4096"
    "ce_columns e \<noteq> []" "length (ce_schema e) < 256" "length (ce_table e) < 256"
    using len cols(2,3) names e(1,4,5) by auto
  have nth: "vs ! i = (if tc_kind (cols ! i) = of_char (CHR ''n'') then GNil
        else convertPGValue sc (string_of (tc_data (cols ! i))) (ci_data_type (ti_columns ti ! i)))"
    if "i < length cols" for i
    using nth_decoded [OF vs that] list_all2_nthD2 [OF cols(1) that] that len(3)
    by (auto simp: decode_column_def cell_fits_def)
  have nil: "convertPGValue sc v oid \<noteq> GNil" for v oid by (simp add: convertPGValue_def)
  have cells: "row_cells rt (rows_table_map e) 0 vs = map2 (replica_cell rt sc) (ti_columns ti) cols"
    using len(2,3) nil
    by (intro nth_equalityI)
      (simp_all add: row_cells_def nth_enumerate_eq nth col_of_converted [OF e(2)] replica_cell_def Let_def)
  have upd: "(ce_type e = ChangeTypeUpdate) = False" using e(1) by simp
  from row_change_read_back [OF lenc ev ok, of now srv] show ?thesis
    unfolding upd e(3-5) list.map cells using chan by blast
qed


theorem insert_reaches_replica_witness:
  "\<exists>e tev rev tp rp v. sm_chan (handleInsertMessage
        (\<lambda>_. Some (InsertMessage 16384 (Some [text_col ''-2'', text_col ''hi'']))) no_floats calm zero_time [] knowing) = [e]
    \<and> convertToMySQLEvents (\<lambda>_. 0) e two_clients = ([tev, rev], two_clients)
    \<and> event_payload plain_rt lenenc NewBinlogEncoder (be_body tev) = Some tp
    \<and> event_payload plain_rt lenenc NewBinlogEncoder (be_body rev) = Some rp
    \<and> read_table_map lenenc_dec tp = Some v \<and> v_table v = bytes_of ''docs''
    \<and> read_rows_event lenenc_dec False v rp = Some [[Some [254, 255, 255, 255], Some [2, 0, 104, 105]]]"
proof -
  let ?cols = "[text_col ''-2'', text_col ''hi'']"
  have c: "list_all2 cell_fits (ti_columns sample_table) ?cols" "?cols \<noteq> []" "length ?cols \<le> 4096"
    "length (ti_schema sample_table) < 256" "length (ti_name sample_table) < 256"
    by (simp_all add: sample_table_def cell_fits_def text_col_def text_limit_def)
  have cells: "map2 (replica_cell plain_rt no_floats) (ti_columns sample_table) ?cols
      = [Some [254, 255, 255, 255], Some [2, 0, 104, 105]]"
    by code_simp
  have n: "ti_name sample_table = ''docs''" by (simp add: sample_table_def)
  show ?thesis
    using insert_reaches_replica [where lenc = lenenc and ldec = lenenc_dec
        and parse = "\<lambda>_. Some (InsertMessage 16384 (Some ?cols))" and data = "[]",
        OF lenenc_dec_lenenc refl knowing_facts(1-3) c, of no_floats calm zero_time "\<lambda>_. 0" two_clients plain_rt]
    unfolding cells knowing_facts(4) append_Nil n by blast
qed

end
