(* ===== verification/Go_Slices.thy ===== *)
theory Go_Slices
  imports Go_Strings
begin

text \<open>
  Strings addressed by index, as the SQL generator handles them: slices, searches that start at an index, index
  loops that skip characters, and the replacement of a slice.
\<close>

text \<open>\<open>s[a:b]\<close>, and \<open>s[:a] + mid + s[b:]\<close>.\<close>

definition sub :: "string \<Rightarrow> nat \<Rightarrow> nat \<Rightarrow> string" where
  "sub s a b = take (b - a) (drop a s)"

definition put_slice :: "string \<Rightarrow> nat \<Rightarrow> string \<Rightarrow> nat \<Rightarrow> string" where
  "put_slice s a mid b = take a s @ mid @ drop b s"

text \<open>\<open>pos + strings.Index(s[pos:], p)\<close>, and the same in the upper-cased rest.\<close>

definition IndexFrom :: "string \<Rightarrow> nat \<Rightarrow> string \<Rightarrow> nat option" where
  "IndexFrom s pos p = map_option ((+) pos) (Index (drop pos s) p)"

definition IndexUpper :: "string \<Rightarrow> nat \<Rightarrow> string \<Rightarrow> nat option" where
  "IndexUpper s pos p = map_option ((+) pos) (Index (ToUpper (drop pos s)) p)"

text \<open>\<open>for i < len(s) && p(s[i]) { i++ }\<close>\<close>

definition skip_while :: "(char \<Rightarrow> bool) \<Rightarrow> string \<Rightarrow> nat \<Rightarrow> nat" where
  "skip_while p s i = i + length (takeWhile p (drop i s))"

text \<open>\<open>i < len(s) && s[i] == c\<close>\<close>

definition char_at :: "string \<Rightarrow> nat \<Rightarrow> char \<Rightarrow> bool" where
  "char_at s i c \<longleftrightarrow> i < length s \<and> s ! i = c"

definition is_blank :: "char \<Rightarrow> bool" where
  "is_blank c \<longleftrightarrow> c = CHR '' ''"

definition is_blank3 :: "char \<Rightarrow> bool" where
  "is_blank3 c \<longleftrightarrow> c = CHR '' '' \<or> c = CHR 0x09 \<or> c = CHR 0x0A"

definition isAlphanumeric :: "char \<Rightarrow> bool" where
  "isAlphanumeric c \<longleftrightarrow> (97 \<le> char_code c \<and> char_code c \<le> 122) \<or> (65 \<le> char_code c \<and> char_code c \<le> 90)
     \<or> (48 \<le> char_code c \<and> char_code c \<le> 57) \<or> c = CHR ''_''"

text \<open>The occurrence of length \<open>n\<close> at \<open>idx\<close> is a whole word.\<close>

definition whole_word :: "string \<Rightarrow> nat \<Rightarrow> nat \<Rightarrow> bool" where
  "whole_word s idx n \<longleftrightarrow> (idx = 0 \<or> \<not> isAlphanumeric (s ! (idx - 1)))
     \<and> (length s \<le> idx + n \<or> \<not> isAlphanumeric (s ! (idx + n)))"

lemma IndexFrom_bound:
  assumes "IndexFrom s pos p = Some i"
  shows "pos \<le> i" and "p \<noteq> [] \<Longrightarrow> i + length p \<le> length s" and "sub s i (i + length p) = p"
proof -
  obtain k where k: "Index (drop pos s) p = Some k" "i = pos + k" using assms by (auto simp: IndexFrom_def)
  note b = Index_bound [OF k(1)]
  show "pos \<le> i" using k by simp
  show "p \<noteq> [] \<Longrightarrow> i + length p \<le> length s" using b k(2) by (cases "pos \<le> length s") auto
  show "sub s i (i + length p) = p" using b k(2) by (simp add: sub_def HasPrefix_def add.commute)
qed

lemma IndexUpper_bound:
  assumes "IndexUpper s pos p = Some i"
  shows "pos \<le> i" and "p \<noteq> [] \<Longrightarrow> i + length p \<le> length s" and "ToUpper (sub s i (i + length p)) = p"
proof -
  obtain k where k: "Index (ToUpper (drop pos s)) p = Some k" "i = pos + k" using assms by (auto simp: IndexUpper_def)
  note b = Index_bound [OF k(1)]
  show "pos \<le> i" using k by simp
  show "p \<noteq> [] \<Longrightarrow> i + length p \<le> length s" using b k(2) by (cases "pos \<le> length s") auto
  show "ToUpper (sub s i (i + length p)) = p"
    using b k(2) by (simp add: sub_def HasPrefix_def ToUpper_def drop_map take_map add.commute)
qed

lemma length_put_slice: "a \<le> length s \<Longrightarrow> length (put_slice s a mid b) = a + length mid + (length s - b)"
  by (simp add: put_slice_def)

lemma skip_while_le: "i \<le> skip_while p s i"
  by (simp add: skip_while_def)

lemma skip_while_bound: "i \<le> length s \<Longrightarrow> skip_while p s i \<le> length s"
  unfolding skip_while_def by (metis add_le_cancel_left le_add_diff_inverse length_drop length_takeWhile_le)

lemma skip_while_stop: "skip_while p s i < length s \<Longrightarrow> \<not> p (s ! skip_while p s i)"
proof -
  assume a: "skip_while p s i < length s"
  let ?n = "length (takeWhile p (drop i s))"
  have "?n < length (drop i s)" using a by (auto simp: skip_while_def)
  then have "\<not> p (drop i s ! ?n)" by (rule nth_length_takeWhile)
  then show ?thesis using a by (simp add: skip_while_def)
qed

text \<open>What a termination proof needs to know of a search.\<close>

lemma IndexFrom_some: "IndexFrom s pos p = Some i \<Longrightarrow> p \<noteq> [] \<Longrightarrow> pos \<le> i \<and> i + length p \<le> length s"
  using IndexFrom_bound(1,2) by blast

lemma IndexUpper_some: "IndexUpper s pos p = Some i \<Longrightarrow> p \<noteq> [] \<Longrightarrow> pos \<le> i \<and> i + length p \<le> length s"
  using IndexUpper_bound(1,2) by blast

lemmas index_facts = IndexFrom_bound IndexUpper_bound skip_while_le skip_while_bound

lemma ReplaceAll_Nil [simp]: "ReplaceAll [] old new = []"
  by (simp add: ReplaceAll.simps)

lemma ReplaceAll_Cons:
  "ReplaceAll (c # t) old new =
     (if old \<noteq> [] \<and> HasPrefix (c # t) old then new @ ReplaceAll (drop (length old) (c # t)) old new
      else c # ReplaceAll t old new)"
  by (subst ReplaceAll.simps) simp

end
