(* ===== verification/Sql_Charset.thy ===== *)
theory Sql_Charset
  imports Go_Slices
begin

text \<open>
  MySQL charset introducers (\<open>_utf8mb4'text'\<close>): the three routines that remove them, in \<open>rewriter.go\<close>,
  \<open>ast_rewriter_v3.go\<close> and \<open>pg_generator.go\<close> of \<open>pkg/sqlrewrite\<close>, a specification of what they compute, and that each of
  them meets it.
\<close>

section \<open>Quotes\<close>

definition dquote :: char where
  "dquote = CHR 0x22"

definition squote :: char where
  "squote = CHR 0x27"

definition backslash :: char where
  "backslash = CHR 0x5C"

definition is_quote :: "char \<Rightarrow> bool" where
  "is_quote c \<longleftrightarrow> c = squote \<or> c = dquote"

section \<open>The fallback rewriter\<close>

text \<open>
  \<open>removeCharsetPrefixes\<close> of \<open>rewriter.go\<close> has the table in its body; the inner loop over the prefixes advances the
  index itself and leaves with \<open>matched\<close>.
\<close>

definition rewriter_prefixes :: "string list" where
  "rewriter_prefixes =
     [''_UTF8MB4'', ''_utf8mb4'', ''_UTF8'', ''_utf8'', ''_BINARY'', ''_binary'', ''_LATIN1'', ''_latin1'',
      ''_ASCII'', ''_ascii'', ''_UCS2'', ''_ucs2'', ''_UTF16'', ''_utf16'', ''_UTF32'', ''_utf32'']"

fun prefix_loop :: "string list \<Rightarrow> string \<Rightarrow> nat \<Rightarrow> nat \<times> bool" where
  "prefix_loop [] sql i = (i, False)"
| "prefix_loop (p # ps) sql i =
     (if length p < length sql - i \<and> HasPrefix (drop i sql) p \<and> is_quote (sql ! (i + length p))
      then (i + length p, True) else prefix_loop ps sql i)"

lemma prefix_loop_advances: "(\<forall>p \<in> set ps. p \<noteq> []) \<Longrightarrow> prefix_loop ps sql i = (j, True) \<Longrightarrow> i < j \<and> j \<le> length sql"
  by (induction ps) (auto split: if_splits)

lemma rewriter_prefixes_nonempty: "\<forall>p \<in> set rewriter_prefixes. p \<noteq> []"
  by (simp add: rewriter_prefixes_def)

function remove_loop :: "string \<Rightarrow> nat \<Rightarrow> string \<Rightarrow> string" where
  "remove_loop sql i acc =
     (if length sql \<le> i then acc
      else let (j, matched) = (if sql ! i = CHR ''_'' \<and> i + 2 < length sql
                               then prefix_loop rewriter_prefixes sql i else (i, False))
           in if matched then remove_loop sql j acc else remove_loop sql (i + 1) (acc @ [sql ! i]))"
  by pat_completeness auto
termination
proof (relation "measure (\<lambda>(sql, i, acc). length sql - i)", goal_cases)
  case (2 sql i acc p j matched)
  then have "prefix_loop rewriter_prefixes sql i = (j, True)" by (auto split: if_splits)
  then show ?case
    using prefix_loop_advances [OF rewriter_prefixes_nonempty, of sql i j] 2(1) by auto
qed auto

declare remove_loop.simps [simp del]

definition removeCharsetPrefixes :: "string \<Rightarrow> string" where
  "removeCharsetPrefixes sql = (if \<not> Contains sql ''_'' then sql else remove_loop sql 0 [])"

section \<open>The pass before parsing\<close>

text \<open>\<open>preProcessCharsetPrefixes\<close> of \<open>ast_rewriter_v3.go\<close> calls \<open>matchCharsetPrefix\<close> on the rest of the string, whose loop over its own
  table returns early.\<close>

definition ast_prefixes :: "string list" where
  "ast_prefixes =
     [''_UTF8MB4'', ''_utf8mb4'', ''_UTF8'', ''_utf8'', ''_BINARY'', ''_binary'', ''_LATIN1'', ''_latin1'',
      ''_ASCII'', ''_ascii'', ''_UCS2'', ''_ucs2'', ''_UTF16'', ''_utf16'', ''_UTF32'', ''_utf32'']"

fun match_prefix :: "string list \<Rightarrow> string \<Rightarrow> nat" where
  "match_prefix [] s = 0"
| "match_prefix (p # ps) s =
     (if length p < length s \<and> HasPrefix s p \<and> is_quote (s ! length p) then length p else match_prefix ps s)"

definition matchCharsetPrefix :: "string \<Rightarrow> nat" where
  "matchCharsetPrefix s = match_prefix ast_prefixes s"

function preprocess_loop :: "string \<Rightarrow> nat \<Rightarrow> string \<Rightarrow> string" where
  "preprocess_loop sql i acc =
     (if length sql \<le> i then acc
      else if sql ! i = CHR ''_'' \<and> i + 2 < length sql \<and> 0 < matchCharsetPrefix (drop i sql)
        then preprocess_loop sql (i + matchCharsetPrefix (drop i sql)) acc
      else preprocess_loop sql (i + 1) (acc @ [sql ! i]))"
  by pat_completeness auto
termination by (relation "measure (\<lambda>(sql, i, acc). length sql - i)") auto

declare preprocess_loop.simps [simp del]

definition preProcessCharsetPrefixes :: "string \<Rightarrow> string" where
  "preProcessCharsetPrefixes sql = (if \<not> Contains sql ''_'' then sql else preprocess_loop sql 0 [])"

section \<open>The generator\<close>

text \<open>\<open>removeCharsetPrefixes\<close> of \<open>pg_generator.go\<close>, with its own \<open>matchCharsetPrefix\<close> and table.\<close>

definition gen_prefixes :: "string list" where
  "gen_prefixes =
     [''_UTF8MB4'', ''_utf8mb4'', ''_UTF8'', ''_utf8'', ''_BINARY'', ''_binary'', ''_LATIN1'', ''_latin1'',
      ''_ASCII'', ''_ascii'', ''_UCS2'', ''_ucs2'', ''_UTF16'', ''_utf16'', ''_UTF32'', ''_utf32'']"

fun gen_match_prefix :: "string list \<Rightarrow> string \<Rightarrow> nat" where
  "gen_match_prefix [] s = 0"
| "gen_match_prefix (p # ps) s =
     (if length p < length s \<and> HasPrefix s p \<and> is_quote (s ! length p) then length p else gen_match_prefix ps s)"

definition gen_matchCharsetPrefix :: "string \<Rightarrow> nat" where
  "gen_matchCharsetPrefix s = gen_match_prefix gen_prefixes s"

function gen_remove_loop :: "string \<Rightarrow> nat \<Rightarrow> string \<Rightarrow> string" where
  "gen_remove_loop sql i acc =
     (if length sql \<le> i then acc
      else if sql ! i = CHR ''_'' \<and> i + 2 < length sql \<and> 0 < gen_matchCharsetPrefix (drop i sql)
        then gen_remove_loop sql (i + gen_matchCharsetPrefix (drop i sql)) acc
      else gen_remove_loop sql (i + 1) (acc @ [sql ! i]))"
  by pat_completeness auto
termination by (relation "measure (\<lambda>(sql, i, acc). length sql - i)") auto

declare gen_remove_loop.simps [simp del]

definition gen_removeCharsetPrefixes :: "string \<Rightarrow> string" where
  "gen_removeCharsetPrefixes sql = (if \<not> Contains sql ''_'' then sql else gen_remove_loop sql 0 [])"

section \<open>What all three compute\<close>

text \<open>
  The specification: an introducer is an underscore with one of eight charset names, in upper or in lower case,
  right before a quote; removing the introducers reads the text once from left to right.
\<close>

definition charset_names :: "string list" where
  "charset_names = [''UTF8MB4'', ''UTF8'', ''BINARY'', ''LATIN1'', ''ASCII'', ''UCS2'', ''UTF16'', ''UTF32'']"

definition introducers :: "string list" where
  "introducers = map (\<lambda>n. CHR ''_'' # n) (charset_names @ map ToLower charset_names)"

definition introducer_length :: "string \<Rightarrow> nat" where
  "introducer_length s =
     (let w = takeWhile (\<lambda>c. \<not> is_quote c) s in if w \<noteq> s \<and> w \<in> set introducers then length w else 0)"

function without_introducers :: "string \<Rightarrow> string" where
  "without_introducers [] = []"
| "without_introducers (c # t) =
     (if 0 < introducer_length (c # t) then without_introducers (drop (introducer_length (c # t)) (c # t))
      else c # without_introducers t)"
  by pat_completeness auto
termination by (relation "measure length") auto

lemma tables_complete:
  "set rewriter_prefixes = set introducers" "set ast_prefixes = set introducers" "set gen_prefixes = set introducers"
  by code_simp+

lemma introducers_shape: "list_all (\<lambda>p. hd p = CHR ''_'' \<and> 2 < length p \<and> list_all (\<lambda>c. \<not> is_quote c) p) introducers"
  by code_simp

lemma introducerD: "p \<in> set introducers \<Longrightarrow> p \<noteq> [] \<and> hd p = CHR ''_'' \<and> 2 < length p \<and> (\<forall>c \<in> set p. \<not> is_quote c)"
  using introducers_shape by (fastforce simp: list_all_iff)

text \<open>A prefix of a table matches exactly if it is what stands before the next quote: at most one does, whatever the order of the table.\<close>

lemma match_before_quote:
  assumes "p \<in> set introducers"
  shows "length p < length s \<and> HasPrefix s p \<and> is_quote (s ! length p)
    \<longleftrightarrow> takeWhile (\<lambda>c. \<not> is_quote c) s = p \<and> p \<noteq> s"
proof
  assume "length p < length s \<and> HasPrefix s p \<and> is_quote (s ! length p)"
  then have s: "s = p @ s ! length p # drop (Suc (length p)) s" and q: "is_quote (s ! length p)"
    using append_take_drop_id [of "length p" s] by (simp_all add: HasPrefix_def Cons_nth_drop_Suc)
  have "takeWhile (\<lambda>c. \<not> is_quote c) (p @ x # y) = p" if "is_quote x" for x y
    using that introducerD [OF assms] by (simp add: takeWhile_tail)
  from this [OF q] s show "takeWhile (\<lambda>c. \<not> is_quote c) s = p \<and> p \<noteq> s" by (metis append_self_conv list.distinct(1))
next
  assume p: "takeWhile (\<lambda>c. \<not> is_quote c) s = p \<and> p \<noteq> s"
  then have "s = p @ dropWhile (\<lambda>c. \<not> is_quote c) s" using takeWhile_dropWhile_id by metis
  moreover from this p obtain q r where d: "dropWhile (\<lambda>c. \<not> is_quote c) s = q # r" by (cases "dropWhile (\<lambda>c. \<not> is_quote c) s") auto
  moreover have "is_quote q" using d dropWhile_eq_Cons_conv by metis
  ultimately have "s = p @ q # r" "is_quote q" by simp_all
  then show "length p < length s \<and> HasPrefix s p \<and> is_quote (s ! length p)" by (simp add: HasPrefix_def)
qed

lemma introducer_bounds: "0 < introducer_length s \<Longrightarrow> s \<noteq> [] \<and> hd s = CHR ''_'' \<and> 2 < length s \<and> introducer_length s \<le> length s"
proof -
  let ?w = "takeWhile (\<lambda>c. \<not> is_quote c) s"
  assume "0 < introducer_length s"
  then have w: "?w \<in> set introducers" "introducer_length s = length ?w" by (auto simp: introducer_length_def Let_def split: if_splits)
  have "hd s = hd ?w" if "?w \<noteq> []" using that by (cases s) (auto split: if_splits)
  then have "length ?w \<le> length s" "hd s = hd ?w" using introducerD [OF w(1)] by (auto simp: length_takeWhile_le)
  then show ?thesis using w introducerD [OF w(1)] by auto
qed

text \<open>A loop that finds the introducers by some match function, and copies the rest, meets the specification.\<close>

locale introducer_scan =
  fixes match :: "string \<Rightarrow> nat" and loop :: "string \<Rightarrow> nat \<Rightarrow> string \<Rightarrow> string"
  assumes match_exact: "match s = introducer_length s"
    and loop_end: "length sql \<le> i \<Longrightarrow> loop sql i acc = acc"
    and loop_round: "i < length sql \<Longrightarrow> loop sql i acc =
      (if sql ! i = CHR ''_'' \<and> i + 2 < length sql \<and> 0 < match (drop i sql)
       then loop sql (i + match (drop i sql)) acc else loop sql (i + 1) (acc @ [sql ! i]))"
begin

lemma round_spec:
  assumes "i < length sql"
  shows "loop sql i acc = (if 0 < introducer_length (drop i sql) then loop sql (i + introducer_length (drop i sql)) acc
      else loop sql (i + 1) (acc @ [sql ! i]))"
  using introducer_bounds [of "drop i sql"] assms
  by (auto simp: loop_round match_exact hd_drop_conv_nth)

lemma scan_spec: "i \<le> length sql \<Longrightarrow> loop sql i acc = acc @ without_introducers (drop i sql)"
proof (induction "length sql - i" arbitrary: i acc rule: less_induct)
  case less
  show ?case
  proof (cases "i < length sql")
    case False
    then show ?thesis using less.prems by (simp add: loop_end)
  next
    case True
    let ?n = "introducer_length (drop i sql)"
    have "drop i sql = sql ! i # drop (Suc i) sql" using True by (simp add: Cons_nth_drop_Suc)
    then have spec: "without_introducers (drop i sql) =
        (if 0 < ?n then without_introducers (drop (i + ?n) sql) else sql ! i # without_introducers (drop (Suc i) sql))"
      using without_introducers.simps(2) [of "sql ! i" "drop (Suc i) sql"] by (metis add.commute drop_drop)
    show ?thesis
    proof (cases "0 < ?n")
      case n: True
      then have "i + ?n \<le> length sql" using introducer_bounds [OF n] True by (simp add: le_diff_conv2 add.commute)
      moreover from this n have "length sql - (i + ?n) < length sql - i" using True by linarith
      ultimately show ?thesis using less.hyps [of "i + ?n" acc] round_spec [OF True] spec n by simp
    next
      case False
      then show ?thesis using less.hyps [of "i + 1" "acc @ [sql ! i]"] round_spec [OF True] spec True by simp
    qed
  qed
qed

end

text \<open>The three loops are such scans.\<close>

lemma match_prefix_exact:
  assumes "set ps = set introducers"
  shows "match_prefix ps s = introducer_length s"
proof -
  let ?w = "takeWhile (\<lambda>c. \<not> is_quote c) s"
  have "match_prefix qs s = (if ?w \<noteq> s \<and> ?w \<in> set qs then length ?w else 0)" if "set qs \<subseteq> set introducers" for qs
    using that by (induction qs) (auto simp: match_before_quote)
  then show ?thesis using assms by (simp add: introducer_length_def Let_def)
qed

lemma gen_match_prefix_eq: "gen_match_prefix ps s = match_prefix ps s"
  by (induction ps) auto

lemma prefix_loop_eq:
  "(\<forall>p \<in> set ps. p \<noteq> []) \<Longrightarrow> prefix_loop ps sql i = (i + match_prefix ps (drop i sql), 0 < match_prefix ps (drop i sql))"
  by (induction ps) (auto simp: add.commute)

interpretation fallback: introducer_scan "match_prefix rewriter_prefixes" remove_loop
proof
  show "match_prefix rewriter_prefixes s = introducer_length s" for s
    by (rule match_prefix_exact [OF tables_complete(1)])
  show "length sql \<le> i \<Longrightarrow> remove_loop sql i acc = acc" for sql i acc
    by (subst remove_loop.simps) simp
  show "i < length sql \<Longrightarrow> remove_loop sql i acc =
      (if sql ! i = CHR ''_'' \<and> i + 2 < length sql \<and> 0 < match_prefix rewriter_prefixes (drop i sql)
       then remove_loop sql (i + match_prefix rewriter_prefixes (drop i sql)) acc
       else remove_loop sql (i + 1) (acc @ [sql ! i]))" for sql i acc
    by (subst remove_loop.simps) (simp add: prefix_loop_eq [OF rewriter_prefixes_nonempty])
qed

interpretation before_parsing: introducer_scan matchCharsetPrefix preprocess_loop
proof
  show "matchCharsetPrefix s = introducer_length s" for s
    unfolding matchCharsetPrefix_def
    by (rule match_prefix_exact [OF tables_complete(2)])
qed (subst preprocess_loop.simps, simp)+

interpretation generated: introducer_scan gen_matchCharsetPrefix gen_remove_loop
proof
  show "gen_matchCharsetPrefix s = introducer_length s" for s
    unfolding gen_matchCharsetPrefix_def gen_match_prefix_eq
    by (rule match_prefix_exact [OF tables_complete(3)])
qed (subst gen_remove_loop.simps, simp)+

lemma Contains_char: "Contains s [c] \<longleftrightarrow> c \<in> set s"
  by (induction s) (auto simp: Contains_def HasPrefix_def)

lemma no_underscore: "\<not> Contains sql ''_'' \<Longrightarrow> without_introducers sql = sql"
proof -
  assume "\<not> Contains sql ''_''"
  then have "CHR ''_'' \<notin> set sql" using Contains_char by simp
  then show ?thesis
  proof (induction sql)
    case (Cons c t)
    then have "introducer_length (c # t) = 0" using introducer_bounds [of "c # t"] by force
    then show ?case using Cons by simp
  qed simp
qed

text \<open>C29: The three removals of charset introducers are right, and so agree. The loop of the fallback rewriter, the pass before
  parsing and the pass of the generator, each with its own table of prefixes and its own matching, remove from every SQL text exactly
  the introducers: an underscore and one of eight charset names, all in upper or all in lower case, right before a quote.\<close>

theorem charset_removal_equivalent:
  "removeCharsetPrefixes sql = without_introducers sql
   \<and> preProcessCharsetPrefixes sql = without_introducers sql
   \<and> gen_removeCharsetPrefixes sql = without_introducers sql"
  using fallback.scan_spec [of 0 sql "[]"] before_parsing.scan_spec [of 0 sql "[]"] generated.scan_spec [of 0 sql "[]"] no_underscore [of sql]
  by (simp add: removeCharsetPrefixes_def preProcessCharsetPrefixes_def gen_removeCharsetPrefixes_def)

text \<open>
  The removal does not look at string literals: a literal that ends in the name of an introducer is cut, here
  from \<open>my_utf8\<close> to \<open>my\<close>.
\<close>

lemma literal_is_cut:
  "preProcessCharsetPrefixes ([squote] @ ''my_utf8'' @ [squote]) = [squote] @ ''my'' @ [squote]"
  by code_simp

end
