(* ===== verification/Pg_Generator.thy ===== *)
theory Pg_Generator
  imports Sql_Charset
begin

text \<open>
  The SQL generator of \<open>pkg/sqlrewrite/pg_generator.go\<close>: everything it does to the text that the TiDB
  parser restores from the transformed syntax tree. Each rewriting pass is a loop over a string and a search position, as in the
  code. Loops that always end are functions with a termination proof; the three loops that may run for ever
  (\<open>MATCH\<close>, \<open>CHARSET\<close>, \<open>COLLATE\<close>) iterate a round, where not returning is the value \<open>None\<close>.
\<close>

section \<open>Loops\<close>

text \<open>One round of a loop leaves it with a text or goes on with a new state; \<open>iterate\<close> is the loop, \<open>None\<close> if it does not end.\<close>

datatype 'a loop = Leave string | Again 'a

partial_function (option) iterate :: "('a \<Rightarrow> 'a loop) \<Rightarrow> 'a \<Rightarrow> string option" where
  "iterate round x = (case round x of Leave r \<Rightarrow> Some r | Again y \<Rightarrow> iterate round y)"

declare iterate.simps [code]

lemma iterate_Leave: "round x = Leave r \<Longrightarrow> iterate round x = Some r"
  by (subst iterate.simps) simp

lemma iterate_Again: "round x = Again y \<Longrightarrow> iterate round x = iterate round y"
  by (subst iterate.simps) simp

text \<open>A loop that cannot leave a set of states, and a loop whose state gets smaller.\<close>

locale stuck_loop =
  fixes round :: "'a \<Rightarrow> 'a loop" and stuck :: "'a \<Rightarrow> bool"
  assumes stays_stuck: "stuck x \<Longrightarrow> \<exists>y. round x = Again y \<and> stuck y"
begin

lemma never_returns:
  assumes "stuck x"
  shows "iterate round x = None"
proof (rule ccontr)
  assume "iterate round x \<noteq> None"
  then obtain r where "iterate round x = Some r" by blast
  then have it: "(case (round, x) of (rnd, x) \<Rightarrow> iterate rnd x) = Some r" by simp
  let ?P = "\<lambda>rnd x (r :: string). rnd = round \<longrightarrow> \<not> stuck x"
  have "(case (round, x) of (rnd, x) \<Rightarrow> ?P rnd x) r"
  proof (rule iterate.raw_induct [OF _ it])
    fix f rnd x r
    assume "\<And>rnd y r. f rnd y = Some r \<Longrightarrow> ?P rnd y r"
      and "(case rnd x of Leave r \<Rightarrow> Some r | Again y \<Rightarrow> f rnd y) = Some r"
    then show "?P rnd x r" using stays_stuck [of x] by (fastforce split: loop.splits)
  qed
  then show False using assms by simp
qed

end

locale shrinking_loop =
  fixes round :: "'a \<Rightarrow> 'a loop" and good :: "'a \<Rightarrow> bool" and size_of :: "'a \<Rightarrow> nat"
  assumes shrinks: "good x \<Longrightarrow> round x = Again y \<Longrightarrow> good y \<and> size_of y < size_of x"
begin

lemma returns:
  assumes "good x"
  shows "\<exists>y r. good y \<and> round y = Leave r \<and> iterate round x = Some r"
  using assms
proof (induction "size_of x" arbitrary: x rule: less_induct)
  case less
  then show ?case
    by (cases "round x") (auto simp: iterate_Leave iterate_Again dest: shrinks)
qed

end

section \<open>Strings and parentheses\<close>

text \<open>The open quote after a text, with \<open>escaped\<close> and \<open>stringChar\<close> as state.\<close>

definition next_quote :: "char option \<Rightarrow> char \<Rightarrow> char option" where
  "next_quote q c = (case q of None \<Rightarrow> Some c | Some d \<Rightarrow> if c = d then None else q)"

fun scan_string :: "bool \<Rightarrow> char option \<Rightarrow> string \<Rightarrow> char option" where
  "scan_string escaped q [] = q"
| "scan_string True q (c # s) = scan_string False q s"
| "scan_string False q (c # s) =
     (if c = backslash then scan_string True q s
      else if is_quote c then scan_string False (next_quote q c) s
      else scan_string False q s)"

definition isInString :: "string \<Rightarrow> nat \<Rightarrow> bool" where
  "isInString sql pos \<longleftrightarrow> scan_string False None (take pos sql) \<noteq> None"

fun match_paren :: "nat \<Rightarrow> nat \<Rightarrow> string \<Rightarrow> nat option" where
  "match_paren count i [] = None"
| "match_paren count i (c # s) =
     (if c = CHR ''('' then match_paren (count + 1) (i + 1) s
      else if c = CHR '')'' then (if count = 1 then Some i else match_paren (count - 1) (i + 1) s)
      else match_paren count (i + 1) s)"

definition findMatchingParen :: "string \<Rightarrow> nat \<Rightarrow> nat option" where
  "findMatchingParen sql startPos =
     (if \<not> char_at sql startPos (CHR ''('') then None else match_paren 1 (startPos + 1) (drop (startPos + 1) sql))"

lemma match_paren_bound: "match_paren count i s = Some j \<Longrightarrow> i \<le> j \<and> j < i + length s"
  by (induction count i s rule: match_paren.induct) (fastforce split: if_splits)+

lemma findMatchingParen_bound: "findMatchingParen s i = Some j \<Longrightarrow> i < j \<and> j < length s"
  unfolding findMatchingParen_def char_at_def
  by (auto split: if_splits dest!: match_paren_bound)

section \<open>Placeholders\<close>

fun gen_loop :: "nat \<Rightarrow> bool \<Rightarrow> char option \<Rightarrow> string \<Rightarrow> string \<times> nat" where
  "gen_loop n escaped q [] = ([], n)"
| "gen_loop n True q (c # s) = apfst ((#) c) (gen_loop n False q s)"
| "gen_loop n False q (c # s) =
     (if c = backslash then apfst ((#) c) (gen_loop n True q s)
      else if is_quote c then apfst ((#) c) (gen_loop n False (next_quote q c) s)
      else if q = None \<and> c = CHR ''?'' then apfst ((@) (''$'' @ dec_digits (n + 1))) (gen_loop (n + 1) False q s)
      else apfst ((#) c) (gen_loop n False q s))"

definition gen_convertPlaceholders :: "string \<Rightarrow> string \<times> nat" where
  "gen_convertPlaceholders sql = gen_loop 0 False None sql"

section \<open>Function calls\<close>

text \<open>\<open>splitFuncArgs\<close>: nesting depth (which may become negative), open quote, the piece \<open>content[start:i]\<close>.\<close>

fun split_args :: "int \<Rightarrow> char option \<Rightarrow> string \<Rightarrow> string \<Rightarrow> string list" where
  "split_args depth q cur [] = [cur]"
| "split_args depth (Some q) cur (c # s) = split_args depth (if c = q then None else Some q) (cur @ [c]) s"
| "split_args depth None cur (c # s) =
     (if is_quote c then split_args depth (Some c) (cur @ [c]) s
      else if c = CHR ''('' then split_args (depth + 1) None (cur @ [c]) s
      else if c = CHR '')'' then split_args (depth - 1) None (cur @ [c]) s
      else if c = CHR '','' \<and> depth = 0 then cur # split_args depth None [] s
      else split_args depth None (cur @ [c]) s)"

definition splitFuncArgs :: "string \<Rightarrow> string list" where
  "splitFuncArgs content = split_args 0 None [] content"

definition is_letter_or_underscore :: "char \<Rightarrow> bool" where
  "is_letter_or_underscore c \<longleftrightarrow> (65 \<le> char_code c \<and> char_code c \<le> 90) \<or> (97 \<le> char_code c \<and> char_code c \<le> 122)
     \<or> c = CHR ''_''"

definition case_expr :: "string list \<Rightarrow> string" where
  "case_expr args = ''CASE WHEN '' @ TrimSpace (args ! 0) @ '' THEN '' @ TrimSpace (args ! 1)
     @ '' ELSE '' @ TrimSpace (args ! 2) @ '' END''"

text \<open>Every search loop advances: the part of the text after the search position gets shorter.\<close>

lemmas search_facts = IndexUpper_some IndexFrom_some findMatchingParen_bound

function if_loop :: "string \<Rightarrow> nat \<Rightarrow> string" where
  "if_loop result searchPos =
     (case IndexUpper result searchPos ''IF('' of
        None \<Rightarrow> result
      | Some ifIdx \<Rightarrow>
          if 0 < ifIdx \<and> is_letter_or_underscore (result ! (ifIdx - 1)) then if_loop result (ifIdx + 3)
          else if isInString result ifIdx then if_loop result (ifIdx + 3)
          else (case findMatchingParen result (ifIdx + 2) of
                  None \<Rightarrow> if_loop result (ifIdx + 3)
                | Some parenEnd \<Rightarrow>
                    (let args = splitFuncArgs (sub result (ifIdx + 3) parenEnd)
                     in if length args \<noteq> 3 then if_loop result (ifIdx + 3)
                        else if_loop (put_slice result ifIdx (case_expr args) (parenEnd + 1))
                               (ifIdx + length (case_expr args)))))"
  by pat_completeness auto

termination
  by (relation "measure (\<lambda>(result, searchPos). length result - searchPos)")
    (auto simp: length_put_slice dest!: search_facts)

declare if_loop.simps [simp del]

definition convertIFFunction :: "string \<Rightarrow> string" where
  "convertIFFunction sql = if_loop sql 0"

section \<open>LIMIT\<close>

text \<open>The two numbers behind \<open>LIMIT\<close>: start and end of the offset and of the count.\<close>

definition limit_numbers :: "string \<Rightarrow> nat \<Rightarrow> (nat \<times> nat \<times> nat \<times> nat) option" where
  "limit_numbers result limitIdx =
     (let start1 = skip_while is_blank3 result (limitIdx + 5);
          end1 = skip_while is_digit result start1;
          comma = skip_while is_blank3 result end1;
          start2 = skip_while is_blank3 result (comma + 1);
          end2 = skip_while is_digit result start2
      in if end1 = start1 then None
         else if \<not> char_at result comma (CHR '','') then None
         else if end2 = start2 then None
         else Some (start1, end1, start2, end2))"

definition new_limit :: "string \<Rightarrow> (nat \<times> nat \<times> nat \<times> nat) \<Rightarrow> string" where
  "new_limit result = (\<lambda>(start1, end1, start2, end2).
     ''LIMIT '' @ sub result start2 end2 @ '' OFFSET '' @ sub result start1 end1)"

lemma skip_chain_le:
  "i \<le> j \<Longrightarrow> i \<le> skip_while p s j" "i < j \<Longrightarrow> i < skip_while p s j"
  by (simp_all add: skip_while_def)

lemma limit_numbers_bound: "limit_numbers result limitIdx = Some (a, b, c, d) \<Longrightarrow> limitIdx < d"
  by (auto simp: limit_numbers_def Let_def less_Suc_eq_le intro!: skip_chain_le split: if_splits)

function limit_loop :: "string \<Rightarrow> nat \<Rightarrow> string" where
  "limit_loop result searchPos =
     (case IndexUpper result searchPos ''LIMIT'' of
        None \<Rightarrow> result
      | Some limitIdx \<Rightarrow>
          (case limit_numbers result limitIdx of
             None \<Rightarrow> limit_loop result (limitIdx + 5)
           | Some (start1, end1, start2, end2) \<Rightarrow>
               (let newLimit = new_limit result (start1, end1, start2, end2)
                in limit_loop (put_slice result limitIdx newLimit end2) (limitIdx + length newLimit))))"
  by pat_completeness auto
termination
  by (relation "measure (\<lambda>(result, searchPos). length result - searchPos)")
    (auto simp: length_put_slice dest!: search_facts limit_numbers_bound)

declare limit_loop.simps [simp del]

definition convertLimitSyntax :: "string \<Rightarrow> string" where
  "convertLimitSyntax sql = limit_loop sql 0"

section \<open>GROUP_CONCAT\<close>

text \<open>The inner loop that counts parentheses is \<open>match_paren\<close> from behind the opening one.\<close>

definition string_agg :: "string \<Rightarrow> string" where
  "string_agg content =
     (case Index (ToUpper content) '' SEPARATOR '' of
        Some sep \<Rightarrow> ''string_agg('' @ TrimSpace (take sep content) @ '', '' @ TrimSpace (drop (sep + 11) content) @ '')''
      | None \<Rightarrow> ''string_agg('' @ TrimSpace content @ '', '' @ [squote] @ '','' @ [squote] @ '')'')"

function group_concat_loop :: "string \<Rightarrow> nat \<Rightarrow> string" where
  "group_concat_loop result searchPos =
     (case IndexUpper result searchPos ''GROUP_CONCAT'' of
        None \<Rightarrow> result
      | Some idx \<Rightarrow>
          (let openParen = skip_while is_blank3 result (idx + 12)
           in if \<not> char_at result openParen (CHR ''('') then group_concat_loop result (idx + 12)
              else (case match_paren 1 (openParen + 1) (drop (openParen + 1) result) of
                      None \<Rightarrow> group_concat_loop result (idx + 12)
                    | Some closeParen \<Rightarrow>
                        (let newFunc = string_agg (sub result (openParen + 1) closeParen)
                         in group_concat_loop (put_slice result idx newFunc (closeParen + 1)) (idx + length newFunc)))))"
  by pat_completeness auto
termination
proof (relation "measure (\<lambda>(result, searchPos). length result - searchPos)", goal_cases)
  case (4 result searchPos idx openParen closeParen newFunc)
  note b = IndexUpper_some [OF 4(1)]
  have "idx \<le> openParen" unfolding 4(2) by (intro skip_chain_le(1)) simp
  then have "idx \<le> closeParen" using match_paren_bound [OF 4(4)] by linarith
  then show ?case using b by (simp add: length_put_slice) linarith
qed (auto dest!: search_facts)

declare group_concat_loop.simps [simp del]

definition convertGroupConcat :: "string \<Rightarrow> string" where
  "convertGroupConcat sql = group_concat_loop sql 0"

section \<open>MATCH \<dots> AGAINST\<close>

fun join_with :: "string \<Rightarrow> string list \<Rightarrow> string" where
  "join_with sep [] = []"
| "join_with sep [w] = w"
| "join_with sep (w # v # ws) = w @ sep @ join_with sep (v # ws)"

definition joinColumnsWithConcat :: "string \<Rightarrow> string" where
  "joinColumnsWithConcat columns =
     join_with ('' || '' @ [squote] @ '' '' @ [squote] @ '' || '') (map TrimSpace (Split columns (CHR '','')))"

definition simple_config :: string where
  "simple_config = [squote] @ ''simple'' @ [squote]"

definition against_expr :: "string \<Rightarrow> string \<Rightarrow> string" where
  "against_expr columns against =
     (let againstContent = TrimSpace against;
          searchTerm = (case Index (ToUpper againstContent) '' IN '' of
                          None \<Rightarrow> againstContent
                        | Some k \<Rightarrow> TrimSpace (take k againstContent))
      in ''to_tsvector('' @ simple_config @ '', '' @ joinColumnsWithConcat columns @ '') @@ to_tsquery(''
         @ simple_config @ '', '' @ searchTerm @ '')'')"

text \<open>
  One round of the loop of \<open>convertMatchAgainst\<close>: the loop is left, or goes on with a new \<open>result\<close> and \<open>resultUpper\<close>.
  Where the code skips an occurrence it writes an \<open>x\<close> in front of it, in both strings.
\<close>


definition mark_match :: "string \<Rightarrow> nat \<Rightarrow> string" where
  "mark_match s matchIdx = put_slice s matchIdx ''xMATCH'' (matchIdx + 5)"

definition match_round :: "string \<Rightarrow> string \<Rightarrow> (string \<times> string) loop" where
  "match_round result resultUpper =
     (case Index resultUpper ''MATCH'' of
        None \<Rightarrow> Leave result
      | Some matchIdx \<Rightarrow>
          (let skip = Again (mark_match result matchIdx, mark_match resultUpper matchIdx);
               parenStart = skip_while is_blank result (matchIdx + 5)
           in if isInString result matchIdx then skip
              else if \<not> char_at result parenStart (CHR ''('') then skip
              else (case findMatchingParen result parenStart of
                      None \<Rightarrow> Leave result
                    | Some parenEnd \<Rightarrow>
                        (case IndexFrom resultUpper parenEnd ''AGAINST'' of
                           None \<Rightarrow> skip
                         | Some againstIdx \<Rightarrow>
                             (let againstStart = skip_while is_blank result (againstIdx + 7)
                              in if \<not> char_at result againstStart (CHR ''('') then skip
                                 else (case findMatchingParen result againstStart of
                                         None \<Rightarrow> skip
                                       | Some againstEnd \<Rightarrow>
                                           (let r = put_slice result matchIdx
                                                      (against_expr (sub result (parenStart + 1) parenEnd)
                                                         (sub result (againstStart + 1) againstEnd))
                                                      (againstEnd + 1)
                                            in Again (r, ToUpper r))))))))"

definition match_loop :: "string \<Rightarrow> string option" where
  "match_loop sql = iterate (\<lambda>(result, resultUpper). match_round result resultUpper) (sql, ToUpper sql)"

definition convertMatchAgainst :: "string \<Rightarrow> string option" where
  "convertMatchAgainst sql =
     map_option (\<lambda>r. ReplaceAll r ''xMATCH'' ''MATCH'') (match_loop sql)"

text \<open>\<open>convertMatchOperator\<close>: the index of the closing parenthesis and of the first comma outside of nested ones.\<close>

fun operator_args :: "nat \<Rightarrow> nat \<Rightarrow> nat option \<Rightarrow> string \<Rightarrow> (nat \<times> nat option) option" where
  "operator_args parenCount i commaIdx [] = None"
| "operator_args parenCount i commaIdx (c # s) =
     (if c = CHR ''('' then operator_args (parenCount + 1) (i + 1) commaIdx s
      else if c = CHR '')''
        then (if parenCount = 1 then Some (i, commaIdx) else operator_args (parenCount - 1) (i + 1) commaIdx s)
      else operator_args parenCount (i + 1)
             (if c = CHR '','' \<and> parenCount = 1 \<and> commaIdx = None then Some i else commaIdx) s)"

lemma operator_args_bound:
  assumes "operator_args n i comma s = Some (j, Some k)" and "\<And>c. comma = Some c \<Longrightarrow> b \<le> c \<and> c < i" and "b \<le> i"
  shows "b \<le> k \<and> k < j \<and> i \<le> j \<and> j < i + length s"
  using assms
proof (induction s arbitrary: n i comma)
  case (Cons ch s)
  define comma' where "comma' = (if ch = CHR '','' \<and> n = 1 \<and> comma = None then Some i else comma)"
  have comma': "b \<le> c \<and> c < i + 1" if "comma' = Some c" for c
    using that Cons.prems(2,3) by (fastforce simp: comma'_def split: if_splits)
  have comma: "b \<le> c \<and> c < i + 1" if "comma = Some c" for c
    using Cons.prems(2) [OF that] by simp
  consider "operator_args (n + 1) (i + 1) comma s = Some (j, Some k)" | "operator_args (n - 1) (i + 1) comma s = Some (j, Some k)"
    | "operator_args n (i + 1) comma' s = Some (j, Some k)" | "j = i" "comma = Some k"
    using Cons.prems(1) by (auto simp: comma'_def split: if_splits)
  then show ?case
  proof cases
    case 1
    then show ?thesis using Cons.IH [OF 1 comma] Cons.prems(3) by simp
  next
    case 2
    then show ?thesis using Cons.IH [OF 2 comma] Cons.prems(3) by simp
  next
    case 3
    then show ?thesis using Cons.IH [OF 3 comma'] Cons.prems(3) by simp
  next
    case 4
    then show ?thesis using Cons.prems(2) [OF 4(2)] by simp
  qed
qed simp

lemma length_TrimSpace: "length (TrimSpace s) \<le> length s"
  by (simp add: TrimSpace_def length_trim_by)

lemma length_sub: "length (sub s a b) \<le> b - a"
  by (simp add: sub_def)

function operator_loop :: "string \<Rightarrow> string" where
  "operator_loop result =
     (case Index result ''@@('' of
        None \<Rightarrow> result
      | Some startIdx \<Rightarrow>
          (case operator_args 1 (startIdx + 3) None (drop (startIdx + 3) result) of
             Some (i, Some commaIdx) \<Rightarrow>
               operator_loop
                 (put_slice result startIdx
                    (TrimSpace (sub result (startIdx + 3) commaIdx) @ '' @@ '' @ TrimSpace (sub result (commaIdx + 1) i))
                    (i + 1))
           | _ \<Rightarrow> result))"
  by pat_completeness auto

termination
proof (relation "measure length", goal_cases)
  case (2 result startIdx p i c commaIdx)
  have "startIdx + 3 \<le> commaIdx \<and> commaIdx < i \<and> i < startIdx + 3 + length (drop (startIdx + 3) result)"
    using operator_args_bound [of 1 "startIdx + 3" None "drop (startIdx + 3) result" i commaIdx "startIdx + 3"] 2(2-4)
    by simp
  moreover have "startIdx + 3 \<le> length result" using Index_bound [OF 2(1)] by simp
  moreover have "length (TrimSpace (sub result (startIdx + 3) commaIdx)) \<le> commaIdx - (startIdx + 3)"
    "length (TrimSpace (sub result (commaIdx + 1) i)) \<le> i - (commaIdx + 1)"
    by (meson length_TrimSpace length_sub order_trans)+
  ultimately show ?case by (simp add: length_put_slice, linarith)
qed auto

declare operator_loop.simps [simp del]

definition convertMatchOperator :: "string \<Rightarrow> string" where
  "convertMatchOperator sql = operator_loop sql"

section \<open>AUTO_INCREMENT and NULL\<close>

definition convertAutoIncrement :: "string \<Rightarrow> string" where
  "convertAutoIncrement sql =
     (let result = ReplaceAll sql ''INT AUTO_INCREMENT PRIMARY'' ''SERIAL PRIMARY'';
          result = ReplaceAll result ''BIGINT AUTO_INCREMENT PRIMARY'' ''BIGSERIAL PRIMARY'';
          result = ReplaceAll result ''SMALLINT AUTO_INCREMENT PRIMARY'' ''SMALLSERIAL PRIMARY'';
          result = ReplaceAll result ''INT AUTO_INCREMENT'' ''SERIAL'';
          result = ReplaceAll result ''BIGINT AUTO_INCREMENT'' ''BIGSERIAL''
      in ReplaceAll result ''SMALLINT AUTO_INCREMENT'' ''SMALLSERIAL'')"

text \<open>One row of values: a leading \<open>NULL\<close> becomes \<open>DEFAULT\<close>. The result is the text and the position of the closing parenthesis.\<close>

definition null_row :: "string \<Rightarrow> nat \<Rightarrow> nat \<Rightarrow> string \<times> nat" where
  "null_row result parenStart parenEnd =
     (let valueStart = skip_while is_blank3 result (parenStart + 1)
      in if valueStart + 4 \<le> parenEnd \<and> ToUpper (sub result valueStart (valueStart + 4)) = ''NULL''
            \<and> (valueStart + 4 = parenEnd \<or> result ! (valueStart + 4) \<in> {CHR '','', CHR '' '', CHR 0x0A, CHR 0x09, CHR '')''})
         then (put_slice result valueStart ''DEFAULT'' (valueStart + 4), parenEnd - 4 + 7)
         else (result, parenEnd))"

lemma null_row_length:
  assumes "null_row result parenStart parenEnd = (r, e)" and "parenEnd < length result"
  shows "e < length r \<and> length r - e = length result - parenEnd"
  using assms by (auto simp: null_row_def Let_def length_put_slice split: if_splits)

function null_loop :: "string \<Rightarrow> nat \<Rightarrow> string" where
  "null_loop result searchPos =
     (if length result \<le> searchPos then result
      else case IndexFrom result searchPos ''('' of
             None \<Rightarrow> result
           | Some parenStart \<Rightarrow>
               (case findMatchingParen result parenStart of
                  None \<Rightarrow> result
                | Some parenEnd \<Rightarrow>
                    (let p = null_row result parenStart parenEnd
                     in null_loop (fst p) (skip_while (\<lambda>c. c \<noteq> CHR ''('' \<and> c \<noteq> CHR '';'') (fst p) (snd p + 1)))))"
  by pat_completeness auto
termination
proof (relation "measure (\<lambda>(result, searchPos). length result - searchPos)", goal_cases)
  case (2 result searchPos parenStart parenEnd p)
  have "length (fst p) - snd p = length result - parenEnd" "snd p < length (fst p)"
    using null_row_length [of result parenStart parenEnd "fst p" "snd p"] findMatchingParen_bound [OF 2(3)] 2(4) by simp_all
  moreover have "snd p + 1 \<le> skip_while (\<lambda>c. c \<noteq> CHR ''('' \<and> c \<noteq> CHR '';'') (fst p) (snd p + 1)"
    by (rule skip_while_le)
  moreover have "searchPos \<le> parenStart" "parenStart < parenEnd" "parenEnd < length result"
    using IndexFrom_some [OF 2(2)] findMatchingParen_bound [OF 2(3)] by simp_all
  ultimately show ?case by simp
qed simp

declare null_loop.simps [simp del]

definition convertInsertNullToDefault :: "string \<Rightarrow> string" where
  "convertInsertNullToDefault sql =
     (if \<not> HasPrefix (ToUpper sql) ''INSERT'' then sql
      else case Index (ToUpper sql) ''VALUES'' of
             None \<Rightarrow> sql
           | Some valuesIdx \<Rightarrow>
               (let searchPos = skip_while is_blank3 sql (valuesIdx + 6)
                in if \<not> char_at sql searchPos (CHR ''('') then sql else null_loop sql searchPos))"

section \<open>Table options\<close>

text \<open>The end of \<open>= value\<close> for an equals sign at \<open>i\<close>.\<close>

definition option_end :: "string \<Rightarrow> nat \<Rightarrow> nat" where
  "option_end result i =
     skip_while (\<lambda>c. c \<notin> {CHR '' '', CHR '','', CHR '';'', CHR '')''}) result (skip_while is_blank result (i + 1))"

lemma option_end_le: "i < option_end result i"
  unfolding option_end_def by (intro skip_chain_le(2)) simp

function engine_loop :: "string \<Rightarrow> nat \<Rightarrow> string" where
  "engine_loop result searchPos =
     (case IndexUpper result searchPos ''ENGINE'' of
        None \<Rightarrow> result
      | Some idx \<Rightarrow>
          if isInString result idx then engine_loop result (idx + 6)
          else if \<not> char_at result (skip_while is_blank result (idx + 6)) (CHR ''='') then engine_loop result (idx + 6)
          else engine_loop (put_slice result idx [] (option_end result (skip_while is_blank result (idx + 6)))) idx)"
  by pat_completeness auto
termination
proof (relation "measure (\<lambda>(result, searchPos). length result - searchPos)", goal_cases)
  case (4 result searchPos idx)
  have "idx < option_end result (skip_while is_blank result (idx + 6))"
    using skip_while_le [of "idx + 6" is_blank result] option_end_le [of "skip_while is_blank result (idx + 6)" result]
    by linarith
  then show ?case using IndexUpper_some [OF 4(1)] by (simp add: length_put_slice) linarith
qed (auto dest!: search_facts)

declare engine_loop.simps [simp del]

definition charset_keyword :: "string \<Rightarrow> (nat \<times> bool) option" where
  "charset_keyword upperResult =
     (case (Index upperResult ''CHARACTER SET'', Index upperResult ''CHARSET'') of
        (Some i, None) \<Rightarrow> Some (i, True)
      | (Some i, Some j) \<Rightarrow> if i < j then Some (i, True) else Some (j, False)
      | (None, Some j) \<Rightarrow> Some (j, False)
      | (None, None) \<Rightarrow> None)"

definition charset_round :: "string \<Rightarrow> string loop" where
  "charset_round result =
     (case charset_keyword (ToUpper result) of
        None \<Rightarrow> Leave result
      | Some (idx, isCharacterSet) \<Rightarrow>
          (let keywordLen = (if isCharacterSet then 13 else 7);
               start = (if 8 \<le> idx \<and> ToUpper (TrimSpace (sub result (idx - 8) idx)) = ''DEFAULT'' then idx - 8 else idx);
               i = skip_while is_blank result (idx + keywordLen)
           in if \<not> char_at result i (CHR ''='')
              then Again (put_slice result idx (if isCharacterSet then ''xCHARACTERxSETx'' else ''xCHARSET'') (idx + keywordLen))
              else Again (put_slice result start [] (option_end result i))))"

definition charset_loop :: "string \<Rightarrow> string option" where
  "charset_loop = iterate charset_round"

definition collate_round :: "string \<Rightarrow> string loop" where
  "collate_round result =
     (case Index (ToUpper result) ''COLLATE'' of
        None \<Rightarrow> Leave result
      | Some idx \<Rightarrow>
          (let i = skip_while is_blank result (idx + 7)
           in if \<not> char_at result i (CHR ''='') then Again (put_slice result idx ''xCOLLATE'' (idx + 7))
              else Again (put_slice result idx [] (option_end result i))))"

definition collate_loop :: "string \<Rightarrow> string option" where
  "collate_loop = iterate collate_round"

lemma ReplaceAll_shorter:
  assumes "length new < length old"
  shows "ReplaceAll s old new = s \<or> length (ReplaceAll s old new) < length s"
proof (induction "length s" arbitrary: s rule: less_induct)
  case less
  show ?case
  proof (cases s)
    case (Cons c t)
    show ?thesis
    proof (cases "HasPrefix s old")
      case True
      have o: "old \<noteq> []" "length old \<le> length s" using assms True HasPrefix_length by auto
      then have "length (ReplaceAll (drop (length old) s) old new) \<le> length s - length old"
        using less [of "drop (length old) s"] Cons by (metis diff_less length_0_conv length_drop length_greater_0_conv less_imp_le_nat order_refl list.distinct(1))
      moreover have "ReplaceAll s old new = new @ ReplaceAll (drop (length old) s) old new"
        using True o Cons by (simp add: ReplaceAll_Cons)
      ultimately show ?thesis using assms o by (simp, linarith)
    next
      case False
      then show ?thesis using less [of t] Cons by (auto simp: ReplaceAll_Cons)
    qed
  qed simp
qed

definition cleanup_pass :: "string \<Rightarrow> string" where
  "cleanup_pass result = ReplaceAll (ReplaceAll result '' )'' '')'') '',)'' '')''"

function cleanup_loop :: "string \<Rightarrow> string" where
  "cleanup_loop oldResult =
     (if cleanup_pass oldResult = oldResult then cleanup_pass oldResult else cleanup_loop (cleanup_pass oldResult))"
  by pat_completeness auto
termination
proof (relation "measure length", goal_cases)
  case (2 s)
  have "length (cleanup_pass s) < length s"
    using 2 ReplaceAll_shorter [of "'')''" "'' )''" s]
      ReplaceAll_shorter [of "'')''" "'',)''" "ReplaceAll s '' )'' '')''"]
    by (auto simp: cleanup_pass_def)
  then show ?case by simp
qed simp

declare cleanup_loop.simps [simp del]

definition removeTableOptions :: "string \<Rightarrow> string option" where
  "removeTableOptions sql =
     (case charset_loop (engine_loop sql 0) of
        None \<Rightarrow> None
      | Some result \<Rightarrow>
          (let result = ReplaceAll result ''xCHARSET'' ''CHARSET'';
               result = ReplaceAll result ''xCHARACTERxSETx'' ''CHARACTER SET''
           in map_option (\<lambda>result. cleanup_loop (ReplaceAll result ''xCOLLATE'' ''COLLATE'')) (collate_loop result)))"

section \<open>Type names\<close>

text \<open>\<open>replaceWord\<close>; every call has a non-empty word.\<close>

function word_loop :: "string \<Rightarrow> string \<Rightarrow> string \<Rightarrow> nat \<Rightarrow> string" where
  "word_loop result oldWord newWord searchPos =
     (if oldWord = [] then result
      else case IndexFrom result searchPos oldWord of
             None \<Rightarrow> result
           | Some idx \<Rightarrow>
               if whole_word result idx (length oldWord)
               then word_loop (put_slice result idx newWord (idx + length oldWord)) oldWord newWord (idx + length newWord)
               else word_loop result oldWord newWord (idx + length oldWord))"
  by pat_completeness auto
termination
  by (relation "measure (\<lambda>(result, oldWord, newWord, searchPos). length result - searchPos)")
    (auto simp: length_put_slice length_greater_0_conv [symmetric] simp del: length_greater_0_conv dest!: search_facts)

declare word_loop.simps [simp del]

definition replaceWord :: "string \<Rightarrow> string \<Rightarrow> string \<Rightarrow> string" where
  "replaceWord s oldWord newWord = word_loop s oldWord newWord 0"

function double_loop :: "string \<Rightarrow> nat \<Rightarrow> string" where
  "double_loop result searchPos =
     (case IndexUpper result searchPos ''DOUBLE'' of
        None \<Rightarrow> result
      | Some idx \<Rightarrow>
          (let followIdx = skip_while is_blank result (idx + 6)
           in if followIdx + 9 \<le> length result \<and> ToUpper (sub result followIdx (followIdx + 9)) = ''PRECISION''
              then double_loop result (followIdx + 9)
              else if whole_word result idx 6
              then double_loop (put_slice result idx ''DOUBLE PRECISION'' (idx + 6)) (idx + 16)
              else double_loop result (idx + 6)))"
  by pat_completeness auto
termination
proof (relation "measure (\<lambda>(result, searchPos). length result - searchPos)", goal_cases)
  case (2 result searchPos idx followIdx)
  then show ?case
    using IndexUpper_some [OF 2(1)] skip_while_le [of "idx + 6" is_blank result] by simp linarith
qed (auto simp: length_put_slice dest!: search_facts)

declare double_loop.simps [simp del]

definition replaceDoubleType :: "string \<Rightarrow> string" where
  "replaceDoubleType s = double_loop s 0"

definition convertTypes :: "string \<Rightarrow> string" where
  "convertTypes sql =
     fold (\<lambda>(oldWord, newWord) result. replaceWord result oldWord newWord)
       [(''TINYTEXT'', ''TEXT''), (''tinytext'', ''text''), (''MEDIUMTEXT'', ''TEXT''), (''mediumtext'', ''text''),
        (''LONGTEXT'', ''TEXT''), (''longtext'', ''text''), (''BLOB'', ''BYTEA''), (''blob'', ''bytea''),
        (''JSON'', ''JSONB''), (''json'', ''jsonb'')]
       (replaceDoubleType sql)"

text \<open>The closing parenthesis of \<open>(n)\<close> at \<open>i\<close>.\<close>

definition length_end :: "string \<Rightarrow> nat \<Rightarrow> nat" where
  "length_end result i = skip_while is_blank3 result (skip_while is_digit result (i + 1))"

function length_loop :: "string \<Rightarrow> string \<Rightarrow> nat \<Rightarrow> string" where
  "length_loop typeName result searchPos =
     (if typeName = [] then result
      else case IndexUpper result searchPos typeName of
             None \<Rightarrow> result
           | Some idx \<Rightarrow>
               (let i = skip_while is_blank3 result (idx + length typeName)
                in if whole_word result idx (length typeName) \<and> char_at result i (CHR ''('')
                      \<and> char_at result (length_end result i) (CHR '')'')
                   then length_loop typeName (put_slice result i [] (length_end result i + 1)) (idx + length typeName)
                   else length_loop typeName result (idx + length typeName)))"
  by pat_completeness auto
termination
proof (relation "measure (\<lambda>(typeName, result, searchPos). length result - searchPos)", goal_cases)
  case (2 typeName result searchPos idx i)
  have "i \<le> length_end result i" unfolding length_end_def by (intro skip_chain_le(1)) simp
  moreover have "i < length result" using 2(4) by (simp add: char_at_def)
  moreover have "idx + length typeName \<le> i" unfolding 2(3) by (rule skip_while_le)
  ultimately show ?case
    using IndexUpper_some [OF 2(2,1)] 2(1) by (simp add: length_put_slice)
qed (auto simp: length_greater_0_conv [symmetric] simp del: length_greater_0_conv dest!: search_facts)

declare length_loop.simps [simp del]

definition removeUnsupportedTypeLengths :: "string \<Rightarrow> string" where
  "removeUnsupportedTypeLengths sql =
     fold (\<lambda>typeName result. length_loop typeName result 0)
       [''SMALLINT'', ''INTEGER'', ''BIGINT'', ''INT'', ''SERIAL'', ''BIGSERIAL''] sql"

end
