(* ===== verification/Pg_Postprocess.thy ===== *)
theory Pg_Postprocess
  imports Pg_Generator
begin

text \<open>
  The rest of \<open>pkg/sqlrewrite/pg_generator.go\<close>: the repair of cross joins in FROM clauses, the helper for function calls, the
  conversion of ENUM, and \<open>PostProcess\<close>, the composition of all passes.
\<close>

section \<open>FROM clauses\<close>

definition startsWithSelect :: "string \<Rightarrow> bool" where
  "startsWithSelect content \<longleftrightarrow> HasPrefix (ToUpper (TrimSpace content)) ''SELECT''"

definition starts_clause :: "string \<Rightarrow> bool" where
  "starts_clause remaining \<longleftrightarrow> list_ex (HasPrefix remaining)
     ['' WHERE '', '' ORDER '', '' GROUP '', '' LIMIT '', '' FOR '', '' HAVING '', '' UNION '']"

fun outer_end :: "int \<Rightarrow> nat \<Rightarrow> string \<Rightarrow> nat" where
  "outer_end parenDepth i [] = i"
| "outer_end parenDepth i (ch # s) =
     (if ch = CHR ''('' then outer_end (parenDepth + 1) (i + 1) s
      else if ch = CHR '')'' then outer_end (parenDepth - 1) (i + 1) s
      else if parenDepth = 0 \<and> ch = CHR '' '' \<and> starts_clause (ToUpper (ch # s)) then i
      else outer_end parenDepth (i + 1) s)"

definition findOuterClauseEnd :: "string \<Rightarrow> nat \<Rightarrow> nat" where
  "findOuterClauseEnd sql startPos = outer_end 0 startPos (drop startPos sql)"

fun outer_on :: "int \<Rightarrow> string \<Rightarrow> bool" where
  "outer_on parenDepth [] = False"
| "outer_on parenDepth (ch # s) =
     (if ch = CHR ''('' then outer_on (parenDepth + 1) s
      else if ch = CHR '')'' then outer_on (parenDepth - 1) s
      else if parenDepth = 0 \<and> ch = CHR '' '' \<and> 4 < length (ch # s) \<and> HasPrefix (ToUpper (ch # s)) '' ON '' then True
      else outer_on parenDepth s)"

definition hasOuterOnClause :: "string \<Rightarrow> bool" where
  "hasOuterOnClause fromClause = outer_on 0 fromClause"

function leading_loop :: "string \<Rightarrow> string" where
  "leading_loop result =
     (if result = [] \<or> hd result \<noteq> CHR ''('' then result
      else if startsWithSelect (TrimSpace (tl result)) then result
      else if \<not> HasPrefix (TrimSpace (tl result)) [dquote] then result
      else case findMatchingParen result 0 of
             None \<Rightarrow> result
           | Some closeIdx \<Rightarrow>
               (let afterClose = TrimSpace (drop (closeIdx + 1) result)
                in if afterClose = [] \<or> HasPrefix afterClose '',''
                   then leading_loop (sub result 1 closeIdx @ drop (closeIdx + 1) result)
                   else result))"
  by pat_completeness auto
termination
  by (relation "measure length") (auto simp: sub_def dest!: findMatchingParen_bound)

declare leading_loop.simps [simp del]

definition removeLeadingTableGroupParens :: "string \<Rightarrow> string" where
  "removeLeadingTableGroupParens s = leading_loop (TrimSpace s)"

function table_parens_loop :: "string \<Rightarrow> nat \<Rightarrow> string" where
  "table_parens_loop result i =
     (if length result \<le> i then result
      else if result ! i \<noteq> CHR ''('' then table_parens_loop result (i + 1)
      else case findMatchingParen result i of
             None \<Rightarrow> table_parens_loop result (i + 1)
           | Some closeIdx \<Rightarrow>
               (let content = sub result (i + 1) closeIdx
                in if HasPrefix (TrimSpace content) [dquote] \<and> \<not> startsWithSelect (TrimSpace content)
                      \<and> \<not> Contains content ''(''
                   then table_parens_loop (put_slice result i content (closeIdx + 1)) i
                   else table_parens_loop result (i + 1)))"
  by pat_completeness auto
termination
  by (relation "measure (\<lambda>(result, i). 2 * length result - i)")
    (auto simp: length_put_slice sub_def dest!: findMatchingParen_bound)

declare table_parens_loop.simps [simp del]

definition removeTableParentheses :: "string \<Rightarrow> string" where
  "removeTableParentheses s = table_parens_loop s 0"

function join_loop :: "string \<Rightarrow> string" where
  "join_loop result =
     (case Index result '') JOIN '' of
        None \<Rightarrow> result
      | Some joinIdx \<Rightarrow> join_loop (put_slice result (joinIdx + 1) '','' (joinIdx + 6)))"
  by pat_completeness auto
termination
  by (relation "measure length") (auto simp: length_put_slice dest!: Index_bound)

declare join_loop.simps [simp del]

definition fixCrossJoinInFromClause :: "string \<Rightarrow> string" where
  "fixCrossJoinInFromClause fromClause =
     removeTableParentheses (removeLeadingTableGroupParens (join_loop fromClause))"

definition fix_from_clause :: "string \<Rightarrow> string" where
  "fix_from_clause fromClause =
     removeLeadingTableGroupParens
       (if Contains fromClause '') JOIN '' \<and> \<not> hasOuterOnClause fromClause
        then fixCrossJoinInFromClause fromClause else fromClause)"

text \<open>No repair makes a clause longer, so the search for FROM ends.\<close>

lemma length_leading_loop: "length (leading_loop s) \<le> length s"
proof (induction s rule: leading_loop.induct)
  case (1 result)
  show ?case
    using 1 findMatchingParen_bound [of result 0]
    by (subst leading_loop.simps) (fastforce simp: Let_def sub_def split: option.splits)
qed

lemma length_removeLeadingTableGroupParens: "length (removeLeadingTableGroupParens s) \<le> length s"
  unfolding removeLeadingTableGroupParens_def using length_leading_loop length_TrimSpace order_trans by blast

lemma length_table_parens_loop: "length (table_parens_loop s i) \<le> length s"
proof (induction s i rule: table_parens_loop.induct)
  case (1 result i)
  have "length (put_slice result i (sub result (i + 1) c) (c + 1)) \<le> length result" if "findMatchingParen result i = Some c" for c
    using findMatchingParen_bound [OF that] length_sub [of result "i + 1" c] by (simp add: length_put_slice, linarith)
  then show ?case
    using 1 by (subst table_parens_loop.simps) (auto simp: Let_def split: option.splits intro: order_trans)
qed

lemma length_join_loop: "length (join_loop s) \<le> length s"
proof (induction s rule: join_loop.induct)
  case (1 result)
  show ?case
    using 1 Index_bound [of result "'') JOIN ''"]
    by (subst join_loop.simps) (fastforce simp: length_put_slice split: option.splits)
qed

lemma length_fix_from_clause: "length (fix_from_clause s) \<le> length s"
proof -
  have "length (fixCrossJoinInFromClause s) \<le> length s"
    unfolding fixCrossJoinInFromClause_def removeTableParentheses_def
    using length_table_parens_loop length_removeLeadingTableGroupParens length_join_loop order_trans by meson
  then show ?thesis
    unfolding fix_from_clause_def using length_removeLeadingTableGroupParens order_trans by auto
qed

lemma outer_end_bound: "i \<le> outer_end d i s \<and> outer_end d i s \<le> i + length s"
  by (induction d i s rule: outer_end.induct) fastforce+

function from_loop :: "string \<Rightarrow> nat \<Rightarrow> string" where
  "from_loop result searchPos =
     (case IndexUpper result searchPos ''FROM '' of
        None \<Rightarrow> result
      | Some fromIdx \<Rightarrow>
          (let fromClauseStart = fromIdx + 5; fromClauseEnd = findOuterClauseEnd result fromClauseStart
           in if fromClauseEnd \<le> fromClauseStart then from_loop result (fromIdx + 5)
              else (let fromClause = sub result fromClauseStart fromClauseEnd; fixed = fix_from_clause fromClause
                    in from_loop (if fixed \<noteq> fromClause then put_slice result fromClauseStart fixed fromClauseEnd else result)
                         (fromIdx + 5))))"
  by pat_completeness auto
termination
proof (relation "measure (\<lambda>(result, searchPos). length result - searchPos)", goal_cases)
  case (3 result searchPos fromIdx a e clause fixed)
  have "length fixed \<le> e - a"
    using length_fix_from_clause [of clause] 3(5,6) length_sub order_trans by blast
  moreover have "e \<le> length result"
    using outer_end_bound [of a 0 "drop a result"] IndexUpper_some [OF 3(1)] 3(2,3) by (simp add: findOuterClauseEnd_def)
  ultimately show ?case
    using IndexUpper_some [OF 3(1)] 3(2,4) by (auto simp: length_put_slice)
qed (auto dest!: search_facts)

declare from_loop.simps [simp del]

definition fixImplicitCrossJoin :: "string \<Rightarrow> string" where
  "fixImplicitCrossJoin sql = from_loop sql 0"

section \<open>Other conversions\<close>

definition ConvertFunctionCall :: "string \<Rightarrow> string list \<Rightarrow> string" where
  "ConvertFunctionCall name args =
     (let funcName = ToLower name
      in if funcName = ''now'' then ''CURRENT_TIMESTAMP''
         else if funcName = ''curdate'' then ''CURRENT_DATE''
         else if funcName = ''curtime'' then ''CURRENT_TIME''
         else if funcName = ''ifnull'' \<and> length args = 2 then ''COALESCE('' @ args ! 0 @ '', '' @ args ! 1 @ '')''
         else if funcName = ''if'' \<and> length args = 3
           then ''CASE WHEN '' @ args ! 0 @ '' THEN '' @ args ! 1 @ '' ELSE '' @ args ! 2 @ '' END''
         else ToUpper funcName @ ''('' @ join_with '', '' args @ '')'')"

section \<open>Post-processing\<close>

text \<open>The passes before and after the two that may not end.\<close>

definition first_passes :: "string \<Rightarrow> string" where
  "first_passes sql =
     (let sql = ReplaceAll sql ''`'' [dquote];
          sql = convertTypes sql;
          sql = ReplaceAll sql '' SIGNED'' [];
          sql = ReplaceAll sql ''UNIQUE KEY'' ''UNIQUE'';
          sql = ReplaceAll sql ''UNIQUE INDEX'' ''UNIQUE'';
          sql = gen_removeCharsetPrefixes sql;
          sql = ReplaceAll sql ''CURRENT_TIMESTAMP()'' ''CURRENT_TIMESTAMP'';
          sql = ReplaceAll sql ''CURRENT_DATE()'' ''CURRENT_DATE'';
          sql = ReplaceAll sql ''CURRENT_TIME()'' ''CURRENT_TIME'';
          sql = convertIFFunction sql;
          sql = convertAutoIncrement sql
      in convertInsertNullToDefault sql)"

definition last_passes :: "string \<Rightarrow> string" where
  "last_passes sql =
     (let sql = convertMatchOperator sql;
          sql = convertLimitSyntax sql;
          sql = fixImplicitCrossJoin sql;
          sql = ReplaceAll sql ''LAST_INSERT_ID()'' ''lastval()'';
          sql = convertGroupConcat sql;
          sql = removeUnsupportedTypeLengths sql
      in ReplaceAll sql '' ZEROFILL'' [])"

definition PostProcess :: "string \<Rightarrow> string option" where
  "PostProcess sql =
     (case removeTableOptions (first_passes sql) of
        None \<Rightarrow> None
      | Some sql \<Rightarrow> map_option last_passes (convertMatchAgainst sql))"

end
