(* ===== verification/Sql_Rewriter.thy ===== *)
theory Sql_Rewriter
  imports Pg_Postprocess
begin

text \<open>
  The entry points of the SQL rewriter, \<open>pkg/sqlrewrite/rewriter.go\<close> and \<open>ast_rewriter_v3.go\<close>: trimming and
  stripping, the AST path with its pre- and post-processing, the string-based fallback with its placeholder numbering, the
  parameter count of prepared statements, and the recognition of statement kinds. The TiDB parser, the visitor's changes to
  its syntax tree and the restoring of SQL from the tree are one argument, \<open>restore\<close>: \<open>None\<close> stands for every error
  of these steps and for a panic, which \<open>ASTRewriter.Rewrite\<close> recovers from. \<open>Ast_Rewrite\<close> takes the argument apart.
  The passes of \<open>PostProcess\<close> slice with offsets into upper-case copies; these fit for ASCII, whose case changes keep every length, so
  the panic that \<open>Rewrite\<close> would recover from there has no counterpart.
\<close>

section \<open>Placeholders\<close>

text \<open>
  The loop of \<open>convertPlaceholders\<close> over the rest of the string, with \<open>paramNum\<close> and the open quote
  (\<open>inString\<close> and \<open>stringChar\<close>).
\<close>

fun convert_loop :: "nat \<Rightarrow> char option \<Rightarrow> string \<Rightarrow> string" where
  "convert_loop n q [] = []"
| "convert_loop n None (c # s) =
     (if is_quote c then c # convert_loop n (Some c) s
      else if c = CHR ''?'' then ''$'' @ dec_digits (n + 1) @ convert_loop (n + 1) None s
      else c # convert_loop n None s)"
| "convert_loop n (Some q) [c] = [c]"
| "convert_loop n (Some q) (c # d # s) =
     (if c = q then (if d = q then c # d # convert_loop n (Some q) s else c # convert_loop n None (d # s))
      else c # convert_loop n (Some q) (d # s))"

definition convertPlaceholders :: "string \<Rightarrow> string" where
  "convertPlaceholders sql = (if \<not> Contains sql ''?'' then sql else convert_loop 0 None sql)"

definition fastPathRewrite :: "string \<Rightarrow> string" where
  "fastPathRewrite sql = convertPlaceholders (removeCharsetPrefixes (ReplaceAll sql ''`'' [dquote]))"

definition stripTiDBSyntax :: "string \<Rightarrow> string" where
  "stripTiDBSyntax sql = ReplaceAll (ReplaceAll sql '' CLUSTERED '' '' '') '' NONCLUSTERED '' '' ''"

section \<open>Rewriting\<close>

record ast_rewriter =
  ar_enabled :: bool

definition NewASTRewriter :: ast_rewriter where
  "NewASTRewriter = \<lparr>ar_enabled = True\<rparr>"

definition Enable :: "ast_rewriter \<Rightarrow> ast_rewriter" where
  "Enable r = r\<lparr>ar_enabled := True\<rparr>"

definition Disable :: "ast_rewriter \<Rightarrow> ast_rewriter" where
  "Disable r = r\<lparr>ar_enabled := False\<rparr>"

definition IsEnabled :: "ast_rewriter \<Rightarrow> bool" where
  "IsEnabled r = ar_enabled r"

text \<open>How a rewriting ends: with a text, with an error, or not at all.\<close>

datatype outcome = Returned string | Failed | Diverges

definition GenerateWithPlaceholders :: "string option \<Rightarrow> (string \<times> nat) option" where
  "GenerateWithPlaceholders restored = map_option gen_convertPlaceholders restored"

definition ASTRewriter_Rewrite :: "(string \<Rightarrow> string option) \<Rightarrow> ast_rewriter \<Rightarrow> string \<Rightarrow> outcome" where
  "ASTRewriter_Rewrite restore r sql =
     (if \<not> ar_enabled r then Returned sql
      else case GenerateWithPlaceholders (restore (preProcessCharsetPrefixes sql)) of
             None \<Rightarrow> Failed
           | Some (pgSQL, paramCount) \<Rightarrow>
               (case PostProcess pgSQL of None \<Rightarrow> Diverges | Some out \<Rightarrow> Returned out))"

datatype batch_outcome = BatchReturned "string list" | BatchFailed nat | BatchDiverges

fun rewrite_batch :: "(string \<Rightarrow> string option) \<Rightarrow> ast_rewriter \<Rightarrow> nat \<Rightarrow> string list \<Rightarrow> string list \<Rightarrow> batch_outcome" where
  "rewrite_batch restore r i results [] = BatchReturned results"
| "rewrite_batch restore r i results (sql # sqls) =
     (case ASTRewriter_Rewrite restore r sql of
        Diverges \<Rightarrow> BatchDiverges
      | Failed \<Rightarrow> BatchFailed i
      | Returned out \<Rightarrow> rewrite_batch restore r (i + 1) (results @ [out]) sqls)"

definition RewriteBatch :: "(string \<Rightarrow> string option) \<Rightarrow> ast_rewriter \<Rightarrow> string list \<Rightarrow> batch_outcome" where
  "RewriteBatch restore r sqls = rewrite_batch restore r 0 [] sqls"

record rewriter =
  rw_enabled :: bool
  rw_ast :: "ast_rewriter option"
  rw_debug_timing :: bool
  rw_slow_threshold :: int

definition NewRewriter :: "bool \<Rightarrow> rewriter" where
  "NewRewriter en =
     \<lparr>rw_enabled = en, rw_ast = Some NewASTRewriter, rw_debug_timing = False, rw_slow_threshold = 100000000\<rparr>"

definition EnableDebugTiming :: "int \<Rightarrow> rewriter \<Rightarrow> rewriter" where
  "EnableDebugTiming threshold r =
     (let r = r\<lparr>rw_debug_timing := True\<rparr> in if 0 < threshold then r\<lparr>rw_slow_threshold := threshold\<rparr> else r)"

definition DisableDebugTiming :: "rewriter \<Rightarrow> rewriter" where
  "DisableDebugTiming r = r\<lparr>rw_debug_timing := False\<rparr>"

text \<open>\<open>Rewrite\<close> never returns an error (\<open>None\<close> is not returning); the timing log is left out.\<close>

definition Rewrite :: "(string \<Rightarrow> string option) \<Rightarrow> rewriter \<Rightarrow> string \<Rightarrow> string option" where
  "Rewrite restore r sql =
     (if \<not> rw_enabled r then Some sql
      else let sql = stripTiDBSyntax (TrimSpace sql)
           in case rw_ast r of
                None \<Rightarrow> Some sql
              | Some a \<Rightarrow>
                  (case ASTRewriter_Rewrite restore a sql of
                     Returned out \<Rightarrow> Some out
                   | Failed \<Rightarrow> Some (fastPathRewrite sql)
                   | Diverges \<Rightarrow> None))"

text \<open>
  The counting loop of \<open>RewritePrepared\<close>: at every \<open>$\<close> that a digit follows, the number is read (the index
  \<open>i\<close> itself moves on by one only). Numbers stay below the range of \<open>int\<close> in texts of fewer than nineteen digits.
\<close>

fun count_params :: "string \<Rightarrow> nat \<Rightarrow> nat" where
  "count_params [] m = m"
| "count_params (c # s) m =
     count_params s
       (if c = CHR ''$'' \<and> s \<noteq> [] \<and> is_digit (hd s) then max m (digits_val (takeWhile is_digit s)) else m)"

definition RewritePrepared :: "(string \<Rightarrow> string option) \<Rightarrow> rewriter \<Rightarrow> string \<Rightarrow> (string \<times> nat) option" where
  "RewritePrepared restore r sql = map_option (\<lambda>out. (out, count_params out 0)) (Rewrite restore r sql)"

section \<open>Statement kinds\<close>

definition upper_trimmed :: "string \<Rightarrow> string" where
  "upper_trimmed sql = ToUpper (TrimSpace sql)"

definition IsShowStatement :: "string \<Rightarrow> bool" where
  "IsShowStatement sql \<longleftrightarrow> HasPrefix (upper_trimmed sql) ''SHOW '' \<or> HasPrefix (upper_trimmed sql) ''DESCRIBE ''
     \<or> HasPrefix (upper_trimmed sql) ''DESC ''"

definition IsSetStatement :: "string \<Rightarrow> bool" where
  "IsSetStatement sql \<longleftrightarrow> HasPrefix (upper_trimmed sql) ''SET ''"

definition IsUseStatement :: "string \<Rightarrow> bool" where
  "IsUseStatement sql \<longleftrightarrow> HasPrefix (upper_trimmed sql) ''USE ''"

definition IsBeginStatement :: "string \<Rightarrow> bool" where
  "IsBeginStatement sql \<longleftrightarrow> upper_trimmed sql = ''BEGIN'' \<or> upper_trimmed sql = ''START TRANSACTION''
     \<or> HasPrefix (upper_trimmed sql) ''BEGIN '' \<or> HasPrefix (upper_trimmed sql) ''START TRANSACTION ''"

definition IsCommitStatement :: "string \<Rightarrow> bool" where
  "IsCommitStatement sql \<longleftrightarrow> upper_trimmed sql = ''COMMIT'' \<or> HasPrefix (upper_trimmed sql) ''COMMIT ''"

definition IsRollbackStatement :: "string \<Rightarrow> bool" where
  "IsRollbackStatement sql \<longleftrightarrow> upper_trimmed sql = ''ROLLBACK'' \<or> HasPrefix (upper_trimmed sql) ''ROLLBACK ''"

section \<open>Placeholders are numbered from left to right\<close>

text \<open>
  The reference: a text is cut at every question mark outside of a quoted string, where a quote opens a string that the next
  quote of the same kind closes (a doubled quote closes and opens). The pieces are put together again with the \<open>k\<close>-th
  separator given by a function.
\<close>

fun cons_hd :: "'a \<Rightarrow> 'a list list \<Rightarrow> 'a list list" where
  "cons_hd c [] = [[c]]"
| "cons_hd c (w # ws) = (c # w) # ws"

fun pieces :: "char option \<Rightarrow> string \<Rightarrow> string list" where
  "pieces q [] = [[]]"
| "pieces None (c # s) =
     (if c = CHR ''?'' then [] # pieces None s else cons_hd c (pieces (if is_quote c then Some c else None) s))"
| "pieces (Some q) (c # s) = cons_hd c (pieces (if c = q then None else Some q) s)"

fun render :: "(nat \<Rightarrow> string) \<Rightarrow> nat \<Rightarrow> string list \<Rightarrow> string" where
  "render f n [] = []"
| "render f n [w] = w"
| "render f n (w # v # ws) = w @ f (n + 1) @ render f (n + 1) (v # ws)"

lemma cons_hd_nonempty [simp]: "cons_hd c ws \<noteq> []"
  by (cases ws) auto

lemma pieces_nonempty [simp]: "pieces q s \<noteq> []"
  by (induction q s rule: pieces.induct) auto

lemma render_cons_hd [simp]: "render f n (cons_hd c ws) = c # render f n ws"
  by (cases ws rule: remdups_adj.cases) auto

lemma render_Nil_Cons: "ws \<noteq> [] \<Longrightarrow> render f n ([] # ws) = f (n + 1) @ render f (n + 1) ws"
  by (cases ws) auto

lemma render_pieces: "render (\<lambda>_. ''?'') n (pieces q s) = s"
  by (induction q s arbitrary: n rule: pieces.induct) (auto simp: render_Nil_Cons)

lemma question_no_quote [simp]: "\<not> is_quote (CHR ''?'')"
  by (simp add: is_quote_def squote_def dquote_def)

definition dollar :: "nat \<Rightarrow> string" where
  "dollar k = ''$'' @ dec_digits k"

lemma convert_loop_render:
  "(\<And>x. q = Some x \<Longrightarrow> is_quote x) \<Longrightarrow> convert_loop n q s = render dollar n (pieces q s)"
  by (induction n q s rule: convert_loop.induct) (auto simp: render_Nil_Cons dollar_def)

lemma pieces_single: "CHR ''?'' \<notin> set s \<Longrightarrow> pieces q s = [s]"
  by (induction q s rule: pieces.induct) auto

lemma convertPlaceholders_render: "convertPlaceholders sql = render dollar 0 (pieces None sql)"
  using convert_loop_render [of None 0 sql] by (simp add: convertPlaceholders_def Contains_char pieces_single)

text \<open>C20: Placeholder numbering. The single pass of \<open>convertPlaceholders\<close>, which skips doubled quotes by looking
  ahead, is the reference: the text is cut at the question marks outside of strings, and the cuts become \<open>$1\<close>, \<open>$2\<close>, \<dots> from left to right;
  everything else, question marks in strings included, is kept byte for byte, since the pieces joined with question marks
  are the original text.\<close>

theorem placeholders_numbered:
  "render (\<lambda>_. ''?'') 0 (pieces None sql) = sql
   \<and> convertPlaceholders sql = render (\<lambda>k. ''$'' @ dec_digits k) 0 (pieces None sql)"
  using render_pieces convertPlaceholders_render unfolding dollar_def [abs_def] by simp

lemma count_params_skip: "CHR ''$'' \<notin> set w \<Longrightarrow> count_params (w @ r) m = count_params r m"
  by (induction w arbitrary: m) auto

lemma digit_no_dollar: "list_all is_digit w \<Longrightarrow> CHR ''$'' \<notin> set w"
  by (auto simp: list_all_iff is_digit_def char_code_def)

lemma count_params_dollar:
  assumes "r = [] \<or> \<not> is_digit (hd r)"
  shows "count_params (dollar k @ r) m = count_params r (max m k)"
proof -
  have "hd (dec_digits k @ r) = hd (dec_digits k)" "is_digit (hd (dec_digits k))"
    using dec_digits_all_digits [of k] dec_digits_nonempty [of k]
    by (cases "dec_digits k"; simp)+
  moreover have "takeWhile is_digit (dec_digits k @ r) = dec_digits k"
    using takeWhile_digits [OF dec_digits_all_digits assms] by blast
  ultimately show ?thesis
    by (simp add: dollar_def count_params_skip digit_no_dollar)
qed

lemma render_hd: "w \<noteq> [] \<Longrightarrow> hd (render f n (w # ws)) = hd w"
  by (cases ws) auto

lemma count_params_render:
  assumes "ws \<noteq> []" and "\<forall>w \<in> set ws. CHR ''$'' \<notin> set w" and "\<forall>w \<in> set (tl ws). w = [] \<or> \<not> is_digit (hd w)"
  shows "count_params (render dollar n ws) n = n + (length ws - 1)"
  using assms
proof (induction dollar n ws rule: render.induct)
  case (3 n w v ws)
  have "render dollar (n + 1) (v # ws) = [] \<or> \<not> is_digit (hd (render dollar (n + 1) (v # ws)))"
  proof (cases "v = []")
    case True
    then show ?thesis by (cases ws) (auto simp: dollar_def is_digit_def char_code_def)
  next
    case False
    then show ?thesis using 3(4) by (simp add: render_hd)
  qed
  then show ?case
    using 3 by (simp add: count_params_skip count_params_dollar)
qed (auto simp: count_params_skip [of _ "[]", simplified])

text \<open>The parameter count of a prepared statement. When the statement is rewritten by the fallback, has no dollar sign and no digit
  right after a placeholder, \<open>RewritePrepared\<close> reports exactly the number of question marks outside of strings of the
  text it converts, although it recovers the number from the rewritten SQL.\<close>

theorem prepared_param_count:
  assumes "restore (preProcessCharsetPrefixes (stripTiDBSyntax (TrimSpace sql))) = None"
    and "body = removeCharsetPrefixes (ReplaceAll (stripTiDBSyntax (TrimSpace sql)) ''`'' [dquote])"
    and "\<forall>w \<in> set (pieces None body). CHR ''$'' \<notin> set w"
    and "\<forall>w \<in> set (tl (pieces None body)). w = [] \<or> \<not> is_digit (hd w)"
  shows "RewritePrepared restore (NewRewriter True) sql
      = Some (convertPlaceholders body, length (pieces None body) - 1)"
proof -
  have "Rewrite restore (NewRewriter True) sql = Some (convertPlaceholders body)"
    using assms(1,2)
    by (simp add: Rewrite_def NewRewriter_def NewASTRewriter_def ASTRewriter_Rewrite_def GenerateWithPlaceholders_def
        fastPathRewrite_def Let_def)
  then show ?thesis
    using count_params_render [OF pieces_nonempty assms(3,4), of 0]
    by (simp add: RewritePrepared_def convertPlaceholders_render)
qed

definition sample_sql :: string where
  "sample_sql = ''INSERT INTO t VALUES (?, '' @ [squote] @ ''?'' @ [squote] @ '', ?)''"

theorem prepared_param_count_witness:
  "RewritePrepared (\<lambda>_. None) (NewRewriter True) sample_sql
   = Some (''INSERT INTO t VALUES ($1, '' @ [squote] @ ''?'' @ [squote] @ '', $2)'', 2)"
proof -
  have "removeCharsetPrefixes (ReplaceAll (stripTiDBSyntax (TrimSpace sample_sql)) ''`'' [dquote]) = sample_sql"
    by code_simp
  moreover have "list_all (\<lambda>w. CHR ''$'' \<notin> set w) (pieces None sample_sql)"
    "list_all (\<lambda>w. w = [] \<or> \<not> is_digit (hd w)) (tl (pieces None sample_sql))"
    "length (pieces None sample_sql) - 1 = 2"
    "convertPlaceholders sample_sql = ''INSERT INTO t VALUES ($1, '' @ [squote] @ ''?'' @ [squote] @ '', $2)''"
    by code_simp+
  ultimately show ?thesis
    using prepared_param_count [of "\<lambda>_. None" sample_sql sample_sql] by (simp add: list_all_iff)
qed

text \<open>A dollar sign in a literal is counted as a parameter.\<close>

lemma literal_dollar_counted:
  "RewritePrepared (\<lambda>_. None) (NewRewriter True) (''SELECT '' @ [squote] @ ''$7'' @ [squote])
   = Some (''SELECT '' @ [squote] @ ''$7'' @ [squote], 7)"
  by code_simp

end
