(* ===== verification/Rewriter_Loops.thy ===== *)
theory Rewriter_Loops
  imports Sql_Rewriter
begin

text \<open>
  When the loops of the SQL generator end. A loop that skips an occurrence of its keyword writes an \<open>x\<close> in front
  of it, but the next search finds the keyword behind the \<open>x\<close> again: such a loop never ends. Where every occurrence can
  be rewritten, the loops end.
\<close>

section \<open>Searching\<close>

lemma HasPrefix_Nil [simp]: "HasPrefix [] p \<longleftrightarrow> p = []"
  by (auto simp: HasPrefix_def)

lemma HasPrefix_iff: "HasPrefix s p \<longleftrightarrow> (\<exists>r. s = p @ r)"
  by (auto simp: HasPrefix_def) (metis append_take_drop_id)

lemma Index_Some_iff:
  "p \<noteq> [] \<Longrightarrow> Index s p = Some i \<longleftrightarrow> HasPrefix (drop i s) p \<and> (\<forall>k < i. \<not> HasPrefix (drop k s) p)"
proof (induction s arbitrary: i)
  case (Cons c s)
  show ?case
  proof (cases i)
    case (Suc j)
    have "(\<forall>k < Suc j. \<not> HasPrefix (drop k (c # s)) p)
        \<longleftrightarrow> \<not> HasPrefix (c # s) p \<and> (\<forall>k < j. \<not> HasPrefix (drop k s) p)"
      by (auto simp: less_Suc_eq_0_disj)
    then show ?thesis using Cons Suc by auto
  qed auto
qed simp

lemma Index_None_iff: "p \<noteq> [] \<Longrightarrow> Index s p = None \<longleftrightarrow> (\<forall>k. \<not> HasPrefix (drop k s) p)"
proof (induction s)
  case (Cons c s)
  have "(\<forall>k. \<not> HasPrefix (drop k (c # s)) p) \<longleftrightarrow> \<not> HasPrefix (c # s) p \<and> (\<forall>k. \<not> HasPrefix (drop k s) p)"
    by (metis drop_0 drop_Suc_Cons not0_implies_Suc)
  then show ?case using Cons by simp
qed simp

text \<open>A character that is not part of a word separates: no occurrence of the word reaches across it.\<close>

lemma no_occurrence_across:
  assumes "i \<le> length u" and "\<forall>k < i. \<not> HasPrefix (drop k u) p" and "z \<notin> set p" and "p \<noteq> []" and "k \<le> i"
  shows "\<not> HasPrefix (drop k (take i u @ z # r)) p"
proof
  assume h: "HasPrefix (drop k (take i u @ z # r)) p"
  show False
  proof (cases "k + length p \<le> i")
    case True
    then have "take (length p) (drop k (take i u @ z # r)) = take (length p) (drop k u)"
      using assms(1) by (auto simp: drop_take min_def)
    then show False using h assms(2,4) True by (cases p) (auto simp: HasPrefix_def)
  next
    case False
    then have "i - k < length p" using assms(4,5) by (cases p) auto
    then have "p ! (i - k) = drop k (take i u @ z # r) ! (i - k)"
      using h by (metis HasPrefix_def nth_take)
    also have "\<dots> = z" using assms(1,5) by (simp add: nth_append)
    finally show False using assms(3) \<open>i - k < length p\<close> nth_mem by metis
  qed
qed

lemma Index_marked:
  assumes "Index u p = Some i" and "p \<noteq> []" and "z \<notin> set p"
  shows "Index (take i u @ z # p @ r) p = Some (i + 1)"
proof -
  have i: "i \<le> length u" "\<forall>k < i. \<not> HasPrefix (drop k u) p"
    using assms Index_bound [OF assms(1)] by (auto simp: Index_Some_iff)
  have "\<not> HasPrefix (drop k (take i u @ z # p @ r)) p" if "k < i + 1" for k
    using no_occurrence_across [OF i assms(3,2), of k] that by simp
  moreover have "HasPrefix (drop (i + 1) (take i u @ z # p @ r)) p"
    using i by (simp add: HasPrefix_def)
  ultimately show ?thesis using assms(2) by (simp add: Index_Some_iff)
qed

text \<open>What follows a position, after blanks.\<close>

definition followed_by :: "string \<Rightarrow> nat \<Rightarrow> char \<Rightarrow> bool" where
  "followed_by s pos c = char_at s (skip_while is_blank s pos) c"

lemma drop_put_slice: "i \<le> length s \<Longrightarrow> drop (i + length mid) (put_slice s i mid b) = drop b s"
  by (simp add: put_slice_def)

lemma followed_by_drop: "followed_by s pos c \<longleftrightarrow> (\<exists>r. dropWhile is_blank (drop pos s) = c # r)"
proof -
  let ?n = "length (takeWhile is_blank (drop pos s))"
  have "dropWhile is_blank (drop pos s) = drop (pos + ?n) s"
    by (metis add.commute drop_drop dropWhile_eq_drop)
  then show ?thesis
    unfolding followed_by_def char_at_def skip_while_def
    by (metis Cons_nth_drop_Suc drop_all list.distinct(1) list.inject not_le_imp_less)
qed

lemma followed_by_put_slice:
  "i \<le> length s \<Longrightarrow> followed_by (put_slice s i mid b) (i + length mid) c = followed_by s b c"
  by (simp add: followed_by_drop drop_put_slice)

lemma ToUpper_put_slice: "ToUpper (put_slice s i mid b) = put_slice (ToUpper s) i (ToUpper mid) b"
  by (simp add: put_slice_def ToUpper_def take_map drop_map)

lemma marked_words:
  "ToUpper ''xCOLLATE'' = CHR ''X'' # ''COLLATE''" "ToUpper ''xCHARSET'' = CHR ''X'' # ''CHARSET''"
  by code_simp+

section \<open>COLLATE\<close>

definition collate_stuck :: "string \<Rightarrow> bool" where
  "collate_stuck s \<longleftrightarrow> (\<exists>i. Index (ToUpper s) ''COLLATE'' = Some i \<and> \<not> followed_by s (i + 7) (CHR ''=''))"

interpretation collate: stuck_loop collate_round collate_stuck
proof
  fix s assume "collate_stuck s"
  then obtain i where i: "Index (ToUpper s) ''COLLATE'' = Some i" "\<not> followed_by s (i + 7) (CHR ''='')"
    by (auto simp: collate_stuck_def)
  let ?s = "put_slice s i ''xCOLLATE'' (i + 7)"
  have "i + 7 \<le> length s" using Index_bound [OF i(1)] by simp
  then have "\<not> followed_by ?s (i + 1 + 7) (CHR ''='')"
    using followed_by_put_slice [of i s "''xCOLLATE''" "i + 7" "CHR ''=''"] i(2) by (simp add: numeral_eq_Suc)
  moreover have "ToUpper ?s = take i (ToUpper s) @ CHR ''X'' # ''COLLATE'' @ drop (i + 7) (ToUpper s)"
    unfolding ToUpper_put_slice marked_words by (simp add: put_slice_def)
  then have "Index (ToUpper ?s) ''COLLATE'' = Some (i + 1)"
    using Index_marked [OF i(1), of "CHR ''X''"] by simp
  ultimately have "collate_stuck ?s" unfolding collate_stuck_def by blast
  moreover have "collate_round s = Again ?s"
    using i by (simp add: collate_round_def followed_by_def Let_def)
  ultimately show "\<exists>y. collate_round s = Again y \<and> collate_stuck y" by blast
qed

text \<open>Where an equals sign follows every COLLATE, each round removes one.\<close>

definition collate_assigned :: "string \<Rightarrow> bool" where
  "collate_assigned s \<longleftrightarrow>
     (\<forall>k. HasPrefix (drop k (ToUpper s)) ''COLLATE'' \<longrightarrow> followed_by s (k + 7) (CHR ''=''))"

lemma option_end_stop:
  assumes "option_end s i < length s"
  shows "to_upper (s ! option_end s i) \<notin> set ''COLLATE''"
proof -
  have "s ! option_end s i \<in> {CHR '' '', CHR '','', CHR '';'', CHR '')''}"
    using skip_while_stop [of "\<lambda>c. c \<notin> {CHR '' '', CHR '','', CHR '';'', CHR '')''}" s] assms
    unfolding option_end_def by blast
  then show ?thesis by (auto simp: to_upper_def char_code_def)
qed

lemma collate_removed_assigned:
  assumes "collate_assigned s" and "Index (ToUpper s) ''COLLATE'' = Some i"
    and "e = option_end s j" and "i < e"
  shows "collate_assigned (put_slice s i [] e)"
proof (unfold collate_assigned_def, intro allI impI)
  fix k
  let ?y = "put_slice s i [] e"
  have u: "ToUpper ?y = take i (ToUpper s) @ drop e (ToUpper s)"
    by (simp add: put_slice_def ToUpper_def take_map drop_map)
  have i: "i \<le> length (ToUpper s)" "\<forall>k < i. \<not> HasPrefix (drop k (ToUpper s)) ''COLLATE''"
    using assms(2) Index_bound [OF assms(2)] by (auto simp: Index_Some_iff)
  assume h: "HasPrefix (drop k (ToUpper ?y)) ''COLLATE''"
  have "i < k"
  proof (rule ccontr)
    assume k: "\<not> i < k"
    show False
    proof (cases "e < length s")
      case True
      then have "drop e (ToUpper s) = to_upper (s ! e) # drop (Suc e) (ToUpper s)"
        by (simp add: ToUpper_def Cons_nth_drop_Suc [symmetric] drop_map)
      then show False
        using no_occurrence_across [OF i, of "to_upper (s ! e)" k] option_end_stop [of s j] assms(3) True k h u by simp
    next
      case False
      then have "HasPrefix (drop k (take i (ToUpper s))) ''COLLATE''" using h u by simp
      then obtain r where r: "drop k (take i (ToUpper s)) = ''COLLATE'' @ r" by (auto simp: HasPrefix_iff)
      then have "k < i" by (cases "k < i") auto
      moreover have "drop k (ToUpper s) = ''COLLATE'' @ r @ drop i (ToUpper s)"
        using r \<open>k < i\<close> i(1) by (metis append.assoc append_take_drop_id diff_is_0_eq drop_0 drop_append length_take less_imp_le min.absorb2)
      then have "HasPrefix (drop k (ToUpper s)) ''COLLATE''" by (simp add: HasPrefix_iff)
      ultimately have "k < i" "HasPrefix (drop k (ToUpper s)) ''COLLATE''" by simp_all
      then show False using i(2) by blast
    qed
  qed
  then have d: "drop (k + n) ?y = drop (k - i + e + n) s" for n
    using i(1) by (simp add: put_slice_def ac_simps)
  have "HasPrefix (drop (k - i + e) (ToUpper s)) ''COLLATE''"
    using h d [of 0] by (simp add: ToUpper_def drop_map)
  then show "followed_by ?y (k + 7) (CHR ''='')"
    using assms(1) d [of 7] by (simp add: collate_assigned_def followed_by_drop)
qed

interpretation collate_shrinks: shrinking_loop collate_round collate_assigned length
proof
  fix s y assume good: "collate_assigned s" and again: "collate_round s = Again y"
  then obtain i where i: "Index (ToUpper s) ''COLLATE'' = Some i"
    by (auto simp: collate_round_def split: option.splits)
  let ?j = "skip_while is_blank s (i + 7)"
  have "followed_by s (i + 7) (CHR ''='')"
    using good i by (simp add: collate_assigned_def Index_Some_iff)
  then have y: "y = put_slice s i [] (option_end s ?j)"
    using again i by (simp add: collate_round_def followed_by_def Let_def)
  have e: "i < option_end s ?j" using option_end_le [of ?j s] skip_while_le [of "i + 7" is_blank s] by linarith
  have "i + 7 \<le> length s" using Index_bound [OF i] by simp
  then have "length y < length s" using e y by (simp add: length_put_slice)
  then show "collate_assigned y \<and> length y < length s"
    using collate_removed_assigned [OF good i refl e] y by simp
qed

text \<open>Collation options are removed. If an equals sign follows every COLLATE of a text, the loop that removes
  \<open>COLLATE=name\<close> ends, and the text that it leaves has no COLLATE any more.\<close>

theorem collate_options_removed:
  assumes "collate_assigned s"
  shows "\<exists>r. collate_loop s = Some r \<and> Index (ToUpper r) ''COLLATE'' = None"
proof -
  obtain y r where "collate_round y = Leave r" "iterate collate_round s = Some r"
    using collate_shrinks.returns [OF assms] by blast
  then show ?thesis
    by (auto simp: collate_loop_def collate_round_def Let_def split: option.splits if_splits)
qed

definition collate_option :: string where
  "collate_option = '') COLLATE=utf8mb4_bin''"

theorem collate_options_removed_witness:
  "\<exists>r. collate_loop collate_option = Some r \<and> Index (ToUpper r) ''COLLATE'' = None"
proof (rule collate_options_removed)
  have "list_all (\<lambda>k. \<not> HasPrefix (drop k (ToUpper collate_option)) ''COLLATE'' \<or> followed_by collate_option (k + 7) (CHR ''=''))
      [0..<length collate_option]"
    by code_simp
  moreover have "\<not> HasPrefix (drop k (ToUpper collate_option)) ''COLLATE''" if "length collate_option \<le> k" for k
    using that by simp
  ultimately show "collate_assigned collate_option"
    unfolding collate_assigned_def list_all_iff by (metis atLeastLessThan_iff not_le set_upt zero_le)
qed

section \<open>CHARSET\<close>

definition charset_stuck :: "string \<Rightarrow> bool" where
  "charset_stuck s \<longleftrightarrow> (\<exists>i. charset_keyword (ToUpper s) = Some (i, False) \<and> \<not> followed_by s (i + 7) (CHR ''=''))"

lemma charset_keyword_False:
  "charset_keyword u = Some (i, False) \<longleftrightarrow>
     Index u ''CHARSET'' = Some i \<and> (\<forall>k < i. \<not> HasPrefix (drop k u) ''CHARACTER SET'')"
proof -
  have "(\<forall>k < i. \<not> HasPrefix (drop k u) ''CHARACTER SET'') \<longleftrightarrow> (\<forall>j. Index u ''CHARACTER SET'' = Some j \<longrightarrow> i \<le> j)"
  proof (cases "Index u ''CHARACTER SET''")
    case None
    then show ?thesis using Index_None_iff [of "''CHARACTER SET''" u] by simp
  next
    case (Some j)
    then show ?thesis by (auto simp: Index_Some_iff) (meson not_le_imp_less)
  qed
  then show ?thesis
    by (auto simp: charset_keyword_def split: option.splits)
qed

interpretation charset: stuck_loop charset_round charset_stuck
proof
  fix s assume "charset_stuck s"
  then obtain i where k: "charset_keyword (ToUpper s) = Some (i, False)" and f: "\<not> followed_by s (i + 7) (CHR ''='')"
    by (auto simp: charset_stuck_def)
  then have i: "Index (ToUpper s) ''CHARSET'' = Some i" and n: "\<forall>k < i. \<not> HasPrefix (drop k (ToUpper s)) ''CHARACTER SET''"
    by (auto simp: charset_keyword_False)
  let ?s = "put_slice s i ''xCHARSET'' (i + 7)"
  have b: "i + 7 \<le> length s" using Index_bound [OF i] by simp
  have "\<not> followed_by ?s (i + 1 + 7) (CHR ''='')"
    using followed_by_put_slice [of i s "''xCHARSET''" "i + 7" "CHR ''=''"] f b by (simp add: numeral_eq_Suc)
  moreover have u: "ToUpper ?s = take i (ToUpper s) @ CHR ''X'' # ''CHARSET'' @ drop (i + 7) (ToUpper s)"
    unfolding ToUpper_put_slice marked_words by (simp add: put_slice_def)
  have "Index (ToUpper ?s) ''CHARSET'' = Some (i + 1)"
    using Index_marked [OF i, of "CHR ''X''"] by (simp add: u)
  moreover have "\<not> HasPrefix (drop k (ToUpper ?s)) ''CHARACTER SET''" if "k < i + 1" for k
    unfolding u using no_occurrence_across [OF _ n, of "CHR ''X''" k] b that by simp
  ultimately have "charset_stuck ?s" unfolding charset_stuck_def charset_keyword_False by blast
  moreover have "charset_round s = Again ?s"
    using k f by (simp add: charset_round_def followed_by_def Let_def)
  ultimately show "\<exists>y. charset_round s = Again y \<and> charset_stuck y" by blast
qed

section \<open>MATCH\<close>

definition match_stuck :: "string \<times> string \<Rightarrow> bool" where
  "match_stuck = (\<lambda>(r, u). \<exists>m. Index u ''MATCH'' = Some m \<and> m \<le> length r
     \<and> (isInString r m \<or> \<not> followed_by r (m + 5) (CHR ''('')))"

lemma scan_string_snoc: "\<not> is_quote c \<Longrightarrow> scan_string escaped q (s @ [c]) = scan_string escaped q s"
proof (induction s arbitrary: escaped q)
  case Nil
  then show ?case by (cases escaped) auto
next
  case (Cons d s)
  then show ?case by (cases escaped) auto
qed

interpretation match: stuck_loop "\<lambda>(r, u). match_round r u" match_stuck
proof
  fix x assume "match_stuck x"
  then obtain r u m where x: "x = (r, u)" and m: "Index u ''MATCH'' = Some m" "m \<le> length r"
    and bad: "isInString r m \<or> \<not> followed_by r (m + 5) (CHR ''('')"
    by (auto simp: match_stuck_def)
  let ?r = "mark_match r m" and ?u = "mark_match u m"
  have round: "match_round r u = Again (?r, ?u)"
    using m bad by (auto simp: match_round_def followed_by_def Let_def)
  have "?u = take m u @ CHR ''x'' # ''MATCH'' @ drop (m + 5) u"
    by (simp add: mark_match_def put_slice_def)
  then have "Index ?u ''MATCH'' = Some (m + 1)"
    using Index_marked [OF m(1), of "CHR ''x''"] by simp
  moreover have "take (m + 1) ?r = take m r @ [CHR ''x'']"
    using m(2) by (simp add: mark_match_def put_slice_def)
  then have "isInString ?r (m + 1) = isInString r m"
    by (simp add: isInString_def scan_string_snoc is_quote_def squote_def dquote_def)
  moreover have "followed_by ?r (m + 1 + 5) (CHR ''('') = followed_by r (m + 5) (CHR ''('')"
    using followed_by_put_slice [OF m(2), of "''xMATCH''" "m + 5" "CHR ''(''"]
    by (simp add: mark_match_def numeral_eq_Suc)
  moreover have "m + 1 \<le> length ?r" using m(2) by (simp add: mark_match_def put_slice_def)
  ultimately have "match_stuck (?r, ?u)" using bad unfolding match_stuck_def by auto
  then show "\<exists>y. (case x of (r, u) \<Rightarrow> match_round r u) = Again y \<and> match_stuck y"
    using round x by auto
qed

text \<open>The word MATCH can stop the proxy. If the first \<open>match\<close> of a statement, in any case and also as a part of
  a longer word, is inside a quoted identifier or string, or is not followed by a parenthesis, then
  \<open>convertMatchAgainst\<close> does not return: the occurrence is marked with an \<open>x\<close> and found again in every round, while
  the text grows. Quoting turns every identifier into such an occurrence.\<close>

theorem match_word_hangs:
  assumes "Index (ToUpper sql) ''MATCH'' = Some m"
    and "isInString sql m \<or> \<not> followed_by sql (m + 5) (CHR ''('')"
  shows "convertMatchAgainst sql = None"
proof -
  have "match_stuck (sql, ToUpper sql)"
    using assms Index_bound [OF assms(1)] by (auto simp: match_stuck_def)
  then show ?thesis using match.never_returns by (simp add: convertMatchAgainst_def match_loop_def)
qed

definition match_query :: string where
  "match_query = ''SELECT '' @ [dquote] @ ''match_id'' @ [dquote] @ '' FROM '' @ [dquote] @ ''games'' @ [dquote]"

theorem match_word_hangs_witness: "convertMatchAgainst match_query = None"
proof (rule match_word_hangs)
  show "Index (ToUpper match_query) ''MATCH'' = Some 8" by code_simp
  show "isInString match_query 8 \<or> \<not> followed_by match_query (8 + 5) (CHR ''('')" by code_simp
qed

section \<open>Statements that hang, and statements that return\<close>

lemma ReplaceAll_none: "Index s old = None \<Longrightarrow> ReplaceAll s old new = s"
  by (induction s) (auto simp: ReplaceAll_Cons split: if_splits)

lemma to_upper_idem [simp]: "to_upper (to_upper c) = to_upper c"
  by (auto simp: to_upper_def)

text \<open>A word that does not occur in a text in any case does not occur within a longer word either.\<close>

lemma ToUpper_append [simp]: "ToUpper (s @ t) = ToUpper s @ ToUpper t"
  by (simp add: ToUpper_def)

lemma ToUpper_idem [simp]: "ToUpper (ToUpper s) = ToUpper s"
  by (simp add: ToUpper_def)

lemma Index_longer:
  assumes "Index (ToUpper s) p = None" and "ToUpper q = a @ p @ b" and "p \<noteq> []"
  shows "Index s q = None"
proof -
  have "q \<noteq> []" using assms(2,3) by (auto simp: ToUpper_def)
  moreover have False if h: "HasPrefix (drop k s) q" for k
  proof -
    obtain r where "drop k s = q @ r" using h by (auto simp: HasPrefix_iff)
    then have "drop k (ToUpper s) = a @ p @ b @ ToUpper r"
      using assms(2) by (simp add: ToUpper_def drop_map)
    then have "HasPrefix (drop (length a) (drop k (ToUpper s))) p" by (simp add: HasPrefix_iff)
    then show False using assms(1,3) by (simp add: Index_None_iff)
  qed
  ultimately show ?thesis by (auto simp: Index_None_iff)
qed

definition lacks :: "string \<Rightarrow> string \<Rightarrow> bool" where
  "lacks s word \<longleftrightarrow> Index (ToUpper s) word = None"

lemma marked_characters: "ToUpper ''xCHARACTERxSETx'' = ''X'' @ ''CHARACTER'' @ ''XSETX''"
  "ToUpper ''CHARACTER SET'' = [] @ ''CHARACTER'' @ '' SET''" "ToUpper ''xMATCH'' = ''X'' @ ''MATCH'' @ []"
  "ToUpper ''xCHARSET'' = ''X'' @ ''CHARSET'' @ []" "ToUpper ''xCOLLATE'' = ''X'' @ ''COLLATE'' @ []"
  by code_simp+

lemma removeTableOptions_plain:
  assumes "lacks s ''ENGINE''" and "lacks s ''CHARSET''" and "lacks s ''CHARACTER''"
  shows "removeTableOptions s
    = map_option (\<lambda>result. cleanup_loop (ReplaceAll result ''xCOLLATE'' ''COLLATE'')) (collate_loop s)"
proof -
  have e: "engine_loop s 0 = s"
    using assms(1) by (subst engine_loop.simps) (simp add: IndexUpper_def lacks_def)
  have "Index (ToUpper s) ''CHARACTER SET'' = None"
    using assms(3) Index_longer [OF _ marked_characters(2), of "ToUpper s"] by (simp add: lacks_def)
  then have c: "charset_loop s = Some s"
    unfolding charset_loop_def using assms(2)
    by (intro iterate_Leave) (simp add: charset_round_def charset_keyword_def lacks_def)
  have "Index s ''xCHARSET'' = None" "Index s ''xCHARACTERxSETx'' = None"
    using assms(2,3) Index_longer [OF _ marked_characters(4), of s] Index_longer [OF _ marked_characters(1), of s]
    by (simp_all add: lacks_def)
  then show ?thesis using e c by (simp add: removeTableOptions_def Let_def ReplaceAll_none)
qed

lemma ASTRewriter_PostProcess:
  assumes "restore (preProcessCharsetPrefixes (stripTiDBSyntax (TrimSpace sql))) = Some restored"
  shows "Rewrite restore (NewRewriter True) sql = PostProcess (fst (gen_convertPlaceholders restored))"
  using assms
  by (simp add: Rewrite_def NewRewriter_def NewASTRewriter_def ASTRewriter_Rewrite_def GenerateWithPlaceholders_def
      Let_def case_prod_beta split: option.splits)

text \<open>C27: A COLLATE clause stops the proxy. If the text that the parser restores has, after the first passes, no table
  options but a COLLATE that no equals sign follows (\<open>ORDER BY name COLLATE utf8mb4_bin\<close>, or a column whose
  name contains the word), then \<open>Rewrite\<close> never returns.\<close>

theorem collate_clause_hangs:
  assumes "restore (preProcessCharsetPrefixes (stripTiDBSyntax (TrimSpace sql))) = Some restored"
    and "t = first_passes (fst (gen_convertPlaceholders restored))"
    and "lacks t ''ENGINE''" and "lacks t ''CHARSET''" and "lacks t ''CHARACTER''"
    and "Index (ToUpper t) ''COLLATE'' = Some i" and "\<not> followed_by t (i + 7) (CHR ''='')"
  shows "Rewrite restore (NewRewriter True) sql = None"
proof -
  have "collate_stuck t" using assms(6,7) by (auto simp: collate_stuck_def)
  then have "removeTableOptions t = None"
    using removeTableOptions_plain [OF assms(3-5)] collate.never_returns by (simp add: collate_loop_def)
  then show ?thesis using ASTRewriter_PostProcess [of restore sql restored] assms(1,2) by (simp add: PostProcess_def)
qed

definition collate_query :: string where
  "collate_query = ''SELECT a FROM t ORDER BY a COLLATE utf8mb4_bin''"

lemma collate_query_passes:
  "preProcessCharsetPrefixes (stripTiDBSyntax (TrimSpace collate_query)) = collate_query"
  "first_passes (fst (gen_convertPlaceholders collate_query)) = collate_query"
  by code_simp+

theorem collate_clause_hangs_witness: "Rewrite Some (NewRewriter True) collate_query = None"
proof (rule collate_clause_hangs [OF _ refl])
  let ?t = "first_passes (fst (gen_convertPlaceholders collate_query))"
  show "Some (preProcessCharsetPrefixes (stripTiDBSyntax (TrimSpace collate_query))) = Some collate_query"
    by (simp add: collate_query_passes)
  show "lacks ?t ''ENGINE''" "lacks ?t ''CHARSET''" "lacks ?t ''CHARACTER''"
    unfolding collate_query_passes by code_simp+
  show "Index (ToUpper ?t) ''COLLATE'' = Some 27" "\<not> followed_by ?t (27 + 7) (CHR ''='')"
    unfolding collate_query_passes by code_simp+
qed

text \<open>Removing a character in front of a closing parenthesis puts no word together.\<close>

lemma ReplaceAll_paren_prefix:
  assumes "HasPrefix (ToUpper (ReplaceAll s [x, CHR '')''] '')'')) p" and "CHR '')'' \<notin> set p"
  shows "HasPrefix (ToUpper s) p"
  using assms
proof (induction s arbitrary: p)
  case (Cons c s)
  have up: "to_upper (CHR '')'') = CHR '')''" by code_simp
  show ?case
  proof (cases p)
    case (Cons d q)
    show ?thesis
    proof (cases "HasPrefix (c # s) [x, CHR '')'']")
      case True
      then show ?thesis
        using Cons.prems Cons by (auto simp: ReplaceAll_Cons HasPrefix_iff ToUpper_def up)
    next
      case False
      then show ?thesis
        using Cons.prems Cons.IH [of q] Cons by (auto simp: ReplaceAll_Cons HasPrefix_iff ToUpper_def)
    qed
  qed (simp add: HasPrefix_iff)
qed simp

lemma ReplaceAll_paren_occurrence:
  assumes "HasPrefix (drop k (ToUpper (ReplaceAll s [x, CHR '')''] '')''))) p" and "CHR '')'' \<notin> set p"
  shows "\<exists>j. HasPrefix (drop j (ToUpper s)) p"
  using assms(1)
proof (induction "length s" arbitrary: s k rule: less_induct)
  case less
  show ?case
  proof (cases "s = [] \<or> k = 0")
    case True
    then show ?thesis
      using less.prems ReplaceAll_paren_prefix [of s x p] assms(2) by (metis ReplaceAll_Nil drop_0)
  next
    case False
    then obtain c t k' where s: "s = c # t" and k: "k = Suc k'" by (metis list.exhaust not0_implies_Suc)
    let ?rest = "if HasPrefix s [x, CHR '')''] then drop 2 s else t"
    have "HasPrefix (drop k' (ToUpper (ReplaceAll ?rest [x, CHR '')''] '')''))) p"
      using less.prems by (simp add: s k ReplaceAll_Cons ToUpper_def split: if_splits)
    moreover have "length ?rest < length s" by (auto simp: s)
    ultimately obtain j where j: "HasPrefix (drop j (ToUpper ?rest)) p" using less.hyps by blast
    obtain n where "?rest = drop n s" by (metis drop0 drop_Suc_Cons s)
    then have "HasPrefix (drop (n + j) (ToUpper s)) p" using j by (simp add: ToUpper_def drop_map add.commute)
    then show ?thesis by blast
  qed
qed

lemma lacks_paren:
  assumes "lacks s p" and "CHR '')'' \<notin> set p" and "p \<noteq> []"
  shows "lacks (ReplaceAll s [x, CHR '')''] '')'') p"
  using assms ReplaceAll_paren_occurrence [OF _ assms(2), of _ s x] by (auto simp: lacks_def Index_None_iff)

lemma lacks_cleanup_loop:
  assumes "lacks s p" and "CHR '')'' \<notin> set p" and "p \<noteq> []"
  shows "lacks (cleanup_loop s) p"
  using assms(1)
proof (induction s rule: cleanup_loop.induct)
  case (1 s)
  then have "lacks (cleanup_pass s) p"
    using lacks_paren [OF _ assms(2,3)] by (simp add: cleanup_pass_def)
  then show ?case using 1 by (subst cleanup_loop.simps) simp
qed

lemma collate_loop_plain: "lacks s ''COLLATE'' \<Longrightarrow> collate_loop s = Some s"
  unfolding collate_loop_def by (rule iterate_Leave) (simp add: collate_round_def lacks_def)

lemma convertMatchAgainst_plain:
  assumes "lacks s ''MATCH''"
  shows "convertMatchAgainst s = Some s"
proof -
  have "match_loop s = Some s"
    unfolding match_loop_def using assms by (intro iterate_Leave) (simp add: match_round_def lacks_def)
  moreover have "Index s ''xMATCH'' = None"
    using Index_longer [OF _ marked_characters(3), of s] assms by (simp add: lacks_def)
  ultimately show ?thesis by (simp add: convertMatchAgainst_def ReplaceAll_none)
qed

lemma PostProcess_plain:
  assumes "lacks t ''ENGINE''" and "lacks t ''CHARSET''" and "lacks t ''CHARACTER''" and "lacks t ''COLLATE''"
    and "lacks t ''MATCH''" and "t = first_passes s"
  shows "PostProcess s = Some (last_passes (cleanup_loop t))"
proof -
  have "ReplaceAll t ''xCOLLATE'' ''COLLATE'' = t"
    using Index_longer [OF _ marked_characters(5), of t] assms(4) by (simp add: lacks_def ReplaceAll_none)
  then have "removeTableOptions t = Some (cleanup_loop t)"
    using removeTableOptions_plain [OF assms(1-3)] collate_loop_plain [OF assms(4)] by simp
  moreover have "convertMatchAgainst (cleanup_loop t) = Some (cleanup_loop t)"
    by (intro convertMatchAgainst_plain lacks_cleanup_loop assms(5)) simp_all
  ultimately show ?thesis using assms(6) by (simp add: PostProcess_def)
qed

text \<open>C7: The rewriter returns. Every other loop of the generator ends on every text, so a statement whose restored text contains
  none of the words of table options, COLLATE and MATCH after the first passes is rewritten by all passes, and a statement
  that the parser rejects takes the fallback; in both cases \<open>Rewrite\<close> returns a text.\<close>

theorem rewrite_returns:
  assumes "\<And>restored. restore (preProcessCharsetPrefixes (stripTiDBSyntax (TrimSpace sql))) = Some restored \<Longrightarrow>
      list_all (lacks (first_passes (fst (gen_convertPlaceholders restored))))
        [''ENGINE'', ''CHARSET'', ''CHARACTER'', ''COLLATE'', ''MATCH'']"
  shows "Rewrite restore (NewRewriter True) sql =
    Some (case restore (preProcessCharsetPrefixes (stripTiDBSyntax (TrimSpace sql))) of
            None \<Rightarrow> fastPathRewrite (stripTiDBSyntax (TrimSpace sql))
          | Some restored \<Rightarrow> last_passes (cleanup_loop (first_passes (fst (gen_convertPlaceholders restored)))))"
proof (cases "restore (preProcessCharsetPrefixes (stripTiDBSyntax (TrimSpace sql)))")
  case None
  then show ?thesis
    by (simp add: Rewrite_def NewRewriter_def NewASTRewriter_def ASTRewriter_Rewrite_def GenerateWithPlaceholders_def Let_def)
next
  case (Some restored)
  then show ?thesis
    using ASTRewriter_PostProcess [of restore sql restored] assms [OF Some] PostProcess_plain [OF _ _ _ _ _ refl]
    by simp
qed

definition limit_query :: string where
  "limit_query = ''SELECT a FROM t LIMIT 5,10''"

theorem rewrite_returns_witness:
  "Rewrite Some (NewRewriter True) limit_query = Some ''SELECT a FROM t LIMIT 10 OFFSET 5''"
proof -
  have p: "preProcessCharsetPrefixes (stripTiDBSyntax (TrimSpace limit_query)) = limit_query"
    "first_passes (fst (gen_convertPlaceholders limit_query)) = limit_query"
    "last_passes (cleanup_loop limit_query) = ''SELECT a FROM t LIMIT 10 OFFSET 5''"
    by code_simp+
  have "list_all (lacks limit_query) [''ENGINE'', ''CHARSET'', ''CHARACTER'', ''COLLATE'', ''MATCH'']" by code_simp
  then show ?thesis
    using rewrite_returns [of Some limit_query] by (simp only: p option.inject option.case)
qed

end
