(* ===== verification/Rewriter_Props.thy ===== *)
theory Rewriter_Props
  imports Rewriter_Loops
begin

text \<open>
  What the passes of the SQL generator compute: matching parentheses, argument lists, placeholders and the LIMIT clause
  against reference definitions, and statements whose meaning the passes change.
\<close>

section \<open>Parentheses and arguments\<close>

text \<open>The nesting depth that a text adds.\<close>

fun depth :: "string \<Rightarrow> int" where
  "depth [] = 0"
| "depth (c # s) = (if c = CHR ''('' then 1 else if c = CHR '')'' then -1 else 0) + depth s"

definition closes :: "nat \<Rightarrow> string \<Rightarrow> nat \<Rightarrow> bool" where
  "closes count s n \<longleftrightarrow> n < length s \<and> int count + depth (take (Suc n) s) = 0
     \<and> (\<forall>m < n. 0 < int count + depth (take (Suc m) s))"

lemma closes_Cons:
  "closes count (c # s) n \<longleftrightarrow>
     (case n of 0 \<Rightarrow> int count + depth [c] = 0
      | Suc n' \<Rightarrow> 0 < int count + depth [c] \<and> closes (nat (int count + depth [c])) s n')"
proof (cases n)
  case 0
  then show ?thesis by (simp add: closes_def)
next
  case (Suc n')
  define e where "e = depth [c]"
  have d: "depth (take (Suc m) (c # s)) = e + depth (take m s)" for m by (simp add: e_def)
  have "(\<forall>m < Suc n'. 0 < int count + (e + depth (take m s)))
      \<longleftrightarrow> 0 < int count + e \<and> (\<forall>m < n'. 0 < (int count + e) + depth (take (Suc m) s))"
    unfolding All_less_Suc2 by (simp add: add.assoc)
  then have "closes count (c # s) (Suc n') \<longleftrightarrow> 0 < int count + e \<and> closes (nat (int count + e)) s n'"
    unfolding closes_def d by (auto simp: add.assoc)
  then show ?thesis using Suc by (simp add: e_def)
qed

lemma match_paren_iff:
  "0 < count \<Longrightarrow> match_paren count i s = Some j \<longleftrightarrow> (\<exists>n. j = i + n \<and> closes count s n)"
proof (induction count i s arbitrary: j rule: match_paren.induct)
  case (1 count i)
  then show ?case by (simp add: closes_def)
next
  case (2 count i c s)
  have ex: "(\<exists>n. j = i + n \<and> closes count (c # s) n)
      \<longleftrightarrow> j = i \<and> closes count (c # s) 0 \<or> (\<exists>n. j = i + 1 + n \<and> closes count (c # s) (Suc n))"
    by (metis add.right_neutral add_Suc add_Suc_right not0_implies_Suc Suc_eq_plus1)
  have n: "nat (int count - 1) = count - 1" "nat (int count + 1) = count + 1" by simp_all
  show ?case
    unfolding ex using 2 by (auto simp: closes_Cons n split: if_splits)
qed

text \<open>The nesting counted from an opening parenthesis is one more than the nesting of the text after it.\<close>

lemma depth_from_paren:
  assumes "i < length s" and "s ! i = CHR ''(''" and "i \<le> k"
  shows "depth (sub s i (k + 1)) = 1 + depth (take (k - i) (drop (i + 1) s))"
proof -
  have "sub s i (k + 1) = s ! i # take (k - i) (drop (i + 1) s)"
    using assms by (simp add: sub_def Cons_nth_drop_Suc [symmetric] Suc_diff_le)
  then show ?thesis using assms by simp
qed

lemma positive_until:
  "(\<forall>k. i \<le> k \<longrightarrow> k < j \<longrightarrow> 0 < 1 + depth (take (k - i) t)) \<longleftrightarrow> (\<forall>m < j - i - 1. 0 < 1 + depth (take (Suc m) t))"
  (is "?L \<longleftrightarrow> ?R")
proof
  assume ?L
  show ?R
  proof (intro allI impI)
    fix m assume "m < j - i - 1"
    then show "0 < 1 + depth (take (Suc m) t)" using \<open>?L\<close> [rule_format, of "i + Suc m"] by simp
  qed
next
  assume ?R
  show ?L
  proof (intro allI impI)
    fix k assume k: "i \<le> k" "k < j"
    show "0 < 1 + depth (take (k - i) t)"
    proof (cases "k = i")
      case False
      then have "k - i = Suc (k - i - 1)" "k - i - 1 < j - i - 1" using k by linarith+
      then show ?thesis using \<open>?R\<close> by metis
    qed simp
  qed
qed

lemma closes_from_paren:
  assumes "i < length s" and "s ! i = CHR ''(''" and "i < j"
  shows "closes 1 (drop (i + 1) s) (j - i - 1) \<longleftrightarrow> j < length s \<and> depth (sub s i (j + 1)) = 0
    \<and> (\<forall>k. i \<le> k \<longrightarrow> k < j \<longrightarrow> 0 < depth (sub s i (k + 1)))"
proof -
  have "(\<forall>k. i \<le> k \<longrightarrow> k < j \<longrightarrow> 0 < depth (sub s i (k + 1)))
      \<longleftrightarrow> (\<forall>m < j - i - 1. 0 < 1 + depth (take (Suc m) (drop (i + 1) s)))"
    unfolding positive_until [symmetric] using depth_from_paren [OF assms(1,2)] by simp
  moreover have "Suc (j - i - 1) = j - i" "j - i - 1 < length (drop (i + 1) s) \<longleftrightarrow> j < length s" using assms by auto
  ultimately show ?thesis
    using assms depth_from_paren [OF assms(1,2), of j] by (simp add: closes_def del: take_Suc_Cons)
qed

lemma findMatchingParen_iff:
  "findMatchingParen s i = Some j \<longleftrightarrow>
     i < j \<and> j < length s \<and> s ! i = CHR ''('' \<and> depth (sub s i (j + 1)) = 0
     \<and> (\<forall>k. i \<le> k \<longrightarrow> k < j \<longrightarrow> 0 < depth (sub s i (k + 1)))"
proof (cases "char_at s i (CHR ''('')")
  case False
  then show ?thesis by (auto simp: findMatchingParen_def char_at_def)
next
  case True
  then have i: "i < length s" "s ! i = CHR ''(''" by (auto simp: char_at_def)
  have "findMatchingParen s i = Some j \<longleftrightarrow> (\<exists>n. j = i + 1 + n \<and> closes 1 (drop (i + 1) s) n)"
    using True by (simp add: findMatchingParen_def match_paren_iff)
  also have "\<dots> \<longleftrightarrow> i < j \<and> closes 1 (drop (i + 1) s) (j - i - 1)"
    by (metis add.commute add_diff_cancel_left' diff_diff_left less_add_one less_iff_Suc_add plus_1_eq_Suc add_Suc_right add.assoc)
  finally show ?thesis using closes_from_paren [OF i] i(2) by blast
qed

text \<open>C30: Matching parentheses. \<open>findMatchingParen\<close> returns a position exactly when there is an opening parenthesis at
  the start and the nesting, counted from it, returns to zero: the position is the first where it does, so the text
  between the two is balanced. Otherwise it reports that there is none.\<close>

theorem findMatchingParen_correct:
  "findMatchingParen s i = Some j \<longleftrightarrow>
     i < j \<and> j < length s \<and> s ! i = CHR ''('' \<and> depth (sub s i (j + 1)) = 0
     \<and> list_all (\<lambda>k. 0 < depth (sub s i (k + 1))) [i..<j]"
  unfolding findMatchingParen_iff by (auto simp: list_all_iff)

lemma split_args_nonempty [simp]: "split_args d q cur s \<noteq> []"
  by (induction d q cur s rule: split_args.induct) auto

lemma join_split_args: "join_with '','' (split_args d q cur s) = cur @ s"
proof (induction d q cur s rule: split_args.induct)
  case (3 d cur c s)
  have "join_with '','' (cur # split_args d None [] s) = cur @ '','' @ join_with '','' (split_args d None [] s)"
    by (cases "split_args d None [] s") auto
  then show ?case using 3 by auto
qed auto

text \<open>Splitting arguments loses nothing. Joined with commas, the arguments that \<open>splitFuncArgs\<close> returns are the text
  it was given, whatever the nesting and the quotes are; the parts of a call that \<open>convertIFFunction\<close> puts together are exactly its source.\<close>

theorem split_args_join: "join_with '','' (splitFuncArgs content) = content"
  by (simp add: splitFuncArgs_def join_split_args)

section \<open>Placeholders\<close>

lemma length_cons_hd: "ws \<noteq> [] \<Longrightarrow> length (cons_hd c ws) = length ws"
  by (cases ws) auto

lemma special_chars: "CHR ''?'' \<noteq> backslash" "\<not> is_quote backslash"
  by (simp_all add: backslash_def is_quote_def squote_def dquote_def)

lemma gen_loop_render:
  assumes "backslash \<notin> set s" and "\<And>x. q = Some x \<Longrightarrow> is_quote x"
  shows "gen_loop n False q s = (render dollar n (pieces q s), n + (length (pieces q s) - 1))"
  using assms
proof (induction q s arbitrary: n rule: pieces.induct)
  case (1 q)
  then show ?case by simp
next
  case (2 c s)
  consider "c = CHR ''?''" | "c \<noteq> CHR ''?''" "is_quote c" | "c \<noteq> CHR ''?''" "\<not> is_quote c" by blast
  then show ?case
  proof cases
    case 1
    have "length (pieces None s) = Suc (length (pieces None s) - 1)" by (simp add: Suc_pred)
    then show ?thesis
      using 1 2(1) [OF 1, of "n + 1"] 2(3) special_chars(1) by (simp add: render_Nil_Cons dollar_def)
  next
    case 2
    then show ?thesis
      using "2.IH"(2) [OF 2(1), of n] "2.prems"(1) special_chars(2) by (auto simp: next_quote_def length_cons_hd)
  next
    case 3
    then show ?thesis
      using "2.IH"(2) [OF 3(1), of n] "2.prems"(1) by (auto simp: length_cons_hd)
  qed
next
  case (3 q c s)
  have q: "is_quote q" using "3.prems"(2) by simp
  have c: "c \<noteq> backslash" using "3.prems"(1) by auto
  consider "c = q" | "c \<noteq> q" "is_quote c" | "c \<noteq> q" "\<not> is_quote c" by blast
  then show ?case
  proof cases
    case 1
    then show ?thesis using "3.IH" [of n] "3.prems" q c by (simp add: next_quote_def length_cons_hd)
  next
    case 2
    then show ?thesis using "3.IH" [of n] "3.prems" q c by (simp add: next_quote_def length_cons_hd)
  next
    case 3
    then show ?thesis using "3.IH" [of n] "3.prems" q c by (simp add: length_cons_hd)
  qed
qed

text \<open>C31: The two placeholder converters agree. Without backslashes, the generator's converter, which tracks escapes and
  quotes character by character and counts, returns the text of the fallback's converter and the number of question marks
  outside of strings; a question mark behind a backslash is what they disagree on.\<close>

theorem placeholder_converters_agree:
  assumes "backslash \<notin> set sql"
  shows "gen_convertPlaceholders sql = (convertPlaceholders sql, length (pieces None sql) - 1)"
  using gen_loop_render [OF assms, of None 0] by (simp add: gen_convertPlaceholders_def convertPlaceholders_render)

theorem placeholder_converters_agree_witness:
  "gen_convertPlaceholders sample_sql
   = (''INSERT INTO t VALUES ($1, '' @ [squote] @ ''?'' @ [squote] @ '', $2)'', 2)"
proof -
  have "backslash \<notin> set sample_sql" by code_simp
  then have "gen_convertPlaceholders sample_sql = (convertPlaceholders sample_sql, length (pieces None sample_sql) - 1)"
    by (rule placeholder_converters_agree)
  moreover have "convertPlaceholders sample_sql = ''INSERT INTO t VALUES ($1, '' @ [squote] @ ''?'' @ [squote] @ '', $2)''"
    "length (pieces None sample_sql) - 1 = 2"
    by code_simp+
  ultimately show ?thesis by (simp only:)
qed

lemma placeholder_converters_differ:
  "gen_convertPlaceholders ([backslash] @ ''?'') = ([backslash] @ ''?'', 0)
   \<and> convertPlaceholders ([backslash] @ ''?'') = [backslash] @ ''$1''"
  by code_simp

section \<open>LIMIT\<close>

text \<open>The loop looks only at the text behind the search position.\<close>

lemma IndexUpper_shift: "IndexUpper (p @ s) (length p + k) w = map_option ((+) (length p)) (IndexUpper s k w)"
  by (cases "Index (ToUpper (drop k s)) w") (simp_all add: IndexUpper_def)

lemma skip_while_shift: "skip_while f (p @ s) (length p + i) = length p + skip_while f s i"
  by (simp add: skip_while_def)

lemma char_at_shift: "char_at (p @ s) (length p + i) c = char_at s i c"
  by (simp add: char_at_def)

lemma limit_numbers_shift:
  "limit_numbers (p @ s) (length p + i)
   = map_option (\<lambda>(a, b, c, d). (length p + a, length p + b, length p + c, length p + d)) (limit_numbers s i)"
  by (simp add: limit_numbers_def Let_def skip_while_shift char_at_shift add.assoc flip: add_Suc_right)

lemma limit_loop_shift: "limit_loop (p @ s) (length p + k) = p @ limit_loop s k"
proof (induction s k rule: limit_loop.induct)
  case (1 s k)
  show ?case
  proof (cases "IndexUpper s k ''LIMIT''")
    case None
    then show ?thesis by (simp add: limit_loop.simps [of s] limit_loop.simps [of "p @ s"] IndexUpper_shift)
  next
    case (Some i)
    show ?thesis
    proof (cases "limit_numbers s i")
      case None
      then show ?thesis
        using Some 1(1) [OF Some None] limit_numbers_shift [of p s i]
        by (simp add: limit_loop.simps [of s] limit_loop.simps [of "p @ s"] IndexUpper_shift add.assoc)
    next
      case N: (Some t)
      obtain a b c d where t: "t = (a, b, c, d)" by (metis prod_cases4)
      have n: "new_limit (p @ s) (length p + a, length p + b, length p + c, length p + d) = new_limit s (a, b, c, d)"
        by (simp add: new_limit_def sub_def)
      have s: "put_slice (p @ s) (length p + i) m (length p + d) = p @ put_slice s i m d" for m
        by (simp add: put_slice_def)
      from 1(2) [OF Some N t [symmetric] refl refl refl] show ?thesis
        using Some N t n s limit_numbers_shift [of p s i]
        by (simp add: Let_def limit_loop.simps [of s] limit_loop.simps [of "p @ s"] IndexUpper_shift add.assoc)
    qed
  qed
qed

lemma digit_not_blank3: "is_digit c \<Longrightarrow> \<not> is_blank3 c"
  by (auto simp: is_digit_def is_blank3_def char_code_def)

lemma takeWhile_blank_digits: "takeWhile is_blank3 (dec_digits n @ r) = []"
proof -
  obtain d ds where "dec_digits n = d # ds" using dec_digits_nonempty [of n] by (cases "dec_digits n") auto
  moreover from this have "is_digit d" using dec_digits_all_digits [of n] by simp
  ultimately show ?thesis by (simp add: digit_not_blank3)
qed

lemma takeWhile_dec_digits: "r = [] \<or> \<not> is_digit (hd r) \<Longrightarrow> takeWhile is_digit (dec_digits n @ r) = dec_digits n"
  using takeWhile_digits [OF dec_digits_all_digits] by blast

lemma limit_numbers_clause:
  fixes off cnt :: nat and rest :: string
  assumes "rest = [] \<or> \<not> is_digit (hd rest)"
  defines "s \<equiv> ''LIMIT '' @ dec_digits off @ '','' @ dec_digits cnt @ rest"
    and "m \<equiv> length (dec_digits off)"
  shows "limit_numbers s 0 = Some (6, 6 + m, 7 + m, 7 + m + length (dec_digits cnt))"
proof -
  have pos: "0 < m" "0 < length (dec_digits cnt)" by (simp_all add: m_def)
  have comma: "\<not> is_digit (CHR '','')" "\<not> is_blank3 (CHR '','')" "is_blank3 (CHR '' '')"
    by (simp_all add: is_digit_def is_blank3_def char_code_def)
  have a: "skip_while is_blank3 s 5 = 6"
    by (simp add: skip_while_def s_def comma takeWhile_blank_digits)
  define L where "L = ''LIMIT ''"
  have L: "length L = 6" "s = L @ dec_digits off @ '','' @ dec_digits cnt @ rest" by (simp_all add: L_def s_def)
  have d6: "drop 6 s = dec_digits off @ '','' @ dec_digits cnt @ rest" by (simp add: L)
  have b: "skip_while is_digit s 6 = 6 + m"
    unfolding skip_while_def d6 using comma(1) by (subst takeWhile_dec_digits) (simp_all add: m_def)
  have dm: "drop (6 + m) s = '','' @ dec_digits cnt @ rest" by (simp add: L m_def)
  have c: "skip_while is_blank3 s (6 + m) = 6 + m" "char_at s (6 + m) (CHR '','')"
    by (simp_all add: skip_while_def dm comma char_at_def L m_def nth_append)
  have dm1: "drop (7 + m) s = dec_digits cnt @ rest" by (simp add: L m_def)
  have d: "skip_while is_blank3 s (7 + m) = 7 + m"
    unfolding skip_while_def dm1 takeWhile_blank_digits by simp
  have e: "skip_while is_digit s (7 + m) = 7 + m + length (dec_digits cnt)"
    unfolding skip_while_def dm1 by (simp only: takeWhile_dec_digits [OF assms(1)])
  have "6 + m + 1 = 7 + m" by simp
  then show ?thesis
    unfolding limit_numbers_def Let_def add_0 a b c d e using pos c(2) by (simp add: a b c d e)
qed

text \<open>C32: The LIMIT clause. For the first \<open>LIMIT offset,count\<close> of a statement, \<open>convertLimitSyntax\<close> writes \<open>LIMIT count OFFSET offset\<close>,
  keeps what is in front of it, and goes on with what is behind it.\<close>

theorem limit_converted:
  assumes "sql = pre @ ''LIMIT '' @ dec_digits off @ '','' @ dec_digits cnt @ rest"
    and "Index (ToUpper sql) ''LIMIT'' = Some (length pre)"
    and "rest = [] \<or> \<not> is_digit (hd rest)"
  shows "convertLimitSyntax sql
    = pre @ ''LIMIT '' @ dec_digits cnt @ '' OFFSET '' @ dec_digits off @ convertLimitSyntax rest"
proof -
  let ?s = "''LIMIT '' @ dec_digits off @ '','' @ dec_digits cnt @ rest"
  let ?m = "length (dec_digits off)" and ?n = "length (dec_digits cnt)"
  let ?l = "''LIMIT '' @ dec_digits cnt @ '' OFFSET '' @ dec_digits off"
  have i: "IndexUpper sql 0 ''LIMIT'' = Some (length pre)" using assms(2) by (simp add: IndexUpper_def)
  have n: "limit_numbers sql (length pre) =
      Some (length pre + 6, length pre + (6 + ?m), length pre + (7 + ?m), length pre + (7 + ?m + ?n))"
    using limit_numbers_shift [of pre ?s 0] limit_numbers_clause [OF assms(3), of off cnt] assms(1) by simp
  define L where "L = ''LIMIT ''"
  have L: "length L = 6" "sql = pre @ L @ dec_digits off @ '','' @ dec_digits cnt @ rest"
    by (simp_all add: L_def assms(1))
  have l: "new_limit sql (length pre + 6, length pre + (6 + ?m), length pre + (7 + ?m), length pre + (7 + ?m + ?n)) = ?l"
    by (simp add: new_limit_def sub_def L)
  have "put_slice sql (length pre) ?l (length pre + (7 + ?m + ?n)) = (pre @ ?l) @ rest"
    by (simp add: put_slice_def L)
  then have "limit_loop sql 0 = limit_loop ((pre @ ?l) @ rest) (length (pre @ ?l) + 0)"
    using i n l by (simp add: limit_loop.simps [of sql])
  then show ?thesis
    unfolding limit_loop_shift convertLimitSyntax_def by simp
qed

theorem limit_converted_witness: "convertLimitSyntax limit_query = ''SELECT a FROM t LIMIT 10 OFFSET 5''"
proof -
  have d: "dec_digits 5 = ''5''" "dec_digits 10 = ''10''" by code_simp+
  have "limit_query = ''SELECT a FROM t '' @ ''LIMIT '' @ dec_digits 5 @ '','' @ dec_digits 10 @ []"
    unfolding d by (simp add: limit_query_def)
  moreover have "Index (ToUpper limit_query) ''LIMIT'' = Some (length ''SELECT a FROM t '')" by code_simp
  moreover have "convertLimitSyntax [] = []" by code_simp
  ultimately show ?thesis using limit_converted [of limit_query "''SELECT a FROM t ''" 5 10 "[]"] by (simp add: d)
qed

section \<open>Statements that the passes change\<close>

text \<open>
  The passes work on the whole text, string literals included, and in a fixed order. Type names in literals are
  replaced, a leading NULL of a column that is not generated becomes its default, the inner one of nested IFs stays, and
  an integer type with a length is not recognised in front of AUTO_INCREMENT, because lengths are removed later.
\<close>

lemma literal_type_name: "convertTypes (squote # ''JSON'' @ [squote]) = squote # ''JSONB'' @ [squote]"
  by code_simp

lemma null_becomes_default:
  "convertInsertNullToDefault ''INSERT INTO t (note) VALUES (NULL)'' = ''INSERT INTO t (note) VALUES (DEFAULT)''"
  by code_simp

lemma nested_if_kept:
  "convertIFFunction ''IF(a,IF(b,1,2),3)'' = ''CASE WHEN a THEN IF(b,1,2) ELSE 3 END''"
  by code_simp

lemma auto_increment_with_length:
  "removeUnsupportedTypeLengths (convertAutoIncrement ''id INT(11) AUTO_INCREMENT'') = ''id INT AUTO_INCREMENT''"
  by code_simp

end
