(* ===== verification/Sql_Types.thy ===== *)
theory Sql_Types
  imports Go_Slices
begin

text \<open>
  Types and tree changes of the SQL rewriter: \<open>pkg/sqlrewrite/type_mapper.go\<close> and the parts of \<open>ast_visitor.go\<close>
  that change a node. Nodes of the TiDB syntax tree appear with the fields that the code reads or writes; walking the tree is
  the parser's.
\<close>

section \<open>Field types\<close>

datatype mysql_type =
    TypeTiny | TypeShort | TypeInt24 | TypeLong | TypeLonglong | TypeFloat | TypeDouble | TypeNewDecimal | TypeDate
  | TypeDatetime | TypeTimestamp | TypeDuration | TypeYear | TypeVarchar | TypeVarString | TypeString | TypeTinyBlob
  | TypeBlob | TypeMediumBlob | TypeLongBlob | TypeJSON | TypeEnum | TypeSet | TypeBit | TypeGeometry | TypeNull | TypeOther

record field_type =
  ft_type :: mysql_type
  ft_unsigned :: bool
  ft_zerofill :: bool
  ft_binary :: bool
  ft_flen :: int
  ft_decimal :: int
  ft_elems :: "string list"

definition with_length :: "string \<Rightarrow> field_type \<Rightarrow> string" where
  "with_length name tp = name @ ''('' @ fmt_int (ft_flen tp) @ '')''"

definition text_or_bytea :: "field_type \<Rightarrow> string" where
  "text_or_bytea tp = (if ft_binary tp then ''BYTEA'' else ''TEXT'')"

definition MySQLToPostgreSQL :: "field_type option \<Rightarrow> string" where
  "MySQLToPostgreSQL otp =
     (case otp of
        None \<Rightarrow> ''TEXT''
      | Some tp \<Rightarrow>
          (case ft_type tp of
             TypeTiny \<Rightarrow> ''SMALLINT''
           | TypeShort \<Rightarrow> ''SMALLINT''
           | TypeLong \<Rightarrow> if ft_unsigned tp then ''BIGINT'' else ''INTEGER''
           | TypeInt24 \<Rightarrow> if ft_unsigned tp then ''BIGINT'' else ''INTEGER''
           | TypeLonglong \<Rightarrow> if ft_unsigned tp then ''NUMERIC(20,0)'' else ''BIGINT''
           | TypeFloat \<Rightarrow> ''REAL''
           | TypeDouble \<Rightarrow> ''DOUBLE PRECISION''
           | TypeNewDecimal \<Rightarrow>
               if 0 < ft_flen tp then
                 (if 0 < ft_decimal tp
                  then ''NUMERIC('' @ fmt_int (ft_flen tp) @ '','' @ fmt_int (ft_decimal tp) @ '')''
                  else with_length ''NUMERIC'' tp)
               else ''NUMERIC''
           | TypeDate \<Rightarrow> ''DATE''
           | TypeDatetime \<Rightarrow> if 0 < ft_flen tp then with_length ''TIMESTAMP'' tp else ''TIMESTAMP''
           | TypeTimestamp \<Rightarrow> if 0 < ft_flen tp then with_length ''TIMESTAMP'' tp else ''TIMESTAMP''
           | TypeDuration \<Rightarrow> if 0 < ft_flen tp then with_length ''TIME'' tp else ''TIME''
           | TypeYear \<Rightarrow> ''SMALLINT''
           | TypeVarchar \<Rightarrow> if 0 < ft_flen tp \<and> ft_flen tp \<le> 65535 then with_length ''VARCHAR'' tp else ''TEXT''
           | TypeVarString \<Rightarrow> if 0 < ft_flen tp \<and> ft_flen tp \<le> 65535 then with_length ''VARCHAR'' tp else ''TEXT''
           | TypeString \<Rightarrow> if 0 < ft_flen tp \<and> ft_flen tp \<le> 255 then with_length ''CHAR'' tp else ''TEXT''
           | TypeTinyBlob \<Rightarrow> text_or_bytea tp
           | TypeBlob \<Rightarrow> text_or_bytea tp
           | TypeMediumBlob \<Rightarrow> text_or_bytea tp
           | TypeLongBlob \<Rightarrow> text_or_bytea tp
           | TypeJSON \<Rightarrow> ''JSONB''
           | TypeEnum \<Rightarrow> ''TEXT''
           | TypeSet \<Rightarrow> ''TEXT[]''
           | TypeBit \<Rightarrow> if 0 < ft_flen tp then with_length ''BIT'' tp else ''BIT''
           | TypeGeometry \<Rightarrow> ''GEOMETRY''
           | TypeNull \<Rightarrow> ''TEXT''
           | TypeOther \<Rightarrow> ''TEXT''))"

text \<open>\<open>strings.Replace(s, old, new, 1)\<close>\<close>

definition Replace1 :: "string \<Rightarrow> string \<Rightarrow> string \<Rightarrow> string" where
  "Replace1 s old new = (case Index s old of None \<Rightarrow> s | Some i \<Rightarrow> put_slice s i new (i + length old))"

definition MySQLToPostgreSQLString :: "string \<Rightarrow> string" where
  "MySQLToPostgreSQLString mysqlType =
     (let upper = ToUpper (TrimSpace mysqlType);
          baseType = (case Index upper ''('' of None \<Rightarrow> upper | Some idx \<Rightarrow> TrimSpace (take idx upper))
      in if baseType = ''TINYINT'' then Replace1 upper ''TINYINT'' ''SMALLINT''
         else if baseType \<in> {''INT'', ''INTEGER'', ''MEDIUMINT''} then
           (if Contains upper ''UNSIGNED'' then Replace1 (Replace1 upper ''UNSIGNED'' []) baseType ''BIGINT''
            else Replace1 upper baseType ''INTEGER'')
         else if baseType = ''BIGINT'' then (if Contains upper ''UNSIGNED'' then ''NUMERIC(20,0)'' else upper)
         else if baseType = ''FLOAT'' then Replace1 upper ''FLOAT'' ''REAL''
         else if baseType \<in> {''DOUBLE'', ''DOUBLE PRECISION''} then ''DOUBLE PRECISION''
         else if baseType \<in> {''DECIMAL'', ''NUMERIC''} then Replace1 upper ''DECIMAL'' ''NUMERIC''
         else if baseType \<in> {''DATETIME'', ''TIMESTAMP''}
           then Replace1 (Replace1 upper ''DATETIME'' ''TIMESTAMP'') ''TIMESTAMP'' ''TIMESTAMP''
         else if baseType = ''YEAR'' then ''SMALLINT''
         else if baseType \<in> {''TINYTEXT'', ''TINYBLOB''} then (if Contains baseType ''BLOB'' then ''BYTEA'' else ''TEXT'')
         else if baseType \<in> {''TEXT'', ''MEDIUMTEXT'', ''LONGTEXT''} then ''TEXT''
         else if baseType \<in> {''BLOB'', ''MEDIUMBLOB'', ''LONGBLOB''} then ''BYTEA''
         else if baseType = ''JSON'' then ''JSONB''
         else if baseType = ''ENUM'' then ''TEXT''
         else if baseType = ''SET'' then ''TEXT[]''
         else upper)"

text \<open>The generator's \<open>ConvertDataType\<close>.\<close>

definition ConvertDataType :: "string \<Rightarrow> string" where
  "ConvertDataType mysqlType = MySQLToPostgreSQLString mysqlType"

definition GetPostgreSQLDefaultValue :: "string \<Rightarrow> string \<Rightarrow> string" where
  "GetPostgreSQLDefaultValue mysqlDefault pgType =
     (let upper = ToUpper mysqlDefault
      in if mysqlDefault = [] then []
         else if upper \<in> {''NOW()'', ''CURRENT_TIMESTAMP()'', ''CURRENT_TIMESTAMP''} then ''CURRENT_TIMESTAMP''
         else if upper \<in> {''CURDATE()'', ''CURRENT_DATE()'', ''CURRENT_DATE''} then ''CURRENT_DATE''
         else if upper \<in> {''CURTIME()'', ''CURRENT_TIME()'', ''CURRENT_TIME''} then ''CURRENT_TIME''
         else if HasPrefix pgType ''BOOLEAN'' \<and> (mysqlDefault = ''0'' \<or> upper = ''FALSE'') then ''FALSE''
         else if HasPrefix pgType ''BOOLEAN'' \<and> (mysqlDefault = ''1'' \<or> upper = ''TRUE'') then ''TRUE''
         else mysqlDefault)"

definition IsBooleanType :: "field_type option \<Rightarrow> bool" where
  "IsBooleanType otp = (case otp of None \<Rightarrow> False | Some tp \<Rightarrow> ft_type tp = TypeTiny \<and> ft_flen tp = 1)"

definition MySQLToPostgreSQLBoolean :: "field_type option \<Rightarrow> string" where
  "MySQLToPostgreSQLBoolean otp = (if IsBooleanType otp then ''BOOLEAN'' else MySQLToPostgreSQL otp)"

section \<open>Changes to the tree\<close>

definition convert_type :: "field_type \<Rightarrow> field_type" where
  "convert_type tp =
     (case ft_type tp of
        TypeTiny \<Rightarrow> tp\<lparr>ft_type := TypeShort\<rparr>
      | TypeInt24 \<Rightarrow> tp\<lparr>ft_type := TypeLong\<rparr>
      | TypeDatetime \<Rightarrow> tp\<lparr>ft_type := TypeTimestamp\<rparr>
      | TypeEnum \<Rightarrow> tp\<lparr>ft_type := TypeVarchar, ft_flen := 50, ft_elems := []\<rparr>
      | TypeTinyBlob \<Rightarrow> tp\<lparr>ft_type := TypeBlob\<rparr>
      | TypeMediumBlob \<Rightarrow> tp\<lparr>ft_type := TypeBlob\<rparr>
      | TypeLongBlob \<Rightarrow> tp\<lparr>ft_type := TypeBlob\<rparr>
      | TypeYear \<Rightarrow> tp\<lparr>ft_type := TypeShort\<rparr>
      | _ \<Rightarrow> tp)"

definition convert_unsigned :: "field_type \<Rightarrow> field_type" where
  "convert_unsigned tp =
     (if \<not> ft_unsigned tp then tp
      else case ft_type tp of
             TypeShort \<Rightarrow> tp\<lparr>ft_type := TypeLong, ft_unsigned := False\<rparr>
           | TypeLong \<Rightarrow> tp\<lparr>ft_type := TypeLonglong, ft_unsigned := False\<rparr>
           | TypeLonglong \<Rightarrow> tp\<lparr>ft_type := TypeNewDecimal, ft_flen := 20, ft_decimal := 0, ft_unsigned := False\<rparr>
           | _ \<Rightarrow> tp)"

definition convertColumnType :: "field_type option \<Rightarrow> field_type option" where
  "convertColumnType = map_option (\<lambda>tp. convert_unsigned ((convert_type tp)\<lparr>ft_zerofill := False\<rparr>))"

datatype constraint_type = ConstraintIndex | ConstraintKey | ConstraintUniq | ConstraintOther nat

record table_constraint =
  ct_type :: constraint_type
  ct_name :: string

datatype table_option_type =
    TableOptionEngine | TableOptionCharset | TableOptionCollate | TableOptionAutoIncrement | TableOptionRowFormat
  | TableOptionKeyBlockSize | TableOptionCompression | TableOptionComment | TableOptionOther nat

record create_table =
  tb_constraints :: "table_constraint list"
  tb_options :: "table_option_type list"
  tb_cols :: "field_type option list"

definition visitCreateTable :: "create_table \<Rightarrow> create_table" where
  "visitCreateTable node =
     \<lparr>tb_constraints =
        map (\<lambda>c. if ct_type c = ConstraintUniq then c\<lparr>ct_name := []\<rparr> else c)
          (filter (\<lambda>c. ct_type c \<noteq> ConstraintIndex \<and> ct_type c \<noteq> ConstraintKey) (tb_constraints node)),
      tb_options =
        filter (\<lambda>opt. opt \<notin> {TableOptionEngine, TableOptionCharset, TableOptionCollate, TableOptionAutoIncrement,
                              TableOptionRowFormat, TableOptionKeyBlockSize, TableOptionCompression}) (tb_options node),
      tb_cols = map convertColumnType (tb_cols node)\<rparr>"

section \<open>Functions and placeholders\<close>

definition createFunctionMap :: "(string \<times> string) list" where
  "createFunctionMap =
     [(''now'', ''CURRENT_TIMESTAMP''), (''curdate'', ''CURRENT_DATE''), (''current_date'', ''CURRENT_DATE''),
      (''curtime'', ''CURRENT_TIME''), (''current_time'', ''CURRENT_TIME''),
      (''unix_timestamp'', ''EXTRACT(EPOCH FROM CURRENT_TIMESTAMP)''), (''from_unixtime'', ''TO_TIMESTAMP''),
      (''date_format'', ''TO_CHAR''), (''str_to_date'', ''TO_DATE''), (''date_add'', []), (''date_sub'', []),
      (''datediff'', []), (''timestampdiff'', []), (''concat'', ''CONCAT''), (''concat_ws'', ''CONCAT_WS''),
      (''length'', ''LENGTH''), (''char_length'', ''CHAR_LENGTH''), (''substring'', ''SUBSTRING''),
      (''substr'', ''SUBSTRING''), (''left'', ''LEFT''), (''right'', ''RIGHT''), (''upper'', ''UPPER''),
      (''lower'', ''LOWER''), (''trim'', ''TRIM''), (''ltrim'', ''LTRIM''), (''rtrim'', ''RTRIM''),
      (''replace'', ''REPLACE''), (''locate'', ''POSITION''), (''instr'', []), (''find_in_set'', []), (''abs'', ''ABS''),
      (''ceil'', ''CEIL''), (''ceiling'', ''CEIL''), (''floor'', ''FLOOR''), (''round'', ''ROUND''), (''mod'', ''MOD''),
      (''power'', ''POWER''), (''pow'', ''POWER''), (''sqrt'', ''SQRT''), (''rand'', ''RANDOM''), (''count'', ''COUNT''),
      (''sum'', ''SUM''), (''avg'', ''AVG''), (''max'', ''MAX''), (''min'', ''MIN''), (''group_concat'', ''STRING_AGG''),
      (''if'', []), (''ifnull'', ''COALESCE''), (''nullif'', ''NULLIF''), (''coalesce'', ''COALESCE''), (''cast'', ''CAST''),
      (''convert'', ''CAST''), (''json_extract'', []), (''json_unquote'', []), (''json_array'', ''JSON_BUILD_ARRAY''),
      (''json_object'', ''JSON_BUILD_OBJECT''), (''last_insert_id'', ''lastval'')]"

definition transformGroupConcat :: "string \<Rightarrow> string" where
  "transformGroupConcat fnName = ''STRING_AGG''"

text \<open>The other special transformations leave the node to the passes over the restored text.\<close>

definition transformIF :: "string \<Rightarrow> string" where
  "transformIF fnName = fnName"

definition transformDateAddSub :: "string \<Rightarrow> string" where
  "transformDateAddSub fnName = fnName"

definition transformUnixTimestamp :: "string \<Rightarrow> string" where
  "transformUnixTimestamp fnName = fnName"

text \<open>The function name of a call after \<open>visitFuncCall\<close>.\<close>

definition visitFuncCall :: "string \<Rightarrow> string" where
  "visitFuncCall fnName =
     (let funcName = ToLower fnName
      in case map_of createFunctionMap funcName of
           None \<Rightarrow> fnName
         | Some pgFunc \<Rightarrow>
             if pgFunc \<noteq> [] then pgFunc
             else if funcName = ''if'' then transformIF fnName
             else if funcName = ''date_add'' \<or> funcName = ''date_sub'' then transformDateAddSub fnName
             else if funcName = ''group_concat'' then transformGroupConcat fnName
             else if funcName = ''unix_timestamp'' then transformUnixTimestamp fnName
             else fnName)"

text \<open>Two of the special transformations are never reached: their functions have a name of their own in the map.\<close>

lemma special_functions_shadowed:
  "visitFuncCall ''group_concat'' = ''STRING_AGG'' \<and> visitFuncCall ''unix_timestamp'' = ''EXTRACT(EPOCH FROM CURRENT_TIMESTAMP)''"
  by code_simp

definition visitAggregateFunc :: "string \<Rightarrow> string" where
  "visitAggregateFunc f = (if ToLower f \<noteq> ''group_concat'' then f else ''STRING_AGG'')"

record ast_visitor =
  av_err :: "string option"
  av_placeholder_index :: nat

definition NewASTVisitor :: ast_visitor where
  "NewASTVisitor = \<lparr>av_err = None, av_placeholder_index = 0\<rparr>"

definition visitParamMarker :: "ast_visitor \<Rightarrow> nat \<times> ast_visitor" where
  "visitParamMarker v =
     (let v = v\<lparr>av_placeholder_index := av_placeholder_index v + 1\<rparr> in (av_placeholder_index v, v))"

definition GetPlaceholderCount :: "ast_visitor \<Rightarrow> nat" where
  "GetPlaceholderCount v = av_placeholder_index v"

definition ResetPlaceholders :: "ast_visitor \<Rightarrow> ast_visitor" where
  "ResetPlaceholders v = v\<lparr>av_placeholder_index := 0\<rparr>"

section \<open>Visiting nodes\<close>

text \<open>
  The nodes that the visitor handles, with what it reads or changes of them. \<open>Enter\<close> returns the node, whether to skip its
  children, and the visitor; the order of the calls is the TiDB library's.
\<close>

datatype ast_node =
    FuncCallExpr string
  | ParamMarkerExpr nat
  | ColumnDef "field_type option"
  | SelectStmt
  | LimitClause
  | MatchAgainst
  | CreateTableStmt create_table
  | InsertStmt
  | AggregateFuncExpr string
  | OtherNode

definition visitColumnDef :: "field_type option \<Rightarrow> field_type option" where
  "visitColumnDef tp = (let _ = MySQLToPostgreSQLBoolean tp in tp)"

text \<open>Nodes that are only traversed.\<close>

definition visitSelect :: "ast_node \<Rightarrow> ast_node" where
  "visitSelect node = node"

definition visitLimit :: "ast_node \<Rightarrow> ast_node" where
  "visitLimit node = node"

definition visitMatchAgainst :: "ast_node \<Rightarrow> ast_node" where
  "visitMatchAgainst node = node"

definition visitInsert :: "ast_node \<Rightarrow> ast_node" where
  "visitInsert node = node"

lemmas traversed_only = visitSelect_def visitLimit_def visitMatchAgainst_def visitInsert_def

definition Enter :: "ast_visitor \<Rightarrow> ast_node \<Rightarrow> ast_node \<times> bool \<times> ast_visitor" where
  "Enter v n =
     (if av_err v \<noteq> None then (n, True, v)
      else case n of
             FuncCallExpr f \<Rightarrow> (FuncCallExpr (visitFuncCall f), False, v)
           | ParamMarkerExpr _ \<Rightarrow> (case visitParamMarker v of (order, v) \<Rightarrow> (ParamMarkerExpr order, False, v))
           | ColumnDef tp \<Rightarrow> (ColumnDef (visitColumnDef tp), False, v)
           | SelectStmt \<Rightarrow> (visitSelect n, False, v)
           | LimitClause \<Rightarrow> (visitLimit n, False, v)
           | MatchAgainst \<Rightarrow> (visitMatchAgainst n, False, v)
           | CreateTableStmt t \<Rightarrow> (CreateTableStmt (visitCreateTable t), False, v)
           | InsertStmt \<Rightarrow> (visitInsert n, False, v)
           | AggregateFuncExpr f \<Rightarrow> (AggregateFuncExpr (visitAggregateFunc f), False, v)
           | OtherNode \<Rightarrow> (n, False, v))"

definition LeaveNode :: "ast_visitor \<Rightarrow> ast_node \<Rightarrow> ast_node \<times> bool" where
  "LeaveNode v n = (n, av_err v = None)"

definition GetError :: "ast_visitor \<Rightarrow> string option" where
  "GetError v = av_err v"

fun visit_all :: "ast_visitor \<Rightarrow> ast_node list \<Rightarrow> ast_node list \<times> ast_visitor" where
  "visit_all v [] = ([], v)"
| "visit_all v (n # ns) =
     (case Enter v n of (n', _, v) \<Rightarrow> (case visit_all v ns of (ns', v) \<Rightarrow> (n' # ns', v)))"

text \<open>The orders of the placeholders among visited nodes.\<close>

fun placeholder_orders :: "ast_node list \<Rightarrow> nat list" where
  "placeholder_orders [] = []"
| "placeholder_orders (ParamMarkerExpr k # ns) = k # placeholder_orders ns"
| "placeholder_orders (n # ns) = placeholder_orders ns"

lemma Enter_no_error: "av_err v = None \<Longrightarrow> Enter v n = (n', skip, v') \<Longrightarrow> \<not> skip \<and> av_err v' = None"
  by (auto simp: Enter_def visitParamMarker_def traversed_only Let_def split: ast_node.splits)

lemma visit_all_orders:
  assumes "av_err v = None" and "visit_all v ns = (ns', v')"
  shows "placeholder_orders ns' = [av_placeholder_index v + 1 ..< av_placeholder_index v' + 1]
     \<and> av_placeholder_index v' = av_placeholder_index v + length (placeholder_orders ns) \<and> av_err v' = None"
  using assms
proof (induction ns arbitrary: v ns')
  case (Cons n ns)
  obtain n1 sk v1 where e: "Enter v n = (n1, sk, v1)" by (cases "Enter v n")
  obtain ms where m: "visit_all v1 ns = (ms, v')" and ns': "ns' = n1 # ms"
    using Cons.prems(2) e by (auto split: prod.splits)
  have "av_err v1 = None" using Enter_no_error [OF Cons.prems(1) e] by simp
  note ih = Cons.IH [OF this m]
  show ?case
  proof (cases n)
    case (ParamMarkerExpr k)
    then have "n1 = ParamMarkerExpr (av_placeholder_index v + 1)" "av_placeholder_index v1 = av_placeholder_index v + 1"
      using e Cons.prems(1) by (auto simp: Enter_def visitParamMarker_def Let_def)
    then show ?thesis using ih ns' ParamMarkerExpr by (simp add: upt_conv_Cons del: upt_Suc)
  qed (use e ih ns' Cons.prems(1) in \<open>auto simp: Enter_def traversed_only\<close>)
qed simp

text \<open>A walk numbers the placeholders from 1 on in the order of the visits, counts them, and meets no error.\<close>

theorem visited_placeholders_numbered:
  assumes "visit_all NewASTVisitor ns = (ns', v)"
  shows "placeholder_orders ns' = [1 ..< GetPlaceholderCount v + 1]
     \<and> GetPlaceholderCount v = length (placeholder_orders ns) \<and> GetError v = None"
  using visit_all_orders [OF _ assms] by (simp add: NewASTVisitor_def GetPlaceholderCount_def GetError_def)

section \<open>Integer columns keep their range\<close>

text \<open>The values of an integer column in MySQL, and of the PostgreSQL type that a converted column is restored as.\<close>

definition bits_range :: "nat \<Rightarrow> bool \<Rightarrow> int set" where
  "bits_range n u = (if u then {0 ..< 2 ^ n} else {- (2 ^ (n - 1)) ..< 2 ^ (n - 1)})"

definition mysql_range :: "field_type \<Rightarrow> int set" where
  "mysql_range tp =
     (case ft_type tp of
        TypeTiny \<Rightarrow> bits_range 8 (ft_unsigned tp)
      | TypeShort \<Rightarrow> bits_range 16 (ft_unsigned tp)
      | TypeInt24 \<Rightarrow> bits_range 24 (ft_unsigned tp)
      | TypeLong \<Rightarrow> bits_range 32 (ft_unsigned tp)
      | TypeLonglong \<Rightarrow> bits_range 64 (ft_unsigned tp)
      | TypeYear \<Rightarrow> insert 0 {1901 .. 2155}
      | _ \<Rightarrow> {})"

definition pg_range :: "field_type \<Rightarrow> int set" where
  "pg_range tp =
     (case ft_type tp of
        TypeShort \<Rightarrow> bits_range 16 False
      | TypeLong \<Rightarrow> bits_range 32 False
      | TypeLonglong \<Rightarrow> bits_range 64 False
      | TypeNewDecimal \<Rightarrow> {x. \<bar>x\<bar> < 10 ^ nat (ft_flen tp - ft_decimal tp)}
      | _ \<Rightarrow> {})"

text \<open>C33: Integer columns keep their range. After \<open>convertColumnType\<close> every value that MySQL can store in an integer or YEAR
  column, signed or unsigned, can be stored in the PostgreSQL column, and no unsigned or zerofill flag is left on it that
  PostgreSQL would not understand.\<close>

theorem column_range_preserved:
  assumes "ft_type tp \<in> {TypeTiny, TypeShort, TypeInt24, TypeLong, TypeLonglong} \<or> ft_type tp = TypeYear \<and> \<not> ft_unsigned tp"
    and "convertColumnType (Some tp) = Some tp'"
  shows "mysql_range tp \<subseteq> pg_range tp' \<and> \<not> ft_unsigned tp' \<and> \<not> ft_zerofill tp'"
  using assms
  by (cases "ft_unsigned tp"; elim disjE conjE insertE emptyE)
     (auto simp: convertColumnType_def convert_type_def convert_unsigned_def mysql_range_def pg_range_def bits_range_def)

definition unsigned_big :: field_type where
  "unsigned_big = \<lparr>ft_type = TypeLonglong, ft_unsigned = True, ft_zerofill = True, ft_binary = False, ft_flen = -1,
     ft_decimal = -1, ft_elems = []\<rparr>"

theorem column_range_preserved_witness:
  "\<exists>tp'. convertColumnType (Some unsigned_big) = Some tp' \<and> 18446744073709551615 \<in> pg_range tp' \<and> \<not> ft_zerofill tp'"
proof -
  obtain tp' where tp: "convertColumnType (Some unsigned_big) = Some tp'" by (simp add: convertColumnType_def)
  have "mysql_range unsigned_big \<subseteq> pg_range tp' \<and> \<not> ft_unsigned tp' \<and> \<not> ft_zerofill tp'"
    by (rule column_range_preserved [OF _ tp]) (simp add: unsigned_big_def)
  moreover have "18446744073709551615 \<in> mysql_range unsigned_big"
    by (simp add: mysql_range_def unsigned_big_def bits_range_def)
  ultimately show ?thesis using tp by blast
qed

text \<open>
  The type mapper has its own table, which the visitor calls but whose answer it ignores: there an unsigned
  SMALLINT becomes a SMALLINT, which cannot hold 65535.
\<close>

lemma mapper_small_unsigned:
  "MySQLToPostgreSQL (Some (unsigned_big\<lparr>ft_type := TypeShort\<rparr>)) = ''SMALLINT''
   \<and> 65535 \<in> mysql_range (unsigned_big\<lparr>ft_type := TypeShort\<rparr>) \<and> 65535 \<notin> bits_range 16 False"
  by (simp add: MySQLToPostgreSQL_def unsigned_big_def mysql_range_def bits_range_def)

text \<open>The branch for \<open>group_concat\<close> and the one for \<open>unix_timestamp\<close> are never reached: the table has an entry for both.\<close>

lemma unix_timestamp_name: "visitFuncCall ''UNIX_TIMESTAMP'' = ''EXTRACT(EPOCH FROM CURRENT_TIMESTAMP)''"
  by code_simp

end
