(* ===== verification/Sql_Unsupported.thy ===== *)
theory Sql_Unsupported
  imports Go_Strings
begin

text \<open>
  The detector of unsupported features, \<open>pkg/sqlrewrite/unsupported_detector.go\<close>. Its regular expressions use words, the classes of blanks,
  digits and word characters, any character but a line break, repetition, and two choices between whole expressions: an expression is a list of
  choices, each a list of single and repeated characters. All but the last ignore case, of a statement that was made upper-case before.
\<close>

section \<open>Expressions\<close>

datatype char_class = Char char | Space | Digit | WordChar | AnyChar

definition accepts :: "char_class \<Rightarrow> char \<Rightarrow> bool" where
  "accepts k c =
     (case k of
        Char d \<Rightarrow> c = d
      | Space \<Rightarrow> c \<in> set [CHR 0x09, CHR 0x0A, CHR 0x0C, CHR 0x0D, CHR 0x20]
      | Digit \<Rightarrow> is_digit c
      | WordChar \<Rightarrow> is_digit c \<or> char_code c \<in> {65..90} \<or> char_code c \<in> {97..122} \<or> c = CHR ''_''
      | AnyChar \<Rightarrow> c \<noteq> CHR 0x0A)"

datatype item = One char_class | Many char_class

definition word :: "string \<Rightarrow> item list" where
  "word s = map (\<lambda>c. One (Char c)) s"

text \<open>Whether an expression matches at the beginning of a text, and anywhere in it.\<close>

fun matches :: "item list \<Rightarrow> string \<Rightarrow> bool" where
  "matches [] s = True"
| "matches (One k # is) [] = False"
| "matches (One k # is) (c # s) = (accepts k c \<and> matches is s)"
| "matches (Many k # is) [] = matches is []"
| "matches (Many k # is) (c # s) = (matches is (c # s) \<or> accepts k c \<and> matches (Many k # is) s)"

fun search :: "item list \<Rightarrow> string \<Rightarrow> bool" where
  "search is [] = matches is []"
| "search is (c # s) = (matches is (c # s) \<or> search is s)"

definition MatchString :: "item list list \<Rightarrow> string \<Rightarrow> bool" where
  "MatchString alts s = list_ex (\<lambda>is. search is s) alts"

section \<open>The detector\<close>

record unsupported_pattern =
  up_name :: string
  up_pattern :: "item list list"
  up_suggestion :: string
  up_severity :: string
  up_category :: string

record unsupported_feature =
  uf_feature :: string
  uf_sql :: string
  uf_suggestion :: string
  uf_severity :: string
  uf_category :: string

definition pattern :: "string \<Rightarrow> item list list \<Rightarrow> string \<Rightarrow> string \<Rightarrow> string \<Rightarrow> unsupported_pattern" where
  "pattern name expr suggestion severity category =
     \<lparr>up_name = name, up_pattern = expr, up_suggestion = suggestion, up_severity = severity, up_category = category\<rparr>"

text \<open>The patterns, in the groups and in the order of the source.\<close>

definition syntax_patterns :: "unsupported_pattern list" where
  "syntax_patterns =
     [pattern ''UPDATE ... LIMIT'' ([word ''UPDATE'' @ [One Space, Many Space] @ [Many AnyChar] @ [One Space, Many Space] @ word ''LIMIT'' @ [One Space, Many Space] @ [One Digit, Many Digit]])
        ''Use subquery: UPDATE ... WHERE id IN (SELECT id ... LIMIT n)'' ''error'' ''syntax'',
      pattern ''DELETE ... LIMIT'' ([word ''DELETE'' @ [One Space, Many Space] @ [Many AnyChar] @ [One Space, Many Space] @ word ''LIMIT'' @ [One Space, Many Space] @ [One Digit, Many Digit]])
        ''Use subquery: DELETE ... WHERE id IN (SELECT id ... LIMIT n)'' ''error'' ''syntax'',
      pattern ''STRAIGHT_JOIN'' ([word ''STRAIGHT_JOIN''])
        ''Use explicit JOIN order or pg_hint_plan extension'' ''warning'' ''syntax'',
      pattern ''FORCE INDEX'' ([word ''FORCE'' @ [One Space, Many Space] @ word ''INDEX''])
        ''Remove or use pg_hint_plan extension'' ''warning'' ''syntax'',
      pattern ''USE INDEX'' ([word ''USE'' @ [One Space, Many Space] @ word ''INDEX''])
        ''Remove or use pg_hint_plan extension'' ''warning'' ''syntax'',
      pattern ''IGNORE INDEX'' ([word ''IGNORE'' @ [One Space, Many Space] @ word ''INDEX''])
        ''Remove hint, let PostgreSQL optimizer decide'' ''warning'' ''syntax'',
      pattern ''INSERT DELAYED'' ([word ''INSERT'' @ [One Space, Many Space] @ word ''DELAYED''])
        ''Use regular INSERT (DELAYED is deprecated in MySQL 5.7+)'' ''warning'' ''syntax'',
      pattern ''PARTITION BY in CREATE TABLE'' ([word ''PARTITION'' @ [One Space, Many Space] @ word ''BY''])
        ''Rewrite using PostgreSQL declarative partitioning syntax'' ''error'' ''syntax'',
      pattern ''VALUES() function in INSERT ... ON DUPLICATE KEY UPDATE'' ([word ''ON'' @ [One Space, Many Space] @ word ''DUPLICATE'' @ [One Space, Many Space] @ word ''KEY'' @ [One Space, Many Space] @ word ''UPDATE'' @ [Many AnyChar] @ word ''VALUES'' @ [Many Space] @ word ''(''])
        ''Use EXCLUDED table reference instead of VALUES()'' ''error'' ''syntax'']"

definition function_patterns :: "unsupported_pattern list" where
  "function_patterns =
     [pattern ''FOUND_ROWS()'' ([word ''FOUND_ROWS'' @ [Many Space] @ word ''('' @ [Many Space] @ word '')''])
        ''Use COUNT(*) OVER() or separate COUNT query'' ''error'' ''function'',
      pattern ''GET_LOCK()'' ([word ''GET_LOCK'' @ [Many Space] @ word ''(''])
        ''Use pg_advisory_lock(key::BIGINT)'' ''error'' ''function'',
      pattern ''RELEASE_LOCK()'' ([word ''RELEASE_LOCK'' @ [Many Space] @ word ''(''])
        ''Use pg_advisory_unlock(key::BIGINT)'' ''error'' ''function'',
      pattern ''IS_FREE_LOCK()'' ([word ''IS_FREE_LOCK'' @ [Many Space] @ word ''(''])
        ''Query pg_locks system view'' ''error'' ''function'',
      pattern ''DATE_FORMAT()'' ([word ''DATE_FORMAT'' @ [Many Space] @ word ''(''])
        ''Use TO_CHAR(date, format) with PostgreSQL format strings'' ''error'' ''function'',
      pattern ''STR_TO_DATE()'' ([word ''STR_TO_DATE'' @ [Many Space] @ word ''(''])
        ''Use TO_DATE() or TO_TIMESTAMP() with PostgreSQL format'' ''error'' ''function'',
      pattern ''TIMESTAMPDIFF()'' ([word ''TIMESTAMPDIFF'' @ [Many Space] @ word ''(''])
        ''Use EXTRACT(EPOCH FROM (t2 - t1))'' ''error'' ''function'',
      pattern ''FORMAT()'' ([word ''FORMAT'' @ [Many Space] @ word ''('' @ [Many Space] @ [One Digit]])
        ''Use TO_CHAR(number, format)'' ''warning'' ''function'',
      pattern ''ENCRYPT()'' ([word ''ENCRYPT'' @ [Many Space] @ word ''(''])
        ''Use pgcrypto extension functions'' ''error'' ''function'',
      pattern ''PASSWORD()'' ([word ''PASSWORD'' @ [Many Space] @ word ''(''])
        ''Use crypt() or pgcrypto extension (PASSWORD is deprecated)'' ''warning'' ''function'',
      pattern ''INET_ATON()'' ([word ''INET_ATON'' @ [Many Space] @ word ''(''])
        ''Use inet data type and casting'' ''error'' ''function'',
      pattern ''INET_NTOA()'' ([word ''INET_NTOA'' @ [Many Space] @ word ''(''])
        ''Use inet data type and host() function'' ''error'' ''function'',
      pattern ''LOAD_FILE()'' ([word ''LOAD_FILE'' @ [Many Space] @ word ''(''])
        ''Security risk - not supported in PostgreSQL'' ''error'' ''function'']"

definition type_patterns :: "unsupported_pattern list" where
  "type_patterns =
     [pattern ''SET data type'' ([word ''CREATE'' @ [One Space, Many Space] @ word ''TABLE'' @ [Many AnyChar] @ [One Space, Many Space] @ word ''SET'' @ [Many Space] @ word ''(''])
        ''Use TEXT[] array or separate many-to-many table'' ''error'' ''type'',
      pattern ''GEOMETRY/SPATIAL types'' (map word [''GEOMETRY'', ''POINT'', ''LINESTRING'', ''POLYGON'', ''MULTIPOINT'', ''MULTILINESTRING'', ''MULTIPOLYGON'', ''GEOMETRYCOLLECTION''])
        ''Install and use PostGIS extension'' ''error'' ''type'']"

definition other_patterns :: "unsupported_pattern list" where
  "other_patterns =
     [pattern ''LOAD DATA INFILE'' ([word ''LOAD'' @ [One Space, Many Space] @ word ''DATA'' @ [One Space, Many Space] @ word ''LOCAL'' @ [One Space, Many Space] @ word ''INFILE'', word ''LOAD'' @ [One Space, Many Space] @ word ''DATA'' @ [One Space, Many Space] @ word ''INFILE''])
        ''Use PostgreSQL COPY FROM command'' ''error'' ''other'',
      pattern ''LOCK TABLES'' ([word ''LOCK'' @ [One Space, Many Space] @ word ''TABLES''])
        ''Use transaction-level locks or LOCK TABLE (different syntax)'' ''warning'' ''other'',
      pattern ''UNLOCK TABLES'' ([word ''UNLOCK'' @ [One Space, Many Space] @ word ''TABLES''])
        ''Locks are released at transaction end in PostgreSQL'' ''info'' ''other'',
      pattern ''User variable (@variable)'' ([word ''@'' @ [One WordChar, Many WordChar]])
        ''Use temporary tables or session variables'' ''warning'' ''other'']"

definition buildUnsupportedPatterns :: "unsupported_pattern list" where
  "buildUnsupportedPatterns = syntax_patterns @ function_patterns @ type_patterns @ other_patterns"

definition Detect :: "string \<Rightarrow> unsupported_feature list" where
  "Detect sql =
     map (\<lambda>p. \<lparr>uf_feature = up_name p, uf_sql = sql, uf_suggestion = up_suggestion p, uf_severity = up_severity p, uf_category = up_category p\<rparr>)
       (filter (\<lambda>p. MatchString (up_pattern p) (ToUpper sql)) buildUnsupportedPatterns)"

text \<open>The rewriter's \<open>DetectUnsupported\<close>; the argument says whether it has a detector.\<close>

definition DetectUnsupported :: "bool \<Rightarrow> string \<Rightarrow> unsupported_feature list" where
  "DetectUnsupported detector sql = (if \<not> detector then [] else Detect sql)"

section \<open>Matching agrees with the language of an expression\<close>

text \<open>The texts that an expression describes, as a relation: a repetition stands for any number of accepted characters.\<close>

inductive describes :: "item list \<Rightarrow> string \<Rightarrow> bool" where
  describes_Nil: "describes [] []"
| describes_One: "accepts k c \<Longrightarrow> describes is u \<Longrightarrow> describes (One k # is) (c # u)"
| describes_Many: "list_all (accepts k) v \<Longrightarrow> describes is u \<Longrightarrow> describes (Many k # is) (v @ u)"

inductive_cases describes_NilE: "describes [] s"
inductive_cases describes_OneE: "describes (One k # is) s"
inductive_cases describes_ManyE: "describes (Many k # is) s"

lemma describes_Many_more: "accepts k c \<Longrightarrow> describes (Many k # is) u \<Longrightarrow> describes (Many k # is) (c # u)"
proof (erule describes_ManyE)
  fix v w
  assume "accepts k c" "u = v @ w" "list_all (accepts k) v" "describes is w"
  then show ?thesis using describes_Many [of k "c # v" "is" w] by simp
qed

lemma describes_Many_none: "describes is u \<Longrightarrow> describes (Many k # is) u"
  using describes_Many [of k "[]"] by simp

lemma matches_sound: "matches is s \<Longrightarrow> \<exists>u v. s = u @ v \<and> describes is u"
proof (induction "is" s rule: matches.induct)
  case (3 k "is" c s)
  then obtain u v where "s = u @ v" "describes is u" by auto
  then show ?case using 3 describes_One by (metis append_Cons matches.simps(3))
next
  case (4 k "is")
  then show ?case using describes_Many_none by fastforce
next
  case (5 k "is" c s)
  then consider "matches is (c # s)" | "accepts k c" "matches (Many k # is) s" by auto
  then show ?case
  proof cases
    case 1
    then show ?thesis using "5.IH"(1) describes_Many_none by blast
  next
    case 2
    then obtain u v where "s = u @ v" "describes (Many k # is) u" using "5.IH"(2) by blast
    then show ?thesis using describes_Many_more [OF 2(1)] by (metis append_Cons)
  qed
qed (auto intro: describes_Nil)

lemma matches_Many: "list_all (accepts k) v \<Longrightarrow> matches is s \<Longrightarrow> matches (Many k # is) (v @ s)"
proof (induction v)
  case Nil
  then show ?case by (cases s) auto
qed simp

lemma matches_complete: "describes is u \<Longrightarrow> matches is (u @ v)"
  by (induction rule: describes.induct) (simp_all add: matches_Many)

lemma matches_iff: "matches is s \<longleftrightarrow> (\<exists>u v. s = u @ v \<and> describes is u)"
  using matches_sound matches_complete by blast

lemma search_iff: "search is s \<longleftrightarrow> (\<exists>w u v. s = w @ u @ v \<and> describes is u)"
proof (induction s)
  case Nil
  then show ?case by (simp add: matches_iff)
next
  case (Cons c s)
  have "(\<exists>w u v. c # s = w @ u @ v \<and> describes is u)
      \<longleftrightarrow> (\<exists>u v. c # s = u @ v \<and> describes is u) \<or> (\<exists>w u v. s = w @ u @ v \<and> describes is u)"
    by (subst Cons_eq_append_conv) auto
  then show ?case using Cons by (simp add: matches_iff)
qed

text \<open>Detection is exact. The features reported for a statement are, in the order of the table, those of the patterns of which some choice describes
  a part of the upper-case statement.\<close>

lemma detect_exact:
  "map uf_feature (Detect sql) =
     map up_name (filter (\<lambda>p. \<exists>is w u v. is \<in> set (up_pattern p) \<and> ToUpper sql = w @ u @ v \<and> describes is u) buildUnsupportedPatterns)"
proof -
  have eq: "MatchString (up_pattern p) (ToUpper sql)
      \<longleftrightarrow> (\<exists>is w u v. is \<in> set (up_pattern p) \<and> ToUpper sql = w @ u @ v \<and> describes is u)" for p
    by (auto simp: MatchString_def list_ex_iff search_iff)
  show ?thesis by (simp only: Detect_def map_map comp_def unsupported_feature.simps eq)
qed

text \<open>Words are looked for in string literals too.\<close>

lemma literal_reported: "map uf_feature (Detect (''SELECT '' @ [CHR 0x27] @ ''appointment'' @ [CHR 0x27])) = [''GEOMETRY/SPATIAL types'']"
  by code_simp

end
