(* ===== verification/App_Config.thy ===== *)
theory App_Config
  imports Go_Strings
begin

text \<open>
  The configuration of the proxy, \<open>internal/config/config.go\<close>: its sections as records, the defaults, loading and validation. Parsing YAML into
  the defaults belongs to the yaml library and is the argument \<open>unmarshal\<close>. Durations are nanoseconds.
\<close>

section \<open>Sections\<close>

record listen_config =
  lc_host :: string
  lc_port :: int
  lc_max_connections :: int
  lc_max_packet_size :: int
  lc_read_timeout :: int
  lc_write_timeout :: int

record postgres_config =
  pg_host :: string
  pg_port :: int
  pg_database :: string
  pg_user :: string
  pg_password :: string
  pg_max_pool_size :: int
  pg_connection_mode :: string
  pg_ssl_mode :: string

record auth_config =
  au_mode :: string
  au_allowed_users :: "string list"

record security_config =
  se_rate_limit :: int
  se_max_connections_per_ip :: int
  se_enable_tls :: bool
  se_tls_cert :: string
  se_tls_key :: string
  se_blacklist :: "string list"

record sqlrewrite_config =
  sr_enabled :: bool
  sr_custom_rules :: string
  sr_debug_sql :: bool

record observability_config =
  ob_metrics_port :: int
  ob_log_level :: string
  ob_log_format :: string
  ob_enable_query_log :: bool
  ob_redact_parameters :: bool
  ob_enable_tracing :: bool
  ob_tracing_endpoint :: string

record schema_cache_config =
  sc_enabled :: bool
  sc_ttl :: int
  sc_max_entries :: int
  sc_invalidate_on_ddl :: bool

record binlog_config =
  bc_enabled :: bool
  bc_dir :: string
  bc_max_file_size :: int
  bc_max_files :: int
  bc_sync_mode :: string
  bc_format :: string
  bc_flush_interval :: int
  bc_buffer_size :: int
  bc_log_ddl :: bool
  bc_log_dml :: bool
  bc_log_select :: bool

record app_config =
  ac_server :: listen_config
  ac_postgres :: postgres_config
  ac_auth :: auth_config
  ac_security :: security_config
  ac_sql_rewrite :: sqlrewrite_config
  ac_observability :: observability_config
  ac_schema_cache :: schema_cache_config
  ac_binlog :: binlog_config

section \<open>Loading\<close>

definition app_DefaultConfig :: app_config where
  "app_DefaultConfig =
     \<lparr>ac_server = \<lparr>lc_host = ''0.0.0.0'', lc_port = 3306, lc_max_connections = 1000, lc_max_packet_size = 16777216,
                   lc_read_timeout = 30 * 1000000000, lc_write_timeout = 30 * 1000000000\<rparr>,
      ac_postgres = \<lparr>pg_host = ''localhost'', pg_port = 5432, pg_database = ''postgres'', pg_user = ''postgres'', pg_password = [],
                     pg_max_pool_size = 100, pg_connection_mode = ''session_affinity'', pg_ssl_mode = ''prefer''\<rparr>,
      ac_auth = \<lparr>au_mode = ''pass_through'', au_allowed_users = []\<rparr>,
      ac_security = \<lparr>se_rate_limit = 1000, se_max_connections_per_ip = 10, se_enable_tls = False, se_tls_cert = [], se_tls_key = [],
                     se_blacklist = [''COM_BINLOG_DUMP'', ''FLUSH PRIVILEGES'']\<rparr>,
      ac_sql_rewrite = \<lparr>sr_enabled = True, sr_custom_rules = [], sr_debug_sql = False\<rparr>,
      ac_observability = \<lparr>ob_metrics_port = 9090, ob_log_level = ''info'', ob_log_format = ''json'', ob_enable_query_log = False,
                          ob_redact_parameters = True, ob_enable_tracing = False, ob_tracing_endpoint = ''localhost:4318''\<rparr>,
      ac_schema_cache = \<lparr>sc_enabled = True, sc_ttl = 5 * 60 * 1000000000, sc_max_entries = 10000, sc_invalidate_on_ddl = True\<rparr>,
      ac_binlog = \<lparr>bc_enabled = True, bc_dir = ''./data/binlog'', bc_max_file_size = 100 * 1024 * 1024, bc_max_files = 10,
                   bc_sync_mode = ''async'', bc_format = ''json'', bc_flush_interval = 1000000000, bc_buffer_size = 64 * 1024,
                   bc_log_ddl = True, bc_log_dml = True, bc_log_select = False\<rparr>\<rparr>"

datatype 'b config_file = NoSuchFile | Unreadable | ConfigBytes 'b

datatype config_error = ConfigReadFailed | ConfigParseFailed

definition LoadConfig :: "('b \<Rightarrow> app_config \<Rightarrow> app_config option) \<Rightarrow> 'b config_file \<Rightarrow> config_error + app_config" where
  "LoadConfig unmarshal file =
     (case file of
        NoSuchFile \<Rightarrow> Inr app_DefaultConfig
      | Unreadable \<Rightarrow> Inl ConfigReadFailed
      | ConfigBytes data \<Rightarrow> (case unmarshal data app_DefaultConfig of None \<Rightarrow> Inl ConfigParseFailed | Some cfg \<Rightarrow> Inr cfg))"

section \<open>Validation\<close>

datatype invalid_config =
    InvalidServerPort int | TooFewConnections | PacketTooSmall | NoPostgresHost | InvalidPostgresPort int | PoolTooSmall
  | InvalidAuthMode string | MissingCertificate

definition Validate :: "app_config \<Rightarrow> invalid_config option" where
  "Validate c =
     (if lc_port (ac_server c) < 1 \<or> lc_port (ac_server c) > 65535 then Some (InvalidServerPort (lc_port (ac_server c)))
      else if lc_max_connections (ac_server c) < 1 then Some TooFewConnections
      else if lc_max_packet_size (ac_server c) < 1024 then Some PacketTooSmall
      else if pg_host (ac_postgres c) = [] then Some NoPostgresHost
      else if pg_port (ac_postgres c) < 1 \<or> pg_port (ac_postgres c) > 65535 then Some (InvalidPostgresPort (pg_port (ac_postgres c)))
      else if pg_max_pool_size (ac_postgres c) < 1 then Some PoolTooSmall
      else if au_mode (ac_auth c) \<noteq> ''pass_through'' \<and> au_mode (ac_auth c) \<noteq> ''proxy_auth'' then Some (InvalidAuthMode (au_mode (ac_auth c)))
      else if se_enable_tls (ac_security c) \<and> (se_tls_cert (ac_security c) = [] \<or> se_tls_key (ac_security c) = [])
      then Some MissingCertificate
      else None)"

lemma default_config_valid: "Validate app_DefaultConfig = None"
  by (simp add: Validate_def app_DefaultConfig_def)

lemma Validate_bounds:
  "Validate c = None \<Longrightarrow> 1 \<le> lc_port (ac_server c) \<and> lc_port (ac_server c) \<le> 65535 \<and> 1 \<le> pg_port (ac_postgres c)
     \<and> pg_port (ac_postgres c) \<le> 65535 \<and> 1 \<le> pg_max_pool_size (ac_postgres c)"
  by (auto simp: Validate_def split: if_splits)

end
