(* ===== verification/Session.thy ===== *)
theory Session
  imports Binlog_Values
begin

text \<open>
  Client sessions, \<open>pkg/session/session.go\<close>: the session record with its variables, prepared statements
  and transaction state, and the session manager. A PostgreSQL connection belongs to the pgx library; it
  is a value of type \<open>'c\<close>, and executing a statement on it is the argument \<open>exec\<close> (success flag and the
  connection afterwards), closing it the argument \<open>close\<close>.
\<close>

section \<open>State\<close>

record prepared_statement =
  ps_id :: u32
  ps_sql :: string
  ps_original_sql :: string
  ps_pg_name :: string
  ps_param_count :: int
  ps_param_types :: "int list"
  ps_column_count :: int
  ps_column_types :: "int list"
  ps_column_names :: "string list"

record 'c session =
  s_id :: string
  s_user :: string
  s_database :: string
  s_charset :: string
  s_autocommit :: bool
  s_in_transaction :: bool
  s_last_insert_id :: u64
  s_created_at :: int
  s_last_active_at :: int
  s_client_addr :: string
  s_session_vars :: "string \<rightharpoonup> go_value"
  s_user_vars :: "string \<rightharpoonup> go_value"
  s_prepared_stmts :: "u32 \<rightharpoonup> prepared_statement"
  s_auto_increment_tables :: "string \<rightharpoonup> string"
  s_pg_conn :: "'c option"

datatype session_error = NoConnection | CommitFailed | BeginFailed | RollbackFailed | CloseFailed

text \<open>\<open>NewSession\<close>; the random identifier and the two clock readings are inputs.\<close>

definition NewSession :: "string \<Rightarrow> int \<Rightarrow> int \<Rightarrow> string \<Rightarrow> string \<Rightarrow> string \<Rightarrow> 'c session" where
  "NewSession uuid now now' user database clientAddr =
     \<lparr>s_id = uuid, s_user = user, s_database = database, s_charset = ''utf8mb4'', s_autocommit = True,
      s_in_transaction = False, s_last_insert_id = 0, s_created_at = now, s_last_active_at = now',
      s_client_addr = clientAddr, s_session_vars = Map.empty, s_user_vars = Map.empty,
      s_prepared_stmts = Map.empty, s_auto_increment_tables = Map.empty, s_pg_conn = None\<rparr>"

section \<open>Variables, statements and plain fields\<close>

definition SetPGConn :: "'c option \<Rightarrow> 'c session \<Rightarrow> 'c session" where
  "SetPGConn conn s = s\<lparr>s_pg_conn := conn\<rparr>"

definition GetPGConn :: "'c session \<Rightarrow> 'c option" where
  "GetPGConn s = s_pg_conn s"

definition SetSessionVar :: "string \<Rightarrow> go_value \<Rightarrow> 'c session \<Rightarrow> 'c session" where
  "SetSessionVar key v s = s\<lparr>s_session_vars := (s_session_vars s)(key \<mapsto> v)\<rparr>"

definition GetSessionVar :: "'c session \<Rightarrow> string \<Rightarrow> go_value option" where
  "GetSessionVar s key = s_session_vars s key"

definition SetUserVar :: "string \<Rightarrow> go_value \<Rightarrow> 'c session \<Rightarrow> 'c session" where
  "SetUserVar key v s = s\<lparr>s_user_vars := (s_user_vars s)(key \<mapsto> v)\<rparr>"

definition GetUserVar :: "'c session \<Rightarrow> string \<Rightarrow> go_value option" where
  "GetUserVar s key = s_user_vars s key"

definition put_stmt :: "u32 \<Rightarrow> prepared_statement \<Rightarrow> 'c session \<Rightarrow> 'c session" where
  "put_stmt k stmt s = s\<lparr>s_prepared_stmts := (s_prepared_stmts s)(k \<mapsto> stmt)\<rparr>"

definition AddPreparedStatement :: "prepared_statement \<Rightarrow> 'c session \<Rightarrow> 'c session" where
  "AddPreparedStatement stmt s = put_stmt (ps_id stmt) stmt s"

definition GetPreparedStatement :: "'c session \<Rightarrow> u32 \<Rightarrow> prepared_statement option" where
  "GetPreparedStatement s k = s_prepared_stmts s k"

definition RemovePreparedStatement :: "u32 \<Rightarrow> 'c session \<Rightarrow> 'c session" where
  "RemovePreparedStatement k s = s\<lparr>s_prepared_stmts := (s_prepared_stmts s)(k := None)\<rparr>"

definition GetPreparedStatementCount :: "'c session \<Rightarrow> nat" where
  "GetPreparedStatementCount s = card (dom (GetPreparedStatement s))"

definition UpdateLastActive :: "int \<Rightarrow> 'c session \<Rightarrow> 'c session" where
  "UpdateLastActive now s = s\<lparr>s_last_active_at := now\<rparr>"

definition SetLastInsertID :: "u64 \<Rightarrow> 'c session \<Rightarrow> 'c session" where
  "SetLastInsertID v s = s\<lparr>s_last_insert_id := v\<rparr>"

definition GetLastInsertID :: "'c session \<Rightarrow> u64" where
  "GetLastInsertID s = s_last_insert_id s"

definition MarkTableHasAutoIncrement :: "string \<Rightarrow> string \<Rightarrow> 'c session \<Rightarrow> 'c session" where
  "MarkTableHasAutoIncrement tableName columnName s =
     s\<lparr>s_auto_increment_tables := (s_auto_increment_tables s)(tableName \<mapsto> columnName)\<rparr>"

interpretation session_vars: keyed_map "GetSessionVar :: 'c session \<Rightarrow> _" SetSessionVar
  by unfold_locales (simp add: GetSessionVar_def SetSessionVar_def)

interpretation user_vars: keyed_map "GetUserVar :: 'c session \<Rightarrow> _" SetUserVar
  by unfold_locales (simp add: GetUserVar_def SetUserVar_def)

interpretation auto_inc_tables: keyed_map "s_auto_increment_tables :: 'c session \<Rightarrow> _" MarkTableHasAutoIncrement
  by unfold_locales (simp add: MarkTableHasAutoIncrement_def)

interpretation stmts: keyed_store "GetPreparedStatement :: 'c session \<Rightarrow> _" put_stmt RemovePreparedStatement
  by unfold_locales (simp_all add: GetPreparedStatement_def put_stmt_def RemovePreparedStatement_def)

section \<open>Transactions\<close>

definition run_exec :: "(string \<Rightarrow> 'c \<Rightarrow> bool \<times> 'c) \<Rightarrow> string \<Rightarrow> 'c \<Rightarrow> 'c session \<Rightarrow> bool \<times> 'c session" where
  "run_exec exec sql c s = (let (ok, c') = exec sql c in (ok, s\<lparr>s_pg_conn := Some c'\<rparr>))"

definition SetAutocommit ::
    "(string \<Rightarrow> 'c \<Rightarrow> bool \<times> 'c) \<Rightarrow> bool \<Rightarrow> 'c session \<Rightarrow> (session_error + unit) \<times> 'c session" where
  "SetAutocommit exec autocommit s =
     (if s_autocommit s = autocommit then (Inr (), s)
      else let s = s\<lparr>s_autocommit := autocommit\<rparr>
           in case s_pg_conn s of
                None \<Rightarrow> (Inr (), s)
              | Some c \<Rightarrow>
                  if autocommit \<and> s_in_transaction s
                  then (let (ok, s) = run_exec exec ''COMMIT'' c s
                        in if ok then (Inr (), s\<lparr>s_in_transaction := False\<rparr>) else (Inl CommitFailed, s))
                  else if \<not> autocommit \<and> \<not> s_in_transaction s
                  then (let (ok, s) = run_exec exec ''BEGIN'' c s
                        in if ok then (Inr (), s\<lparr>s_in_transaction := True\<rparr>) else (Inl BeginFailed, s))
                  else (Inr (), s))"

definition BeginTransaction ::
    "(string \<Rightarrow> 'c \<Rightarrow> bool \<times> 'c) \<Rightarrow> 'c session \<Rightarrow> (session_error + unit) \<times> 'c session" where
  "BeginTransaction exec s =
     (if s_in_transaction s then (Inr (), s)
      else case s_pg_conn s of
             None \<Rightarrow> (Inl NoConnection, s)
           | Some c \<Rightarrow>
               (let (ok, s) = run_exec exec ''BEGIN'' c s
                in if ok then (Inr (), s\<lparr>s_in_transaction := True\<rparr>) else (Inl BeginFailed, s)))"

definition CommitTransaction ::
    "(string \<Rightarrow> 'c \<Rightarrow> bool \<times> 'c) \<Rightarrow> 'c session \<Rightarrow> (session_error + unit) \<times> 'c session" where
  "CommitTransaction exec s =
     (if \<not> s_in_transaction s then (Inr (), s)
      else case s_pg_conn s of
             None \<Rightarrow> (Inl NoConnection, s)
           | Some c \<Rightarrow>
               (let (ok, s) = run_exec exec ''COMMIT'' c s
                in if ok then (Inr (), s\<lparr>s_in_transaction := False\<rparr>) else (Inl CommitFailed, s)))"

definition RollbackTransaction ::
    "(string \<Rightarrow> 'c \<Rightarrow> bool \<times> 'c) \<Rightarrow> 'c session \<Rightarrow> (session_error + unit) \<times> 'c session" where
  "RollbackTransaction exec s =
     (if \<not> s_in_transaction s then (Inr (), s)
      else case s_pg_conn s of
             None \<Rightarrow> (Inl NoConnection, s)
           | Some c \<Rightarrow>
               (let (ok, s) = run_exec exec ''ROLLBACK'' c s
                in if ok then (Inr (), s\<lparr>s_in_transaction := False\<rparr>) else (Inl RollbackFailed, s)))"

text \<open>\<open>Close\<close> rolls an open transaction back, ignoring the result, and closes the connection. The second
  component of the result is the connection that was given up.\<close>

definition Close ::
    "(string \<Rightarrow> 'c \<Rightarrow> bool \<times> 'c) \<Rightarrow> ('c \<Rightarrow> bool \<times> 'c) \<Rightarrow> 'c session
     \<Rightarrow> (session_error + unit) \<times> 'c option \<times> 'c session" where
  "Close exec close s =
     (case s_pg_conn s of
        None \<Rightarrow> (Inr (), None, s)
      | Some c \<Rightarrow>
          (let c = (if s_in_transaction s then snd (exec ''ROLLBACK'' c) else c);
               (ok, c) = close c
           in (if ok then Inr () else Inl CloseFailed, Some c, s\<lparr>s_pg_conn := None\<rparr>)))"

section \<open>The session manager\<close>

record 'c manager =
  m_sessions :: "string \<rightharpoonup> 'c session"
  m_closed :: "'c option list"

definition NewManager :: "'c manager" where
  "NewManager = \<lparr>m_sessions = Map.empty, m_closed = []\<rparr>"

definition put_session :: "string \<Rightarrow> 'c session \<Rightarrow> 'c manager \<Rightarrow> 'c manager" where
  "put_session k s m = m\<lparr>m_sessions := (m_sessions m)(k \<mapsto> s)\<rparr>"

definition AddSession :: "'c session \<Rightarrow> 'c manager \<Rightarrow> 'c manager" where
  "AddSession s m = put_session (s_id s) s m"

definition GetSession :: "'c manager \<Rightarrow> string \<Rightarrow> 'c session option" where
  "GetSession m k = m_sessions m k"

definition RemoveSession ::
    "(string \<Rightarrow> 'c \<Rightarrow> bool \<times> 'c) \<Rightarrow> ('c \<Rightarrow> bool \<times> 'c) \<Rightarrow> string \<Rightarrow> 'c manager \<Rightarrow> 'c manager" where
  "RemoveSession exec close k m =
     (case m_sessions m k of
        None \<Rightarrow> m
      | Some s \<Rightarrow>
          (let (_, c, _) = Close exec close s
           in \<lparr>m_sessions = (m_sessions m)(k := None), m_closed = m_closed m @ [c]\<rparr>))"

definition GetAllSessions :: "string list \<Rightarrow> 'c manager \<Rightarrow> 'c session list" where
  "GetAllSessions order m = List.map_filter (m_sessions m) order"

definition SessionCount :: "'c manager \<Rightarrow> nat" where
  "SessionCount m = card (dom (m_sessions m))"

interpretation manager_store: keyed_store GetSession put_session "RemoveSession exec close" for exec close
  by unfold_locales
     (auto simp: GetSession_def put_session_def RemoveSession_def Let_def split: option.splits prod.splits)

section \<open>Transaction tracking\<close>

datatype session_op = OpSetAutocommit bool | OpBegin | OpCommit | OpRollback

primrec session_step ::
    "(string \<Rightarrow> 'c \<Rightarrow> bool \<times> 'c) \<Rightarrow> session_op \<Rightarrow> 'c session \<Rightarrow> (session_error + unit) \<times> 'c session" where
  "session_step exec (OpSetAutocommit b) s = SetAutocommit exec b s"
| "session_step exec OpBegin s = BeginTransaction exec s"
| "session_step exec OpCommit s = CommitTransaction exec s"
| "session_step exec OpRollback s = RollbackTransaction exec s"

fun run_session ::
    "(string \<Rightarrow> 'c \<Rightarrow> bool \<times> 'c) \<Rightarrow> session_op list \<Rightarrow> 'c session \<Rightarrow> (session_error + unit) list \<times> 'c session" where
  "run_session exec [] s = ([], s)"
| "run_session exec (op # ops) s =
     (let (r, s) = session_step exec op s; (rs, s) = run_session exec ops s in (r # rs, s))"

text \<open>
  What PostgreSQL documents of BEGIN, COMMIT and ROLLBACK: a successful BEGIN leaves the connection in a
  transaction block, a successful COMMIT or ROLLBACK outside of one, and no failing statement opens one.
\<close>

definition pg_transactions :: "(string \<Rightarrow> 'c \<Rightarrow> bool \<times> 'c) \<Rightarrow> ('c \<Rightarrow> bool) \<Rightarrow> bool" where
  "pg_transactions exec tx \<longleftrightarrow>
     (\<forall>c c'. exec ''BEGIN'' c = (True, c') \<longrightarrow> tx c')
     \<and> (\<forall>c c'. exec ''COMMIT'' c = (True, c') \<longrightarrow> \<not> tx c')
     \<and> (\<forall>c c'. exec ''ROLLBACK'' c = (True, c') \<longrightarrow> \<not> tx c')
     \<and> (\<forall>q c c'. exec q c = (False, c') \<longrightarrow> tx c' \<longrightarrow> tx c)"

text \<open>The session never misses an open transaction of its connection, and has a connection.\<close>

definition covers :: "('c \<Rightarrow> bool) \<Rightarrow> 'c session \<Rightarrow> bool" where
  "covers tx s \<longleftrightarrow> (\<exists>c. s_pg_conn s = Some c \<and> (tx c \<longrightarrow> s_in_transaction s))"

definition mirrors :: "('c \<Rightarrow> bool) \<Rightarrow> 'c session \<Rightarrow> bool" where
  "mirrors tx s \<longleftrightarrow> (\<exists>c. s_pg_conn s = Some c \<and> (tx c \<longleftrightarrow> s_in_transaction s))"

lemmas session_ops =
  SetAutocommit_def BeginTransaction_def CommitTransaction_def RollbackTransaction_def run_exec_def Let_def

lemma session_step_covers:
  assumes "pg_transactions exec tx" and "covers tx s" and "session_step exec op s = (r, s')"
  shows "covers tx s'"
  using assms
  by (cases op) (auto simp: session_ops pg_transactions_def covers_def split: if_splits prod.splits)

lemma session_step_mirrors:
  assumes "pg_transactions exec tx" and "mirrors tx s" and "session_step exec op s = (Inr (), s')"
  shows "mirrors tx s'"
  using assms
  by (cases op) (auto simp: session_ops pg_transactions_def mirrors_def split: if_splits prod.splits)

text \<open>C8: Transaction tracking. Through any sequence of autocommit changes, BEGIN, COMMIT and ROLLBACK requests
  on a session with a connection, with any of them failing, the session's flag covers the real state:
  whenever PostgreSQL is in a transaction block, the session knows it. If none of the operations
  returns an error, the flag is exact.\<close>

theorem session_tracks_transactions:
  assumes "pg_transactions exec tx" and "run_session exec ops s = (rs, s')"
  shows "(covers tx s \<longrightarrow> covers tx s') \<and> (mirrors tx s \<and> (\<forall>r \<in> set rs. r = Inr ()) \<longrightarrow> mirrors tx s')"
  using assms(2)
proof (induction ops arbitrary: s rs)
  case Nil
  then show ?case by simp
next
  case (Cons op ops)
  obtain r s1 where step: "session_step exec op s = (r, s1)" by fastforce
  obtain rs1 where run: "run_session exec ops s1 = (rs1, s')" and "rs = r # rs1"
    using Cons.prems step by (auto split: prod.splits)
  then show ?case
    using Cons.IH [OF run] session_step_covers [OF assms(1) _ step] session_step_mirrors [OF assms(1)] step
    by auto
qed

text \<open>A connection that is just the transaction flag, with statements that always succeed.\<close>

definition flag_exec :: "string \<Rightarrow> bool \<Rightarrow> bool \<times> bool" where
  "flag_exec q c = (True, if q = ''BEGIN'' then True else if q = ''COMMIT'' \<or> q = ''ROLLBACK'' then False else c)"

lemma flag_exec_transactions: "pg_transactions flag_exec (\<lambda>c. c)"
  by (simp add: pg_transactions_def flag_exec_def)

definition sample_session :: "bool session" where
  "sample_session = SetPGConn (Some False) (NewSession ''a'' 0 0 ''root'' ''db'' ''127.0.0.1'')"

theorem session_tracks_transactions_witness:
  "mirrors (\<lambda>c. c) (snd (run_session flag_exec [OpBegin, OpCommit, OpSetAutocommit False] sample_session))
   \<and> s_in_transaction (snd (run_session flag_exec [OpBegin, OpCommit, OpSetAutocommit False] sample_session))"
proof -
  let ?r = "run_session flag_exec [OpBegin, OpCommit, OpSetAutocommit False] sample_session"
  have "mirrors (\<lambda>c. c) sample_session"
    unfolding mirrors_def by (rule exI [of _ False]) (simp add: sample_session_def SetPGConn_def NewSession_def)
  moreover have "\<forall>r \<in> set (fst ?r). r = Inr ()" and "s_in_transaction (snd ?r)"
    by (simp_all add: session_ops flag_exec_def sample_session_def SetPGConn_def NewSession_def)
  ultimately show ?thesis
    using session_tracks_transactions [OF flag_exec_transactions, of _ sample_session "fst ?r" "snd ?r"]
    by (metis prod.collapse)
qed

text \<open>A failed switch of autocommit is remembered as done. When \<open>SetAutocommit\<close> fails because BEGIN fails,
  the session has already recorded the new value: the client's retry reports success without sending
  anything to PostgreSQL, and no transaction is open although autocommit is off.\<close>

theorem autocommit_failure_sticks:
  assumes "s_autocommit s" and "\<not> s_in_transaction s" and "s_pg_conn s = Some c"
    and "exec ''BEGIN'' c = (False, c')"
  shows "\<exists>s'. SetAutocommit exec False s = (Inl BeginFailed, s') \<and> SetAutocommit exec False s' = (Inr (), s')
     \<and> \<not> s_autocommit s' \<and> \<not> s_in_transaction s'"
  using assms by (simp add: SetAutocommit_def run_exec_def)

theorem autocommit_failure_sticks_witness:
  "\<exists>s'. SetAutocommit (\<lambda>_ c. (False, c)) False sample_session = (Inl BeginFailed, s')
     \<and> SetAutocommit (\<lambda>_ c. (False, c)) False s' = (Inr (), s')"
  using autocommit_failure_sticks [of sample_session False "\<lambda>_ c. (False, c)" False]
  by (auto simp: sample_session_def SetPGConn_def NewSession_def)

text \<open>With autocommit off, the transaction after a COMMIT is not opened. A session that switches autocommit
  off starts a transaction; after its COMMIT the session is outside of any transaction with autocommit
  still off, and asking for autocommit off again changes nothing, so later statements run outside of a
  transaction where MySQL would open the next one implicitly.\<close>

theorem autocommit_off_after_commit:
  assumes "s_autocommit s" and "\<not> s_in_transaction s" and "s_pg_conn s = Some c"
    and "\<And>q d. fst (exec q d)"
  shows "\<exists>s1 s2. SetAutocommit exec False s = (Inr (), s1) \<and> s_in_transaction s1
     \<and> CommitTransaction exec s1 = (Inr (), s2) \<and> \<not> s_autocommit s2 \<and> \<not> s_in_transaction s2
     \<and> SetAutocommit exec False s2 = (Inr (), s2)"
  using assms by (simp add: session_ops case_prod_beta)

theorem autocommit_off_after_commit_witness:
  "\<exists>s1 s2. SetAutocommit flag_exec False sample_session = (Inr (), s1)
     \<and> CommitTransaction flag_exec s1 = (Inr (), s2) \<and> \<not> s_autocommit s2 \<and> \<not> s_in_transaction s2"
  using autocommit_off_after_commit [of sample_session False flag_exec]
  by (auto simp: sample_session_def SetPGConn_def NewSession_def flag_exec_def)

text \<open>Removing a session. \<open>RemoveSession\<close> forgets exactly the named session, the others are untouched; if the
  session covered its connection and the ROLLBACK is accepted, the connection that is closed has no
  transaction left open; removing an unknown id changes nothing.\<close>

theorem remove_session:
  assumes "pg_transactions exec tx" and "\<And>c. fst (exec ''ROLLBACK'' c)"
    and "\<And>c. tx (snd (close c)) \<longrightarrow> tx c"
  shows "GetSession (RemoveSession exec close k m) k' = (if k' = k then None else GetSession m k')
    \<and> (GetSession m k = None \<longrightarrow> RemoveSession exec close k m = m)
    \<and> (\<forall>s. GetSession m k = Some s \<and> covers tx s \<longrightarrow>
         (\<exists>c. m_closed (RemoveSession exec close k m) = m_closed m @ [Some c] \<and> \<not> tx c))"
proof -
  have rb: "\<not> tx (snd (exec ''ROLLBACK'' c))" for c
    using assms(1,2) unfolding pg_transactions_def by (metis prod.collapse)
  then have closed: "\<not> tx (snd (close (snd (exec ''ROLLBACK'' c))))" for c
    using assms(3) by blast
  have "\<exists>c. m_closed (RemoveSession exec close k m) = m_closed m @ [Some c] \<and> \<not> tx c"
    if "GetSession m k = Some s" "covers tx s" for s
    using that rb assms(3) closed
    by (auto simp: GetSession_def RemoveSession_def Close_def covers_def Let_def case_prod_beta split: if_splits)
  then show ?thesis
    using manager_store.lookup_del [of exec close k m k'] by (auto simp: GetSession_def RemoveSession_def)
qed

definition flag_close :: "bool \<Rightarrow> bool \<times> bool" where
  "flag_close c = (True, c)"

theorem remove_session_witness:
  "\<exists>c. m_closed (RemoveSession flag_exec flag_close ''a''
         (AddSession (snd (BeginTransaction flag_exec sample_session)) NewManager)) = [Some c] \<and> \<not> c"
proof -
  let ?s = "snd (BeginTransaction flag_exec sample_session)"
  let ?m = "AddSession ?s NewManager"
  have "GetSession ?m ''a'' = Some ?s" "s_in_transaction ?s" "s_pg_conn ?s = Some True" "m_closed ?m = []"
    by (simp_all add: GetSession_def AddSession_def put_session_def NewManager_def session_ops
        flag_exec_def sample_session_def SetPGConn_def NewSession_def)
  moreover from this have "covers (\<lambda>c. c) ?s" unfolding covers_def by blast
  ultimately show ?thesis
    using remove_session [OF flag_exec_transactions, of flag_close "''a''" ?m "''a''"]
    by (simp add: flag_exec_def flag_close_def)
qed

end
