(* ===== verification/Pool.thy ===== *)
theory Pool
  imports Contracts Go_Strings
begin

text \<open>
  The PostgreSQL connection pool of \<open>internal/pool/pool.go\<close>. A connection is a handle of type \<open>'c\<close>; what
  the pgx library and the server answer is an environment: parsing a connection string, the n-th attempt to
  connect, executing a statement, closing, and the n-th acquisition from the shared pgxpool.
\<close>

section \<open>State\<close>

datatype connection_mode = ModeSessionAffinity | ModePooled | ModeHybrid | ModeOther string

record pool_config =
  pc_host :: string
  pc_port :: int
  pc_database :: string
  pc_user :: string
  pc_password :: string
  pc_ssl_mode :: string
  pc_max_pool_size :: int
  pc_mode :: connection_mode

record 'c pg_env =
  pe_parse :: "string \<Rightarrow> bool"
  pe_connect :: "string \<Rightarrow> nat \<Rightarrow> 'c option"
  pe_exec :: "string \<Rightarrow> 'c \<Rightarrow> bool"
  pe_close :: "'c \<Rightarrow> bool"
  pe_acquire :: "nat \<Rightarrow> 'c option"

record 'c pool =
  pl_config :: pool_config
  pl_mode :: connection_mode
  pl_max_conns :: u32
  pl_session_conns :: "string \<rightharpoonup> 'c"
  pl_attempts :: nat
  pl_acquisitions :: nat
  pl_taken :: "'c list"
  pl_closed :: "'c list"
  pl_open :: bool

datatype pool_error =
    ParseFailed | CreateFailed | PingFailed | ConnectFailed | TimezoneFailed | AcquireFailed | CloseError

section \<open>Strings sent to PostgreSQL\<close>

definition conn_string :: "pool_config \<Rightarrow> string" where
  "conn_string c =
     ''postgres://'' @ pc_user c @ '':'' @ pc_password c @ ''@'' @ pc_host c @ '':'' @ fmt_int (pc_port c)
     @ ''/'' @ pc_database c @ ''?sslmode='' @ pc_ssl_mode c"

text \<open>\<open>offset / 3600\<close> truncates towards zero; \<open>%+03d\<close> prints a sign and at least two digits.\<close>

definition offset_hours :: "int \<Rightarrow> int" where
  "offset_hours off = (if off < 0 then - (- off div 3600) else off div 3600)"

definition fmt_plus03d :: "int \<Rightarrow> string" where
  "fmt_plus03d n = (if n < 0 then CHR ''-'' else CHR ''+'') # pad_zeros 2 (dec_digits (nat \<bar>n\<bar>))"

definition set_timezone :: "int \<Rightarrow> string" where
  "set_timezone off = ''SET timezone = '' @ [CHR 0x27] @ fmt_plus03d (offset_hours off) @ [CHR 0x27]"

section \<open>Operations\<close>

text \<open>\<open>NewPool\<close>; creating the shared pool and its first ping are inputs.\<close>

definition NewPool :: "'c pg_env \<Rightarrow> bool \<Rightarrow> bool \<Rightarrow> pool_config \<Rightarrow> pool_error + 'c pool" where
  "NewPool env created pinged cfg =
     (if \<not> pe_parse env (conn_string cfg) then Inl ParseFailed
      else if \<not> created then Inl CreateFailed
      else if \<not> pinged then Inl PingFailed
      else Inr \<lparr>pl_config = cfg, pl_mode = pc_mode cfg, pl_max_conns = of_int (pc_max_pool_size cfg),
                pl_session_conns = Map.empty, pl_attempts = 0, pl_acquisitions = 0, pl_taken = [],
                pl_closed = [], pl_open = True\<rparr>)"

definition dedicated :: "connection_mode \<Rightarrow> bool" where
  "dedicated m \<longleftrightarrow> m = ModeSessionAffinity \<or> m = ModeHybrid"

definition put_conn :: "string \<Rightarrow> 'c \<Rightarrow> 'c pool \<Rightarrow> 'c pool" where
  "put_conn k c p = p\<lparr>pl_session_conns := (pl_session_conns p)(k \<mapsto> c)\<rparr>"

definition AcquireForSession ::
    "'c pg_env \<Rightarrow> int \<Rightarrow> string \<Rightarrow> 'c pool \<Rightarrow> (pool_error + 'c) \<times> 'c pool" where
  "AcquireForSession env off sessionID p =
     (if dedicated (pl_mode p) then
        (case pl_session_conns p sessionID of
           Some c \<Rightarrow> (Inr c, p)
         | None \<Rightarrow>
             if \<not> pe_parse env (conn_string (pl_config p)) then (Inl ParseFailed, p)
             else
               (let r = pe_connect env (conn_string (pl_config p)) (pl_attempts p);
                    p = p\<lparr>pl_attempts := Suc (pl_attempts p)\<rparr>
                in case r of
                     None \<Rightarrow> (Inl ConnectFailed, p)
                   | Some c \<Rightarrow>
                       if \<not> pe_exec env (set_timezone off) c
                       then (Inl TimezoneFailed, p\<lparr>pl_closed := pl_closed p @ [c]\<rparr>)
                       else (Inr c, put_conn sessionID c p)))
      else
        (case pe_acquire env (pl_acquisitions p) of
           None \<Rightarrow> (Inl AcquireFailed, p\<lparr>pl_acquisitions := Suc (pl_acquisitions p)\<rparr>)
         | Some c \<Rightarrow>
             (Inr c, p\<lparr>pl_acquisitions := Suc (pl_acquisitions p), pl_taken := pl_taken p @ [c]\<rparr>)))"

definition ReleaseForSession :: "'c pg_env \<Rightarrow> string \<Rightarrow> 'c pool \<Rightarrow> (pool_error + unit) \<times> 'c pool" where
  "ReleaseForSession env sessionID p =
     (if dedicated (pl_mode p) then
        (case pl_session_conns p sessionID of
           None \<Rightarrow> (Inr (), p)
         | Some c \<Rightarrow>
             (if pe_close env c then Inr () else Inl CloseError,
              p\<lparr>pl_session_conns := (pl_session_conns p)(sessionID := None), pl_closed := pl_closed p @ [c]\<rparr>))
      else (Inr (), p))"

text \<open>\<open>Close\<close>; \<open>order\<close> is the iteration order of the map.\<close>

definition ClosePool :: "string list \<Rightarrow> 'c pool \<Rightarrow> 'c pool" where
  "ClosePool order p =
     p\<lparr>pl_closed := pl_closed p @ List.map_filter (pl_session_conns p) order,
       pl_session_conns := pl_session_conns p |` (- set order), pl_open := False\<rparr>"

definition GetSessionConnectionCount :: "'c pool \<Rightarrow> nat" where
  "GetSessionConnectionCount p = card (dom (pl_session_conns p))"

section \<open>Dedicated connections\<close>

lemma lookup_release:
  "dedicated (pl_mode p) \<Longrightarrow>
   pl_session_conns (snd (ReleaseForSession env k p)) k' = (if k' = k then None else pl_session_conns p k')"
  by (auto simp: ReleaseForSession_def split: option.splits)

definition release_entry :: "string \<Rightarrow> 'c pool \<Rightarrow> 'c pool" where
  "release_entry k p = p\<lparr>pl_session_conns := (pl_session_conns p)(k := None)\<rparr>"

interpretation conns: keyed_store "pl_session_conns :: 'c pool \<Rightarrow> _" put_conn release_entry
  by unfold_locales (auto simp: put_conn_def release_entry_def)

datatype pool_op = PAcquire string int | PRelease string

primrec pool_step :: "'c pg_env \<Rightarrow> pool_op \<Rightarrow> 'c pool \<Rightarrow> 'c pool" where
  "pool_step env (PAcquire k off) p = snd (AcquireForSession env off k p)"
| "pool_step env (PRelease k) p = snd (ReleaseForSession env k p)"

text \<open>Every attempt to connect that succeeds gives a new connection.\<close>

definition fresh_connections :: "'c pg_env \<Rightarrow> bool" where
  "fresh_connections env \<longleftrightarrow>
     (\<forall>s s' m n c. pe_connect env s m = Some c \<and> pe_connect env s' n = Some c \<longrightarrow> m = n)"

definition pool_inv :: "'c pg_env \<Rightarrow> 'c pool \<Rightarrow> bool" where
  "pool_inv env p \<longleftrightarrow> (fresh_connections env \<longrightarrow>
     inj_on (pl_session_conns p) (dom (pl_session_conns p))
     \<and> (\<forall>k c. pl_session_conns p k = Some c \<longrightarrow> (\<exists>s n. n < pl_attempts p \<and> pe_connect env s n = Some c)))"

lemma pool_inv_put:
  assumes "pool_inv env p" and "pe_connect env s (pl_attempts p) = Some c"
  shows "pool_inv env (put_conn k c (p\<lparr>pl_attempts := Suc (pl_attempts p)\<rparr>))"
  unfolding pool_inv_def
proof (intro impI conjI allI)
  assume fresh: "fresh_connections env"
  then have inj: "inj_on (pl_session_conns p) (dom (pl_session_conns p))"
    and old: "\<And>j d. pl_session_conns p j = Some d \<Longrightarrow> \<exists>s n. n < pl_attempts p \<and> pe_connect env s n = Some d"
    using assms(1) by (auto simp: pool_inv_def)
  have new: "pl_session_conns p j \<noteq> Some c" for j
    using old [of j c] assms(2) fresh unfolding fresh_connections_def by (metis less_irrefl)
  show "inj_on (pl_session_conns (put_conn k c (p\<lparr>pl_attempts := Suc (pl_attempts p)\<rparr>)))
      (dom (pl_session_conns (put_conn k c (p\<lparr>pl_attempts := Suc (pl_attempts p)\<rparr>))))"
    using inj new by (auto simp: inj_on_def put_conn_def)
  fix j d assume "pl_session_conns (put_conn k c (p\<lparr>pl_attempts := Suc (pl_attempts p)\<rparr>)) j = Some d"
  then show "\<exists>s n. n < pl_attempts (put_conn k c (p\<lparr>pl_attempts := Suc (pl_attempts p)\<rparr>))
      \<and> pe_connect env s n = Some d"
    using old [of j d] assms(2) by (auto simp: put_conn_def less_Suc_eq split: if_splits)
qed

lemma pool_inv_mono:
  assumes "pool_inv env p" and "\<And>k c. pl_session_conns q k = Some c \<Longrightarrow> pl_session_conns p k = Some c"
    and "pl_attempts p \<le> pl_attempts q"
  shows "pool_inv env q"
proof -
  have "inj_on (pl_session_conns q) (dom (pl_session_conns q))"
    if "inj_on (pl_session_conns p) (dom (pl_session_conns p))"
  proof (rule inj_onI)
    fix j k assume "j \<in> dom (pl_session_conns q)" "k \<in> dom (pl_session_conns q)"
      "pl_session_conns q j = pl_session_conns q k"
    then obtain c where "pl_session_conns q j = Some c" "pl_session_conns q k = Some c" by auto
    then have "pl_session_conns p j = Some c" "pl_session_conns p k = Some c" using assms(2) by blast+
    then show "j = k" using that by (metis domI inj_onD)
  qed
  then show ?thesis
    using assms unfolding pool_inv_def by (meson less_le_trans)
qed

interpretation pool_machine: invariant_machine "pool_inv env" "pool_step env" for env :: "'c pg_env"
proof unfold_locales
  fix p :: "'c pool" and op
  assume inv: "pool_inv env p"
  show "pool_inv env (pool_step env op p)"
  proof (cases op)
    case (PRelease k)
    then show ?thesis
      using inv by (auto intro: pool_inv_mono simp: ReleaseForSession_def split: option.splits if_splits)
  next
    case (PAcquire k off)
    then show ?thesis
      using inv pool_inv_put [OF inv]
      by (auto simp: AcquireForSession_def Let_def split: option.splits intro: pool_inv_mono [OF inv])
  qed
qed

text \<open>Acquiring again gives the session the connection it already has, whatever the environment does.\<close>

lemma acquire_again:
  "dedicated (pl_mode p) \<Longrightarrow> AcquireForSession env off k p = (Inr c, p') \<Longrightarrow>
   AcquireForSession env' off' k p' = (Inr c, p') \<and> pl_session_conns p' k = Some c"
  by (auto simp: AcquireForSession_def put_conn_def Let_def split: option.splits if_splits)

text \<open>C12: Session affinity. In every state that a new pool reaches through any sequence of acquisitions and
  releases, with any of them failing, two sessions never hold the same dedicated connection (given that
  the driver returns a new connection each time); a session that acquires twice gets the same connection;
  and releasing one session leaves the connections of all others in place.\<close>

theorem sessions_isolated:
  assumes "NewPool env created pinged cfg = Inr p0" and "fresh_connections env"
    and "p = fold (pool_step env) ops p0" and "dedicated (pl_mode p)"
  shows "(\<forall>j k c. pl_session_conns p j = Some c \<and> pl_session_conns p k = Some c \<longrightarrow> j = k)
    \<and> (\<forall>k off c p'. AcquireForSession env off k p = (Inr c, p') \<longrightarrow>
          (\<forall>off'. AcquireForSession env off' k p' = (Inr c, p')))
    \<and> (\<forall>j k. j \<noteq> k \<longrightarrow> pl_session_conns (snd (ReleaseForSession env k p)) j = pl_session_conns p j)"
proof -
  have "pool_inv env p0"
    using assms(1) by (auto simp: NewPool_def pool_inv_def split: if_splits)
  then have "pool_inv env p"
    unfolding assms(3) by (rule pool_machine.inv_run)
  then have "inj_on (pl_session_conns p) (dom (pl_session_conns p))"
    using assms(2) by (simp add: pool_inv_def)
  then have "\<forall>j k c. pl_session_conns p j = Some c \<and> pl_session_conns p k = Some c \<longrightarrow> j = k"
    by (metis domI inj_onD)
  moreover have "\<forall>k off c p'. AcquireForSession env off k p = (Inr c, p') \<longrightarrow>
      (\<forall>off'. AcquireForSession env off' k p' = (Inr c, p'))"
    using acquire_again [OF assms(4)] by blast
  moreover have "\<forall>j k. j \<noteq> k \<longrightarrow> pl_session_conns (snd (ReleaseForSession env k p)) j = pl_session_conns p j"
    using lookup_release [OF assms(4)] by simp
  ultimately show ?thesis by blast
qed

definition nat_env :: "nat pg_env" where
  "nat_env = \<lparr>pe_parse = (\<lambda>_. True), pe_connect = (\<lambda>_ n. Some n), pe_exec = (\<lambda>_ _. True),
              pe_close = (\<lambda>_. True), pe_acquire = Some\<rparr>"

definition affinity_config :: pool_config where
  "affinity_config = \<lparr>pc_host = ''pg'', pc_port = 5432, pc_database = ''db'', pc_user = ''u'',
     pc_password = ''p'', pc_ssl_mode = ''disable'', pc_max_pool_size = 10, pc_mode = ModeSessionAffinity\<rparr>"

theorem sessions_isolated_witness:
  "\<exists>p0 p. NewPool nat_env True True affinity_config = Inr p0
     \<and> p = fold (pool_step nat_env) [PAcquire ''a'' 0, PAcquire ''b'' 0] p0
     \<and> pl_session_conns p ''a'' = Some 0 \<and> pl_session_conns p ''b'' = Some 1
     \<and> pl_session_conns (snd (ReleaseForSession nat_env ''a'' p)) ''b'' = Some 1"
proof -
  obtain p0 where p0: "NewPool nat_env True True affinity_config = Inr p0"
    by (simp add: NewPool_def nat_env_def)
  let ?p = "fold (pool_step nat_env) [PAcquire ''a'' 0, PAcquire ''b'' 0] p0"
  have fresh: "fresh_connections nat_env"
    by (simp add: fresh_connections_def nat_env_def)
  have p: "pl_session_conns ?p ''a'' = Some 0" "pl_session_conns ?p ''b'' = Some 1" "dedicated (pl_mode ?p)"
    using p0 by (auto simp: NewPool_def nat_env_def affinity_config_def AcquireForSession_def dedicated_def
        put_conn_def Let_def)
  have "pl_session_conns (snd (ReleaseForSession nat_env ''a'' ?p)) ''b'' = pl_session_conns ?p ''b''"
    using sessions_isolated [OF p0 fresh refl p(3), THEN conjunct2, THEN conjunct2] by simp
  with p0 p show ?thesis by auto
qed

section \<open>Pooled mode\<close>

lemma pooled_cycle:
  assumes "\<not> dedicated (pl_mode p)" and "pe_acquire env (pl_acquisitions p) = Some c"
  shows "pool_step env (PRelease k) (pool_step env (PAcquire k off) p)
    = p\<lparr>pl_acquisitions := Suc (pl_acquisitions p), pl_taken := pl_taken p @ [c]\<rparr>"
  using assms by (simp add: AcquireForSession_def ReleaseForSession_def)

text \<open>In pooled mode connections are taken and never given back. For any number of sessions that connect and
  disconnect one after the other, \<open>AcquireForSession\<close> takes one connection of the shared pool each time and
  \<open>ReleaseForSession\<close> returns none: afterwards as many connections are out as there were sessions, none is
  closed, so a pool of n connections serves n sessions in its lifetime.\<close>

theorem pooled_connections_leak:
  assumes "pl_mode p = ModePooled" and "\<And>n. pe_acquire env n \<noteq> None"
    and "q = fold (pool_step env) (concat (map (\<lambda>k. [PAcquire k off, PRelease k]) ks)) p"
  shows "length (pl_taken q) = length (pl_taken p) + length ks \<and> pl_closed q = pl_closed p
     \<and> take (length (pl_taken p)) (pl_taken q) = pl_taken p"
  using assms(1,3)
proof (induction ks arbitrary: p)
  case Nil
  then show ?case by simp
next
  case (Cons k ks)
  obtain c where c: "pe_acquire env (pl_acquisitions p) = Some c"
    using assms(2) by (metis not_None_eq)
  let ?p = "p\<lparr>pl_acquisitions := Suc (pl_acquisitions p), pl_taken := pl_taken p @ [c]\<rparr>"
  have "pool_step env (PRelease k) (pool_step env (PAcquire k off) p) = ?p"
    using pooled_cycle [of p env c k off] Cons.prems(1) c by (simp add: dedicated_def)
  then have q: "q = fold (pool_step env) (concat (map (\<lambda>k. [PAcquire k off, PRelease k]) ks)) ?p"
    using Cons.prems(2) by simp
  have "pl_mode ?p = ModePooled" using Cons.prems(1) by simp
  from Cons.IH [OF this q] have "length (pl_taken q) = length (pl_taken p) + Suc (length ks)"
    "pl_closed q = pl_closed p" "take (Suc (length (pl_taken p))) (pl_taken q) = pl_taken p @ [c]"
    by simp_all
  then show ?case by (auto simp: take_Suc_conv_app_nth)
qed

theorem pooled_connections_leak_witness:
  "\<exists>p q. NewPool nat_env True True (affinity_config\<lparr>pc_mode := ModePooled\<rparr>) = Inr p
     \<and> q = fold (pool_step nat_env) (concat (map (\<lambda>k. [PAcquire k 0, PRelease k]) [''a'', ''b'', ''c''])) p
     \<and> length (pl_taken q) = 3 \<and> pl_closed q = []"
proof -
  obtain p where p: "NewPool nat_env True True (affinity_config\<lparr>pc_mode := ModePooled\<rparr>) = Inr p"
    by (simp add: NewPool_def nat_env_def)
  then have "pl_mode p = ModePooled" "pl_taken p = []" "pl_closed p = []"
    by (auto simp: NewPool_def nat_env_def)
  moreover have "pe_acquire nat_env n \<noteq> None" for n by (simp add: nat_env_def)
  ultimately show ?thesis
    using pooled_connections_leak [OF _ _ refl, of p nat_env 0 "[''a'', ''b'', ''c'']"] p by auto
qed

section \<open>Time zone\<close>

text \<open>Only whole hours of the local offset reach PostgreSQL: half-hour zones are off by half an hour.\<close>

lemma timezone_minutes_lost:
  "0 \<le> h \<Longrightarrow> 0 \<le> m \<Longrightarrow> m < 3600 \<Longrightarrow> set_timezone (h * 3600 + m) = set_timezone (h * 3600)"
  by (simp add: set_timezone_def offset_hours_def)

lemma timezone_india: "set_timezone 19800 = ''SET timezone = '' @ [CHR 0x27] @ ''+05'' @ [CHR 0x27]"
  by code_simp

end
