(* ===== verification/Reqtrack.thy ===== *)
theory Reqtrack
  imports Contracts "HOL-Library.Multiset"
begin

text \<open>
  The tracker of in-flight requests, \<open>pkg/reqtrack/tracker.go\<close>. Times are nanoseconds; the clock reading and
  the iteration order of the Go map are arguments, and \<open>Duration.String\<close> of the standard library is
  represented by the duration itself. \<open>sort.Slice\<close> is a sort by start time; the order of requests with equal
  start time is not used by any theorem.
\<close>

record request =
  rq_id :: u64
  rq_session_id :: string
  rq_sql :: string
  rq_start :: int
  rq_duration :: int

record tracker =
  tk_requests :: "u64 \<rightharpoonup> request"
  tk_next_id :: u64

definition GetTracker :: tracker where
  "GetTracker = \<lparr>tk_requests = Map.empty, tk_next_id = 0\<rparr>"

definition truncateSQL :: "string \<Rightarrow> nat \<Rightarrow> string" where
  "truncateSQL sql maxLen = (if length sql \<le> maxLen then sql else take maxLen sql @ ''...'')"

definition put_request :: "u64 \<Rightarrow> request \<Rightarrow> tracker \<Rightarrow> tracker" where
  "put_request k r t = t\<lparr>tk_requests := (tk_requests t)(k \<mapsto> r)\<rparr>"

definition StartRequest :: "int \<Rightarrow> string \<Rightarrow> string \<Rightarrow> tracker \<Rightarrow> u64 \<times> tracker" where
  "StartRequest now sessionID sql t =
     (let t = t\<lparr>tk_next_id := tk_next_id t + 1\<rparr>; k = tk_next_id t
      in (k, put_request k \<lparr>rq_id = k, rq_session_id = sessionID, rq_sql = truncateSQL sql 500,
                           rq_start = now, rq_duration = 0\<rparr> t))"

definition EndRequest :: "u64 \<Rightarrow> tracker \<Rightarrow> tracker" where
  "EndRequest k t = t\<lparr>tk_requests := (tk_requests t)(k := None)\<rparr>"

interpretation requests: keyed_store tk_requests put_request EndRequest
  by unfold_locales (auto simp: put_request_def EndRequest_def)

definition in_flight :: "u64 list \<Rightarrow> tracker \<Rightarrow> request list" where
  "in_flight order t = List.map_filter (tk_requests t) order"

definition with_duration :: "int \<Rightarrow> request \<Rightarrow> request" where
  "with_duration now r = r\<lparr>rq_duration := now - rq_start r\<rparr>"

definition GetSlowRequests :: "u64 list \<Rightarrow> int \<Rightarrow> int \<Rightarrow> tracker \<Rightarrow> request list" where
  "GetSlowRequests order now threshold t =
     sort_key rq_start
       (map (with_duration now) (filter (\<lambda>r. threshold \<le> now - rq_start r) (in_flight order t)))"

definition GetAllRequests :: "u64 list \<Rightarrow> int \<Rightarrow> tracker \<Rightarrow> request list" where
  "GetAllRequests order now t = sort_key rq_start (map (with_duration now) (in_flight order t))"

record request_stats =
  st_total :: nat
  st_slow_1s :: nat
  st_slow_5s :: nat
  st_slow_30s :: nat
  st_oldest :: int

fun stats_loop :: "int \<Rightarrow> request list \<Rightarrow> request_stats \<Rightarrow> request_stats" where
  "stats_loop now [] st = st"
| "stats_loop now (r # rs) st =
     (let d = now - rq_start r;
          st = (if st_oldest st < d then st\<lparr>st_oldest := d\<rparr> else st);
          st = (if 1000000000 \<le> d then st\<lparr>st_slow_1s := Suc (st_slow_1s st)\<rparr> else st);
          st = (if 5 * 1000000000 \<le> d then st\<lparr>st_slow_5s := Suc (st_slow_5s st)\<rparr> else st);
          st = (if 30 * 1000000000 \<le> d then st\<lparr>st_slow_30s := Suc (st_slow_30s st)\<rparr> else st)
      in stats_loop now rs st)"

definition GetStats :: "u64 list \<Rightarrow> int \<Rightarrow> tracker \<Rightarrow> request_stats" where
  "GetStats order now t =
     stats_loop now (in_flight order t)
       \<lparr>st_total = card (dom (tk_requests t)), st_slow_1s = 0, st_slow_5s = 0, st_slow_30s = 0, st_oldest = 0\<rparr>"

text \<open>The two debug endpoints; \<open>threshold\<close> is the parsed query parameter, \<open>None\<close> when absent or malformed.\<close>

definition HTTPHandler :: "int option \<Rightarrow> u64 list \<Rightarrow> int \<Rightarrow> int \<Rightarrow> tracker \<Rightarrow> request_stats \<times> request list" where
  "HTTPHandler threshold order now now' t =
     (GetStats order now t,
      GetSlowRequests order now' (case threshold of None \<Rightarrow> 1000000000 | Some d \<Rightarrow> d) t)"

definition AllRequestsHandler :: "u64 list \<Rightarrow> int \<Rightarrow> int \<Rightarrow> tracker \<Rightarrow> request_stats \<times> request list" where
  "AllRequestsHandler order now now' t = (GetStats order now t, GetAllRequests order now' t)"

section \<open>Properties\<close>

definition enumerates :: "u64 list \<Rightarrow> tracker \<Rightarrow> bool" where
  "enumerates order t \<longleftrightarrow> distinct order \<and> set order = dom (tk_requests t)"

lemma in_flight_order:
  assumes "enumerates order t" and "enumerates order' t"
  shows "mset (in_flight order t) = mset (in_flight order' t)"
proof -
  have "mset order = mset order'"
    using assms unfolding enumerates_def by (metis set_eq_iff_mset_eq_distinct)
  moreover have "mset (in_flight ks t) = image_mset (the \<circ> tk_requests t) {#k \<in># mset ks. tk_requests t k \<noteq> None#}" for ks
    by (induction ks) (auto simp: in_flight_def List.map_filter_simps split: option.splits)
  ultimately show ?thesis by simp
qed

lemma length_in_flight: "enumerates order t \<Longrightarrow> length (in_flight order t) = card (dom (tk_requests t))"
proof -
  assume e: "enumerates order t"
  have "set ks \<subseteq> dom (tk_requests t) \<Longrightarrow> length (in_flight ks t) = length ks" for ks
    by (induction ks) (auto simp: in_flight_def List.map_filter_simps)
  then show ?thesis
    using e by (metis enumerates_def distinct_card order_refl)
qed

lemma stats_loop_counts:
  "stats_loop now rs st = st
     \<lparr>st_slow_1s := st_slow_1s st + length (filter (\<lambda>r. 1000000000 \<le> now - rq_start r) rs),
      st_slow_5s := st_slow_5s st + length (filter (\<lambda>r. 5 * 1000000000 \<le> now - rq_start r) rs),
      st_slow_30s := st_slow_30s st + length (filter (\<lambda>r. 30 * 1000000000 \<le> now - rq_start r) rs),
      st_oldest := foldl max (st_oldest st) (map (\<lambda>r. now - rq_start r) rs)\<rparr>"
  by (induction rs arbitrary: st) (simp_all add: Let_def max_def)

lemma length_filter_mono: "(\<And>x. P x \<Longrightarrow> Q x) \<Longrightarrow> length (filter P xs) \<le> length (filter Q xs)"
  by (induction xs) auto

text \<open>The slow-request report. Whatever order the Go map is iterated in, \<open>GetSlowRequests\<close> returns exactly the
  tracked requests that have been running for at least the threshold, oldest first, and the statistics
  agree with it: the number reported slow for one second is the length of the one-second report, the
  counts decrease with the threshold and never exceed the number of tracked requests.\<close>

theorem slow_requests_report:
  assumes "enumerates order t" and "enumerates order' t"
  shows "sorted (map rq_start (GetSlowRequests order now d t))
    \<and> mset (GetSlowRequests order now d t)
        = mset (map (with_duration now) (filter (\<lambda>r. d \<le> now - rq_start r) (in_flight order' t)))
    \<and> st_slow_1s (GetStats order now t) = length (GetSlowRequests order' now 1000000000 t)
    \<and> st_slow_30s (GetStats order now t) \<le> st_slow_5s (GetStats order now t)
    \<and> st_slow_5s (GetStats order now t) \<le> st_slow_1s (GetStats order now t)
    \<and> st_slow_1s (GetStats order now t) \<le> st_total (GetStats order now t)"
proof -
  note perm = in_flight_order [OF assms]
  have "mset (GetSlowRequests order now d t)
      = mset (map (with_duration now) (filter (\<lambda>r. d \<le> now - rq_start r) (in_flight order' t)))"
    using perm by (simp add: GetSlowRequests_def)
  moreover have "length (filter P (in_flight order t)) = length (filter P (in_flight order' t))" for P
    using perm by (metis mset_filter size_mset)
  ultimately show ?thesis
    using length_in_flight [OF assms(1)] length_filter_le [of _ "in_flight order t"]
    by (simp add: GetSlowRequests_def GetStats_def stats_loop_counts)
       (auto intro!: length_filter_mono)
qed

text \<open>Requests are numbered: a new one never replaces a tracked one before the 64-bit counter wraps.\<close>

lemma StartRequest_fresh:
  assumes "\<forall>k \<in> dom (tk_requests t). unat k \<le> unat (tk_next_id t)" and "unat (tk_next_id t) < 2 ^ 64 - 1"
    and "StartRequest now sid sql t = (k, t')"
  shows "tk_requests t k = None \<and> (\<forall>j \<in> dom (tk_requests t'). unat j \<le> unat (tk_next_id t'))
     \<and> tk_requests (EndRequest k t') = tk_requests t"
proof -
  have k: "k = tk_next_id t + 1" and t': "t' = put_request k (the (tk_requests t' k)) (t\<lparr>tk_next_id := k\<rparr>)"
    using assms(3) by (auto simp: StartRequest_def Let_def put_request_def)
  have u: "unat k = Suc (unat (tk_next_id t))"
    using assms(2) by (simp add: k unat_word_ariths)
  have old: "tk_requests t j = Some r \<Longrightarrow> unat j \<le> Suc (unat (tk_next_id t))" for j r
    using assms(1) by (metis domI le_SucI)
  from u have "tk_requests t k = None"
    using assms(1) by (metis domIff Suc_n_not_le_n)
  moreover have "tk_requests (EndRequest k t') = tk_requests t"
    using requests.del_ins [of "t\<lparr>tk_next_id := k\<rparr>" k "the (tk_requests t' k)"] calculation t' by simp
  moreover have "\<forall>j \<in> dom (tk_requests t'). unat j \<le> unat (tk_next_id t')"
    using u old by (subst (1 2) t') (auto simp: put_request_def split: if_splits)
  ultimately show ?thesis by blast
qed

definition busy_tracker :: tracker where
  "busy_tracker = snd (StartRequest 20 ''b'' ''SELECT 2'' (snd (StartRequest 10 ''a'' ''SELECT 1'' GetTracker)))"

theorem slow_requests_report_witness:
  "map rq_id (GetSlowRequests [2, 1] 2000000015 1000000000 busy_tracker) = [1, 2]
   \<and> st_slow_1s (GetStats [1, 2] 2000000015 busy_tracker) = 2
   \<and> sorted (map rq_start (GetSlowRequests [2, 1] 2000000015 1000000000 busy_tracker))"
proof -
  have "enumerates [2, 1] busy_tracker" "enumerates [1, 2] busy_tracker"
    by (auto simp: enumerates_def busy_tracker_def StartRequest_def GetTracker_def put_request_def Let_def
        split: if_splits)
  moreover have "map rq_id (GetSlowRequests [2, 1] 2000000015 1000000000 busy_tracker) = [1, 2]"
    by (simp add: GetSlowRequests_def in_flight_def busy_tracker_def StartRequest_def GetTracker_def
        put_request_def Let_def with_duration_def List.map_filter_simps)
  moreover from this have "length (GetSlowRequests [2, 1] 2000000015 1000000000 busy_tracker) = 2"
    by (metis length_map length_Cons list.size(3) numeral_2_eq_2)
  ultimately show ?thesis
    using slow_requests_report [of "[2, 1]" busy_tracker "[2, 1]" 2000000015 1000000000]
      slow_requests_report [of "[1, 2]" busy_tracker "[2, 1]" 2000000015 1000000000] by simp
qed

end
