(* ===== verification/Go_Text.thy ===== *)
theory Go_Text
  imports Go_Slices
begin

text \<open>
  The functions of Go's \<open>strings\<close> package that the command handlers use beyond those of the SQL generator.
\<close>

definition EqualFold :: "string \<Rightarrow> string \<Rightarrow> bool" where
  "EqualFold s t \<longleftrightarrow> ToLower s = ToLower t"

definition TrimLeft :: "string \<Rightarrow> string \<Rightarrow> string" where
  "TrimLeft s cutset = dropWhile (\<lambda>c. c \<in> set cutset) s"

definition TrimPrefix :: "string \<Rightarrow> string \<Rightarrow> string" where
  "TrimPrefix s p = (if HasPrefix s p then drop (length p) s else s)"

fun Join :: "string list \<Rightarrow> string \<Rightarrow> string" where
  "Join [] sep = []"
| "Join [w] sep = w"
| "Join (w # ws) sep = w @ sep @ Join ws sep"

text \<open>\<open>strings.Split\<close> for a separator of more than one byte.\<close>

function SplitStr :: "string \<Rightarrow> string \<Rightarrow> string list" where
  "SplitStr s sep =
     (if sep = [] then [s]
      else case Index s sep of
             None \<Rightarrow> [s]
           | Some i \<Rightarrow> take i s # SplitStr (drop (i + length sep) s) sep)"
  by pat_completeness auto

termination
  by (relation "measure (\<lambda>(s, sep). length s)") (fastforce dest!: Index_bound simp: neq_Nil_conv)+

declare SplitStr.simps [simp del]

lemma SplitStr_nonempty: "SplitStr s sep \<noteq> []"
  by (subst SplitStr.simps) (auto split: option.splits)

text \<open>Splitting and joining with the same separator gives the text back.\<close>

lemma Join_SplitStr: "Join (SplitStr s sep) sep = s"
proof (induction s sep rule: SplitStr.induct)
  case (1 s sep)
  show ?case
  proof (cases "sep = [] \<or> Index s sep = None")
    case True
    then show ?thesis by (subst SplitStr.simps) auto
  next
    case False
    then obtain i where i: "Index s sep = Some i" "sep \<noteq> []" by auto
    let ?rest = "drop (i + length sep) s"
    have "Join (take i s # SplitStr ?rest sep) sep = take i s @ sep @ Join (SplitStr ?rest sep) sep"
      using SplitStr_nonempty [of ?rest sep] by (cases "SplitStr ?rest sep") auto
    also have "\<dots> = take i s @ sep @ ?rest" using 1 i by simp
    also have "\<dots> = s"
    proof -
      have "take (length sep) (drop i s) = sep" using Index_bound [OF i(1)] by (simp add: HasPrefix_def)
      then show ?thesis by (metis append_take_drop_id drop_drop add.commute)
    qed
    finally show ?thesis using i by (subst SplitStr.simps) simp
  qed
qed

text \<open>The characters that are trimmed from names: quotes of all kinds and, for whole statements, the semicolon.\<close>

definition name_quotes :: string where
  "name_quotes = [CHR 0x60, CHR 0x22]"

definition value_quotes :: string where
  "value_quotes = [CHR 0x27, CHR 0x22]"

definition all_quotes :: string where
  "all_quotes = [CHR 0x60, CHR 0x22, CHR 0x27, CHR 0x3B]"

definition quoted :: "string \<Rightarrow> string" where
  "quoted s = [CHR 0x27] @ s @ [CHR 0x27]"

text \<open>Texts of SQL queries: a backquote stands for a single quote.\<close>

definition sql_text :: "string \<Rightarrow> string" where
  "sql_text s = map (\<lambda>c. if c = CHR 0x60 then CHR 0x27 else c) s"

end
