(* ===== verification/Sql_Statements.thy ===== *)
theory Sql_Statements
  imports Go_Text Prelude
begin

text \<open>
  Statements that are handled by their syntax tree: \<open>pkg/sqlrewrite/stmt_parser.go\<close> (KILL, SET, FLUSH and variable queries) and
  \<open>pkg/sqlrewrite/rewrite_acl.go\<close> (users and privileges). The tree is what the TiDB parser returns; parsing itself is the argument
  \<open>parse\<close>. The parser may also panic, and no function here recovers from that.
\<close>

section \<open>Syntax trees\<close>

text \<open>An expression other than a variable is known by the text that \<open>Restore\<close> writes for it, if it succeeds.\<close>

datatype ast_expr = VariableExpr string bool bool | RestoredExpr "string option"

record variable_assignment =
  va_name :: string
  va_is_global :: bool
  va_is_system :: bool
  va_value :: "ast_expr option"

datatype privilege =
    AllPriv | SelectPriv | InsertPriv | UpdatePriv | DeletePriv | CreatePriv | DropPriv | AlterPriv | IndexPriv | ExecutePriv
  | ReferencesPriv | TriggerPriv | UsagePriv | GrantPriv | ShowDBPriv | CreateUserPriv | ProcessPriv | ReloadPriv | FilePriv
  | SuperPriv | ReplicationSlavePriv | ReplicationClientPriv | OtherPriv "string option"

datatype grant_level = GrantLevelGlobal | GrantLevelDB string | GrantLevelTable string string | GrantLevelNone

record user_spec =
  us_username :: string
  us_password :: "string option"

datatype ast_stmt =
    KillStmt u64 bool
  | SetStmt "variable_assignment list"
  | FlushStmt nat
  | SelectStmt bool "ast_expr option list option"
  | CreateUserStmt bool "user_spec list"
  | DropUserStmt bool "string list"
  | GrantStmt "privilege list" "grant_level option" "user_spec list"
  | RevokeStmt "privilege list" "grant_level option" "user_spec list"
  | OtherStmt

definition FlushPrivileges :: nat where
  "FlushPrivileges = 2"

text \<open>What comes out of parsing: the parser panics, there is nothing (a syntax error, or not the statement that is looked for), or a value.\<close>

datatype 'a parsed = ParserPanics | NotParsed | Parsed 'a

definition first_stmt :: "(string \<Rightarrow> ast_stmt list parsed) \<Rightarrow> string \<Rightarrow> ast_stmt parsed" where
  "first_stmt parse sql =
     (case parse sql of ParserPanics \<Rightarrow> ParserPanics | NotParsed \<Rightarrow> NotParsed | Parsed [] \<Rightarrow> NotParsed | Parsed (st # _) \<Rightarrow> Parsed st)"

section \<open>The statement parser\<close>

definition ParseKill :: "(string \<Rightarrow> ast_stmt list parsed) \<Rightarrow> string \<Rightarrow> (u64 \<times> bool) parsed" where
  "ParseKill parse sql =
     (case first_stmt parse sql of
        ParserPanics \<Rightarrow> ParserPanics
      | Parsed (KillStmt connectionID queryOnly) \<Rightarrow> Parsed (connectionID, queryOnly)
      | _ \<Rightarrow> NotParsed)"

definition exprToString :: "ast_expr \<Rightarrow> string" where
  "exprToString expr =
     (case expr of
        VariableExpr name _ _ \<Rightarrow> name
      | RestoredExpr None \<Rightarrow> []
      | RestoredExpr (Some text) \<Rightarrow> Trim text value_quotes)"

record set_var_info =
  sv_name :: string
  sv_value :: string
  sv_is_global :: bool
  sv_is_system :: bool

definition var_info :: "variable_assignment \<Rightarrow> set_var_info" where
  "var_info v =
     \<lparr>sv_name = va_name v, sv_value = (case va_value v of None \<Rightarrow> [] | Some e \<Rightarrow> exprToString e),
      sv_is_global = va_is_global v, sv_is_system = va_is_system v\<rparr>"

text \<open>A SET without variables gives a nil slice, as a statement that is not a SET.\<close>

definition ParseSet :: "(string \<Rightarrow> ast_stmt list parsed) \<Rightarrow> string \<Rightarrow> set_var_info list parsed" where
  "ParseSet parse sql =
     (case first_stmt parse sql of
        ParserPanics \<Rightarrow> ParserPanics
      | Parsed (SetStmt vars) \<Rightarrow> if vars = [] then NotParsed else Parsed (map var_info vars)
      | _ \<Rightarrow> NotParsed)"

definition ParseFlush :: "(string \<Rightarrow> ast_stmt list parsed) \<Rightarrow> string \<Rightarrow> nat parsed" where
  "ParseFlush parse sql =
     (case first_stmt parse sql of ParserPanics \<Rightarrow> ParserPanics | Parsed (FlushStmt tp) \<Rightarrow> Parsed tp | _ \<Rightarrow> NotParsed)"

definition ParseSelectVariable :: "(string \<Rightarrow> ast_stmt list parsed) \<Rightarrow> string \<Rightarrow> (string \<times> bool) parsed" where
  "ParseSelectVariable parse sql =
     (case first_stmt parse sql of
        ParserPanics \<Rightarrow> ParserPanics
      | Parsed (SelectStmt hasFrom exprs) \<Rightarrow>
          if hasFrom then NotParsed
          else (case exprs of
                  Some [Some (VariableExpr name isSystem isGlobal)] \<Rightarrow> if isSystem then Parsed (name, isGlobal) else NotParsed
                | _ \<Rightarrow> NotParsed)
      | _ \<Rightarrow> NotParsed)"

text \<open>They panic only with the parser.\<close>

lemma parser_panics:
  "ParseKill parse sql = ParserPanics \<longleftrightarrow> parse sql = ParserPanics" "ParseSet parse sql = ParserPanics \<longleftrightarrow> parse sql = ParserPanics"
  "ParseFlush parse sql = ParserPanics \<longleftrightarrow> parse sql = ParserPanics" "ParseSelectVariable parse sql = ParserPanics \<longleftrightarrow> parse sql = ParserPanics"
  by (auto simp: ParseKill_def ParseSet_def ParseFlush_def ParseSelectVariable_def first_stmt_def
      split: parsed.splits ast_stmt.splits list.splits option.splits ast_expr.splits)

section \<open>Users and privileges\<close>

definition IsACLCommand :: "string \<Rightarrow> bool" where
  "IsACLCommand sql =
     list_ex (HasPrefix (ToUpper (TrimSpace sql)))
       [''CREATE USER'', ''DROP USER'', ''GRANT '', ''REVOKE '', ''FLUSH PRIVILEGES'']"

definition quoteIdentifier :: "string \<Rightarrow> string" where
  "quoteIdentifier name =
     (let name = Trim name [CHR 0x60, CHR 0x27, CHR 0x22]
      in if list_all isAlphanumeric name then name else [CHR 0x22] @ name @ [CHR 0x22])"

definition escapeString :: "string \<Rightarrow> string" where
  "escapeString s = ReplaceAll s [CHR 0x27] [CHR 0x27, CHR 0x27]"

definition hasReplicationPriv :: "privilege list \<Rightarrow> bool" where
  "hasReplicationPriv privs = list_ex (\<lambda>p. p = ReplicationSlavePriv \<or> p = ReplicationClientPriv) privs"

fun pg_privilege :: "privilege \<Rightarrow> string option" where
  "pg_privilege AllPriv = Some ''ALL PRIVILEGES''"
| "pg_privilege SelectPriv = Some ''SELECT''"
| "pg_privilege InsertPriv = Some ''INSERT''"
| "pg_privilege UpdatePriv = Some ''UPDATE''"
| "pg_privilege DeletePriv = Some ''DELETE''"
| "pg_privilege CreatePriv = Some ''CREATE''"
| "pg_privilege DropPriv = Some ''DROP''"
| "pg_privilege AlterPriv = Some ''ALTER''"
| "pg_privilege IndexPriv = Some ''CREATE''"
| "pg_privilege ExecutePriv = Some ''EXECUTE''"
| "pg_privilege ReferencesPriv = Some ''REFERENCES''"
| "pg_privilege TriggerPriv = Some ''TRIGGER''"
| "pg_privilege UsagePriv = Some ''USAGE''"
| "pg_privilege GrantPriv = Some ''ALL PRIVILEGES''"
| "pg_privilege ShowDBPriv = Some ''CONNECT''"
| "pg_privilege CreateUserPriv = Some ''CREATEROLE''"
| "pg_privilege ProcessPriv = Some ''pg_read_all_stats''"
| "pg_privilege ReloadPriv = Some ''EXECUTE''"
| "pg_privilege FilePriv = Some ''pg_read_server_files''"
| "pg_privilege SuperPriv = Some ''SUPERUSER''"
| "pg_privilege ReplicationSlavePriv = Some ''REPLICATION''"
| "pg_privilege ReplicationClientPriv = Some ''REPLICATION''"
| "pg_privilege (OtherPriv name) = map_option ToUpper name"

definition mapPrivsFromAST :: "privilege list \<Rightarrow> string" where
  "mapPrivsFromAST privs =
     (let pgPrivs = List.map_filter pg_privilege privs in if pgPrivs = [] then ''USAGE'' else Join pgPrivs '', '')"

definition mapGrantLevelFromAST :: "grant_level option \<Rightarrow> string" where
  "mapGrantLevelFromAST level =
     (case level of
        Some (GrantLevelDB db) \<Rightarrow>
          if db \<noteq> [] then ''ALL TABLES IN SCHEMA '' @ quoteIdentifier db else ''ALL TABLES IN SCHEMA public''
      | Some (GrantLevelTable db table) \<Rightarrow>
          if db \<noteq> [] \<and> table \<noteq> [] then ''TABLE '' @ quoteIdentifier db @ ''.'' @ quoteIdentifier table
          else if table \<noteq> [] then ''TABLE '' @ quoteIdentifier table
          else ''ALL TABLES IN SCHEMA public''
      | _ \<Rightarrow> ''ALL TABLES IN SCHEMA public'')"

definition rewriteCreateUser :: "bool \<Rightarrow> user_spec list \<Rightarrow> string" where
  "rewriteCreateUser ifNotExists specs =
     (case specs of
        [] \<Rightarrow> ''CREATE ROLE WITH LOGIN''
      | spec # _ \<Rightarrow>
          Join ([''CREATE ROLE'', quoteIdentifier (us_username spec), ''WITH LOGIN'']
                @ (case us_password spec of None \<Rightarrow> [] | Some pw \<Rightarrow> [''PASSWORD '' @ quoted (escapeString pw)])) '' '')"

definition rewriteDropUser :: "bool \<Rightarrow> string list \<Rightarrow> string" where
  "rewriteDropUser ifExists users =
     Join ([''DROP ROLE''] @ (if ifExists then [''IF EXISTS''] else []) @ [Join (map quoteIdentifier users) '', '']) '' ''"

definition role_list :: "user_spec list \<Rightarrow> string" where
  "role_list users = Join (map (\<lambda>u. quoteIdentifier (us_username u)) users) '', ''"

definition rewriteGrant :: "privilege list \<Rightarrow> grant_level option \<Rightarrow> user_spec list \<Rightarrow> string" where
  "rewriteGrant privs level users =
     (case users of
        [] \<Rightarrow> ''-- empty GRANT (no users)''
      | u # _ \<Rightarrow>
          if hasReplicationPriv privs then ''ALTER ROLE '' @ quoteIdentifier (us_username u) @ '' REPLICATION''
          else ''GRANT '' @ mapPrivsFromAST privs @ '' ON '' @ mapGrantLevelFromAST level @ '' TO '' @ role_list users)"

definition rewriteRevoke :: "privilege list \<Rightarrow> grant_level option \<Rightarrow> user_spec list \<Rightarrow> string" where
  "rewriteRevoke privs level users =
     (case users of
        [] \<Rightarrow> ''-- empty REVOKE (no users)''
      | u # _ \<Rightarrow>
          if hasReplicationPriv privs then ''ALTER ROLE '' @ quoteIdentifier (us_username u) @ '' NOREPLICATION''
          else ''REVOKE '' @ mapPrivsFromAST privs @ '' ON '' @ mapGrantLevelFromAST level @ '' FROM '' @ role_list users)"

text \<open>The rewritten statement, empty for FLUSH PRIVILEGES; \<open>NotParsed\<close> if the statement is not handled.\<close>

definition RewriteACL :: "(string \<Rightarrow> ast_stmt list parsed) \<Rightarrow> string \<Rightarrow> string parsed" where
  "RewriteACL parse sql =
     (case first_stmt parse sql of
        ParserPanics \<Rightarrow> ParserPanics
      | Parsed (CreateUserStmt ifNotExists specs) \<Rightarrow> Parsed (rewriteCreateUser ifNotExists specs)
      | Parsed (DropUserStmt ifExists users) \<Rightarrow> Parsed (rewriteDropUser ifExists users)
      | Parsed (GrantStmt privs level users) \<Rightarrow> Parsed (rewriteGrant privs level users)
      | Parsed (RevokeStmt privs level users) \<Rightarrow> Parsed (rewriteRevoke privs level users)
      | Parsed (FlushStmt tp) \<Rightarrow> if tp = FlushPrivileges then Parsed [] else NotParsed
      | _ \<Rightarrow> NotParsed)"

lemma acl_panics: "RewriteACL parse sql = ParserPanics \<longleftrightarrow> parse sql = ParserPanics"
  by (auto simp: RewriteACL_def first_stmt_def split: parsed.splits ast_stmt.splits list.splits)

section \<open>Literals and identifiers\<close>

text \<open>How PostgreSQL reads a string literal: quotes inside are doubled.\<close>

fun read_quoted :: "char \<Rightarrow> string \<Rightarrow> (string \<times> string) option" where
  "read_quoted q [] = None"
| "read_quoted q [c] = (if c = q then Some ([], []) else None)"
| "read_quoted q (c # d # s) =
     (if c = q then (if d = q then map_option (map_prod ((#) q) id) (read_quoted q s) else Some ([], d # s))
      else map_option (map_prod ((#) c) id) (read_quoted q (d # s)))"

definition starts_with :: "char \<Rightarrow> string \<Rightarrow> bool" where
  "starts_with q s \<longleftrightarrow> (\<exists>r. s = q # r)"

lemma escapeString_Nil [simp]: "escapeString [] = []"
  by (simp add: escapeString_def ReplaceAll_Nil)

lemma escapeString_Cons [simp]:
  "escapeString (c # s) = (if c = CHR 0x27 then [CHR 0x27, CHR 0x27] else [c]) @ escapeString s"
  by (simp add: escapeString_def ReplaceAll_Cons HasPrefix_def)

lemma read_escaped:
  "\<not> starts_with (CHR 0x27) rest \<Longrightarrow> read_quoted (CHR 0x27) (escapeString s @ CHR 0x27 # rest) = Some (s, rest)"
proof (induction s)
  case Nil
  then show ?case by (cases rest) (auto simp: starts_with_def)
next
  case (Cons c s)
  obtain d t where t: "escapeString s @ CHR 0x27 # rest = d # t" by (cases "escapeString s") auto
  show ?case using Cons t by auto
qed

text \<open>C37: Passwords survive. The statement for \<open>CREATE USER ... IDENTIFIED BY\<close> ends in a string literal from which PostgreSQL
  reads exactly the password, whatever characters it has, and nothing of the password is left outside of the literal.\<close>

theorem password_literal:
  assumes "rewriteCreateUser ine (\<lparr>us_username = user, us_password = Some pw\<rparr> # specs) = stmt"
  shows "\<exists>literal. stmt = ''CREATE ROLE '' @ quoteIdentifier user @ '' WITH LOGIN PASSWORD '' @ [CHR 0x27] @ literal
    \<and> read_quoted (CHR 0x27) literal = Some (pw, [])"
proof -
  have "read_quoted (CHR 0x27) (escapeString pw @ [CHR 0x27]) = Some (pw, [])"
    using read_escaped [of "[]" pw] by (simp add: starts_with_def)
  then show ?thesis using assms by (auto simp: rewriteCreateUser_def quoted_def)
qed

theorem password_literal_witness:
  "\<exists>literal. rewriteCreateUser False [\<lparr>us_username = ''app'', us_password = Some [CHR 0x27, CHR ''x'']\<rparr>]
      = ''CREATE ROLE '' @ quoteIdentifier ''app'' @ '' WITH LOGIN PASSWORD '' @ [CHR 0x27] @ literal
     \<and> read_quoted (CHR 0x27) literal = Some ([CHR 0x27, CHR ''x''], [])"
  by (rule password_literal [OF refl])

text \<open>A name with a double quote inside is not escaped: what follows the quote is read as part of the statement.\<close>

lemma identifier_not_escaped:
  "rewriteCreateUser False [\<lparr>us_username = ''a'' @ [CHR 0x22] @ '' SUPERUSER --'', us_password = None\<rparr>]
   = ''CREATE ROLE '' @ [CHR 0x22] @ ''a'' @ [CHR 0x22] @ '' SUPERUSER --'' @ [CHR 0x22] @ '' WITH LOGIN''"
  by code_simp

text \<open>A replication privilege hides the other privileges and the other users of the statement; the right to grant becomes all
  privileges.\<close>

lemma replication_hides_privileges:
  "rewriteGrant [SelectPriv, ReplicationSlavePriv] level [\<lparr>us_username = ''a'', us_password = None\<rparr>, u]
   = ''ALTER ROLE a REPLICATION''"
proof -
  have "quoteIdentifier ''a'' = ''a''" by code_simp
  then show ?thesis by (simp add: rewriteGrant_def hasReplicationPriv_def)
qed

lemma grant_option_is_all: "mapPrivsFromAST [GrantPriv] = ''ALL PRIVILEGES''"
  by (simp add: mapPrivsFromAST_def List.map_filter_def)

end
