(* ===== verification/Pg_Backend.thy ===== *)
theory Pg_Backend
  imports Binlog_Values
begin

text \<open>
  The PostgreSQL connection as the request handlers use it, and the error mapper of \<open>pkg/mapper/errors.go\<close>. A connection is a
  value of type \<open>'c\<close>; what the pgx library answers to \<open>Exec\<close> and \<open>Query\<close> is an argument. As pgx documents, an error of a
  query may come with the call or only after the rows, in \<open>rows.Err()\<close>.
\<close>

section \<open>Errors\<close>

datatype pg_error = PgError string string | OtherError string

definition ER_UNKNOWN_ERROR :: nat where
  "ER_UNKNOWN_ERROR = 1105"

definition initSQLStateMapping :: "(string \<times> nat) list" where
  "initSQLStateMapping =
     [(''23505'', 1062), (''23503'', 1452), (''42501'', 1142), (''42P01'', 1146), (''42703'', 1054), (''42601'', 1064),
      (''40P01'', 1213), (''57014'', 1317), (''28000'', 1045), (''3D000'', 1049), (''42000'', 1044), (''42P02'', 1146),
      (''42P10'', 1064), (''42704'', 1054), (''42846'', 1064), (''42883'', 1064), (''55P03'', 1205), (''53300'', 1203),
      (''53400'', 1040), (''22001'', 1406), (''23502'', 1048), (''42710'', 1061), (''42712'', 1061), (''23514'', 3819),
      (''53100'', 1021), (''53200'', 1041), (''42939'', 1142), (''40001'', 1213), (''23000'', 1062), (''22003'', 1264),
      (''22012'', 1365), (''22007'', 1292), (''22008'', 1292), (''23001'', 1364)]"

definition GetMySQLErrorCode :: "string \<Rightarrow> nat" where
  "GetMySQLErrorCode sqlState =
     (case map_of initSQLStateMapping sqlState of Some code \<Rightarrow> code | None \<Rightarrow> ER_UNKNOWN_ERROR)"

definition MapError :: "pg_error option \<Rightarrow> nat \<times> string" where
  "MapError pgErr =
     (case pgErr of
        None \<Rightarrow> (0, [])
      | Some (PgError code message) \<Rightarrow>
          (case map_of initSQLStateMapping code of
             Some mysqlCode \<Rightarrow> (mysqlCode, message)
           | None \<Rightarrow> (ER_UNKNOWN_ERROR, message))
      | Some (OtherError message) \<Rightarrow> (ER_UNKNOWN_ERROR, message))"

lemma MapError_code:
  "MapError (Some (PgError code message)) = (GetMySQLErrorCode code, message)"
  by (simp add: MapError_def GetMySQLErrorCode_def split: option.splits)

text \<open>Every error of PostgreSQL reaches the client with a code.\<close>

lemma GetMySQLErrorCode_pos: "0 < GetMySQLErrorCode code"
proof -
  have "list_all (\<lambda>(_, n). 0 < n) initSQLStateMapping" by code_simp
  then have "map_of initSQLStateMapping code = Some n \<Longrightarrow> 0 < n" for n
    by (auto simp: list_all_iff dest!: map_of_SomeD)
  then show ?thesis
    by (auto simp: GetMySQLErrorCode_def ER_UNKNOWN_ERROR_def split: option.splits)
qed

lemma MapError_pos: "0 < fst (MapError (Some e))"
proof (cases e)
  case (PgError code message)
  then show ?thesis using GetMySQLErrorCode_pos [of code] by (simp add: MapError_code)
qed (simp add: MapError_def ER_UNKNOWN_ERROR_def)

section \<open>Connections\<close>

text \<open>The values that pgx returns for a column.\<close>

datatype pg_value =
    PvGo go_value
  | PvNumeric "string option"
  | PvTimeOfDay "nat option"
  | PvOther string

record field_desc =
  fd_name :: string
  fd_oid :: nat
  fd_typmod :: int

text \<open>Rows: each is read by \<open>Values\<close>, which may fail; \<open>pr_err\<close> is what \<open>Err\<close> returns after the last one.\<close>

record pg_rows =
  pr_fields :: "field_desc list"
  pr_rows :: "(pg_error + pg_value list) list"
  pr_err :: "pg_error option"

record 'c backend =
  bk_exec :: "string \<Rightarrow> go_value list \<Rightarrow> 'c \<Rightarrow> (pg_error + u64) \<times> 'c"
  bk_query :: "string \<Rightarrow> go_value list \<Rightarrow> 'c \<Rightarrow> (pg_error + pg_rows) \<times> 'c"

text \<open>\<open>QueryRow(...).Scan(&v)\<close> of one string: the first row, or an error.\<close>

definition first_row :: "pg_rows \<Rightarrow> pg_error + pg_value list" where
  "first_row r =
     (case pr_rows r of
        [] \<Rightarrow> Inl (case pr_err r of Some e \<Rightarrow> e | None \<Rightarrow> OtherError ''no rows in result set'')
      | x # _ \<Rightarrow> x)"

fun scan_string :: "pg_value list \<Rightarrow> pg_error + string" where
  "scan_string [PvGo (GString s)] = Inr s"
| "scan_string _ = Inl (OtherError ''cannot scan'')"

fun scan_bool :: "pg_value list \<Rightarrow> pg_error + bool" where
  "scan_bool [PvGo (GBool b)] = Inr b"
| "scan_bool _ = Inl (OtherError ''cannot scan'')"

definition query_row :: "'c backend \<Rightarrow> (pg_value list \<Rightarrow> pg_error + 'a) \<Rightarrow> string \<Rightarrow> go_value list \<Rightarrow> 'c
    \<Rightarrow> (pg_error + 'a) \<times> 'c" where
  "query_row bk scan sql args c =
     (case bk_query bk sql args c of
        (Inl e, c) \<Rightarrow> (Inl e, c)
      | (Inr r, c) \<Rightarrow> (case first_row r of Inl e \<Rightarrow> (Inl e, c) | Inr vs \<Rightarrow> (scan vs, c)))"

text \<open>A statement without arguments, as the session uses it: success and the connection afterwards.\<close>

definition plain_exec :: "'c backend \<Rightarrow> string \<Rightarrow> 'c \<Rightarrow> bool \<times> 'c" where
  "plain_exec bk sql c = (case bk_exec bk sql [] c of (r, c) \<Rightarrow> (case r of Inl _ \<Rightarrow> False | Inr _ \<Rightarrow> True, c))"

end
