(* ===== verification/Mapper_Vars.thy ===== *)
theory Mapper_Vars
  imports Pg_Backend Go_Text
begin

text \<open>
  MySQL variables, \<open>pkg/mapper/variables.go\<close>: the table that maps them to PostgreSQL settings, the overrides that
  \<open>SET GLOBAL\<close> stores in the process, and reading and writing them. The transformations of the table are functions.
\<close>

section \<open>The table\<close>

datatype var_scope = ScopeSession | ScopeGlobal | ScopeInternal

record var_mapping =
  vm_pg_var :: string
  vm_scope :: var_scope
  vm_need_restart :: bool
  vm_no_op :: bool
  vm_transform :: "(string \<Rightarrow> string) option"
  vm_reverse :: "(string \<Rightarrow> string) option"
  vm_static :: string

definition mapped :: "string \<Rightarrow> var_scope \<Rightarrow> (string \<Rightarrow> string) option \<Rightarrow> (string \<Rightarrow> string) option \<Rightarrow> var_mapping" where
  "mapped pg scope transform reverse =
     \<lparr>vm_pg_var = pg, vm_scope = scope, vm_need_restart = False, vm_no_op = False, vm_transform = transform,
      vm_reverse = reverse, vm_static = []\<rparr>"

definition internal :: "bool \<Rightarrow> string \<Rightarrow> var_mapping" where
  "internal noop static =
     \<lparr>vm_pg_var = [], vm_scope = ScopeInternal, vm_need_restart = False, vm_no_op = noop, vm_transform = None,
      vm_reverse = None, vm_static = static\<rparr>"

definition read_only_on :: "string \<Rightarrow> string" where
  "read_only_on v = (if v = ''1'' \<or> ToUpper v = ''ON'' \<or> ToUpper v = ''TRUE'' then ''on'' else ''off'')"

definition one_if :: "string list \<Rightarrow> string \<Rightarrow> string" where
  "one_if ons v = (if v \<in> set ons then ''1'' else ''0'')"

definition zero_if :: "string \<Rightarrow> string \<Rightarrow> string" where
  "zero_if off v = (if v = off then ''0'' else ''1'')"

definition off_or :: "string \<Rightarrow> string \<Rightarrow> string \<Rightarrow> string" where
  "off_or off on v = (if v = ''0'' \<or> ToUpper v = ''OFF'' then off else on)"

text \<open>The table, in two parts: the variables up to the version, of which most are forwarded, and those that the proxy answers itself.\<close>

definition forwarded_vars :: "(string \<times> var_mapping) list" where
  "forwarded_vars =
     [(''read_only'', mapped ''default_transaction_read_only'' ScopeGlobal (Some read_only_on) (Some (one_if [''on'']))),
      (''super_read_only'', mapped ''default_transaction_read_only'' ScopeGlobal (Some read_only_on) (Some (one_if [''on'']))),
      (''rpl_semi_sync_master_enabled'', mapped ''synchronous_commit'' ScopeGlobal
         (Some (\<lambda>v. if v = ''1'' \<or> ToUpper v = ''ON'' then ''on'' else ''local''))
         (Some (one_if [''on'', ''remote_write'', ''remote_apply'']))),
      (''rpl_semi_sync_slave_enabled'', (mapped [] ScopeGlobal None None)\<lparr>vm_no_op := True\<rparr>),
      (''rpl_semi_sync_master_timeout'', (mapped ''synchronous_commit'' ScopeGlobal None None)\<lparr>vm_no_op := True\<rparr>),
      (''max_connections'', (mapped ''max_connections'' ScopeGlobal None None)\<lparr>vm_need_restart := True\<rparr>),
      (''wait_timeout'', mapped ''idle_in_transaction_session_timeout'' ScopeGlobal (Some (\<lambda>v. v @ ''000'')) None),
      (''foreign_key_checks'', mapped ''session_replication_role'' ScopeSession (Some (off_or ''replica'' ''origin''))
         (Some (zero_if ''replica''))),
      (''sql_log_bin'', mapped ''log_statement'' ScopeSession (Some (off_or ''none'' ''all'')) (Some (zero_if ''none''))),
      (''version'', mapped ''server_version'' ScopeGlobal None (Some (\<lambda>v. v @ ''-MyProxy''))),
      (''version_comment'', internal False ''MyProxy (MySQL to PostgreSQL Proxy)'')]"

definition internal_vars :: "(string \<times> var_mapping) list" where
  "internal_vars =
     [(''server_id'', internal True ''1''),
      (''server_uuid'', internal False ''38db14f0-9bcc-487a-8001-9bcc38db18d8''),
      (''report_host'', internal True []),
      (''binlog_format'', internal False ''ROW''),
      (''binlog_row_image'', internal False ''FULL''),
      (''log_bin'', internal False ''ON''),
      (''binlog_checksum'', internal False ''CRC32''),
      (''gtid_mode'', internal False ''OFF''),
      (''gtid_purged'', internal True []),
      (''gtid_executed'', internal False []),
      (''character_set_client'', internal True ''utf8mb4''),
      (''character_set_connection'', internal True ''utf8mb4''),
      (''character_set_results'', internal True ''utf8mb4''),
      (''character_set_server'', internal True ''utf8mb4''),
      (''character_set_database'', internal True ''utf8mb4''),
      (''collation_connection'', internal True ''utf8mb4_general_ci''),
      (''collation_server'', internal True ''utf8mb4_general_ci''),
      (''collation_database'', internal True ''utf8mb4_general_ci''),
      (''sql_mode'', internal True ''TRADITIONAL''),
      (''max_allowed_packet'', internal True ''67108864''),
      (''net_write_timeout'', internal True []),
      (''net_read_timeout'', internal True []),
      (''interactive_timeout'', internal True [])]"

definition mysqlToPostgresVars :: "(string \<times> var_mapping) list" where
  "mysqlToPostgresVars = forwarded_vars @ internal_vars"

lemmas var_tables = mysqlToPostgresVars_def forwarded_vars_def internal_vars_def

definition GetVarMapping :: "string \<Rightarrow> var_mapping option" where
  "GetVarMapping mysqlVar = map_of mysqlToPostgresVars (ToLower mysqlVar)"

record status_mapping =
  st_pg_query :: string
  st_transform :: "(string \<Rightarrow> string) option"
  st_static :: string

definition mysqlStatusVars :: "(string \<times> status_mapping) list" where
  "mysqlStatusVars =
     [(''rpl_semi_sync_master_status'',
        \<lparr>st_pg_query = ''SHOW synchronous_commit'',
         st_transform = Some (\<lambda>v. if v \<in> {''on'', ''remote_write'', ''remote_apply''} then ''ON'' else ''OFF''), st_static = []\<rparr>),
      (''rpl_semi_sync_master_clients'',
        \<lparr>st_pg_query = ''SELECT count(*)::text FROM pg_stat_replication WHERE sync_state = '' @ quoted ''sync'',
         st_transform = None, st_static = []\<rparr>),
      (''rpl_semi_sync_slave_enabled'', \<lparr>st_pg_query = [], st_transform = None, st_static = ''OFF''\<rparr>)]"

definition GetStatusVarMapping :: "string \<Rightarrow> status_mapping option" where
  "GetStatusVarMapping mysqlVar = map_of mysqlStatusVars (ToLower mysqlVar)"

section \<open>Overrides\<close>

type_synonym overrides = "string \<rightharpoonup> string"

definition SetInternalVar :: "string \<Rightarrow> string \<Rightarrow> overrides \<Rightarrow> overrides" where
  "SetInternalVar name v ov = ov(ToLower name \<mapsto> v)"

definition GetInternalVar :: "overrides \<Rightarrow> string \<Rightarrow> string option" where
  "GetInternalVar ov name = ov (ToLower name)"

section \<open>Writing\<close>

datatype var_error = AlterFailed string pg_error | VarFailed pg_error

text \<open>The result: whether the variable was handled, and the error.\<close>

definition alter_system :: "'c backend \<Rightarrow> string \<Rightarrow> string \<Rightarrow> 'c \<Rightarrow> var_error option \<times> 'c" where
  "alter_system bk pgVar pgValue c =
     (case bk_exec bk (''ALTER SYSTEM SET '' @ pgVar @ '' = '' @ quoted pgValue) [] c of
        (Inl e, c) \<Rightarrow> (Some (AlterFailed pgVar e), c)
      | (Inr _, c) \<Rightarrow>
          (case bk_exec bk ''SELECT pg_reload_conf()'' [] c of
             (Inl e, c) \<Rightarrow> (Some (VarFailed e), c)
           | (Inr _, c) \<Rightarrow> (None, c)))"

definition apply_transform :: "var_mapping \<Rightarrow> string \<Rightarrow> string" where
  "apply_transform m v = (case vm_transform m of None \<Rightarrow> v | Some f \<Rightarrow> f v)"

definition HandleSetGlobal :: "'c backend \<Rightarrow> string \<Rightarrow> string \<Rightarrow> 'c \<Rightarrow> overrides
    \<Rightarrow> (bool \<times> var_error option) \<times> 'c \<times> overrides" where
  "HandleSetGlobal bk varName varValue c ov =
     (case GetVarMapping varName of
        None \<Rightarrow> ((False, None), c, ov)
      | Some m \<Rightarrow>
          if vm_scope m = ScopeInternal \<or> vm_no_op m then ((True, None), c, SetInternalVar varName varValue ov)
          else (let ov = SetInternalVar varName varValue ov;
                    (err, c) = alter_system bk (vm_pg_var m) (apply_transform m varValue) c
                in ((True, err), c, ov)))"

definition HandleSetSession :: "'c backend \<Rightarrow> string \<Rightarrow> string \<Rightarrow> 'c \<Rightarrow> (bool \<times> pg_error option) \<times> 'c" where
  "HandleSetSession bk varName varValue c =
     (case GetVarMapping varName of
        None \<Rightarrow> ((False, None), c)
      | Some m \<Rightarrow>
          if vm_no_op m \<or> vm_scope m = ScopeInternal then ((True, None), c)
          else (case bk_exec bk (''SET '' @ vm_pg_var m @ '' = '' @ quoted (apply_transform m varValue)) [] c of
                  (Inl e, c) \<Rightarrow> ((True, Some e), c)
                | (Inr _, c) \<Rightarrow> ((True, None), c)))"

section \<open>Reading\<close>

text \<open>\<open>None\<close>: not found; otherwise the value or the error.\<close>

definition GetMySQLVarValue :: "'c backend \<Rightarrow> string \<Rightarrow> 'c \<Rightarrow> overrides \<Rightarrow> (pg_error + string) option \<times> 'c" where
  "GetMySQLVarValue bk varName c ov =
     (case GetVarMapping varName of
        None \<Rightarrow> (None, c)
      | Some m \<Rightarrow>
          (case GetInternalVar ov varName of
             Some v \<Rightarrow> (Some (Inr v), c)
           | None \<Rightarrow>
               if vm_static m \<noteq> [] then (Some (Inr (vm_static m)), c)
               else if vm_no_op m \<or> vm_pg_var m = [] then (Some (Inr []), c)
               else (case query_row bk scan_string (''SHOW '' @ vm_pg_var m) [] c of
                       (Inl e, c) \<Rightarrow> (Some (Inl e), c)
                     | (Inr v, c) \<Rightarrow> (Some (Inr (case vm_reverse m of Some f \<Rightarrow> f v | None \<Rightarrow> v)), c))))"

definition GetMySQLStatusValue :: "'c backend \<Rightarrow> string \<Rightarrow> 'c \<Rightarrow> (pg_error + string) option \<times> 'c" where
  "GetMySQLStatusValue bk varName c =
     (case GetStatusVarMapping varName of
        None \<Rightarrow> (None, c)
      | Some m \<Rightarrow>
          if st_static m \<noteq> [] then (Some (Inr (st_static m)), c)
          else (case query_row bk scan_string (st_pg_query m) [] c of
                  (Inl e, c) \<Rightarrow> (Some (Inl e), c)
                | (Inr v, c) \<Rightarrow> (Some (Inr (case st_transform m of Some f \<Rightarrow> f v | None \<Rightarrow> v)), c)))"

section \<open>Properties\<close>

text \<open>A global variable reads back. After \<open>SET GLOBAL\<close> on a variable of the table, reading it, in any spelling and on any
  connection, gives exactly the text that was set, without asking PostgreSQL, and other variables are as before; this also
  holds when PostgreSQL rejected the change and the client was told so.\<close>

theorem set_global_read_back:
  assumes "GetVarMapping name = Some m" and "HandleSetGlobal bk name v c ov = (r, c', ov')"
    and "ToLower name' = ToLower name"
  shows "GetMySQLVarValue bk' name' d ov' = (Some (Inr v), d) \<and> fst r
    \<and> (ToLower x = ToLower name \<or> GetMySQLVarValue bk' x d ov' = GetMySQLVarValue bk' x d ov)"
proof -
  have ov: "ov' = ov(ToLower name \<mapsto> v)" and r: "fst r"
    using assms(1,2) by (auto simp: HandleSetGlobal_def SetInternalVar_def Let_def split: if_splits prod.splits)
  have "GetVarMapping name' = Some m" using assms(1,3) by (simp add: GetVarMapping_def)
  then show ?thesis
    using ov r assms(3)
    by (cases "ToLower x = ToLower name") (simp_all add: GetMySQLVarValue_def GetInternalVar_def cong: option.case_cong)
qed

definition refusing_backend :: "unit backend" where
  "refusing_backend = \<lparr>bk_exec = (\<lambda>_ _ c. (Inl (PgError ''42501'' ''denied''), c)),
     bk_query = (\<lambda>_ _ c. (Inl (PgError ''42501'' ''denied''), c))\<rparr>"

theorem set_global_read_back_witness:
  "\<exists>ov'. HandleSetGlobal refusing_backend ''read_only'' ''1'' () Map.empty
       = ((True, Some (AlterFailed ''default_transaction_read_only'' (PgError ''42501'' ''denied''))), (), ov')
     \<and> GetMySQLVarValue refusing_backend ''READ_ONLY'' () ov' = (Some (Inr ''1''), ())"
proof -
  have l: "ToLower ''READ_ONLY'' = ''read_only''" "ToLower ''read_only'' = ''read_only''" by code_simp+
  have m: "GetVarMapping ''read_only'' = Some (mapped ''default_transaction_read_only'' ScopeGlobal (Some read_only_on) (Some (one_if [''on''])))"
    unfolding GetVarMapping_def l by (simp add: var_tables)
  obtain ov' where h: "HandleSetGlobal refusing_backend ''read_only'' ''1'' () Map.empty
       = ((True, Some (AlterFailed ''default_transaction_read_only'' (PgError ''42501'' ''denied''))), (), ov')"
    by (simp add: HandleSetGlobal_def m mapped_def alter_system_def refusing_backend_def)
  then show ?thesis
    using set_global_read_back [OF m h, of "''READ_ONLY''" refusing_backend "()" "[]"] l by simp
qed

text \<open>The switches that are written and read through PostgreSQL keep their value.\<close>

lemma switch_roundtrip:
  "list_all (\<lambda>(_, m). case (vm_transform m, vm_reverse m) of
       (Some f, Some g) \<Rightarrow> g (f ''1'') = ''1'' \<and> g (f ''0'') = ''0'' \<and> g (f ''ON'') = ''1'' \<and> g (f ''OFF'') = ''0''
     | _ \<Rightarrow> True) mysqlToPostgresVars"
  by code_simp

text \<open>A timeout in seconds is written in milliseconds and read without a conversion.\<close>

lemma wait_timeout_units:
  "map_option (\<lambda>m. (apply_transform m ''30'', vm_reverse m = None)) (GetVarMapping ''wait_timeout'') = Some (''30000'', True)"
proof -
  have "ToLower ''wait_timeout'' = ''wait_timeout''" by code_simp
  then show ?thesis by (simp add: GetVarMapping_def var_tables mapped_def apply_transform_def)
qed

end
