(* ===== verification/Show_Queries.thy ===== *)
theory Show_Queries
  imports Go_Text
begin

text \<open>
  The catalogue queries of \<open>pkg/mapper/show.go\<close> and \<open>pkg/mapper/show_admin.go\<close>, with the names that are put into them. The Go sources spread
  each query over several lines; line breaks and indentation are written as one blank here, which SQL reads alike.
\<close>

section \<open>Texts\<close>

definition databases_text :: "string" where
  \<open>databases_text =
     sql_text (''SELECT schema_name AS "Database" FROM information_schema.schemata WHERE schema_name NOT IN (`pg_catalog`,''
       @ '' `information_schema`, `pg_toast`) ORDER BY schema_name'')\<close>

definition tables_text :: "string option \<Rightarrow> string" where
  \<open>tables_text schemaName =
     (case schemaName of
        Some s \<Rightarrow> sql_text ''SELECT table_name AS "Tables_in_''
     @ s
     @ sql_text ''" FROM information_schema.tables WHERE table_schema = `''
     @ s
     @ sql_text ''` AND table_type = `BASE TABLE` ORDER BY table_name''
      | None \<Rightarrow> sql_text (''SELECT table_name AS "Tables" FROM information_schema.tables WHERE table_schema = current_schema() AND''
       @ '' table_type = `BASE TABLE` ORDER BY table_name''))\<close>

definition full_columns_text :: "string \<Rightarrow> string \<Rightarrow> string" where
  \<open>full_columns_text schemaName tableName =
     sql_text (''SELECT column_name AS "Field", CASE WHEN data_type = `integer` THEN `int(11)` WHEN data_type = `smallint` THEN''
       @ '' `smallint(6)` WHEN data_type = `bigint` THEN `bigint(20)` WHEN data_type = `serial` THEN `int(11)` WHEN''
       @ '' data_type = `bigserial` THEN `bigint(20)` WHEN data_type = `character varying` THEN `varchar(` ||''
       @ '' COALESCE(character_maximum_length::text, `255`) || `)` WHEN data_type = `character` THEN `char(` ||''
       @ '' COALESCE(character_maximum_length::text, `1`) || `)` WHEN data_type = `text` THEN `text` WHEN data_type =''
       @ '' `boolean` THEN `tinyint(1)` WHEN data_type = `numeric` THEN `decimal(` || COALESCE(numeric_precision::text,''
       @ '' `10`) || `,` || COALESCE(numeric_scale::text, `0`) || `)` WHEN data_type = `real` THEN `float` WHEN data_type''
       @ '' = `double precision` THEN `double` WHEN data_type = `date` THEN `date` WHEN data_type = `time without time''
       @ '' zone` THEN `time` WHEN data_type = `time with time zone` THEN `time` WHEN data_type = `timestamp without time''
       @ '' zone` THEN `datetime` WHEN data_type = `timestamp with time zone` THEN `timestamp` WHEN data_type = `bytea`''
       @ '' THEN `blob` WHEN data_type = `json` THEN `json` WHEN data_type = `jsonb` THEN `json` WHEN data_type = `uuid`''
       @ '' THEN `char(36)` ELSE data_type END AS "Type", COALESCE(collation_name, ``) AS "Collation", CASE WHEN''
       @ '' is_nullable = `YES` THEN `YES` ELSE `NO` END AS "Null", CASE WHEN EXISTS ( SELECT 1 FROM''
       @ '' information_schema.table_constraints tc JOIN information_schema.key_column_usage kcu ON tc.constraint_name =''
       @ '' kcu.constraint_name AND tc.table_schema = kcu.table_schema WHERE tc.constraint_type = `PRIMARY KEY` AND''
       @ '' kcu.table_schema = '')
     @ schemaName
     @ sql_text '' AND kcu.table_name = `''
     @ tableName
     @ sql_text (''` AND kcu.column_name = c.column_name ) THEN `PRI` ELSE `` END AS "Key", COALESCE(column_default, ``) AS''
       @ '' "Default", CASE WHEN column_default LIKE `nextval%` THEN `auto_increment` ELSE `` END AS "Extra",''
       @ '' `select,insert,update,references` AS "Privileges", `` AS "Comment" FROM information_schema.columns c WHERE''
       @ '' table_schema = '')
     @ schemaName
     @ sql_text '' AND table_name = `''
     @ tableName
     @ sql_text ''` ORDER BY ordinal_position''\<close>

definition plain_columns_text :: "string \<Rightarrow> string \<Rightarrow> string" where
  \<open>plain_columns_text schemaName tableName =
     sql_text (''SELECT column_name AS "Field", CASE WHEN data_type = `integer` THEN `int(11)` WHEN data_type = `smallint` THEN''
       @ '' `smallint(6)` WHEN data_type = `bigint` THEN `bigint(20)` WHEN data_type = `character varying` THEN''
       @ '' `varchar(` || COALESCE(character_maximum_length::text, `255`) || `)` WHEN data_type = `character` THEN''
       @ '' `char(` || COALESCE(character_maximum_length::text, `1`) || `)` WHEN data_type = `text` THEN `text` WHEN''
       @ '' data_type = `boolean` THEN `tinyint(1)` WHEN data_type = `numeric` THEN `decimal(` ||''
       @ '' COALESCE(numeric_precision::text, `10`) || `,` || COALESCE(numeric_scale::text, `0`) || `)` ELSE data_type''
       @ '' END AS "Type", CASE WHEN is_nullable = `YES` THEN `YES` ELSE `NO` END AS "Null", COALESCE(column_default, ``)''
       @ '' AS "Default", `` AS "Key", `` AS "Extra" FROM information_schema.columns WHERE table_schema = '')
     @ schemaName
     @ sql_text '' AND table_name = `''
     @ tableName
     @ sql_text ''` ORDER BY ordinal_position''\<close>

definition describe_text :: "string \<Rightarrow> string" where
  \<open>describe_text tableName =
     sql_text (''SELECT column_name AS "Field", data_type AS "Type", is_nullable AS "Null", column_default AS "Default", CASE''
       @ '' WHEN EXISTS ( SELECT 1 FROM information_schema.key_column_usage kcu WHERE kcu.table_schema = current_schema()''
       @ '' AND kcu.table_name = c.table_name AND kcu.column_name = c.column_name ) THEN `PRI` ELSE `` END AS "Key", CASE''
       @ '' WHEN column_default LIKE `nextval%` THEN `auto_increment` ELSE `` END AS "Extra" FROM''
       @ '' information_schema.columns c WHERE c.table_schema = current_schema() AND c.table_name = `'')
     @ tableName
     @ sql_text ''` ORDER BY c.ordinal_position''\<close>

definition create_table_text :: "string \<Rightarrow> string" where
  \<open>create_table_text tableName =
     sql_text ''SELECT `''
     @ tableName
     @ sql_text ''` AS "Table", `CREATE TABLE ''
     @ tableName
     @ sql_text '' (...) ` AS "Create Table"''\<close>

definition index_text :: "string \<Rightarrow> string \<Rightarrow> string" where
  \<open>index_text tableName schemaName =
     sql_text ''SELECT `''
     @ tableName
     @ sql_text (''` AS "Table", CASE WHEN i.indisunique THEN 0 ELSE 1 END AS "Non_unique", CASE WHEN i.indisprimary THEN''
       @ '' `PRIMARY` ELSE ic.relname END AS "Key_name", a.attnum AS "Seq_in_index", a.attname AS "Column_name", `A` AS''
       @ '' "Collation", 0::bigint AS "Cardinality", NULL AS "Sub_part", NULL AS "Packed", CASE WHEN a.attnotnull THEN ``''
       @ '' ELSE `YES` END AS "Null", `BTREE` AS "Index_type", `` AS "Comment", `` AS "Index_comment", `YES` AS "Visible"''
       @ '' FROM pg_index i JOIN pg_class t ON t.oid = i.indrelid JOIN pg_class ic ON ic.oid = i.indexrelid JOIN''
       @ '' pg_namespace n ON n.oid = t.relnamespace JOIN pg_attribute a ON a.attrelid = t.oid AND a.attnum =''
       @ '' ANY(i.indkey) WHERE n.nspname = '')
     @ schemaName
     @ sql_text '' AND t.relname = `''
     @ tableName
     @ sql_text ''` ORDER BY CASE WHEN i.indisprimary THEN 0 ELSE 1 END, ic.relname, a.attnum''\<close>

definition status_text :: "string" where
  \<open>status_text =
     sql_text (''SELECT `Uptime` AS "Variable_name", `0` AS "Value" UNION ALL SELECT `Threads_connected`, `1` UNION ALL SELECT''
       @ '' `Questions`, `0` UNION ALL SELECT `Slow_queries`, `0`'')\<close>

definition variable_text :: "string \<Rightarrow> string \<Rightarrow> string" where
  \<open>variable_text name v =
     sql_text ''SELECT `''
     @ name
     @ sql_text ''` AS "Variable_name", `''
     @ v
     @ sql_text ''` AS "Value"''\<close>

definition settings_text :: "string \<Rightarrow> string" where
  \<open>settings_text pgPattern =
     sql_text ''SELECT name AS "Variable_name", setting AS "Value" FROM pg_settings WHERE name LIKE `''
     @ pgPattern
     @ sql_text ''` ORDER BY name''\<close>

definition variables_text :: "string" where
  \<open>variables_text =
     sql_text (''SELECT `version` AS "Variable_name", version() AS "Value" UNION ALL SELECT `character_set_client`, `utf8mb4`''
       @ '' UNION ALL SELECT `character_set_connection`, `utf8mb4` UNION ALL SELECT `character_set_results`, `utf8mb4`''
       @ '' UNION ALL SELECT `character_set_server`, `utf8mb4` UNION ALL SELECT `collation_connection`,''
       @ '' `utf8mb4_general_ci` UNION ALL SELECT `collation_server`, `utf8mb4_general_ci` UNION ALL SELECT `autocommit`,''
       @ '' `ON` UNION ALL SELECT `max_allowed_packet`, `67108864` UNION ALL SELECT `sql_mode`, `TRADITIONAL`'')\<close>

definition warnings_text :: "string" where
  \<open>warnings_text =
     sql_text ''SELECT `Warning` AS "Level", 0 AS "Code", `` AS "Message" LIMIT 0''\<close>

definition global_variables_text :: "string" where
  \<open>global_variables_text =
     sql_text (''SELECT `binlog_format` AS "Variable_name", `ROW` AS "Value" UNION ALL SELECT `binlog_row_image`, `FULL` UNION''
       @ '' ALL SELECT `server_id`, `1` UNION ALL SELECT `log_bin`, `ON` UNION ALL SELECT `gtid_mode`, `OFF` UNION ALL''
       @ '' SELECT `binlog_checksum`, `CRC32` UNION ALL SELECT `max_allowed_packet`, `67108864` UNION ALL SELECT''
       @ '' `character_set_server`, `utf8mb4` UNION ALL SELECT `collation_server`, `utf8mb4_general_ci`'')\<close>

definition global_status_text :: "string" where
  \<open>global_status_text =
     sql_text (''SELECT `Uptime` AS "Variable_name", EXTRACT(EPOCH FROM (now() - pg_postmaster_start_time()))::int::text AS''
       @ '' "Value" UNION ALL SELECT `Threads_connected`, (SELECT count(*)::text FROM pg_stat_activity WHERE state IS NOT''
       @ '' NULL) UNION ALL SELECT `Questions`, `0` UNION ALL SELECT `Slow_queries`, `0` UNION ALL SELECT''
       @ '' `rpl_semi_sync_master_status`, CASE WHEN (SELECT setting FROM pg_settings WHERE name = `synchronous_commit`)''
       @ '' IN (`on`, `remote_write`, `remote_apply`) THEN `ON` ELSE `OFF` END UNION ALL SELECT''
       @ '' `rpl_semi_sync_master_clients`, (SELECT count(*)::text FROM pg_stat_replication WHERE sync_state = `sync`)'')\<close>

definition no_slave_text :: "string" where
  \<open>no_slave_text =
     sql_text (''SELECT `` AS "Slave_IO_State", `` AS "Master_Host", 0 AS "Master_Port", `` AS "Master_User", 0 AS''
       @ '' "Connect_Retry", `` AS "Master_Log_File", 0 AS "Read_Master_Log_Pos", `` AS "Relay_Log_File", 0 AS''
       @ '' "Relay_Log_Pos", `` AS "Relay_Master_Log_File", `No` AS "Slave_IO_Running", `No` AS "Slave_SQL_Running", ``''
       @ '' AS "Last_Errno", `` AS "Last_Error", 0 AS "Seconds_Behind_Master", `` AS "Channel_Name", `` AS''
       @ '' "Retrieved_Gtid_Set", `` AS "Executed_Gtid_Set" WHERE false'')\<close>

definition slave_text :: "string" where
  \<open>slave_text =
     sql_text (''SELECT COALESCE(wr.status, `stopped`) AS "Slave_IO_State", COALESCE( (SELECT split_part(conninfo, `host=`, 2)''
       @ '' FROM pg_stat_wal_receiver LIMIT 1), `` ) AS "Master_Host", COALESCE( (SELECT split_part(split_part(conninfo,''
       @ '' `port=`, 2), ` `, 1)::int FROM pg_stat_wal_receiver LIMIT 1), 5432 ) AS "Master_Port", COALESCE( (SELECT''
       @ '' split_part(split_part(conninfo, `user=`, 2), ` `, 1) FROM pg_stat_wal_receiver LIMIT 1), `` ) AS''
       @ '' "Master_User", 60 AS "Connect_Retry", COALESCE(pg_walfile_name(COALESCE(wr.flushed_lsn, `0/0`)), ``) AS''
       @ '' "Master_Log_File", COALESCE(wr.flushed_lsn::text, `0/0`)::text AS "Read_Master_Log_Pos",''
       @ '' COALESCE(pg_walfile_name(pg_last_wal_receive_lsn()), ``) AS "Relay_Log_File",''
       @ '' COALESCE(pg_last_wal_receive_lsn()::text, `0/0`) AS "Relay_Log_Pos",''
       @ '' COALESCE(pg_walfile_name(pg_last_wal_replay_lsn()), ``) AS "Relay_Master_Log_File", CASE WHEN wr.status =''
       @ '' `streaming` THEN `Yes` ELSE `No` END AS "Slave_IO_Running", CASE WHEN NOT pg_is_wal_replay_paused() THEN''
       @ '' `Yes` ELSE `No` END AS "Slave_SQL_Running", `0` AS "Last_Errno", `` AS "Last_Error", COALESCE( EXTRACT(EPOCH''
       @ '' FROM (now() - pg_last_xact_replay_timestamp()))::int, 0 ) AS "Seconds_Behind_Master", COALESCE(wr.slot_name,''
       @ '' ``) AS "Channel_Name", COALESCE(pg_last_wal_receive_lsn()::text, ``) AS "Retrieved_Gtid_Set",''
       @ '' COALESCE(pg_last_wal_replay_lsn()::text, ``) AS "Executed_Gtid_Set" FROM (SELECT status, flushed_lsn,''
       @ '' slot_name, conninfo FROM pg_stat_wal_receiver LIMIT 1) wr'')\<close>

definition channel_text :: "string \<Rightarrow> string" where
  \<open>channel_text channelName =
     (if channelName = [] then slave_text
      else sql_text ''SELECT * FROM (''
     @ slave_text
     @ sql_text '') sub WHERE "Channel_Name" = `''
     @ channelName
     @ sql_text ''`'')\<close>

definition slave_hosts_text :: "string" where
  \<open>slave_hosts_text =
     sql_text (''SELECT pid AS "Server_id", COALESCE(client_addr::text, ``) AS "Host", 0 AS "Port", 0 AS "Master_id",''
       @ '' COALESCE(application_name, ``) AS "Slave_UUID" FROM pg_stat_replication ORDER BY pid'')\<close>

definition master_status_text :: "string" where
  \<open>master_status_text =
     sql_text (''SELECT pg_walfile_name(pg_current_wal_lsn()) AS "File", pg_current_wal_lsn()::text AS "Position", ``::text AS''
       @ '' "Binlog_Do_DB", ``::text AS "Binlog_Ignore_DB", pg_current_wal_lsn()::text AS "Executed_Gtid_Set"'')\<close>

definition binary_logs_text :: "string" where
  \<open>binary_logs_text =
     sql_text (''SELECT name AS "Log_name", size AS "File_size", `` AS "Encrypted" FROM pg_ls_waldir() ORDER BY name DESC LIMIT''
       @ '' 20'')\<close>

definition process_list_text :: "string" where
  \<open>process_list_text =
     sql_text (''SELECT pid AS "Id", COALESCE(usename, `system`) AS "User", COALESCE(client_addr::text || `:` ||''
       @ '' client_port::text, `local`) AS "Host", COALESCE(datname, ``) AS "db", CASE WHEN state = `active` THEN `Query`''
       @ '' WHEN state = `idle` THEN `Sleep` WHEN state = `idle in transaction` THEN `Sleep` WHEN state = `idle in''
       @ '' transaction (aborted)` THEN `Sleep` ELSE `Connect` END AS "Command", COALESCE(EXTRACT(EPOCH FROM (now() -''
       @ '' query_start))::int, 0) AS "Time", COALESCE( CASE WHEN state = `active` THEN `executing` WHEN wait_event IS''
       @ '' NOT NULL THEN wait_event_type || `: ` || wait_event ELSE `` END, `` ) AS "State", COALESCE(query, ``) AS''
       @ '' "Info" FROM pg_stat_activity WHERE pid != pg_backend_pid() ORDER BY pid'')\<close>

text \<open>The rows of \<open>SHOW GLOBAL STATUS WHERE\<close> are joined by \<open>UNION ALL\<close>.\<close>

definition status_values_text :: "(string \<times> string) list \<Rightarrow> string" where
  "status_values_text vs = Join (map (\<lambda>(name, v). variable_text name v) vs) '' UNION ALL ''"

section \<open>Queries\<close>

text \<open>Schema expressions: \<open>current_schema()\<close>, or a quoted name.\<close>

datatype schema_expr = CurrentSchema | NamedSchema string

primrec schema_text :: "schema_expr \<Rightarrow> string" where
  "schema_text CurrentSchema = ''current_schema()''"
| "schema_text (NamedSchema s) = quoted s"

datatype show_query =
    QDatabases
  | QTables "string option"
  | QColumns bool schema_expr string
  | QDescribe string
  | QCreateTable string
  | QIndex string schema_expr
  | QStatus
  | QVarValue string string
  | QSettings string
  | QDefaultVariables
  | QGlobalVariables
  | QWarnings
  | QGlobalStatus
  | QStatusValues "(string \<times> string) list"
  | QSlaveStatusEmpty
  | QSlaveStatus string
  | QSlaveHosts
  | QMasterStatus
  | QBinaryLogs
  | QProcessList

fun show_text :: "show_query \<Rightarrow> string" where
  "show_text QDatabases = databases_text"
| "show_text (QTables s) = tables_text s"
| "show_text (QColumns full s t) = (if full then full_columns_text (schema_text s) t else plain_columns_text (schema_text s) t)"
| "show_text (QDescribe t) = describe_text t"
| "show_text (QCreateTable t) = create_table_text t"
| "show_text (QIndex t s) = index_text t (schema_text s)"
| "show_text QStatus = status_text"
| "show_text (QVarValue name v) = variable_text name v"
| "show_text (QSettings p) = settings_text p"
| "show_text QDefaultVariables = variables_text"
| "show_text QGlobalVariables = global_variables_text"
| "show_text QWarnings = warnings_text"
| "show_text QGlobalStatus = global_status_text"
| "show_text (QStatusValues vs) = status_values_text vs"
| "show_text QSlaveStatusEmpty = no_slave_text"
| "show_text (QSlaveStatus channel) = channel_text channel"
| "show_text QSlaveHosts = slave_hosts_text"
| "show_text QMasterStatus = master_status_text"
| "show_text QBinaryLogs = binary_logs_text"
| "show_text QProcessList = process_list_text"

end
