(* ===== verification/Mapper_Show.thy ===== *)
theory Mapper_Show
  imports Mapper_Vars Show_Queries
begin

text \<open>
  The SHOW emulator, \<open>pkg/mapper/show.go\<close> and \<open>pkg/mapper/show_admin.go\<close>: which catalogue query answers a command, and the names
  that are cut out of the statement and put into it. The texts of the queries are in \<open>Show_Queries\<close>. Names are cut out at offsets of
  the upper-case copy of the statement; an offset behind its end panics.
\<close>

section \<open>Running a query\<close>

datatype show_error = Unsupported string | NoTableName string | InvalidShow string | ShowPg pg_error | RecoveryCheck pg_error
  | SliceOutOfRange

definition run_query :: "'c backend \<Rightarrow> show_query \<Rightarrow> 'c \<Rightarrow> (show_error + pg_rows) \<times> 'c" where
  "run_query bk q c =
     (case bk_query bk (show_text q) [] c of (Inl e, c) \<Rightarrow> (Inl (ShowPg e), c) | (Inr r, c) \<Rightarrow> (Inr r, c))"

section \<open>Names\<close>

definition slice_from :: "nat \<Rightarrow> string \<Rightarrow> show_error + string" where
  "slice_from n sql = (if length sql < n then Inl SliceOutOfRange else Inr (drop n sql))"

fun table_keyword :: "string \<Rightarrow> string list \<Rightarrow> show_error + string option" where
  "table_keyword sql [] = Inr None"
| "table_keyword sql (keyword # ks) =
     (case Index (ToUpper sql) keyword of
        None \<Rightarrow> table_keyword sql ks
      | Some idx \<Rightarrow>
          (case slice_from (idx + length keyword) sql of
             Inl e \<Rightarrow> Inl e
           | Inr remaining \<Rightarrow>
               (case Fields remaining of
                  [] \<Rightarrow> table_keyword sql ks
                | w # _ \<Rightarrow> Inr (Some (Trim w all_quotes)))))"

definition extractTableName :: "string \<Rightarrow> show_error + string" where
  "extractTableName sql =
     (case table_keyword sql [''FROM'', ''IN'', ''COLUMNS'', ''FIELDS'', ''INDEX''] of
        Inl e \<Rightarrow> Inl e
      | Inr (Some t) \<Rightarrow> Inr t
      | Inr None \<Rightarrow>
          Inr (let parts = Fields sql in if 2 \<le> length parts then Trim (last parts) all_quotes else []))"

definition split_schema :: "string \<Rightarrow> schema_expr \<times> string" where
  "split_schema tableName =
     (let tableName = ReplaceAll tableName ''`'' []
      in if Contains tableName ''.''
         then (let parts = SplitN2 tableName (CHR ''.'') in (NamedSchema (parts ! 0), parts ! 1))
         else (CurrentSchema, tableName))"

fun schema_after :: "string list \<Rightarrow> string" where
  "schema_after (p # q # ps) =
     (if ToUpper p = ''FROM'' \<or> ToUpper p = ''IN'' then Trim q all_quotes else schema_after (q # ps))"
| "schema_after _ = []"

fun variable_names :: "string list \<Rightarrow> string list" where
  "variable_names [] = []"
| "variable_names (part # parts) =
     (let part = TrimSpace (TrimPrefix (TrimSpace part) ''='')
      in case part of
           [] \<Rightarrow> variable_names parts
         | q # rest \<Rightarrow>
             if q \<in> set value_quotes
             then (case Index rest [q] of
                     Some e \<Rightarrow> take e rest # variable_names parts
                   | None \<Rightarrow> variable_names parts)
             else variable_names parts)"

definition extractVariableNames :: "string \<Rightarrow> string list" where
  "extractVariableNames clause = variable_names (tl (SplitStr (ToLower clause) ''variable_name''))"

section \<open>Commands\<close>

definition showTables :: "string \<Rightarrow> show_query" where
  "showTables sql =
     (let schemaName = (if Contains (ToUpper sql) ''FROM'' \<or> Contains (ToUpper sql) ''IN'' then schema_after (Fields sql) else [])
      in QTables (if schemaName = [] then None else Some schemaName))"

definition showColumns :: "string \<Rightarrow> show_error + show_query" where
  "showColumns sql =
     (case extractTableName sql of
        Inl e \<Rightarrow> Inl e
      | Inr tableName \<Rightarrow>
          if tableName = [] then Inl (NoTableName sql)
          else (let (schemaName, tableName) = split_schema tableName
                in Inr (QColumns (Contains (ToUpper sql) ''FULL'') schemaName tableName)))"

definition describe :: "string \<Rightarrow> show_error + show_query" where
  "describe sql =
     (case Fields sql of _ # t # _ \<Rightarrow> Inr (QDescribe (Trim t all_quotes)) | _ \<Rightarrow> Inl (InvalidShow sql))"

definition showCreateTable :: "string \<Rightarrow> show_error + show_query" where
  "showCreateTable sql =
     (case Fields sql of _ # _ # _ # t # _ \<Rightarrow> Inr (QCreateTable (Trim t all_quotes)) | _ \<Rightarrow> Inl (InvalidShow sql))"

definition showIndex :: "string \<Rightarrow> show_error + show_query" where
  "showIndex sql =
     (case extractTableName sql of
        Inl e \<Rightarrow> Inl e
      | Inr tableName \<Rightarrow>
          if tableName = [] then Inl (NoTableName sql)
          else (let (schemaName, tableName) = split_schema tableName in Inr (QIndex tableName schemaName)))"

text \<open>A lookup in the variable table, then the query that returns it or the fallback.\<close>

definition var_or :: "'c backend \<Rightarrow> string \<Rightarrow> show_query \<Rightarrow> 'c \<Rightarrow> overrides
    \<Rightarrow> (show_error + pg_rows) \<times> 'c" where
  "var_or bk name fallback c ov =
     (case GetMySQLVarValue bk name c ov of
        (Some (Inl e), c) \<Rightarrow> (Inl (ShowPg e), c)
      | (Some (Inr v), c) \<Rightarrow> run_query bk (QVarValue name v) c
      | (None, c) \<Rightarrow> run_query bk fallback c)"

definition like_pattern :: "string \<Rightarrow> string" where
  "like_pattern part = Trim (TrimSpace part) value_quotes"

definition showVariables :: "'c backend \<Rightarrow> string \<Rightarrow> 'c \<Rightarrow> overrides
    \<Rightarrow> (show_error + pg_rows) \<times> 'c" where
  "showVariables bk sql c ov =
     (let parts = SplitStr sql ''LIKE''
      in if Contains (ToUpper sql) ''LIKE'' \<and> 1 < length parts
         then (let pattern = like_pattern (parts ! 1);
                   cleanPattern = ReplaceAll pattern ''%'' [];
                   fallback = QSettings (ReplaceAll pattern ''%'' ''%%'')
               in if cleanPattern \<noteq> [] then var_or bk cleanPattern fallback c ov
                  else run_query bk fallback c)
         else run_query bk QDefaultVariables c)"

definition fixed_variables :: "(string \<times> string) list" where
  "fixed_variables =
     [(''binlog_format'', ''ROW''), (''binlog_row_image'', ''FULL''), (''server_id'', ''1''),
      (''server_uuid'', ''38db14f0-9bcc-487a-8001-9bcc38db18d8''), (''gtid_mode'', ''OFF''), (''log_bin'', ''ON''),
      (''binlog_checksum'', ''CRC32'')]"

definition showGlobalVariables :: "'c backend \<Rightarrow> string \<Rightarrow> 'c \<Rightarrow> overrides
    \<Rightarrow> (show_error + pg_rows) \<times> 'c" where
  "showGlobalVariables bk sql c ov =
     (let parts = SplitStr (ToUpper sql) ''LIKE''
      in if Contains (ToUpper sql) ''LIKE'' \<and> 1 < length parts
         then (let pattern = ReplaceAll (ToLower (like_pattern (parts ! 1))) ''%'' []
               in var_or bk pattern
                    (case map_of fixed_variables pattern of
                       Some v \<Rightarrow> QVarValue pattern v
                     | None \<Rightarrow> QGlobalVariables) c ov)
         else run_query bk QGlobalVariables c)"

fun status_values :: "'c backend \<Rightarrow> string list \<Rightarrow> 'c \<Rightarrow> (string \<times> string) list \<times> 'c" where
  "status_values bk [] c = ([], c)"
| "status_values bk (name # names) c =
     (let (r, c) = GetMySQLStatusValue bk name c;
          v = (case r of Some (Inr v) \<Rightarrow> v | _ \<Rightarrow> []);
          (vs, c) = status_values bk names c
      in ((name, v) # vs, c))"

definition showGlobalStatusWhere :: "'c backend \<Rightarrow> string \<Rightarrow> 'c
    \<Rightarrow> (show_error + pg_rows) \<times> 'c" where
  "showGlobalStatusWhere bk sql c =
     (case Index (ToUpper sql) ''WHERE'' of
        None \<Rightarrow> run_query bk QGlobalStatus c
      | Some whereIdx \<Rightarrow>
          (case slice_from (whereIdx + 5) sql of
             Inl e \<Rightarrow> (Inl e, c)
           | Inr wherePart \<Rightarrow>
               (let varNames = extractVariableNames wherePart
                in if varNames = [] then run_query bk QGlobalStatus c
                   else (let (vs, c) = status_values bk varNames c in run_query bk (QStatusValues vs) c))))"

definition showGlobalStatus :: "'c backend \<Rightarrow> string \<Rightarrow> 'c \<Rightarrow> (show_error + pg_rows) \<times> 'c" where
  "showGlobalStatus bk sql c =
     (if Contains (ToUpper sql) ''WHERE'' then showGlobalStatusWhere bk sql c
      else run_query bk QGlobalStatus c)"

definition channel_name :: "string \<Rightarrow> show_error + string" where
  "channel_name sql =
     (case Index (ToUpper sql) ''FOR CHANNEL'' of
        None \<Rightarrow> Inr []
      | Some idx \<Rightarrow>
          (case slice_from (idx + 11) sql of
             Inl e \<Rightarrow> Inl e
           | Inr rest \<Rightarrow> Inr (Trim (TrimSpace rest) ([CHR 0x20] @ all_quotes))))"

definition showSlaveStatus :: "'c backend \<Rightarrow> string \<Rightarrow> 'c \<Rightarrow> (show_error + pg_rows) \<times> 'c" where
  "showSlaveStatus bk sql c =
     (case channel_name sql of
        Inl e \<Rightarrow> (Inl e, c)
      | Inr channelName \<Rightarrow>
          (case query_row bk scan_bool ''SELECT pg_is_in_recovery()'' [] c of
             (Inl e, c) \<Rightarrow> (Inl (RecoveryCheck e), c)
           | (Inr isInRecovery, c) \<Rightarrow>
               run_query bk (if isInRecovery then QSlaveStatus channelName else QSlaveStatusEmpty) c))"

definition run_or_fail :: "'c backend \<Rightarrow> show_error + show_query \<Rightarrow> 'c \<Rightarrow> (show_error + pg_rows) \<times> 'c" where
  "run_or_fail bk r c = (case r of Inl e \<Rightarrow> (Inl e, c) | Inr q \<Rightarrow> run_query bk q c)"

definition HandleShowCommand :: "'c backend \<Rightarrow> string \<Rightarrow> 'c \<Rightarrow> overrides
    \<Rightarrow> (show_error + pg_rows) \<times> 'c" where
  "HandleShowCommand bk sql c ov =
     (let upperSQL = ToUpper (TrimSpace sql); run = (\<lambda>q. run_query bk q c)
      in if HasPrefix upperSQL ''SHOW DATABASES'' then run QDatabases
         else if HasPrefix upperSQL ''SHOW TABLES'' then run (showTables sql)
         else if HasPrefix upperSQL ''SHOW COLUMNS'' \<or> HasPrefix upperSQL ''SHOW FIELDS''
              \<or> HasPrefix upperSQL ''SHOW FULL COLUMNS'' \<or> HasPrefix upperSQL ''SHOW FULL FIELDS''
         then run_or_fail bk (showColumns sql) c
         else if HasPrefix upperSQL ''DESCRIBE '' \<or> HasPrefix upperSQL ''DESC '' then run_or_fail bk (describe sql) c
         else if HasPrefix upperSQL ''SHOW CREATE TABLE'' then run_or_fail bk (showCreateTable sql) c
         else if HasPrefix upperSQL ''SHOW INDEX'' then run_or_fail bk (showIndex sql) c
         else if HasPrefix upperSQL ''SHOW STATUS'' then run QStatus
         else if HasPrefix upperSQL ''SHOW VARIABLES'' then showVariables bk sql c ov
         else if HasPrefix upperSQL ''SHOW GLOBAL VARIABLES'' then showGlobalVariables bk sql c ov
         else if HasPrefix upperSQL ''SHOW GLOBAL STATUS'' then showGlobalStatus bk sql c
         else if HasPrefix upperSQL ''SHOW WARNINGS'' then run QWarnings
         else if HasPrefix upperSQL ''SHOW SLAVE STATUS'' then showSlaveStatus bk sql c
         else if HasPrefix upperSQL ''SHOW SLAVE HOSTS'' \<or> HasPrefix upperSQL ''SHOW REPLICAS'' then run QSlaveHosts
         else if HasPrefix upperSQL ''SHOW MASTER STATUS'' then run QMasterStatus
         else if HasPrefix upperSQL ''SHOW BINARY LOGS'' \<or> HasPrefix upperSQL ''SHOW MASTER LOGS'' then run QBinaryLogs
         else if HasPrefix upperSQL ''SHOW PROCESSLIST'' \<or> HasPrefix upperSQL ''SHOW FULL PROCESSLIST'' then run QProcessList
         else (Inl (Unsupported sql), c))"

text \<open>
  Here the upper-case copy has the length of the statement, as in Go for ASCII text, and no offset is out of range. Go's upper case of
  other letters may be longer in bytes (the letter U+0250 grows from two to three); then the slice may panic.
\<close>

lemma slice_at_match [simp]: "Index (ToUpper sql) p = Some i \<Longrightarrow> n = length p \<Longrightarrow> slice_from (i + n) sql = Inr (drop (i + n) sql)"
  using Index_bound [of "ToUpper sql" p i] by (simp add: slice_from_def ToUpper_def)

lemma extractTableName_ok: "\<exists>t. extractTableName sql = Inr t"
proof -
  have "\<exists>r. table_keyword sql ks = Inr r" for ks
    by (induction ks) (auto split: option.splits list.splits)
  then obtain r where "table_keyword sql [''FROM'', ''IN'', ''COLUMNS'', ''FIELDS'', ''INDEX''] = Inr r" by blast
  then show ?thesis unfolding extractTableName_def by (cases r) simp_all
qed

lemma run_query_slices [simp]: "run_query bk q c \<noteq> (Inl SliceOutOfRange, c')"
  by (simp add: run_query_def split: prod.splits sum.splits)

lemma channel_name_ok: "\<exists>ch. channel_name sql = Inr ch"
  by (simp add: channel_name_def split: option.splits)

lemma show_never_slices: "HandleShowCommand bk sql c ov \<noteq> (Inl SliceOutOfRange, c')"
proof -
  have r: "run_or_fail bk x c \<noteq> (Inl SliceOutOfRange, c')" if "x \<noteq> Inl SliceOutOfRange" for x
    using that by (auto simp: run_or_fail_def split: sum.splits)
  have "showColumns sql \<noteq> Inl SliceOutOfRange" "showIndex sql \<noteq> Inl SliceOutOfRange"
    using extractTableName_ok [of sql] by (auto simp: showColumns_def showIndex_def split_def Let_def split: if_splits)
  moreover have "describe sql \<noteq> Inl SliceOutOfRange" "showCreateTable sql \<noteq> Inl SliceOutOfRange"
    by (auto simp: describe_def showCreateTable_def split: list.splits)
  moreover have "showVariables bk sql c ov \<noteq> (Inl SliceOutOfRange, c')" "showGlobalVariables bk sql c ov \<noteq> (Inl SliceOutOfRange, c')"
    by (auto simp: showVariables_def showGlobalVariables_def var_or_def Let_def split: prod.splits option.splits sum.splits)
  moreover have "showGlobalStatus bk sql c \<noteq> (Inl SliceOutOfRange, c')"
    by (auto simp: showGlobalStatus_def showGlobalStatusWhere_def Let_def split: prod.splits option.splits)
  moreover have "showSlaveStatus bk sql c \<noteq> (Inl SliceOutOfRange, c')"
    using channel_name_ok [of sql] by (auto simp: showSlaveStatus_def split: prod.splits sum.splits)
  ultimately show ?thesis using r unfolding HandleShowCommand_def Let_def by (auto split: if_splits)
qed

section \<open>SET and USE\<close>

fun strip_scope :: "string list \<Rightarrow> string \<Rightarrow> string" where
  "strip_scope [] assignment = assignment"
| "strip_scope (p # ps) assignment =
     (if HasPrefix (ToUpper assignment) p then drop (length p) assignment else strip_scope ps assignment)"

text \<open>The assignments that the fallback finds, or an error.\<close>

definition HandleSetCommand :: "string \<Rightarrow> string + (string \<times> string) list" where
  "HandleSetCommand sql =
     (let normalizedSQL = TrimSpace sql
      in if \<not> HasPrefix (ToUpper normalizedSQL) ''SET '' then Inl ''not a SET command''
         else (let assignment = TrimSpace (drop 4 normalizedSQL); fields = Fields assignment
               in if 2 \<le> length fields \<and> EqualFold (fields ! 0) ''NAMES''
                  then (let charset = Trim (fields ! 1) value_quotes
                        in Inr ([(''names'', charset), (''character_set_client'', charset),
                                 (''character_set_connection'', charset), (''character_set_results'', charset)]
                                @ (if 4 \<le> length fields \<and> EqualFold (fields ! 2) ''COLLATE''
                                   then [(''collation_connection'', Trim (fields ! 3) value_quotes)] else [])))
                  else (let assignment = strip_scope [''GLOBAL '', ''SESSION '', ''@@GLOBAL.'', ''@@SESSION.'', ''@@''] assignment;
                            parts = SplitN2 assignment (CHR ''='')
                        in if length parts \<noteq> 2 then Inl ''invalid SET syntax''
                           else Inr [(TrimSpace (parts ! 0), Trim (TrimSpace (parts ! 1)) value_quotes)])))"

definition HandleUseCommand :: "'c backend \<Rightarrow> string \<Rightarrow> 'c \<Rightarrow> (show_error + unit) \<times> 'c" where
  "HandleUseCommand bk sql c =
     (case Fields sql of
        _ # d # _ \<Rightarrow>
          (case bk_exec bk (''SET search_path TO '' @ Trim d all_quotes) [] c of
             (Inl e, c) \<Rightarrow> (Inl (ShowPg e), c)
           | (Inr _, c) \<Rightarrow> (Inr (), c))
      | _ \<Rightarrow> (Inl (InvalidShow sql), c))"

section \<open>Properties\<close>

text \<open>The name behind LIKE as \<open>showGlobalVariables\<close> cuts it out.\<close>

definition global_like :: "string \<Rightarrow> string option" where
  "global_like sql =
     (let parts = SplitStr (ToUpper sql) ''LIKE''
      in if Contains (ToUpper sql) ''LIKE'' \<and> 1 < length parts
         then Some (ReplaceAll (ToLower (like_pattern (parts ! 1))) ''%'' []) else None)"

lemma HasPrefix_other: "HasPrefix s p \<Longrightarrow> take (length q) p \<noteq> q \<Longrightarrow> length q \<le> length p \<Longrightarrow> \<not> HasPrefix s q"
proof
  assume p: "HasPrefix s p" and q: "take (length q) p \<noteq> q" "length q \<le> length p" and h: "HasPrefix s q"
  have "take (length q) p = take (length q) (take (length p) s)" using p by (simp add: HasPrefix_def)
  also have "\<dots> = take (length q) s" using q(2) by (simp add: min_def)
  finally show False using q(1) h by (simp add: HasPrefix_def)
qed

lemma global_variables_dispatch:
  assumes "HasPrefix (ToUpper (TrimSpace sql)) ''SHOW GLOBAL VARIABLES''"
  shows "HandleShowCommand bk sql c ov = showGlobalVariables bk sql c ov"
  using assms HasPrefix_other [OF assms] by (simp add: HandleShowCommand_def Let_def)

text \<open>C36: What SET GLOBAL stored, SHOW shows. \<open>SHOW GLOBAL VARIABLES LIKE\<close> with the name of a variable that was set
  by \<open>SET GLOBAL\<close>, on any connection, sends the one query that returns the name with the text that was set.\<close>

theorem show_global_after_set:
  assumes "GetVarMapping name = Some m" and "HandleSetGlobal bk name v c ov = (r, c', ov')"
    and "HasPrefix (ToUpper (TrimSpace sql)) ''SHOW GLOBAL VARIABLES''"
    and "global_like sql = Some pattern" and "ToLower pattern = ToLower name"
  shows "HandleShowCommand bk' sql d ov' = run_query bk' (QVarValue pattern v) d"
proof -
  have "ov' = ov(ToLower name \<mapsto> v)"
    using assms(1,2) by (auto simp: HandleSetGlobal_def SetInternalVar_def Let_def split: if_splits prod.splits)
  then have "GetMySQLVarValue bk' pattern d ov' = (Some (Inr v), d)"
    using assms(1,5) by (simp add: GetMySQLVarValue_def GetInternalVar_def GetVarMapping_def)
  then show ?thesis
    using assms(4) unfolding global_variables_dispatch [OF assms(3)]
    by (auto simp: showGlobalVariables_def global_like_def var_or_def Let_def split: if_splits)
qed

definition like_server_id :: string where
  "like_server_id = ''SHOW GLOBAL VARIABLES LIKE '' @ quoted ''server_id''"

theorem show_global_after_set_witness:
  "\<exists>ov'. HandleSetGlobal refusing_backend ''server_id'' ''7'' () Map.empty = ((True, None), (), ov')
     \<and> HandleShowCommand refusing_backend like_server_id () ov'
       = run_query refusing_backend (QVarValue ''server_id'' ''7'') ()"
proof -
  have "ToLower ''server_id'' = ''server_id''" by code_simp
  then have m: "GetVarMapping ''server_id'' = Some (internal True ''1'')"
    by (simp add: GetVarMapping_def var_tables)
  then obtain ov' where h: "HandleSetGlobal refusing_backend ''server_id'' ''7'' () Map.empty = ((True, None), (), ov')"
    by (simp add: HandleSetGlobal_def internal_def)
  have "HasPrefix (ToUpper (TrimSpace like_server_id)) ''SHOW GLOBAL VARIABLES''"
    "global_like like_server_id = Some ''server_id''"
    by code_simp+
  then show ?thesis
    using show_global_after_set [OF m h, of like_server_id "''server_id''" refusing_backend "()"] h by blast
qed

text \<open>\<open>SHOW VARIABLES\<close> recognises LIKE in any case but splits at the upper-case word: a pattern after a lower-case \<open>like\<close> is
  ignored.\<close>

lemma lower_case_like_ignored:
  "showVariables bk (''show variables like '' @ quoted ''sql_mode'') c ov = run_query bk QDefaultVariables c"
proof -
  have "length (SplitStr (''show variables like '' @ quoted ''sql_mode'') ''LIKE'') = 1" by code_simp
  then show ?thesis by (simp add: showVariables_def Let_def)
qed

text \<open>The table name is searched behind the first occurrence of the letters of a keyword, also within a word.\<close>

lemma keyword_in_name: "extractTableName ''SHOW COLUMNS IN platforms'' = Inr ''platforms''"
  "extractTableName ''SHOW COLUMNS IN fromage'' = Inr ''age''"
  by code_simp+

end
