(* ===== verification/Mapper_Types.thy ===== *)
theory Mapper_Types
  imports Pg_Backend
begin

text \<open>
  The type mapper of \<open>pkg/mapper/types.go\<close>: MySQL column types for PostgreSQL type identifiers, their names and display
  lengths, and the conversions to integers, strings and bytes.
\<close>

definition PostgreSQLToMySQL :: "u32 \<Rightarrow> byte" where
  "PostgreSQLToMySQL pgType =
     (if pgType = 16 then 0x01
      else if pgType = 20 then 0x08
      else if pgType = 21 then 0x02
      else if pgType = 23 then 0x03
      else if pgType = 700 then 0x04
      else if pgType = 701 then 0x05
      else if pgType = 1700 then 0xf6
      else if pgType = 1043 \<or> pgType = 25 then 0xfd
      else if pgType = 1042 then 0xfe
      else if pgType = 1082 then 0x0a
      else if pgType = 1083 then 0x0b
      else if pgType = 1114 \<or> pgType = 1184 then 0x0c
      else if pgType = 17 then 0xfc
      else if pgType = 114 \<or> pgType = 3802 then 0xf5
      else 0xfd)"

definition type_names :: "(byte \<times> string) list" where
  "type_names =
     [(0x00, ''DECIMAL''), (0xf6, ''DECIMAL''), (0x01, ''TINYINT''), (0x02, ''SMALLINT''), (0x03, ''INT''), (0x04, ''FLOAT''),
      (0x05, ''DOUBLE''), (0x06, ''NULL''), (0x07, ''TIMESTAMP''), (0x08, ''BIGINT''), (0x09, ''MEDIUMINT''), (0x0a, ''DATE''),
      (0x0b, ''TIME''), (0x0c, ''DATETIME''), (0x0d, ''YEAR''), (0x0f, ''VARCHAR''), (0xfd, ''VARCHAR''), (0x10, ''BIT''),
      (0xf5, ''JSON''), (0xf7, ''ENUM''), (0xf8, ''SET''), (0xf9, ''TINYBLOB''), (0xfa, ''MEDIUMBLOB''), (0xfb, ''LONGBLOB''),
      (0xfc, ''BLOB''), (0xfe, ''CHAR''), (0xff, ''GEOMETRY'')]"

definition MySQLTypeToString :: "byte \<Rightarrow> string" where
  "MySQLTypeToString mysqlType = (case map_of type_names mysqlType of Some s \<Rightarrow> s | None \<Rightarrow> ''UNKNOWN'')"

definition default_lengths :: "(byte \<times> u32) list" where
  "default_lengths =
     [(0x01, 4), (0x02, 6), (0x03, 11), (0x09, 11), (0x08, 20), (0x04, 12), (0x05, 22), (0x00, 10), (0xf6, 10), (0x0a, 10),
      (0x0b, 8), (0x0c, 19), (0x07, 19), (0x0d, 4), (0x0f, 255), (0xfd, 255), (0xfe, 255), (0xf9, 255), (0xfc, 65535),
      (0xfa, 16777215), (0xfb, 4294967295), (0xf5, 4294967295)]"

definition GetDefaultLength :: "byte \<Rightarrow> u32" where
  "GetDefaultLength mysqlType = (case map_of default_lengths mysqlType of Some n \<Rightarrow> n | None \<Rightarrow> 255)"

record mysql_field =
  mf_name :: string
  mf_type :: byte
  mf_charset :: nat
  mf_length :: u32

definition BuildMySQLFieldPacket :: "string \<Rightarrow> u32 \<Rightarrow> u32 \<Rightarrow> mysql_field" where
  "BuildMySQLFieldPacket name pgType len =
     \<lparr>mf_name = name, mf_type = PostgreSQLToMySQL pgType, mf_charset = 33,
      mf_length = (if 0 < len then len else GetDefaultLength (PostgreSQLToMySQL pgType))\<rparr>"

text \<open>\<open>of_f64\<close> and \<open>of_f32\<close> are Go's conversions of floats to \<open>int64\<close>; a text is read by \<open>Sscanf\<close> with \<open>%d\<close>.\<close>

fun convertToInt :: "(u64 \<Rightarrow> u64) \<Rightarrow> (u32 \<Rightarrow> u64) \<Rightarrow> go_value \<Rightarrow> bool \<times> go_value" where
  "convertToInt of_f64 of_f32 (GInt w) = (True, GInt64 w)"
| "convertToInt of_f64 of_f32 (GInt8 w) = (True, GInt64 (scast w))"
| "convertToInt of_f64 of_f32 (GInt16 w) = (True, GInt64 (scast w))"
| "convertToInt of_f64 of_f32 (GInt32 w) = (True, GInt64 (scast w))"
| "convertToInt of_f64 of_f32 (GInt64 w) = (True, GInt64 w)"
| "convertToInt of_f64 of_f32 (GUint w) = (True, GInt64 w)"
| "convertToInt of_f64 of_f32 (GUint8 w) = (True, GInt64 (ucast w))"
| "convertToInt of_f64 of_f32 (GUint16 w) = (True, GInt64 (ucast w))"
| "convertToInt of_f64 of_f32 (GUint32 w) = (True, GInt64 (ucast w))"
| "convertToInt of_f64 of_f32 (GUint64 w) = (True, GInt64 w)"
| "convertToInt of_f64 of_f32 (GFloat32 w) = (True, GInt64 (of_f32 w))"
| "convertToInt of_f64 of_f32 (GFloat64 w) = (True, GInt64 (of_f64 w))"
| "convertToInt of_f64 of_f32 (GString s) =
     (case sscanf 64 [FInt] s of [] \<Rightarrow> (False, GInt64 0) | n # _ \<Rightarrow> (True, GInt64 (of_int n)))"
| "convertToInt of_f64 of_f32 v = (True, v)"

fun convertToString :: "go_rt \<Rightarrow> go_value \<Rightarrow> go_value" where
  "convertToString rt (GString s) = GString s"
| "convertToString rt (GBytes b) = GString (string_of b)"
| "convertToString rt v = GString (fmt_v rt v)"

fun convertToBytes :: "go_rt \<Rightarrow> go_value \<Rightarrow> go_value" where
  "convertToBytes rt (GBytes b) = GBytes b"
| "convertToBytes rt (GString s) = GBytes (bytes_of s)"
| "convertToBytes rt v = GBytes (bytes_of (fmt_v rt v))"

text \<open>Signed values of every width keep their value; a \<open>uint64\<close> keeps its bits and can change its sign.\<close>

lemma convertToInt_signed:
  "convertToInt f g (GInt32 w) = (True, GInt64 v) \<Longrightarrow> sint v = sint w"
  "convertToInt f g (GInt16 x) = (True, GInt64 v) \<Longrightarrow> sint v = sint x"
  "convertToInt f g (GInt8 y) = (True, GInt64 v) \<Longrightarrow> sint v = sint y"
  by (auto simp: sint_up_scast is_up.rep_eq)

end
