(* ===== verification/Admin_Repl.thy ===== *)
theory Admin_Repl
  imports Mapper_Vars
begin

text \<open>
  Replication control commands, \<open>pkg/admin/replication.go\<close>: starting and stopping the replay of a standby, and the
  connection string that CHANGE MASTER TO sets.
\<close>

section \<open>Parameters\<close>

fun put_assignment :: "string \<Rightarrow> (string \<rightharpoonup> string) \<Rightarrow> (string \<rightharpoonup> string)" where
  "put_assignment assign params =
     (let parts = SplitN2 assign (CHR ''='')
      in if length parts \<noteq> 2 then params
         else params(TrimSpace (ToUpper (parts ! 0)) \<mapsto> Trim (TrimSpace (parts ! 1)) value_quotes))"

definition parseChangeMasterParams :: "string \<Rightarrow> (string \<rightharpoonup> string)" where
  "parseChangeMasterParams sql =
     (case Index (ToUpper (TrimSpace sql)) '' TO '' of
        None \<Rightarrow> Map.empty
      | Some idx \<Rightarrow> fold put_assignment (Split (TrimSpace (drop (idx + 4) sql)) (CHR '','')) Map.empty)"

definition conn_parts :: "(string \<rightharpoonup> string) \<Rightarrow> string list" where
  "conn_parts params =
     List.map_filter (\<lambda>(key, name). map_option ((@) name) (params key))
       [(''MASTER_HOST'', ''host=''), (''MASTER_PORT'', ''port=''), (''MASTER_USER'', ''user=''), (''MASTER_PASSWORD'', ''password='')]"

section \<open>Commands\<close>

datatype admin_error = RecoveryCheckFailed pg_error | NotStandby | NoParameters | AdminFailed string pg_error

definition exec_or :: "'c backend \<Rightarrow> string \<Rightarrow> string \<Rightarrow> 'c \<Rightarrow> admin_error option \<times> 'c" where
  "exec_or bk what sql c =
     (case bk_exec bk sql [] c of (Inl e, c) \<Rightarrow> (Some (AdminFailed what e), c) | (Inr _, c) \<Rightarrow> (None, c))"

definition on_standby :: "'c backend \<Rightarrow> string \<Rightarrow> string \<Rightarrow> 'c \<Rightarrow> admin_error option \<times> 'c" where
  "on_standby bk what sql c =
     (case query_row bk scan_bool ''SELECT pg_is_in_recovery()'' [] c of
        (Inl e, c) \<Rightarrow> (Some (RecoveryCheckFailed e), c)
      | (Inr isInRecovery, c) \<Rightarrow> if isInRecovery then exec_or bk what sql c else (Some NotStandby, c))"

definition startSlave :: "'c backend \<Rightarrow> 'c \<Rightarrow> admin_error option \<times> 'c" where
  "startSlave bk c = on_standby bk ''pg_wal_replay_resume()'' ''SELECT pg_wal_replay_resume()'' c"

definition stopSlave :: "'c backend \<Rightarrow> 'c \<Rightarrow> admin_error option \<times> 'c" where
  "stopSlave bk c = on_standby bk ''pg_wal_replay_pause()'' ''SELECT pg_wal_replay_pause()'' c"

definition then_reload :: "'c backend \<Rightarrow> admin_error option \<times> 'c \<Rightarrow> admin_error option \<times> 'c" where
  "then_reload bk r =
     (case r of
        (Some e, c) \<Rightarrow> (Some e, c)
      | (None, c) \<Rightarrow> exec_or bk ''pg_reload_conf()'' ''SELECT pg_reload_conf()'' c)"

definition changeMaster :: "'c backend \<Rightarrow> string \<Rightarrow> 'c \<Rightarrow> admin_error option \<times> 'c" where
  "changeMaster bk sql c =
     (let params = parseChangeMasterParams sql; parts = conn_parts params
      in if params = Map.empty then (Some NoParameters, c)
         else if parts = [] then (None, c)
         else then_reload bk
                (exec_or bk ''ALTER SYSTEM SET primary_conninfo''
                   (''ALTER SYSTEM SET primary_conninfo = '' @ quoted (Join parts '' '')) c))"

definition resetSlave :: "'c backend \<Rightarrow> 'c \<Rightarrow> admin_error option \<times> 'c" where
  "resetSlave bk c =
     then_reload bk (exec_or bk ''ALTER SYSTEM RESET primary_conninfo'' ''ALTER SYSTEM RESET primary_conninfo'' c)"

definition resetMaster :: "'c backend \<Rightarrow> 'c \<Rightarrow> admin_error option \<times> 'c" where
  "resetMaster bk c = exec_or bk ''pg_switch_wal()'' ''SELECT pg_switch_wal()'' c"

definition replication_prefixes :: "string list" where
  "replication_prefixes =
     [''START SLAVE'', ''START REPLICA'', ''STOP SLAVE'', ''STOP REPLICA'', ''CHANGE MASTER TO'', ''CHANGE REPLICATION SOURCE TO'',
      ''RESET SLAVE'', ''RESET REPLICA'', ''RESET MASTER'']"

definition IsReplicationCommand :: "string \<Rightarrow> bool" where
  "IsReplicationCommand sql = list_ex (HasPrefix (ToUpper (TrimSpace sql))) replication_prefixes"

text \<open>\<open>None\<close>: not handled.\<close>

definition HandleReplicationCommand :: "'c backend \<Rightarrow> string \<Rightarrow> 'c \<Rightarrow> admin_error option option \<times> 'c" where
  "HandleReplicationCommand bk sql c =
     (let upper = ToUpper (TrimSpace sql); handled = (\<lambda>(r, c). (Some r, c))
      in if HasPrefix upper ''START SLAVE'' \<or> HasPrefix upper ''START REPLICA'' then handled (startSlave bk c)
         else if HasPrefix upper ''STOP SLAVE'' \<or> HasPrefix upper ''STOP REPLICA'' then handled (stopSlave bk c)
         else if HasPrefix upper ''CHANGE MASTER TO'' \<or> HasPrefix upper ''CHANGE REPLICATION SOURCE TO''
         then handled (changeMaster bk sql c)
         else if HasPrefix upper ''RESET SLAVE'' \<or> HasPrefix upper ''RESET REPLICA'' then handled (resetSlave bk c)
         else if HasPrefix upper ''RESET MASTER'' then handled (resetMaster bk c)
         else (None, c))"

text \<open>The test in front of the handler and the handler agree.\<close>

lemma replication_command_handled:
  "IsReplicationCommand sql \<longleftrightarrow> fst (HandleReplicationCommand bk sql c) \<noteq> None"
  by (simp add: IsReplicationCommand_def replication_prefixes_def HandleReplicationCommand_def Let_def case_prod_beta)

text \<open>The position of TO is found in the trimmed statement and used in the untrimmed one: with blanks in front of
  the statement the first parameter is lost, and the command succeeds without doing anything.\<close>

lemma leading_blanks_lose_parameter:
  "parseChangeMasterParams ''CHANGE MASTER TO MASTER_HOST=h'' ''MASTER_HOST'' = Some ''h''"
  "conn_parts (parseChangeMasterParams ''  CHANGE MASTER TO MASTER_HOST=h'') = []"
  by code_simp+

lemma leading_blanks_ignored: "changeMaster bk ''  CHANGE MASTER TO MASTER_HOST=h'' c = (None, c)"
proof -
  have "parseChangeMasterParams ''  CHANGE MASTER TO MASTER_HOST=h'' ''O MASTER_HOST'' = Some ''h''" by code_simp
  then have "parseChangeMasterParams ''  CHANGE MASTER TO MASTER_HOST=h'' \<noteq> Map.empty" by auto
  then show ?thesis using leading_blanks_lose_parameter(2) by (simp add: changeMaster_def)
qed

end
