(* ===== verification/Schema_Cache.thy ===== *)
theory Schema_Cache
  imports Pg_Backend Go_Text
begin

text \<open>
  The schema cache that all sessions share, \<open>pkg/schema/cache.go\<close>: entries with a time to live, keyed by schema and table.
  An entry is a pointer and may be nil. Clock readings are arguments; dereferencing nil is the result \<open>None\<close>.
\<close>

section \<open>State\<close>

record cached_column =
  cc_name :: string
  cc_ordinal :: int
  cc_data_type :: string
  cc_mysql_type :: byte
  cc_mysql_meta :: u16
  cc_nullable :: bool
  cc_primary_key :: bool
  cc_auto_incr :: bool
  cc_unsigned :: bool
  cc_max_length :: int
  cc_precision :: int
  cc_scale :: int

record cached_table =
  ct_table :: string
  ct_schema :: string
  ct_auto_incr :: string
  ct_columns :: "cached_column list"
  ct_primary_key :: "string list"
  ct_table_id :: u64
  ct_refreshed :: int
  ct_ttl :: int

record schema_cache =
  sch_tables :: "string \<rightharpoonup> cached_table option"
  sch_ttl :: int
  sch_next_id :: u64

definition InitGlobalCache :: "int \<Rightarrow> schema_cache option \<Rightarrow> schema_cache" where
  "InitGlobalCache ttl global =
     (case global of Some c \<Rightarrow> c | None \<Rightarrow> \<lparr>sch_tables = Map.empty, sch_ttl = ttl, sch_next_id = 0\<rparr>)"

definition GetGlobalCache :: "schema_cache option \<Rightarrow> schema_cache" where
  "GetGlobalCache global = (case global of None \<Rightarrow> InitGlobalCache (5 * 60 * 1000000000) None | Some c \<Rightarrow> c)"

definition buildTableCacheKey :: "string \<Rightarrow> string \<Rightarrow> string" where
  "buildTableCacheKey schemaName tableName = schemaName @ ''.'' @ tableName"

definition LoadTable :: "schema_cache \<Rightarrow> string \<Rightarrow> cached_table option option" where
  "LoadTable c k = sch_tables c k"

definition StoreTable :: "string \<Rightarrow> cached_table option \<Rightarrow> schema_cache \<Rightarrow> schema_cache" where
  "StoreTable k t c = c\<lparr>sch_tables := (sch_tables c)(k \<mapsto> t)\<rparr>"

definition DeleteTable :: "string \<Rightarrow> schema_cache \<Rightarrow> schema_cache" where
  "DeleteTable k c = c\<lparr>sch_tables := (sch_tables c)(k := None)\<rparr>"

interpretation schema_store: keyed_store LoadTable StoreTable DeleteTable
  by unfold_locales (simp_all add: LoadTable_def StoreTable_def DeleteTable_def)

section \<open>The auto-increment column\<close>

definition auto_increment_query :: string where
  "auto_increment_query =
     ''SELECT column_name FROM information_schema.columns WHERE table_schema = $1 AND table_name = $2 AND (column_default LIKE ''
     @ [CHR 0x27] @ ''nextval(%'' @ [CHR 0x27] @ '' OR is_identity = '' @ [CHR 0x27] @ ''YES'' @ [CHR 0x27]
     @ '') ORDER BY ordinal_position LIMIT 1''"

definition queryAutoIncrementColumn :: "'c backend \<Rightarrow> 'c option \<Rightarrow> string \<Rightarrow> string \<Rightarrow> string \<times> 'c option" where
  "queryAutoIncrementColumn bk conn schemaName tableName =
     (case conn of
        None \<Rightarrow> ([], None)
      | Some c \<Rightarrow>
          (case query_row bk scan_string auto_increment_query [GString schemaName, GString (ToLower tableName)] c of
             (Inl _, c) \<Rightarrow> ([], Some c)
           | (Inr columnName, c) \<Rightarrow> (columnName, Some c)))"

text \<open>\<open>now\<close> is read for the age of the entry, \<open>now'\<close> when a new one is stored.\<close>

definition GetAutoIncrementColumn ::
    "'c backend \<Rightarrow> int \<Rightarrow> int \<Rightarrow> 'c option \<Rightarrow> string \<Rightarrow> string \<Rightarrow> schema_cache
     \<Rightarrow> (string \<times> 'c option \<times> schema_cache) option" where
  "GetAutoIncrementColumn bk now now' conn schemaName tableName c =
     (let cacheKey = buildTableCacheKey schemaName tableName;
          refresh = (let (columnName, conn) = queryAutoIncrementColumn bk conn schemaName tableName
                     in Some (columnName, conn,
                          StoreTable cacheKey
                            (Some \<lparr>ct_table = tableName, ct_schema = schemaName, ct_auto_incr = columnName, ct_columns = [],
                                   ct_primary_key = [], ct_table_id = 0, ct_refreshed = now', ct_ttl = sch_ttl c\<rparr>) c))
      in case LoadTable c cacheKey of
           Some None \<Rightarrow> None
         | Some (Some t) \<Rightarrow> if now - ct_refreshed t < ct_ttl t then Some (ct_auto_incr t, conn, c) else refresh
         | None \<Rightarrow> refresh)"

section \<open>Invalidation\<close>

definition InvalidateTable :: "string \<Rightarrow> string \<Rightarrow> schema_cache \<Rightarrow> schema_cache" where
  "InvalidateTable schemaName tableName c = DeleteTable (buildTableCacheKey schemaName tableName) c"

text \<open>\<open>keys\<close> is the order in which \<open>Range\<close> visits the entries.\<close>

definition InvalidateAll :: "string list \<Rightarrow> schema_cache \<Rightarrow> schema_cache" where
  "InvalidateAll keys c = fold DeleteTable keys c"

definition RefreshTable ::
    "'c backend \<Rightarrow> int \<Rightarrow> int \<Rightarrow> 'c option \<Rightarrow> string \<Rightarrow> string \<Rightarrow> schema_cache
     \<Rightarrow> (string \<times> 'c option \<times> schema_cache) option" where
  "RefreshTable bk now now' conn schemaName tableName c =
     GetAutoIncrementColumn bk now now' conn schemaName tableName (InvalidateTable schemaName tableName c)"

definition GetCacheStats :: "schema_cache \<Rightarrow> nat \<times> int" where
  "GetCacheStats c = (card (dom (LoadTable c)), sch_ttl c)"

definition SetTTL :: "int \<Rightarrow> schema_cache \<Rightarrow> schema_cache" where
  "SetTTL ttl c = c\<lparr>sch_ttl := ttl\<rparr>"

definition expired :: "int \<Rightarrow> cached_table \<Rightarrow> bool" where
  "expired now t \<longleftrightarrow> ct_ttl t \<le> now - ct_refreshed t"

text \<open>One tick of the periodic refresh; it dereferences every entry.\<close>

definition refreshExpiredEntries :: "int \<Rightarrow> string list \<Rightarrow> schema_cache \<Rightarrow> schema_cache option" where
  "refreshExpiredEntries now keys c =
     (if list_ex (\<lambda>k. LoadTable c k = Some None) keys then None
      else Some (fold DeleteTable
             (filter (\<lambda>k. case LoadTable c k of Some (Some t) \<Rightarrow> expired now t | _ \<Rightarrow> False) keys) c))"

text \<open>\<open>StartPeriodicRefresh\<close>: the goroutine runs for each tick of its ticker, given here with the time and the entries that are visited.\<close>

fun StartPeriodicRefresh :: "(int \<times> string list) list \<Rightarrow> schema_cache \<Rightarrow> schema_cache option" where
  "StartPeriodicRefresh [] c = Some c"
| "StartPeriodicRefresh ((now, keys) # ticks) c =
     (case refreshExpiredEntries now keys c of None \<Rightarrow> None | Some c \<Rightarrow> StartPeriodicRefresh ticks c)"

section \<open>Full table information\<close>

definition pgTypeToMySQL :: "string \<Rightarrow> int \<Rightarrow> byte \<times> u16" where
  "pgTypeToMySQL pgType maxLength =
     (if pgType = ''smallint'' then (2, 0)
      else if pgType = ''integer'' then (3, 0)
      else if pgType = ''bigint'' then (8, 0)
      else if pgType = ''real'' then (4, 4)
      else if pgType = ''double precision'' then (5, 8)
      else if pgType \<in> {''numeric'', ''decimal''} then (0xf6, 10 * 256 + 2)
      else if pgType = ''boolean'' then (1, 0)
      else if pgType \<in> {''character varying'', ''varchar''} then (15, of_int (if maxLength = 0 then 255 else maxLength))
      else if pgType \<in> {''character'', ''char''} then (0xfe, of_int (if maxLength = 0 then 1 else maxLength))
      else if pgType = ''text'' then (0xfc, 2)
      else if pgType = ''bytea'' then (0xfc, 2)
      else if pgType = ''date'' then (10, 0)
      else if pgType \<in> {''time'', ''time without time zone'', ''time with time zone''} then (11, 0)
      else if pgType \<in> {''timestamp'', ''timestamp without time zone'', ''timestamp with time zone''} then (7, 0)
      else if pgType \<in> {''json'', ''jsonb''} then (0xf5, 4)
      else if pgType = ''uuid'' then (0xfe, 36)
      else (15, 255))"

fun as_string :: "pg_value \<Rightarrow> string option" where
  "as_string (PvGo (GString s)) = Some s"
| "as_string _ = None"

fun as_int :: "pg_value \<Rightarrow> int option" where
  "as_int (PvGo (GInt32 n)) = Some (sint n)"
| "as_int _ = None"

fun as_bool :: "pg_value \<Rightarrow> bool option" where
  "as_bool (PvGo (GBool b)) = Some b"
| "as_bool _ = None"

definition scan_column :: "pg_value list \<Rightarrow> pg_error + cached_column" where
  "scan_column vs =
     (if length vs \<noteq> 8 then Inl (OtherError ''cannot scan'')
      else case (map as_string [vs ! 0, vs ! 2, vs ! 3], map as_int [vs ! 1, vs ! 4, vs ! 5, vs ! 6], as_bool (vs ! 7)) of
             ([Some name, Some dt, Some nullable], [Some pos, Some len, Some prec, Some scale], Some auto) \<Rightarrow>
               Inr (let (ty, meta) = pgTypeToMySQL dt len
                    in \<lparr>cc_name = name, cc_ordinal = pos, cc_data_type = dt, cc_mysql_type = ty, cc_mysql_meta = meta,
                        cc_nullable = (nullable = ''YES''), cc_primary_key = False, cc_auto_incr = auto, cc_unsigned = False,
                        cc_max_length = len, cc_precision = prec, cc_scale = scale\<rparr>)
           | _ \<Rightarrow> Inl (OtherError ''cannot scan''))"

fun add_columns :: "(pg_error + pg_value list) list \<Rightarrow> cached_table \<Rightarrow> pg_error + cached_table" where
  "add_columns [] t = Inr t"
| "add_columns (Inl e # rows) t = Inl e"
| "add_columns (Inr vs # rows) t =
     (case scan_column vs of
        Inl e \<Rightarrow> Inl e
      | Inr col \<Rightarrow>
          add_columns rows
            ((if cc_auto_incr col then t\<lparr>ct_auto_incr := cc_name col\<rparr> else t)
               \<lparr>ct_columns := ct_columns t @ [col]\<rparr>))"

fun mark_primary :: "string \<Rightarrow> cached_column list \<Rightarrow> cached_column list" where
  "mark_primary k [] = []"
| "mark_primary k (col # cols) =
     (if cc_name col = k then col\<lparr>cc_primary_key := True\<rparr> # cols else col # mark_primary k cols)"

fun add_keys :: "(pg_error + pg_value list) list \<Rightarrow> cached_table \<Rightarrow> cached_table" where
  "add_keys [] t = t"
| "add_keys (Inl e # rows) t = add_keys rows t"
| "add_keys (Inr vs # rows) t =
     add_keys rows
       (case scan_string vs of
          Inl _ \<Rightarrow> t
        | Inr k \<Rightarrow> t\<lparr>ct_primary_key := ct_primary_key t @ [k], ct_columns := mark_primary k (ct_columns t)\<rparr>)"

text \<open>The two queries, with every run of blanks and line breaks written as one blank.\<close>

definition column_query :: "string" where
  \<open>column_query =
     sql_text (''SELECT c.column_name, c.ordinal_position, c.data_type, c.is_nullable, COALESCE(c.character_maximum_length, 0),''
       @ '' COALESCE(c.numeric_precision, 0), COALESCE(c.numeric_scale, 0), CASE WHEN c.column_default LIKE `nextval(%`''
       @ '' OR c.is_identity = `YES` THEN true ELSE false END as is_auto_incr FROM information_schema.columns c WHERE''
       @ '' c.table_schema = $1 AND c.table_name = $2 ORDER BY c.ordinal_position'')\<close>

definition pk_query :: "string" where
  \<open>pk_query =
     sql_text (''SELECT kcu.column_name FROM information_schema.table_constraints tc JOIN information_schema.key_column_usage''
       @ '' kcu ON tc.constraint_name = kcu.constraint_name AND tc.table_schema = kcu.table_schema WHERE''
       @ '' tc.constraint_type = `PRIMARY KEY` AND tc.table_schema = $1 AND tc.table_name = $2 ORDER BY''
       @ '' kcu.ordinal_position'')\<close>

definition queryTableInfo ::
    "'c backend \<Rightarrow> int \<Rightarrow> 'c option \<Rightarrow> string \<Rightarrow> string \<Rightarrow> schema_cache
     \<Rightarrow> (pg_error + cached_table option) \<times> 'c option \<times> schema_cache" where
  "queryTableInfo bk now conn schemaName tableName c =
     (case conn of
        None \<Rightarrow> (Inr None, None, c)
      | Some d \<Rightarrow>
          (let c = c\<lparr>sch_next_id := sch_next_id c + 1\<rparr>;
               t = \<lparr>ct_table = tableName, ct_schema = schemaName, ct_auto_incr = [], ct_columns = [], ct_primary_key = [],
                    ct_table_id = sch_next_id c, ct_refreshed = now, ct_ttl = sch_ttl c\<rparr>;
               args = [GString schemaName, GString tableName]
           in case bk_query bk column_query args d of
                (Inl e, d) \<Rightarrow> (Inl e, Some d, c)
              | (Inr rows, d) \<Rightarrow>
                  (case add_columns (pr_rows rows) t of
                     Inl e \<Rightarrow> (Inl e, Some d, c)
                   | Inr t \<Rightarrow>
                       (case bk_query bk pk_query args d of
                          (Inl _, d) \<Rightarrow> (Inr (Some t), Some d, c)
                        | (Inr rows, d) \<Rightarrow> (Inr (Some (add_keys (pr_rows rows) t)), Some d, c)))))"

definition GetTableInfo ::
    "'c backend \<Rightarrow> int \<Rightarrow> int \<Rightarrow> 'c option \<Rightarrow> string \<Rightarrow> string \<Rightarrow> schema_cache
     \<Rightarrow> ((pg_error + cached_table option) \<times> 'c option \<times> schema_cache) option" where
  "GetTableInfo bk now now' conn schemaName tableName c =
     (let cacheKey = schemaName @ ''.'' @ tableName;
          refresh = (case queryTableInfo bk now' conn schemaName tableName c of
                       (Inl e, conn, c) \<Rightarrow> Some (Inl e, conn, c)
                     | (Inr t, conn, c) \<Rightarrow> Some (Inr t, conn, StoreTable cacheKey t c))
      in case LoadTable c cacheKey of
           Some None \<Rightarrow> None
         | Some (Some t) \<Rightarrow> if now - ct_refreshed t < ct_ttl t then Some (Inr (Some t), conn, c) else refresh
         | None \<Rightarrow> refresh)"

section \<open>How stale an answer can be\<close>

text \<open>
  What the sessions and the database do over time: lookups and refreshes (with the clock readings), the invalidations, ticks of the
  periodic refresh, changes of the time to live, and changes of the database by anyone; \<open>d\<close> is then the state of the connection.
  \<open>GetTableInfo\<close>, which the program never calls, is left out (see below for what its entries do).
\<close>

datatype 'c cache_event =
    CLookup int int string string
  | CRefresh int int string string
  | CInvalidate string string
  | CInvalidateAll "string list"
  | CTick int "string list"
  | CSetTTL int
  | CDatabase 'c

definition cache_step :: "'c backend \<Rightarrow> 'c cache_event \<Rightarrow> 'c \<times> schema_cache \<Rightarrow> ('c \<times> schema_cache) option" where
  "cache_step bk ev dc =
     (case dc of (d, c) \<Rightarrow>
        (case ev of
           CLookup now now' s t \<Rightarrow> map_option (\<lambda>(_, d', c'). (the d', c')) (GetAutoIncrementColumn bk now now' (Some d) s t c)
         | CRefresh now now' s t \<Rightarrow> map_option (\<lambda>(_, d', c'). (the d', c')) (RefreshTable bk now now' (Some d) s t c)
         | CInvalidate s t \<Rightarrow> Some (d, InvalidateTable s t c)
         | CInvalidateAll keys \<Rightarrow> Some (d, InvalidateAll keys c)
         | CTick now keys \<Rightarrow> map_option (\<lambda>c'. (d, c')) (refreshExpiredEntries now keys c)
         | CSetTTL ttl \<Rightarrow> Some (d, SetTTL ttl c)
         | CDatabase d' \<Rightarrow> Some (d', c)))"

fun cache_run :: "'c backend \<Rightarrow> 'c cache_event list \<Rightarrow> 'c \<times> schema_cache \<Rightarrow> ('c \<times> schema_cache) option" where
  "cache_run bk [] dc = Some dc"
| "cache_run bk (ev # evs) dc = (case cache_step bk ev dc of None \<Rightarrow> None | Some dc' \<Rightarrow> cache_run bk evs dc')"

text \<open>
  What the events say by themselves, without the cache: the database and the time to live after them, whether an event asks for a table
  (and reads the clock at \<open>r\<close>), and whether it drops the entry of a table.
\<close>

fun database_after :: "'c cache_event list \<Rightarrow> 'c \<Rightarrow> 'c" where
  "database_after [] d = d"
| "database_after (CDatabase d' # evs) d = database_after evs d'"
| "database_after (ev # evs) d = database_after evs d"

fun ttl_after :: "'c cache_event list \<Rightarrow> int \<Rightarrow> int" where
  "ttl_after [] ttl = ttl"
| "ttl_after (CSetTTL ttl' # evs) ttl = ttl_after evs ttl'"
| "ttl_after (ev # evs) ttl = ttl_after evs ttl"

fun asks :: "string \<Rightarrow> string \<Rightarrow> int \<Rightarrow> 'c cache_event \<Rightarrow> bool" where
  "asks s t r (CLookup now now' s' t') = (s' = s \<and> t' = t \<and> now' = r)"
| "asks s t r (CRefresh now now' s' t') = (s' = s \<and> t' = t \<and> now' = r)"
| "asks s t r _ = False"

fun drops :: "string \<Rightarrow> string \<Rightarrow> 'c cache_event \<Rightarrow> bool" where
  "drops s t (CInvalidate s' t') = (s' = s \<and> t' = t)"
| "drops s t (CRefresh now now' s' t') = (s' = s \<and> t' = t)"
| "drops s t (CInvalidateAll keys) = (buildTableCacheKey s t \<in> set keys)"
| "drops s t _ = False"

text \<open>The names of the schemas that are asked for have no dot: a dot would make the keys ambiguous.\<close>

fun dotless :: "'c cache_event \<Rightarrow> bool" where
  "dotless (CLookup now now' s t) = (CHR ''.'' \<notin> set s)"
| "dotless (CRefresh now now' s t) = (CHR ''.'' \<notin> set s)"
| "dotless _ = True"

text \<open>A value that the table had when it was asked for at \<open>r\<close>, with the time to live of then, and not dropped since.\<close>

definition learnt ::
    "('c \<Rightarrow> string \<Rightarrow> string \<Rightarrow> string) \<Rightarrow> 'c \<Rightarrow> int \<Rightarrow> 'c cache_event list \<Rightarrow> string \<Rightarrow> string \<Rightarrow> string \<Rightarrow> int \<Rightarrow> int \<Rightarrow> bool" where
  "learnt db d0 ttl0 evs s t v r ttl \<longleftrightarrow>
     (\<exists>pre ev post. evs = pre @ ev # post \<and> asks s t r ev \<and> (\<forall>x \<in> set post. \<not> drops s t x)
        \<and> v = db (database_after pre d0) s (ToLower t) \<and> ttl = ttl_after pre ttl0)"

lemma learnt_snoc:
  "learnt db d0 ttl0 evs s t v r ttl \<Longrightarrow> \<not> drops s t ev \<Longrightarrow> learnt db d0 ttl0 (evs @ [ev]) s t v r ttl"
  unfolding learnt_def
proof (elim exE conjE, goal_cases)
  case (1 pre e post)
  then show ?case by (intro exI [of _ pre] exI [of _ e] exI [of _ "post @ [ev]"]) auto
qed

lemma learnt_now:
  "asks s t r ev \<Longrightarrow> learnt db d0 ttl0 (evs @ [ev]) s t (db (database_after evs d0) s (ToLower t)) r (ttl_after evs ttl0)"
  unfolding learnt_def by (intro exI [of _ evs] exI [of _ ev] exI [of _ "[]"]) simp

text \<open>\<open>db d s t\<close> is the auto-increment column of a table in the state \<open>d\<close>, empty if there is none or it cannot be queried; the backend answers accordingly.\<close>

definition answers :: "'c backend \<Rightarrow> ('c \<Rightarrow> string \<Rightarrow> string \<Rightarrow> string) \<Rightarrow> bool" where
  "answers bk db \<longleftrightarrow>
     (\<forall>s t d. \<exists>d'. queryAutoIncrementColumn bk (Some d) s t = (db d s (ToLower t), Some d') \<and> db d' = db d)"

definition entries_learnt ::
    "('c \<Rightarrow> string \<Rightarrow> string \<Rightarrow> string) \<Rightarrow> 'c \<Rightarrow> int \<Rightarrow> 'c cache_event list \<Rightarrow> schema_cache \<Rightarrow> bool" where
  "entries_learnt db d0 ttl0 evs c \<longleftrightarrow>
     (\<forall>k e. LoadTable c k = Some e \<longrightarrow>
        (\<exists>t. e = Some t \<and> k = buildTableCacheKey (ct_schema t) (ct_table t) \<and> CHR ''.'' \<notin> set (ct_schema t)
             \<and> learnt db d0 ttl0 evs (ct_schema t) (ct_table t) (ct_auto_incr t) (ct_refreshed t) (ct_ttl t)))"

lemma entries_learntD:
  assumes "entries_learnt db d0 ttl0 evs c" and "LoadTable c k = Some e"
  obtains t where "e = Some t" and "k = buildTableCacheKey (ct_schema t) (ct_table t)" and "CHR ''.'' \<notin> set (ct_schema t)"
    and "learnt db d0 ttl0 evs (ct_schema t) (ct_table t) (ct_auto_incr t) (ct_refreshed t) (ct_ttl t)"
  using assms unfolding entries_learnt_def by blast

lemma buildTableCacheKey_inject:
  assumes "CHR ''.'' \<notin> set s" and "CHR ''.'' \<notin> set s'" and "buildTableCacheKey s t = buildTableCacheKey s' t'"
  shows "s = s' \<and> t = t'"
proof -
  have "takeWhile (\<lambda>c. c \<noteq> CHR ''.'') (buildTableCacheKey s t) = s" if "CHR ''.'' \<notin> set s" for s t
    unfolding buildTableCacheKey_def using that by (induction s) auto
  then show ?thesis using assms by (metis append_same_eq buildTableCacheKey_def same_append_eq)
qed

text \<open>Deleting entries, and events that drop only what is deleted, keep the entries right.\<close>

lemma lookup_fold_delete: "LoadTable (fold DeleteTable ks c) k = (if k \<in> set ks then None else LoadTable c k)"
  by (induction ks arbitrary: c) (auto simp: schema_store.lookup_del)

lemma entries_keep:
  assumes "entries_learnt db d0 ttl0 evs c"
    and "\<And>k. LoadTable c' k \<noteq> None \<Longrightarrow> LoadTable c' k = LoadTable c k"
    and "\<And>s t. drops s t ev \<Longrightarrow> LoadTable c' (buildTableCacheKey s t) = None"
  shows "entries_learnt db d0 ttl0 (evs @ [ev]) c'"
  unfolding entries_learnt_def
proof (intro allI impI)
  fix k e assume k: "LoadTable c' k = Some e"
  then have "LoadTable c k = Some e" using assms(2) [of k] by simp
  with assms(1) obtain t where t: "e = Some t" "k = buildTableCacheKey (ct_schema t) (ct_table t)" "CHR ''.'' \<notin> set (ct_schema t)"
      "learnt db d0 ttl0 evs (ct_schema t) (ct_table t) (ct_auto_incr t) (ct_refreshed t) (ct_ttl t)"
    by (rule entries_learntD)
  moreover have "\<not> drops (ct_schema t) (ct_table t) ev" using assms(3) k t(2) by force
  ultimately show "\<exists>t. e = Some t \<and> k = buildTableCacheKey (ct_schema t) (ct_table t) \<and> CHR ''.'' \<notin> set (ct_schema t)
      \<and> learnt db d0 ttl0 (evs @ [ev]) (ct_schema t) (ct_table t) (ct_auto_incr t) (ct_refreshed t) (ct_ttl t)"
    using learnt_snoc by metis
qed

text \<open>A lookup answers from the database or from an entry that has not expired.\<close>

lemma lookup_learnt:
  assumes "answers bk db" and "entries_learnt db d0 ttl0 evs c" and "CHR ''.'' \<notin> set s"
    and "db d = db (database_after evs d0)" and "sch_ttl c = ttl_after evs ttl0" and "asks s t now' ev"
    and "\<And>s' t'. drops s' t' ev \<Longrightarrow> LoadTable c (buildTableCacheKey s' t') = None"
  obtains v d' c' where "GetAutoIncrementColumn bk now now' (Some d) s t c = Some (v, Some d', c')" and "db d' = db d"
    and "sch_ttl c' = sch_ttl c" and "entries_learnt db d0 ttl0 (evs @ [ev]) c'"
    and "v = db d s (ToLower t) \<or> (\<exists>r ttl. learnt db d0 ttl0 evs s t v r ttl \<and> now - r < ttl)"
proof -
  let ?k = "buildTableCacheKey s t" and ?v = "db d s (ToLower t)"
  let ?e = "\<lparr>ct_table = t, ct_schema = s, ct_auto_incr = ?v, ct_columns = [], ct_primary_key = [],
             ct_table_id = 0, ct_refreshed = now', ct_ttl = sch_ttl c\<rparr>"
  obtain d' where q: "queryAutoIncrementColumn bk (Some d) s t = (?v, Some d')" "db d' = db d"
    using assms(1) unfolding answers_def by blast
  have kept: "entries_learnt db d0 ttl0 (evs @ [ev]) c" by (rule entries_keep [OF assms(2) refl assms(7)])
  have "learnt db d0 ttl0 (evs @ [ev]) s t ?v now' (sch_ttl c)"
    using learnt_now [OF assms(6), of db d0 ttl0 evs] assms(4,5) by simp
  then have store: "entries_learnt db d0 ttl0 (evs @ [ev]) (StoreTable ?k (Some ?e) c)"
    using kept assms(3) by (auto simp: entries_learnt_def schema_store.lookup_ins)
  note refresh = that [of ?v d' "StoreTable ?k (Some ?e) c", OF _ q(2) _ store]
  show thesis
  proof (cases "LoadTable c ?k")
    case None
    then show thesis using refresh q(1) by (simp add: GetAutoIncrementColumn_def Let_def StoreTable_def)
  next
    case (Some e)
    with assms(2) obtain u where u: "e = Some u" "?k = buildTableCacheKey (ct_schema u) (ct_table u)" "CHR ''.'' \<notin> set (ct_schema u)"
        "learnt db d0 ttl0 evs (ct_schema u) (ct_table u) (ct_auto_incr u) (ct_refreshed u) (ct_ttl u)"
      by (rule entries_learntD)
    show thesis
    proof (cases "now - ct_refreshed u < ct_ttl u")
      case True
      have "learnt db d0 ttl0 evs s t (ct_auto_incr u) (ct_refreshed u) (ct_ttl u)"
        using u buildTableCacheKey_inject [OF assms(3) u(3,2)] by simp
      then show thesis
        using that [of "ct_auto_incr u" d c, OF _ refl refl kept] True Some u(1) by (auto simp: GetAutoIncrementColumn_def Let_def)
    next
      case False
      then show thesis using refresh Some u(1) q(1) by (simp add: GetAutoIncrementColumn_def Let_def StoreTable_def)
    qed
  qed
qed


definition run_inv ::
    "('c \<Rightarrow> string \<Rightarrow> string \<Rightarrow> string) \<Rightarrow> 'c \<Rightarrow> int \<Rightarrow> 'c cache_event list \<Rightarrow> 'c \<times> schema_cache \<Rightarrow> bool" where
  "run_inv db d0 ttl0 evs dc \<longleftrightarrow>
     entries_learnt db d0 ttl0 evs (snd dc) \<and> db (fst dc) = db (database_after evs d0) \<and> sch_ttl (snd dc) = ttl_after evs ttl0"

lemma database_after_snoc: "database_after (evs @ [ev]) d = (case ev of CDatabase d' \<Rightarrow> d' | _ \<Rightarrow> database_after evs d)"
  by (induction evs d rule: database_after.induct) (simp_all split: cache_event.splits)

lemma ttl_after_snoc: "ttl_after (evs @ [ev]) ttl = (case ev of CSetTTL ttl' \<Rightarrow> ttl' | _ \<Rightarrow> ttl_after evs ttl)"
  by (induction evs ttl rule: ttl_after.induct) (simp_all split: cache_event.splits)

lemma sch_ttl_delete [simp]: "sch_ttl (DeleteTable k c) = sch_ttl c" "sch_ttl (fold DeleteTable ks c) = sch_ttl c"
proof -
  show d: "sch_ttl (DeleteTable k c) = sch_ttl c" for k c by (simp add: DeleteTable_def)
  show "sch_ttl (fold DeleteTable ks c) = sch_ttl c" by (induction ks arbitrary: c) (simp_all add: d)
qed

lemma no_nil_entry: "entries_learnt db d0 ttl0 evs c \<Longrightarrow> LoadTable c k \<noteq> Some None"
  by (auto simp: entries_learnt_def)

lemma tick_learnt:
  assumes "entries_learnt db d0 ttl0 evs c"
  shows "\<exists>c'. refreshExpiredEntries now keys c = Some c' \<and> sch_ttl c' = sch_ttl c
    \<and> (\<forall>k. LoadTable c' k = (case LoadTable c k of
           Some (Some e) \<Rightarrow> if k \<in> set keys \<and> \<not> now - ct_refreshed e < ct_ttl e then None else Some (Some e) | _ \<Rightarrow> None))"
proof (intro exI conjI allI)
  let ?ks = "filter (\<lambda>k. case LoadTable c k of Some (Some t) \<Rightarrow> expired now t | _ \<Rightarrow> False) keys"
  show "refreshExpiredEntries now keys c = Some (fold DeleteTable ?ks c)"
    using no_nil_entry [OF assms] by (simp add: refreshExpiredEntries_def list_ex_iff)
  show "LoadTable (fold DeleteTable ?ks c) k = (case LoadTable c k of
      Some (Some e) \<Rightarrow> if k \<in> set keys \<and> \<not> now - ct_refreshed e < ct_ttl e then None else Some (Some e) | _ \<Rightarrow> None)" for k
    using no_nil_entry [OF assms, of k] by (auto simp: lookup_fold_delete expired_def split: option.splits)
qed simp

lemma cache_step_inv:
  assumes "answers bk db" and inv: "run_inv db d0 ttl0 evs dc" and "dotless ev"
  shows "\<exists>dc'. cache_step bk ev dc = Some dc' \<and> run_inv db d0 ttl0 (evs @ [ev]) dc'"
proof -
  obtain d c where dc: "dc = (d, c)" by fastforce
  then have e: "entries_learnt db d0 ttl0 evs c" and d: "db d = db (database_after evs d0)" and ttl: "sch_ttl c = ttl_after evs ttl0"
    using inv by (simp_all add: run_inv_def)
  note step = dc cache_step_def run_inv_def database_after_snoc ttl_after_snoc
  show ?thesis
  proof (cases ev)
    case (CLookup now now' s t)
    have "CHR ''.'' \<notin> set s" "asks s t now' ev" "\<And>s' t'. \<not> drops s' t' ev" using assms(3) CLookup by simp_all
    then obtain v d' c' where "GetAutoIncrementColumn bk now now' (Some d) s t c = Some (v, Some d', c')" "db d' = db d"
        "sch_ttl c' = sch_ttl c" "entries_learnt db d0 ttl0 (evs @ [ev]) c'"
      using lookup_learnt [OF assms(1) e _ d ttl] by metis
    then show ?thesis using CLookup d ttl by (simp add: step)
  next
    case (CRefresh now now' s t)
    let ?c = "InvalidateTable s t c"
    have "entries_learnt db d0 ttl0 evs ?c"
      using e by (auto simp: entries_learnt_def InvalidateTable_def schema_store.lookup_del split: if_splits)
    moreover have "drops s' t' ev \<Longrightarrow> LoadTable ?c (buildTableCacheKey s' t') = None" for s' t'
      using CRefresh by (simp add: InvalidateTable_def schema_store.lookup_del)
    moreover have "sch_ttl ?c = ttl_after evs ttl0" using ttl by (simp add: InvalidateTable_def)
    moreover have "CHR ''.'' \<notin> set s" "asks s t now' ev" using assms(3) CRefresh by simp_all
    ultimately obtain v d' c' where "GetAutoIncrementColumn bk now now' (Some d) s t ?c = Some (v, Some d', c')" "db d' = db d"
        "sch_ttl c' = sch_ttl ?c" "entries_learnt db d0 ttl0 (evs @ [ev]) c'"
      using lookup_learnt [OF assms(1) _ _ d] by metis
    then show ?thesis using CRefresh d ttl by (simp add: step RefreshTable_def InvalidateTable_def)
  next
    case (CInvalidate s t)
    have "entries_learnt db d0 ttl0 (evs @ [ev]) (InvalidateTable s t c)"
      by (rule entries_keep [OF e]) (auto simp: CInvalidate InvalidateTable_def schema_store.lookup_del split: if_splits)
    then show ?thesis using CInvalidate d ttl by (simp add: step InvalidateTable_def)
  next
    case (CInvalidateAll keys)
    have "entries_learnt db d0 ttl0 (evs @ [ev]) (InvalidateAll keys c)"
      by (rule entries_keep [OF e]) (auto simp: CInvalidateAll InvalidateAll_def lookup_fold_delete split: if_splits)
    then show ?thesis using CInvalidateAll d ttl by (simp add: step InvalidateAll_def)
  next
    case (CTick now keys)
    obtain c' where c': "refreshExpiredEntries now keys c = Some c'" "sch_ttl c' = sch_ttl c"
      "\<And>k. LoadTable c' k = (case LoadTable c k of
         Some (Some e) \<Rightarrow> if k \<in> set keys \<and> \<not> now - ct_refreshed e < ct_ttl e then None else Some (Some e) | _ \<Rightarrow> None)"
      using tick_learnt [OF e, of now keys] by blast
    have "entries_learnt db d0 ttl0 (evs @ [ev]) c'"
      by (rule entries_keep [OF e]) (auto simp: CTick c'(3) split: option.splits if_splits)
    then show ?thesis using CTick c'(1,2) d ttl by (simp add: step)
  next
    case (CSetTTL ttl')
    have "entries_learnt db d0 ttl0 (evs @ [ev]) (SetTTL ttl' c)"
      by (rule entries_keep [OF e]) (auto simp: CSetTTL SetTTL_def LoadTable_def)
    then show ?thesis using CSetTTL d by (simp add: step SetTTL_def)
  next
    case (CDatabase d')
    have "entries_learnt db d0 ttl0 (evs @ [ev]) c" by (rule entries_keep [OF e]) (auto simp: CDatabase)
    then show ?thesis using CDatabase ttl by (simp add: step)
  qed
qed

lemma cache_run_snoc:
  "cache_run bk (evs @ [ev]) dc = (case cache_run bk evs dc of None \<Rightarrow> None | Some dc' \<Rightarrow> cache_step bk ev dc')"
  by (induction evs arbitrary: dc) (simp_all split: option.splits)

lemma cache_run_inv:
  assumes "answers bk db" and "list_all dotless evs"
  shows "\<exists>dc. cache_run bk evs (d0, InitGlobalCache ttl0 None) = Some dc \<and> run_inv db d0 ttl0 evs dc"
  using assms(2)
proof (induction evs rule: rev_induct)
  case Nil
  then show ?case by (simp add: run_inv_def InitGlobalCache_def entries_learnt_def LoadTable_def)
next
  case (snoc ev evs)
  then obtain dc where "cache_run bk evs (d0, InitGlobalCache ttl0 None) = Some dc" "run_inv db d0 ttl0 evs dc" by auto
  moreover have "dotless ev" using snoc.prems by simp
  ultimately show ?case using cache_step_inv [OF assms(1)] by (simp add: cache_run_snoc)
qed

text \<open>C16: The schema cache is stale for at most the time to live, and never across an invalidation. Start with a new cache and let the sessions look tables up,
  refresh and invalidate single tables or all of them, let the periodic refresh tick, the time to live be set and the database change at will, in any order and with any clock: no step fails, and the answer
  of a lookup is the present column of the table or one that the database had when the same table was asked for before: less than the
  then configured time to live ago, and with no invalidation of the table since. A tick removes exactly those visited entries that a lookup at
  that time would not use any more.\<close>

theorem schema_cache_transparent:
  assumes "answers bk db" and "list_all dotless evs" and "CHR ''.'' \<notin> set s"
  shows "\<exists>d c v d' c'. cache_run bk evs (d0, InitGlobalCache ttl0 None) = Some (d, c)
    \<and> GetAutoIncrementColumn bk now now' (Some d) s t c = Some (v, Some d', c')
    \<and> (v = db (database_after evs d0) s (ToLower t)
       \<or> (\<exists>pre ev post r. evs = pre @ ev # post \<and> asks s t r ev \<and> (\<forall>x \<in> set post. \<not> drops s t x)
            \<and> now - r < ttl_after pre ttl0 \<and> v = db (database_after pre d0) s (ToLower t)))
    \<and> (\<exists>c''. refreshExpiredEntries tick keys c = Some c''
         \<and> (\<forall>k e. LoadTable c'' k = Some (Some e) \<longleftrightarrow>
              LoadTable c k = Some (Some e) \<and> (k \<in> set keys \<longrightarrow> tick - ct_refreshed e < ct_ttl e)))"
proof -
  obtain d c where run: "cache_run bk evs (d0, InitGlobalCache ttl0 None) = Some (d, c)" and inv: "run_inv db d0 ttl0 evs (d, c)"
    using cache_run_inv [OF assms(1,2)] by fastforce
  then have e: "entries_learnt db d0 ttl0 evs c" and d: "db d = db (database_after evs d0)" and ttl: "sch_ttl c = ttl_after evs ttl0"
    by (simp_all add: run_inv_def)
  obtain v d' c' where look: "GetAutoIncrementColumn bk now now' (Some d) s t c = Some (v, Some d', c')"
    and v: "v = db d s (ToLower t) \<or> (\<exists>r ttl. learnt db d0 ttl0 evs s t v r ttl \<and> now - r < ttl)"
    by (rule lookup_learnt [OF assms(1) e assms(3) d ttl, of t now' "CLookup now now' s t" now]) simp_all
  obtain c'' where tick: "refreshExpiredEntries tick keys c = Some c''" "sch_ttl c'' = sch_ttl c"
    "\<And>k. LoadTable c'' k = (case LoadTable c k of
       Some (Some e) \<Rightarrow> if k \<in> set keys \<and> \<not> tick - ct_refreshed e < ct_ttl e then None else Some (Some e) | _ \<Rightarrow> None)"
    using tick_learnt [OF e, of tick keys] by blast
  have "LoadTable c'' k = Some (Some e) \<longleftrightarrow> LoadTable c k = Some (Some e) \<and> (k \<in> set keys \<longrightarrow> tick - ct_refreshed e < ct_ttl e)" for k e
    by (auto simp: tick(3) split: option.splits if_splits)
  then have ticked: "\<exists>c''. refreshExpiredEntries tick keys c = Some c''
         \<and> (\<forall>k e. LoadTable c'' k = Some (Some e) \<longleftrightarrow>
              LoadTable c k = Some (Some e) \<and> (k \<in> set keys \<longrightarrow> tick - ct_refreshed e < ct_ttl e))"
    using tick(1) by blast
  have "v = db (database_after evs d0) s (ToLower t)
       \<or> (\<exists>pre ev post r. evs = pre @ ev # post \<and> asks s t r ev \<and> (\<forall>x \<in> set post. \<not> drops s t x)
            \<and> now - r < ttl_after pre ttl0 \<and> v = db (database_after pre d0) s (ToLower t))"
    using v d unfolding learnt_def by auto
  note conjI [OF run conjI [OF look conjI [OF this ticked]]]
  then show ?thesis by (intro exI)
qed

text \<open>So the answer is exact as long as the column has not changed since the last invalidation of the table.\<close>

lemma unchanged_exact:
  assumes "learnt db d0 ttl0 evs s t v r ttl"
    and "\<And>pre post. evs = pre @ post \<Longrightarrow> \<forall>x \<in> set (tl post). \<not> drops s t x \<Longrightarrow>
           db (database_after pre d0) s (ToLower t) = db (database_after evs d0) s (ToLower t)"
  shows "v = db (database_after evs d0) s (ToLower t)"
  using assms unfolding learnt_def by (metis list.sel(3))

text \<open>A backend with a database in which the table \<open>t\<close> of the schema \<open>shop\<close> has the column \<open>id\<close>, and \<open>key\<close> after it was altered.\<close>

definition shop_db :: "bool \<Rightarrow> string \<Rightarrow> string \<Rightarrow> string" where
  "shop_db altered s t = (if s = ''shop'' \<and> t = ''t'' then if altered then ''key'' else ''id'' else [])"

definition shop_backend :: "bool backend" where
  "shop_backend =
     \<lparr>bk_exec = (\<lambda>_ _ c. (Inr 0, c)),
      bk_query = (\<lambda>_ args c. (Inr \<lparr>pr_fields = [],
         pr_rows = (if args = [GString ''shop'', GString ''t''] then [Inr [PvGo (GString (if c then ''key'' else ''id''))]] else []),
         pr_err = None\<rparr>, c))\<rparr>"

definition empty_cache :: schema_cache where
  "empty_cache = GetGlobalCache None"

lemma shop_answers: "answers shop_backend shop_db"
  by (auto simp: answers_def queryAutoIncrementColumn_def query_row_def shop_backend_def first_row_def shop_db_def)

text \<open>The table is looked up and altered; 200 ticks of the clock later, with a time to live of 100, the answer is the new column.\<close>

definition shop_events :: "bool cache_event list" where
  "shop_events = [CLookup 0 1 ''shop'' ''t'', CDatabase True, CSetTTL 1000]"

theorem schema_cache_transparent_witness:
  "\<exists>d c v d' c'. cache_run shop_backend shop_events (False, InitGlobalCache 100 None) = Some (d, c)
     \<and> GetAutoIncrementColumn shop_backend 200 201 (Some d) ''shop'' ''t'' c = Some (v, Some d', c') \<and> v = ''key''"
proof -
  have l: "ToLower ''t'' = ''t''" by code_simp
  have "\<not> (shop_events = pre @ ev # post \<and> asks ''shop'' ''t'' r ev \<and> 200 - r < ttl_after pre 100)" for pre ev post and r :: int
    by (auto simp: shop_events_def Cons_eq_append_conv append_eq_Cons_conv)
  moreover have k: "shop_db (database_after shop_events False) ''shop'' (ToLower ''t'') = ''key''"
    unfolding l by (simp add: shop_events_def shop_db_def)
  moreover have "list_all dotless shop_events" "CHR ''.'' \<notin> set ''shop''" by (simp_all add: shop_events_def)
  moreover note schema_cache_transparent [OF shop_answers this, of False 100 200 201 "''t''" 0 "[]"]
  ultimately show ?thesis unfolding k by blast
qed

text \<open>Where the spelling differs, the entry stays: invalidating \<open>T\<close> does not touch \<open>t\<close>.\<close>

lemma other_spelling_kept:
  "LoadTable (InvalidateTable ''shop'' ''T'' c) (buildTableCacheKey ''shop'' ''t'') = LoadTable c (buildTableCacheKey ''shop'' ''t'')"
  by (simp add: InvalidateTable_def schema_store.lookup_del buildTableCacheKey_def)

text \<open>An entry of the auto-increment lookup is served as full information, without columns; without a connection the full lookup
  stores a nil pointer that the next lookup dereferences.\<close>

lemma partial_entry_served:
  assumes "LoadTable c (buildTableCacheKey s t) = None" and "now'' - now' < sch_ttl c"
  shows "\<exists>col d' c' e. GetAutoIncrementColumn bk now now' conn s t c = Some (col, d', c')
    \<and> GetTableInfo bk now'' n conn s t c' = Some (Inr (Some e), conn, c') \<and> ct_columns e = []"
  using assms
  by (auto simp: GetAutoIncrementColumn_def GetTableInfo_def Let_def case_prod_beta schema_store.lookup_ins
      buildTableCacheKey_def)

lemma nil_entry_panics:
  assumes "LoadTable c (buildTableCacheKey s t) = None"
  shows "\<exists>c'. GetTableInfo bk now now' None s t c = Some (Inr None, None, c')
    \<and> GetAutoIncrementColumn bk now'' n conn s t c' = None"
  using assms
  by (auto simp: GetAutoIncrementColumn_def GetTableInfo_def queryTableInfo_def Let_def schema_store.lookup_ins
      buildTableCacheKey_def)

end
