(* ===== verification/Go_Iso.thy ===== *)
theory Go_Iso
  imports Go_Time
begin

text \<open>
  Go's \<open>time.Parse\<close> for the layouts \<open>2006-01-02T15:04:05\<close> and \<open>time.RFC3339\<close>, which ends in a zone: \<open>Z\<close>, or a sign, two digits, a colon and
  two digits. The offset of a parsed zone is kept with the fields, as \<open>FixedZone\<close> keeps it.
\<close>

definition no_zone :: "string \<Rightarrow> (int \<times> string) option" where
  "no_zone s = Some (0, s)"

definition rfc_zone :: "string \<Rightarrow> (int \<times> string) option" where
  "rfc_zone s =
     (if s \<noteq> [] \<and> hd s = CHR ''Z'' then Some (0, tl s)
      else if length s < 6 \<or> s ! 3 \<noteq> CHR '':'' then None
      else Option.bind (getnum True (take 2 (drop 1 s))) (\<lambda>(hr, _).
           Option.bind (getnum True (take 2 (drop 4 s))) (\<lambda>(mm, _).
           if 24 < hr \<or> 60 < mm then None
           else (let off = int ((hr * 60 + mm) * 60)
                 in if hd s = CHR ''+'' then Some (off, drop 6 s)
                    else if hd s = CHR ''-'' then Some (- off, drop 6 s)
                    else None))))"

definition iso_parse :: "(string \<Rightarrow> (int \<times> string) option) \<Rightarrow> string \<Rightarrow> gtime option" where
  "iso_parse zone s =
     Option.bind (parse_long_year s) (\<lambda>(y, s).
     Option.bind (skip_lit (CHR ''-'') s) (\<lambda>s.
     Option.bind (getnum True s) (\<lambda>(mo, s).
     if mo < 1 \<or> 12 < mo then None else
     Option.bind (skip_lit (CHR ''-'') s) (\<lambda>s.
     Option.bind (getnum True s) (\<lambda>(d, s).
     Option.bind (skip_lit (CHR ''T'') s) (\<lambda>s.
     Option.bind (getnum False s) (\<lambda>(h, s).
     if 24 \<le> h then None else
     Option.bind (skip_lit (CHR '':'') s) (\<lambda>s.
     Option.bind (getnum True s) (\<lambda>(mi, s).
     if 60 \<le> mi then None else
     Option.bind (skip_lit (CHR '':'') s) (\<lambda>s.
     Option.bind (getnum True s) (\<lambda>(sec, s).
     if 60 \<le> sec then None else
     (let (ns, s) = skip_fraction s
      in Option.bind (zone s) (\<lambda>(off, rest).
         if rest \<noteq> [] then None
         else if d < 1 \<or> days_in mo (int y) < d then None
         else Some \<lparr>t_year = int y, t_month = mo, t_day = d, t_hour = h, t_min = mi,
                    t_sec = sec, t_nsec = ns, t_off = off\<rparr>)))))))))))))"

text \<open>The text of a time in the layout with \<open>T\<close>, followed by a zone.\<close>

lemma iso_parse_fmt:
  assumes "valid_time t" and "skip_fraction z = (0, z)" and "zone z = Some (off, [])"
  shows "iso_parse zone (fmt_date t @ ''T'' @ fmt_clock t @ z) = Some (t\<lparr>t_nsec := 0, t_off := off\<rparr>)"
proof -
  have d: "t_day t < 100"
    using assms days_in_le [of "t_month t" "t_year t"] by (auto simp: valid_time_def)
  from assms d show ?thesis
    by (simp add: iso_parse_def fmt_date_def fmt_clock_def valid_time_def)
qed

lemma rfc_parse_utc: "valid_time t \<Longrightarrow> iso_parse rfc_zone (fmt_date t @ ''T'' @ fmt_clock t @ ''Z'') = Some (t\<lparr>t_nsec := 0, t_off := 0\<rparr>)"
  by (rule iso_parse_fmt) (simp_all add: skip_fraction_def rfc_zone_def)

end
