(* ===== verification/Handler.thy ===== *)
theory Handler
  imports Session Pool Reqtrack Sql_Rewriter Sql_Statements Mapper_Show Mapper_Types Admin_Repl Schema_Cache Go_Iso
begin

text \<open>
  The connection handler of \<open>pkg/protocol/mysql/handler.go\<close>: acquiring a connection, dispatching a query, prepared statements,
  results and the other protocol commands. The record of a connection handler extends the shared handler that it points to, with
  the process-wide request tracker, schema cache and variable overrides. The connection of the session and of the handler are the
  same object: its state is kept in the session, \<open>ch_has_conn\<close> says whether the handler points to it. Logging, durations and the
  detector of unsupported features (whose findings are only logged) are left out.
\<close>

section \<open>State\<close>

record 'c handler =
  h_pool :: "'c pool"
  h_manager :: "'c manager"
  h_rewriter :: rewriter
  h_repl_server :: bool
  h_tracker :: tracker
  h_cache :: schema_cache
  h_overrides :: overrides
  h_active :: int
  h_total_queries :: nat
  h_errors :: "string \<Rightarrow> nat"

record 'c conn_handler = "'c handler" +
  ch_session :: "'c session"
  ch_has_conn :: bool
  ch_search_path_set :: bool

text \<open>
  What the libraries answer: pgx (pool, statements, closing), the TiDB parser (trees, restored text), the local
  time zone, and \<open>BuildSimpleResultset\<close> of go-mysql, which gives the types of the columns.
\<close>

record result_field =
  rf_type :: byte
  rf_charset :: nat
  rf_flag :: nat
  rf_length :: u32
  rf_decimal :: byte

record 'c henv =
  he_pool :: "'c pg_env"
  he_backend :: "'c backend"
  he_close :: "'c \<Rightarrow> bool \<times> 'c"
  he_restore :: "string \<Rightarrow> string option"
  he_parse :: "string \<Rightarrow> ast_stmt list parsed"
  he_offset :: int
  he_local :: "gtime \<Rightarrow> gtime"
  he_build :: "string list \<Rightarrow> go_value list list \<Rightarrow> bool \<Rightarrow> result_field list option"

datatype err_text = Text string | OfSession session_error | OfAdmin admin_error | OfVar var_error

text \<open>\<open>NilConnection\<close> stands for the panic of a call on a nil connection where the model returns an error; it does not happen
  (\<open>panics_classified\<close> in \<open>Handler_Panics\<close>). A panic of the TiDB parser is not recovered where the handler parses a statement itself.\<close>

datatype handler_error =
    MySQLError nat err_text
  | PoolFailed pool_error
  | SearchPathFailed string pg_error
  | ShowFailed show_error
  | PgFailed pg_error
  | PlainError string
  | NilConnection
  | BuildFailed

record resultset =
  rs_names :: "string list"
  rs_fields :: "result_field list"
  rs_rows :: "go_value list list"
  rs_binary :: bool

record mysql_result =
  mr_insert_id :: u64
  mr_affected :: u64
  mr_resultset :: "resultset option"

text \<open>A command returns a result or an error, panics, or never returns (the SQL rewriter).\<close>

datatype 'r reply = Reply 'r | Refuse handler_error | Panic | Hang

definition ok_result :: mysql_result where
  "ok_result = \<lparr>mr_insert_id = 0, mr_affected = 0, mr_resultset = None\<rparr>"

definition inc_error :: "string \<Rightarrow> 'c conn_handler \<Rightarrow> 'c conn_handler" where
  "inc_error kind ch = ch\<lparr>h_errors := (h_errors ch)(kind := h_errors ch kind + 1)\<rparr>"

definition mapped_error :: "pg_error \<Rightarrow> handler_error" where
  "mapped_error e = (let (code, msg) = MapError (Some e) in MySQLError code (Text msg))"

text \<open>A call on the connection; a nil connection panics.\<close>

definition with_conn :: "('c \<Rightarrow> 'r \<times> 'c) \<Rightarrow> 'c conn_handler \<Rightarrow> 'r option \<times> 'c conn_handler" where
  "with_conn f ch =
     (case s_pg_conn (ch_session ch) of
        None \<Rightarrow> (None, ch)
      | Some c \<Rightarrow> (let (r, c) = f c in (Some r, ch\<lparr>ch_session := (ch_session ch)\<lparr>s_pg_conn := Some c\<rparr>\<rparr>)))"

section \<open>Connections\<close>

definition NewConnection :: "string \<Rightarrow> int \<Rightarrow> int \<Rightarrow> string \<Rightarrow> 'c handler \<Rightarrow> 'c conn_handler" where
  "NewConnection uuid now now' host h =
     (let sess = NewSession uuid now now' [] [] host
      in \<lparr>h_pool = h_pool h, h_manager = AddSession sess (h_manager h), h_rewriter = h_rewriter h,
          h_repl_server = h_repl_server h, h_tracker = h_tracker h, h_cache = h_cache h, h_overrides = h_overrides h,
          h_active = h_active h + 1, h_total_queries = h_total_queries h, h_errors = h_errors h,
          ch_session = sess, ch_has_conn = False, ch_search_path_set = False\<rparr>)"

definition search_path_sql :: "string \<Rightarrow> string" where
  "search_path_sql dbName = ''SET search_path TO '' @ dbName"

definition ensurePGConn :: "'c henv \<Rightarrow> 'c conn_handler \<Rightarrow> handler_error option \<times> 'c conn_handler" where
  "ensurePGConn env ch =
     (let acquired =
        (if ch_has_conn ch then Inr ch
         else case AcquireForSession (he_pool env) (he_offset env) (s_id (ch_session ch)) (h_pool ch) of
                (Inl e, p) \<Rightarrow> Inl (PoolFailed e, inc_error ''connection'' (ch\<lparr>h_pool := p\<rparr>))
              | (Inr c, p) \<Rightarrow> Inr (ch\<lparr>h_pool := p, ch_session := SetPGConn (Some c) (ch_session ch), ch_has_conn := True,
                                    ch_search_path_set := False\<rparr>))
      in case acquired of
           Inl (e, ch) \<Rightarrow> (Some e, ch)
         | Inr ch \<Rightarrow>
             if ch_search_path_set ch then (None, ch)
             else (let db = s_database (ch_session ch); dbName = (if db = [] then ''public'' else db)
                   in case with_conn (bk_exec (he_backend env) (search_path_sql dbName) []) ch of
                        (Some (Inr _), ch) \<Rightarrow> (None, ch\<lparr>ch_search_path_set := True\<rparr>)
                      | (Some (Inl e), ch) \<Rightarrow> (Some (SearchPathFailed dbName e), ch)
                      | (None, ch) \<Rightarrow> (Some NilConnection, ch)))"

definition UseDB :: "'c henv \<Rightarrow> string \<Rightarrow> 'c conn_handler \<Rightarrow> handler_error option \<times> 'c conn_handler" where
  "UseDB env dbName ch =
     (if s_in_transaction (ch_session ch)
      then (Some (MySQLError ER_UNKNOWN_ERROR (Text ''cannot change database while transaction is active'')), ch)
      else (let ch = ch\<lparr>ch_session := (ch_session ch)\<lparr>s_database := dbName\<rparr>, ch_search_path_set := False\<rparr>
            in if \<not> ch_has_conn ch then (None, ch)
               else (case with_conn (bk_exec (he_backend env) (search_path_sql dbName) []) ch of
                       (Some (Inr _), ch) \<Rightarrow> (None, ch\<lparr>ch_search_path_set := True\<rparr>)
                     | (Some (Inl e), ch) \<Rightarrow> (Some (PgFailed e), ch)
                     | (None, ch) \<Rightarrow> (Some NilConnection, ch))))"

text \<open>\<open>Close\<close>. The manager holds a pointer to the session: what it removes is the session as it is now.\<close>

definition CloseHandler :: "'c henv \<Rightarrow> 'c conn_handler \<Rightarrow> 'c conn_handler" where
  "CloseHandler env ch =
     (let k = s_id (ch_session ch);
          m = (if GetSession (h_manager ch) k = None then h_manager ch else put_session k (ch_session ch) (h_manager ch));
          exec = plain_exec (he_backend env)
      in ch\<lparr>h_active := h_active ch - 1, h_manager := RemoveSession exec (he_close env) k m,
            ch_session := snd (snd (Close exec (he_close env) (ch_session ch))),
            h_pool := (if ch_has_conn ch then snd (ReleaseForSession (he_pool env) k (h_pool ch)) else h_pool ch)\<rparr>)"

section \<open>Results\<close>

definition time_of_day :: "nat \<Rightarrow> string" where
  "time_of_day micros =
     (let totalSeconds = micros div 1000000
      in fmt_pad2 (totalSeconds div 3600) @ '':'' @ fmt_pad2 (totalSeconds mod 3600 div 60) @ '':'' @ fmt_pad2 (totalSeconds mod 60))"

definition parse_timestamp :: "string \<Rightarrow> gtime option" where
  "parse_timestamp s = (case iso_parse rfc_zone s of Some t \<Rightarrow> Some t | None \<Rightarrow> iso_parse no_zone s)"

fun result_value :: "(gtime \<Rightarrow> gtime) \<Rightarrow> pg_value \<Rightarrow> go_value" where
  "result_value loc (PvGo (GString s)) =
     (case parse_timestamp s of Some t \<Rightarrow> GString (fmt_datetime (loc t)) | None \<Rightarrow> GString s)"
| "result_value loc (PvGo (GTime t)) = GString (fmt_datetime (loc t))"
| "result_value loc (PvGo (GBool b)) = GInt64 (if b then 1 else 0)"
| "result_value loc (PvGo v) = v"
| "result_value loc (PvNumeric None) = GNil"
| "result_value loc (PvNumeric (Some s)) = GString s"
| "result_value loc (PvTimeOfDay None) = GNil"
| "result_value loc (PvTimeOfDay (Some micros)) = GString (time_of_day micros)"
| "result_value loc (PvOther s) = GString s"

text \<open>Types by the identifier of the PostgreSQL type; the flag is \<open>BINARY_FLAG | NOT_NULL_FLAG\<close>.\<close>

definition override_field :: "field_desc \<Rightarrow> result_field \<Rightarrow> result_field" where
  "override_field fd f =
     (if fd_oid fd = 1700 then
        (let f = f\<lparr>rf_type := MYSQL_TYPE_NEWDECIMAL, rf_charset := 63, rf_flag := 129\<rparr>
         in if 0 < fd_typmod fd
            then (let typemod = fd_typmod fd - 4; precision = drop_bit 16 typemod; scale = typemod AND 65535
                  in f\<lparr>rf_length := of_int (if 0 < scale then precision + 1 else precision), rf_decimal := of_int scale\<rparr>)
            else f\<lparr>rf_length := 66, rf_decimal := 0\<rparr>)
      else if fd_oid fd = 1114 \<or> fd_oid fd = 1184 then f\<lparr>rf_type := MYSQL_TYPE_DATETIME, rf_length := 19\<rparr>
      else if fd_oid fd = 1082 then f\<lparr>rf_type := MYSQL_TYPE_DATE, rf_length := 10\<rparr>
      else if fd_oid fd = 1083 \<or> fd_oid fd = 1266 then f\<lparr>rf_type := MYSQL_TYPE_TIME, rf_length := 8\<rparr>
      else f)"

fun row_values :: "(pg_value \<Rightarrow> go_value) \<Rightarrow> (pg_error + pg_value list) list \<Rightarrow> pg_error + go_value list list" where
  "row_values conv [] = Inr []"
| "row_values conv (Inl e # rows) = Inl e"
| "row_values conv (Inr vs # rows) =
     (case row_values conv rows of Inl e \<Rightarrow> Inl e | Inr vss \<Rightarrow> Inr (map conv vs # vss))"

definition buildMySQLResult :: "'c henv \<Rightarrow> pg_rows \<Rightarrow> bool \<Rightarrow> handler_error + mysql_result" where
  "buildMySQLResult env rows binary =
     (let names = map fd_name (pr_fields rows)
      in case row_values (result_value (he_local env)) (pr_rows rows) of
           Inl e \<Rightarrow> Inl (PgFailed e)
         | Inr values \<Rightarrow>
             (case pr_err rows of
                Some e \<Rightarrow> Inl (PgFailed e)
              | None \<Rightarrow>
                  (case he_build env names values binary of
                     None \<Rightarrow> Inl BuildFailed
                   | Some fs \<Rightarrow>
                       Inr \<lparr>mr_insert_id = 0, mr_affected = 0,
                            mr_resultset = Some \<lparr>rs_names = names, rs_fields = map2 override_field (pr_fields rows) fs,
                                                 rs_rows = values, rs_binary = binary\<rparr>\<rparr>)))"

definition reply_of :: "handler_error + 'r \<Rightarrow> 'r reply" where
  "reply_of r = (case r of Inl e \<Rightarrow> Refuse e | Inr x \<Rightarrow> Reply x)"

section \<open>Names in statements\<close>

text \<open>The first word behind position \<open>start\<close>, without quotes. Slicing beyond the end of the statement panics; the offsets are those of the
  upper-case copy, which for ASCII text has the length of the statement, so that only the offset of INSERT, one behind the words that were found, can be too large.\<close>

definition name_at :: "string \<Rightarrow> nat \<Rightarrow> string" where
  "name_at sql start =
     (case Fields (Trim (TrimSpace (drop start sql)) name_quotes) of [] \<Rightarrow> [] | w # _ \<Rightarrow> Trim w name_quotes)"

definition extractInsertTableName :: "string \<Rightarrow> string option" where
  "extractInsertTableName sql =
     (case Index (ToUpper sql) ''INSERT INTO'' of
        None \<Rightarrow> Some []
      | Some idx \<Rightarrow> if length sql < idx + 12 then None else Some (name_at sql (idx + 12)))"

definition name_after_clause :: "string \<Rightarrow> string \<Rightarrow> string" where
  "name_after_clause clause sql =
     (let sql = (if HasPrefix (ToUpper sql) clause then TrimSpace (drop (length clause) sql) else sql)
      in name_at sql 0)"

definition extractCreateTableName :: "string \<Rightarrow> string" where
  "extractCreateTableName sql =
     (case Index (ToUpper sql) ''CREATE TABLE'' of
        None \<Rightarrow> []
      | Some idx \<Rightarrow> name_after_clause ''IF NOT EXISTS'' (TrimSpace (drop (idx + 12) sql)))"

definition extractAlterTableName :: "string \<Rightarrow> string" where
  "extractAlterTableName sql =
     (case Index (ToUpper sql) ''ALTER TABLE'' of None \<Rightarrow> [] | Some idx \<Rightarrow> name_at sql (idx + 11))"

definition extractDropTableName :: "string \<Rightarrow> string" where
  "extractDropTableName sql =
     (case Index (ToUpper sql) ''DROP TABLE'' of
        None \<Rightarrow> []
      | Some idx \<Rightarrow> name_after_clause ''IF EXISTS'' (TrimSpace (drop (idx + 10) sql)))"

fun auto_increment_def :: "string list \<Rightarrow> string" where
  "auto_increment_def [] = []"
| "auto_increment_def (colDef # defs) =
     (let colDef = TrimSpace colDef
      in if Contains (ToUpper colDef) ''AUTO_INCREMENT''
         then (case Fields (TrimLeft colDef [CHR 0x20, CHR 0x09, CHR 0x60, CHR 0x22]) of
                 [] \<Rightarrow> auto_increment_def defs
               | w # _ \<Rightarrow> Trim w [CHR 0x60, CHR 0x22, CHR 0x2C])
         else auto_increment_def defs)"

definition extractAutoIncrementColumn :: "string \<Rightarrow> string" where
  "extractAutoIncrementColumn sql =
     (if \<not> Contains (ToUpper sql) ''AUTO_INCREMENT'' then []
      else case Index sql ''('' of
             None \<Rightarrow> []
           | Some openParen \<Rightarrow>
               auto_increment_def (FieldsFunc (\<lambda>r. r = CHR '','' \<or> r = CHR 0x0A) (drop (openParen + 1) sql)))"

section \<open>Statement kinds\<close>

definition isKillStatement :: "string \<Rightarrow> bool" where
  "isKillStatement query = HasPrefix (ToUpper (TrimSpace query)) ''KILL ''"

definition isFlushStatement :: "string \<Rightarrow> bool" where
  "isFlushStatement query = HasPrefix (ToUpper (TrimSpace query)) ''FLUSH ''"

definition isTablespaceStatement :: "string \<Rightarrow> bool" where
  "isTablespaceStatement query =
     (let upper = ToUpper (TrimSpace query)
      in Contains upper ''DISCARD TABLESPACE'' \<or> Contains upper ''IMPORT TABLESPACE'')"

definition isDatabaseStatement :: "string \<Rightarrow> bool" where
  "isDatabaseStatement query =
     (let upper = ToUpper (TrimSpace query) in HasPrefix upper ''CREATE DATABASE'' \<or> HasPrefix upper ''DROP DATABASE'')"

definition is_write :: "string \<Rightarrow> bool" where
  "is_write upperQuery =
     list_ex (HasPrefix upperQuery) [''CREATE'', ''DROP'', ''ALTER'', ''TRUNCATE'', ''DELETE'', ''UPDATE'', ''INSERT'']"

definition ER_SYNTAX_ERROR :: nat where "ER_SYNTAX_ERROR = 1149"
definition ER_NOT_SUPPORTED_YET :: nat where "ER_NOT_SUPPORTED_YET = 1235"
definition ER_UNKNOWN_STMT_HANDLER :: nat where "ER_UNKNOWN_STMT_HANDLER = 1243"
definition ER_UNKNOWN_COM_ERROR :: nat where "ER_UNKNOWN_COM_ERROR = 1047"
definition ER_MASTER_FATAL_ERROR_READING_BINLOG :: nat where "ER_MASTER_FATAL_ERROR_READING_BINLOG = 1236"
definition ER_MALFORMED_PACKET :: nat where "ER_MALFORMED_PACKET = 1835"

section \<open>Special statements\<close>

definition exec_reply :: "'c henv \<Rightarrow> string \<Rightarrow> 'c conn_handler \<Rightarrow> mysql_result reply \<times> 'c conn_handler" where
  "exec_reply env sql ch =
     (case with_conn (bk_exec (he_backend env) sql []) ch of
        (None, ch) \<Rightarrow> (Panic, ch)
      | (Some (Inl e), ch) \<Rightarrow> (Refuse (mapped_error e), ch)
      | (Some (Inr _), ch) \<Rightarrow> (Reply ok_result, ch))"

definition handleShowCommand :: "'c henv \<Rightarrow> string \<Rightarrow> 'c conn_handler \<Rightarrow> mysql_result reply \<times> 'c conn_handler" where
  "handleShowCommand env query ch =
     (case with_conn (\<lambda>c. HandleShowCommand (he_backend env) query c (h_overrides ch)) ch of
        (None, ch) \<Rightarrow> (Panic, ch)
      | (Some (Inl SliceOutOfRange), ch) \<Rightarrow> (Panic, ch)
      | (Some (Inl e), ch) \<Rightarrow> (Refuse (ShowFailed e), ch)
      | (Some (Inr rows), ch) \<Rightarrow> (reply_of (buildMySQLResult env rows False), ch))"

definition is_on :: "string \<Rightarrow> bool" where
  "is_on v = (ToUpper v = ''ON'' \<or> ToUpper v = ''1'' \<or> ToUpper v = ''TRUE'')"

definition set_autocommit :: "'c henv \<Rightarrow> string \<Rightarrow> string \<Rightarrow> 'c conn_handler \<Rightarrow> handler_error option \<times> 'c conn_handler" where
  "set_autocommit env name v ch =
     (case SetAutocommit (plain_exec (he_backend env)) (is_on v) (ch_session ch) of
        (Inl e, s) \<Rightarrow> (Some (MySQLError ER_UNKNOWN_ERROR (OfSession e)), inc_error ''transaction'' (ch\<lparr>ch_session := s\<rparr>))
      | (Inr _, s) \<Rightarrow> (None, ch\<lparr>ch_session := SetSessionVar name (GString v) s\<rparr>))"

definition set_global :: "'c henv \<Rightarrow> set_var_info \<Rightarrow> 'c conn_handler \<Rightarrow> handler_error option \<times> 'c conn_handler" where
  "set_global env v ch =
     (case s_pg_conn (ch_session ch) of
        None \<Rightarrow> (Some NilConnection, ch)
      | Some c \<Rightarrow>
          (case HandleSetGlobal (he_backend env) (sv_name v) (sv_value v) c (h_overrides ch) of
             ((_, err), c, ov) \<Rightarrow>
               (map_option (\<lambda>e. MySQLError ER_UNKNOWN_ERROR (OfVar e)) err,
                ch\<lparr>h_overrides := ov, ch_session := (ch_session ch)\<lparr>s_pg_conn := Some c\<rparr>\<rparr>)))"

text \<open>A session variable; a failure to set it in PostgreSQL is only logged.\<close>

definition set_session :: "'c henv \<Rightarrow> set_var_info \<Rightarrow> 'c conn_handler \<Rightarrow> handler_error option \<times> 'c conn_handler" where
  "set_session env v ch =
     (let set_own = (\<lambda>ch. ch\<lparr>ch_session := SetSessionVar (sv_name v) (GString (sv_value v)) (ch_session ch)\<rparr>)
      in if sv_is_system v
         then (case with_conn (HandleSetSession (he_backend env) (sv_name v) (sv_value v)) ch of
                 (None, ch) \<Rightarrow> (Some NilConnection, ch)
               | (Some _, ch) \<Rightarrow> (None, set_own ch))
         else (None, set_own ch))"

fun set_vars :: "'c henv \<Rightarrow> set_var_info list \<Rightarrow> 'c conn_handler \<Rightarrow> mysql_result reply \<times> 'c conn_handler" where
  "set_vars env [] ch = (Reply ok_result, ch)"
| "set_vars env (v # vs) ch =
     (case (if sv_is_global v then set_global env v ch
            else if ToLower (sv_name v) = ''autocommit'' then set_autocommit env (sv_name v) (sv_value v) ch
            else set_session env v ch) of
        (Some e, ch) \<Rightarrow> (Refuse e, ch)
      | (None, ch) \<Rightarrow> set_vars env vs ch)"

fun set_plain :: "'c henv \<Rightarrow> (string \<times> string) list \<Rightarrow> 'c conn_handler \<Rightarrow> mysql_result reply \<times> 'c conn_handler" where
  "set_plain env [] ch = (Reply ok_result, ch)"
| "set_plain env ((k, v) # kvs) ch =
     (case (if ToLower k = ''autocommit'' then set_autocommit env k v ch
            else (None, ch\<lparr>ch_session := SetSessionVar k (GString v) (ch_session ch)\<rparr>)) of
        (Some e, ch) \<Rightarrow> (Refuse e, ch)
      | (None, ch) \<Rightarrow> set_plain env kvs ch)"

definition handleSetCommand :: "'c henv \<Rightarrow> string \<Rightarrow> 'c conn_handler \<Rightarrow> mysql_result reply \<times> 'c conn_handler" where
  "handleSetCommand env query ch =
     (case ParseSet (he_parse env) query of
        ParserPanics \<Rightarrow> (Panic, ch)
      | Parsed vars \<Rightarrow> set_vars env vars ch
      | NotParsed \<Rightarrow>
          (case HandleSetCommand query of
             Inl msg \<Rightarrow> (Refuse (PlainError msg), ch)
           | Inr kvs \<Rightarrow> set_plain env kvs ch))"

definition handleUseCommand :: "'c henv \<Rightarrow> string \<Rightarrow> 'c conn_handler \<Rightarrow> mysql_result reply \<times> 'c conn_handler" where
  "handleUseCommand env query ch =
     (case Fields query of
        _ # d # _ \<Rightarrow>
          (case UseDB env (Trim d all_quotes) ch of
             (Some e, ch) \<Rightarrow> (Refuse e, ch)
           | (None, ch) \<Rightarrow> (Reply ok_result, ch))
      | _ \<Rightarrow> (Refuse (PlainError (''invalid USE command: '' @ query)), ch))"

text \<open>\<open>Reply None\<close>: the query is not answered here.\<close>

definition handleSelectVariable :: "'c henv \<Rightarrow> string \<Rightarrow> 'c conn_handler \<Rightarrow> mysql_result option reply \<times> 'c conn_handler" where
  "handleSelectVariable env query ch =
     (case ParseSelectVariable (he_parse env) query of
        ParserPanics \<Rightarrow> (Panic, ch)
      | NotParsed \<Rightarrow> (Reply None, ch)
      | Parsed (name, isGlobal) \<Rightarrow>
          (case with_conn (\<lambda>c. GetMySQLVarValue (he_backend env) name c (h_overrides ch)) ch of
             (None, ch) \<Rightarrow> (Panic, ch)
           | (Some (Some (Inr v)), ch) \<Rightarrow>
               (let columnName = (if isGlobal then ''@@global.'' else ''@@'') @ name
                in case he_build env [columnName] [[GString v]] False of
                     None \<Rightarrow> (Reply None, ch)
                   | Some fs \<Rightarrow>
                       (Reply (Some (ok_result\<lparr>mr_resultset := Some \<lparr>rs_names = [columnName], rs_fields = fs, rs_rows = [[GString v]],
                                                                   rs_binary = False\<rparr>\<rparr>)), ch))
           | (_, ch) \<Rightarrow> (Reply None, ch)))"

definition word_is :: "string list \<Rightarrow> nat \<Rightarrow> string \<Rightarrow> bool" where
  "word_is ws i w \<longleftrightarrow> i < length ws \<and> ToUpper (ws ! i) = w"

definition handleDatabaseCommand :: "'c henv \<Rightarrow> string \<Rightarrow> 'c conn_handler \<Rightarrow> mysql_result reply \<times> 'c conn_handler" where
  "handleDatabaseCommand env query ch =
     (let upper = ToUpper (TrimSpace query); ws = Fields query
      in if HasPrefix upper ''CREATE DATABASE''
         then (let guarded = (word_is ws 2 ''IF'' \<and> word_is ws 3 ''NOT'' \<and> word_is ws 4 ''EXISTS'');
                   idx = (if guarded then 5 else 2)
               in if length ws \<le> idx
                  then (Refuse (MySQLError ER_SYNTAX_ERROR (Text ''missing database name in CREATE DATABASE'')), ch)
                  else exec_reply env (''CREATE SCHEMA '' @ (if guarded then ''IF NOT EXISTS '' else [])
                         @ Trim (ws ! idx) all_quotes) ch)
         else if HasPrefix upper ''DROP DATABASE''
         then (let guarded = (word_is ws 2 ''IF'' \<and> word_is ws 3 ''EXISTS''); idx = (if guarded then 4 else 2)
               in if length ws \<le> idx
                  then (Refuse (MySQLError ER_SYNTAX_ERROR (Text ''missing database name in DROP DATABASE'')), ch)
                  else exec_reply env (''DROP SCHEMA '' @ (if guarded then ''IF EXISTS '' else [])
                         @ Trim (ws ! idx) all_quotes @ '' CASCADE'') ch)
         else (Refuse (MySQLError ER_SYNTAX_ERROR (Text ''unsupported DATABASE command'')), ch))"

definition kill_sql :: "u64 \<Rightarrow> bool \<Rightarrow> string" where
  "kill_sql connectionID queryOnly =
     ''SELECT '' @ (if queryOnly then ''pg_cancel_backend'' else ''pg_terminate_backend'') @ ''('' @ dec_digits (unat connectionID)
     @ '')''"

text \<open>The result of the statement is ignored.\<close>

definition handleKillCommand :: "'c henv \<Rightarrow> string \<Rightarrow> 'c conn_handler \<Rightarrow> mysql_result reply \<times> 'c conn_handler" where
  "handleKillCommand env query ch =
     (case ParseKill (he_parse env) query of
        ParserPanics \<Rightarrow> (Panic, ch)
      | NotParsed \<Rightarrow> (Reply ok_result, ch)
      | Parsed (connectionID, queryOnly) \<Rightarrow>
          (case with_conn (bk_exec (he_backend env) (kill_sql connectionID queryOnly) []) ch of
             (None, ch) \<Rightarrow> (Panic, ch)
           | (Some _, ch) \<Rightarrow> (Reply ok_result, ch)))"

section \<open>Writing statements\<close>

text \<open>\<open>Session.GetAutoIncrementColumn\<close>: the shared cache, asked with the database of the session; \<open>None\<close> is a panic.\<close>

definition session_auto_increment :: "'c henv \<Rightarrow> int \<Rightarrow> int \<Rightarrow> string \<Rightarrow> 'c conn_handler \<Rightarrow> string option \<times> 'c conn_handler" where
  "session_auto_increment env now now' tableName ch =
     (case GetAutoIncrementColumn (he_backend env) now now' (s_pg_conn (ch_session ch)) (s_database (ch_session ch)) tableName
             (h_cache ch) of
        None \<Rightarrow> (None, ch)
      | Some (column, conn, cache) \<Rightarrow>
          (Some column, ch\<lparr>h_cache := cache, ch_session := (ch_session ch)\<lparr>s_pg_conn := conn\<rparr>\<rparr>))"

text \<open>\<open>Session.queryAutoIncrementColumn\<close>, which asks PostgreSQL past the cache, in the schema of the connection; it has no caller.\<close>

definition session_auto_increment_text :: string where
  \<open>session_auto_increment_text =
     sql_text (''SELECT column_name FROM information_schema.columns WHERE table_name = $1 AND table_schema = current_schema()''
       @ '' AND (column_default LIKE `nextval(%` OR is_identity = `YES`) ORDER BY ordinal_position LIMIT 1'')\<close>

definition session_query_auto_increment :: "'c henv \<Rightarrow> string \<Rightarrow> 'c session \<Rightarrow> string \<times> 'c session" where
  "session_query_auto_increment env tableName s =
     (case s_pg_conn s of
        None \<Rightarrow> ([], s)
      | Some c \<Rightarrow>
          (case query_row (he_backend env) Pg_Backend.scan_string session_auto_increment_text [GString (ToLower tableName)] c of
             (Inl _, c) \<Rightarrow> ([], s\<lparr>s_pg_conn := Some c\<rparr>)
           | (Inr columnName, c) \<Rightarrow> (columnName, s\<lparr>s_pg_conn := Some c\<rparr>)))"

fun scan_int64 :: "pg_value list \<Rightarrow> u64 option" where
  "scan_int64 [PvGo (GInt64 w)] = Some w"
| "scan_int64 [PvGo (GInt32 w)] = Some (scast w)"
| "scan_int64 [PvGo (GInt16 w)] = Some (scast w)"
| "scan_int64 _ = None"

text \<open>The identifier in the first returned row, zero if there is none; errors behind the rows are not looked at.\<close>

definition returned_id :: "pg_rows \<Rightarrow> u64" where
  "returned_id rows =
     (case pr_rows rows of
        Inr vs # _ \<Rightarrow> (case scan_int64 vs of Some v \<Rightarrow> v | None \<Rightarrow> 0)
      | _ \<Rightarrow> 0)"

definition run_exec_stmt :: "'c henv \<Rightarrow> string \<Rightarrow> go_value list \<Rightarrow> 'c conn_handler \<Rightarrow> mysql_result reply \<times> 'c conn_handler" where
  "run_exec_stmt env sql args ch =
     (case with_conn (bk_exec (he_backend env) sql args) ch of
        (None, ch) \<Rightarrow> (Panic, ch)
      | (Some (Inl e), ch) \<Rightarrow> (Refuse (mapped_error e), ch)
      | (Some (Inr n), ch) \<Rightarrow> (Reply \<lparr>mr_insert_id = 0, mr_affected = n, mr_resultset = None\<rparr>, ch))"

definition run_insert :: "'c henv \<Rightarrow> int \<Rightarrow> int \<Rightarrow> string \<Rightarrow> string \<Rightarrow> go_value list \<Rightarrow> 'c conn_handler
    \<Rightarrow> mysql_result reply \<times> 'c conn_handler" where
  "run_insert env now now' query sql args ch =
     (case extractInsertTableName query of
        None \<Rightarrow> (Panic, ch)
      | Some tableName \<Rightarrow>
          (case session_auto_increment env now now' tableName ch of
             (None, ch) \<Rightarrow> (Panic, ch)
           | (Some autoIncrColumn, ch) \<Rightarrow>
               if autoIncrColumn \<noteq> [] \<and> \<not> Contains (ToUpper sql) ''RETURNING''
               then (case with_conn (bk_query (he_backend env) (sql @ '' RETURNING '' @ autoIncrColumn) args) ch of
                       (None, ch) \<Rightarrow> (Panic, ch)
                     | (Some (Inl e), ch) \<Rightarrow> (Refuse (mapped_error e), ch)
                     | (Some (Inr rows), ch) \<Rightarrow>
                         (Reply \<lparr>mr_insert_id = returned_id rows, mr_affected = 1, mr_resultset = None\<rparr>, ch))
               else run_exec_stmt env sql args ch))"

text \<open>What a data definition statement does to the cache and the session.\<close>

definition note_ddl :: "string \<Rightarrow> string \<Rightarrow> 'c conn_handler \<Rightarrow> 'c conn_handler" where
  "note_ddl upperQuery query ch =
     (let invalidate = (\<lambda>t ch. ch\<lparr>h_cache := InvalidateTable (s_database (ch_session ch)) t (h_cache ch)\<rparr>)
      in if HasPrefix upperQuery ''CREATE TABLE''
         then (let tableName = extractCreateTableName query; columnName = extractAutoIncrementColumn query;
                   ch = invalidate tableName ch
               in if tableName \<noteq> [] \<and> columnName \<noteq> []
                  then ch\<lparr>ch_session := MarkTableHasAutoIncrement tableName columnName (ch_session ch)\<rparr> else ch)
         else if HasPrefix upperQuery ''ALTER TABLE''
         then (let tableName = extractAlterTableName query in if tableName \<noteq> [] then invalidate tableName ch else ch)
         else if HasPrefix upperQuery ''DROP TABLE''
         then (let tableName = extractDropTableName query in if tableName \<noteq> [] then invalidate tableName ch else ch)
         else ch)"

definition count_refused :: "mysql_result reply \<times> 'c conn_handler \<Rightarrow> mysql_result reply \<times> 'c conn_handler" where
  "count_refused r = (case r of (Refuse e, ch) \<Rightarrow> (Refuse e, inc_error ''query'' ch) | _ \<Rightarrow> r)"

definition run_write :: "'c henv \<Rightarrow> int \<Rightarrow> int \<Rightarrow> string \<Rightarrow> string \<Rightarrow> 'c conn_handler \<Rightarrow> mysql_result reply \<times> 'c conn_handler" where
  "run_write env now now' query sql ch =
     (let upperQuery = ToUpper (TrimSpace query)
      in if HasPrefix upperQuery ''INSERT'' then count_refused (run_insert env now now' query sql [] ch)
         else (case run_exec_stmt env sql [] ch of
                 (Reply r, ch) \<Rightarrow> (Reply r, note_ddl upperQuery query ch)
               | r \<Rightarrow> count_refused r))"

definition run_select :: "'c henv \<Rightarrow> string \<Rightarrow> go_value list \<Rightarrow> bool \<Rightarrow> 'c conn_handler \<Rightarrow> mysql_result reply \<times> 'c conn_handler" where
  "run_select env sql args binary ch =
     (case with_conn (bk_query (he_backend env) sql args) ch of
        (None, ch) \<Rightarrow> (Panic, ch)
      | (Some (Inl e), ch) \<Rightarrow> (Refuse (mapped_error e), ch)
      | (Some (Inr rows), ch) \<Rightarrow> (reply_of (buildMySQLResult env rows binary), ch))"

section \<open>Queries\<close>

definition run_transaction ::
    "((string \<Rightarrow> 'c \<Rightarrow> bool \<times> 'c) \<Rightarrow> 'c session \<Rightarrow> (session_error + unit) \<times> 'c session) \<Rightarrow> 'c henv \<Rightarrow> 'c conn_handler
     \<Rightarrow> mysql_result reply \<times> 'c conn_handler" where
  "run_transaction op env ch =
     (case op (plain_exec (he_backend env)) (ch_session ch) of
        (Inl e, s) \<Rightarrow> (Refuse (MySQLError ER_UNKNOWN_ERROR (OfSession e)), inc_error ''transaction'' (ch\<lparr>ch_session := s\<rparr>))
      | (Inr _, s) \<Rightarrow> (Reply ok_result, ch\<lparr>ch_session := s\<rparr>))"

text \<open>The errors of \<open>Query\<close> and of the conversion of its rows are counted under two names.\<close>

definition count_select :: "mysql_result reply \<times> 'c conn_handler \<Rightarrow> mysql_result reply \<times> 'c conn_handler" where
  "count_select r =
     (case r of
        (Refuse (MySQLError c m), ch) \<Rightarrow> (Refuse (MySQLError c m), inc_error ''query'' ch)
      | (Refuse e, ch) \<Rightarrow> (Refuse e, inc_error ''result_conversion'' ch)
      | _ \<Rightarrow> r)"

definition rewritten_query :: "'c henv \<Rightarrow> int \<Rightarrow> int \<Rightarrow> string \<Rightarrow> 'c conn_handler \<Rightarrow> mysql_result reply \<times> 'c conn_handler" where
  "rewritten_query env now now' query ch =
     (case Rewrite (he_restore env) (h_rewriter ch) query of
        None \<Rightarrow> (Hang, ch)
      | Some sql \<Rightarrow>
          if is_write (ToUpper (TrimSpace query)) then run_write env now now' query sql ch
          else count_select (run_select env sql [] False ch))"

definition acl_or :: "'c henv \<Rightarrow> string \<Rightarrow> (unit \<Rightarrow> mysql_result reply \<times> 'c conn_handler) \<Rightarrow> 'c conn_handler
    \<Rightarrow> mysql_result reply \<times> 'c conn_handler" where
  "acl_or env query other ch =
     (case (if IsACLCommand query then RewriteACL (he_parse env) query else NotParsed) of
        ParserPanics \<Rightarrow> (Panic, ch)
      | Parsed [] \<Rightarrow> (Reply ok_result, ch)
      | Parsed sql \<Rightarrow> exec_reply env sql ch
      | NotParsed \<Rightarrow> other ())"

definition replication_or :: "'c henv \<Rightarrow> string \<Rightarrow> (unit \<Rightarrow> mysql_result reply \<times> 'c conn_handler) \<Rightarrow> 'c conn_handler
    \<Rightarrow> mysql_result reply \<times> 'c conn_handler" where
  "replication_or env query other ch =
     (if IsReplicationCommand query
      then (case with_conn (HandleReplicationCommand (he_backend env) query) ch of
              (None, ch) \<Rightarrow> (Panic, ch)
            | (Some (Some None), ch) \<Rightarrow> (Reply ok_result, ch)
            | (Some (Some (Some e)), ch) \<Rightarrow> (Refuse (MySQLError ER_UNKNOWN_ERROR (OfAdmin e)), ch)
            | (Some None, ch) \<Rightarrow> other ())
      else other ())"

definition plain_query :: "'c henv \<Rightarrow> int \<Rightarrow> int \<Rightarrow> string \<Rightarrow> 'c conn_handler \<Rightarrow> mysql_result reply \<times> 'c conn_handler" where
  "plain_query env now now' query ch =
     (if isFlushStatement query then (Reply ok_result, ch)
      else if isTablespaceStatement query
      then (Refuse (MySQLError ER_NOT_SUPPORTED_YET
              (Text ''ALTER TABLE ... DISCARD/IMPORT TABLESPACE is not supported (PostgreSQL does not have per-table tablespace import/export)'')),
            ch)
      else rewritten_query env now now' query ch)"

text \<open>The statements that a connected session handles, in the order of the source.\<close>

definition dispatch :: "'c henv \<Rightarrow> int \<Rightarrow> int \<Rightarrow> string \<Rightarrow> 'c conn_handler \<Rightarrow> mysql_result reply \<times> 'c conn_handler" where
  "dispatch env now now' query ch =
     (if IsShowStatement query then handleShowCommand env query ch
      else if IsSetStatement query then handleSetCommand env query ch
      else if IsUseStatement query then handleUseCommand env query ch
      else if isDatabaseStatement query then handleDatabaseCommand env query ch
      else case handleSelectVariable env query ch of
             (Reply (Some r), ch) \<Rightarrow> (Reply r, ch)
           | (Refuse e, ch) \<Rightarrow> (Refuse e, ch)
           | (Panic, ch) \<Rightarrow> (Panic, ch)
           | (Hang, ch) \<Rightarrow> (Hang, ch)
           | (Reply None, ch) \<Rightarrow>
               if IsBeginStatement query then run_transaction BeginTransaction env ch
               else if IsCommitStatement query then run_transaction CommitTransaction env ch
               else if IsRollbackStatement query then run_transaction RollbackTransaction env ch
               else if isKillStatement query then handleKillCommand env query ch
               else replication_or env query (\<lambda>_. acl_or env query (\<lambda>_. plain_query env now now' query ch) ch) ch)"

definition HandleQuery :: "'c henv \<Rightarrow> int \<Rightarrow> int \<Rightarrow> int \<Rightarrow> string \<Rightarrow> 'c conn_handler \<Rightarrow> mysql_result reply \<times> 'c conn_handler" where
  "HandleQuery env start now now' query ch =
     (let ch = ch\<lparr>h_total_queries := h_total_queries ch + 1\<rparr>;
          (reqID, tr) = StartRequest start (s_id (ch_session ch)) query (h_tracker ch);
          (r, ch) = (case ensurePGConn env (ch\<lparr>h_tracker := tr\<rparr>) of
                       (Some e, ch) \<Rightarrow> (Refuse e, ch)
                     | (None, ch) \<Rightarrow> dispatch env now now' query ch)
      in (r, if r = Hang then ch else ch\<lparr>h_tracker := EndRequest reqID (h_tracker ch)\<rparr>))"

section \<open>Prepared statements\<close>

definition returns_rows :: "string \<Rightarrow> bool" where
  "returns_rows sql =
     list_ex (HasPrefix (TrimSpace (ToUpper sql))) [''SELECT'', ''WITH'', ''SHOW'', ''EXPLAIN'', ''DESCRIBE'', ''DESC'']"

text \<open>The number of parameters, the number of columns that is announced, and the identifier.\<close>

definition HandleStmtPrepare :: "'c henv \<Rightarrow> string \<Rightarrow> 'c conn_handler \<Rightarrow> (nat \<times> nat \<times> u32) reply \<times> 'c conn_handler" where
  "HandleStmtPrepare env query ch =
     (case ensurePGConn env ch of
        (Some e, ch) \<Rightarrow> (Refuse e, ch)
      | (None, ch) \<Rightarrow>
          (case RewritePrepared (he_restore env) (h_rewriter ch) query of
             None \<Rightarrow> (Hang, ch)
           | Some (sql, paramCount) \<Rightarrow>
               (let stmtID = of_nat (GetPreparedStatementCount (ch_session ch) + 1);
                    stmt = \<lparr>ps_id = stmtID, ps_sql = sql, ps_original_sql = query, ps_pg_name = [],
                            ps_param_count = int paramCount, ps_param_types = [], ps_column_count = 0,
                            ps_column_types = [], ps_column_names = []\<rparr>
                in (Reply (paramCount, if returns_rows sql then 1 else 0, stmtID),
                    ch\<lparr>ch_session := AddPreparedStatement stmt (ch_session ch)\<rparr>))))"

fun convert_arg :: "go_value \<Rightarrow> go_value" where
  "convert_arg (GTime t) = GString (fmt_datetime t)"
| "convert_arg (GBytes b) = GString (string_of b)"
| "convert_arg v = v"

text \<open>\<open>data\<close> is the identifier that the protocol library stored, \<open>None\<close> if it is not a \<open>uint32\<close>.\<close>

definition HandleStmtExecute :: "'c henv \<Rightarrow> int \<Rightarrow> int \<Rightarrow> u32 option \<Rightarrow> go_value list \<Rightarrow> 'c conn_handler
    \<Rightarrow> mysql_result reply \<times> 'c conn_handler" where
  "HandleStmtExecute env now now' data args ch =
     (case data of
        None \<Rightarrow> (Refuse (MySQLError ER_UNKNOWN_ERROR (Text ''invalid statement ID type'')), ch)
      | Some stmtID \<Rightarrow>
          (case GetPreparedStatement (ch_session ch) stmtID of
             None \<Rightarrow> (Refuse (MySQLError ER_UNKNOWN_STMT_HANDLER (Text ''Unknown prepared statement'')), ch)
           | Some stmt \<Rightarrow>
               (case ensurePGConn env ch of
                  (Some e, ch) \<Rightarrow> (Refuse e, ch)
                | (None, ch) \<Rightarrow>
                    (let upperQuery = ToUpper (TrimSpace (ps_original_sql stmt)); convertedArgs = map convert_arg args
                     in if HasPrefix upperQuery ''INSERT''
                        then run_insert env now now' (ps_original_sql stmt) (ps_sql stmt) convertedArgs ch
                        else if HasPrefix upperQuery ''UPDATE'' \<or> HasPrefix upperQuery ''DELETE''
                        then run_exec_stmt env (ps_sql stmt) convertedArgs ch
                        else run_select env (ps_sql stmt) convertedArgs True ch))))"

definition HandleStmtClose :: "u32 option \<Rightarrow> 'c conn_handler \<Rightarrow> handler_error option \<times> 'c conn_handler" where
  "HandleStmtClose data ch =
     (case data of
        None \<Rightarrow> (Some (MySQLError ER_UNKNOWN_ERROR (Text ''invalid statement ID type'')), ch)
      | Some stmtID \<Rightarrow>
          (case GetPreparedStatement (ch_session ch) stmtID of
             None \<Rightarrow> (None, ch)
           | Some _ \<Rightarrow> (None, ch\<lparr>ch_session := RemovePreparedStatement stmtID (ch_session ch)\<rparr>)))"

section \<open>Other commands\<close>

fun field_rows :: "(pg_error + pg_value list) list \<Rightarrow> pg_error + mysql_field list" where
  "field_rows [] = Inr []"
| "field_rows (Inl e # rows) = Inl e"
| "field_rows (Inr vs # rows) =
     (case vs of
        [PvGo (GString colName), PvGo (GString dataType), len] \<Rightarrow>
          (case (case len of PvGo GNil \<Rightarrow> Some 255 | PvGo (GInt32 w) \<Rightarrow> Some w | _ \<Rightarrow> None) of
             None \<Rightarrow> Inl (OtherError ''cannot scan'')
           | Some l \<Rightarrow>
               (case field_rows rows of Inl e \<Rightarrow> Inl e | Inr fs \<Rightarrow> Inr (BuildMySQLFieldPacket colName 0 l # fs)))
      | _ \<Rightarrow> Inl (OtherError ''cannot scan''))"

definition field_list_text :: "string \<Rightarrow> string" where
  \<open>field_list_text table =
     sql_text (''SELECT column_name, data_type, character_maximum_length FROM information_schema.columns WHERE table_schema =''
       @ '' current_schema() AND table_name = `'')
     @ table
     @ sql_text ''` ORDER BY ordinal_position''\<close>

definition HandleFieldList :: "'c henv \<Rightarrow> string \<Rightarrow> 'c conn_handler
    \<Rightarrow> mysql_field list reply \<times> 'c conn_handler" where
  "HandleFieldList env table ch =
     (case ensurePGConn env ch of
        (Some e, ch) \<Rightarrow> (Refuse e, ch)
      | (None, ch) \<Rightarrow>
          (case with_conn (bk_query (he_backend env) (field_list_text table) []) ch of
             (None, ch) \<Rightarrow> (Panic, ch)
           | (Some (Inl e), ch) \<Rightarrow> (Refuse (PgFailed e), ch)
           | (Some (Inr rows), ch) \<Rightarrow>
               (case field_rows (pr_rows rows) of Inl e \<Rightarrow> (Refuse (PgFailed e), ch) | Inr fs \<Rightarrow> (Reply fs, ch))))"

datatype command = ComPing | ComInitDB | ComQuit | ComBinlogDump | ComBinlogDumpGTID | ComRegisterSlave | ComOther byte

text \<open>What is passed on to the replication server: server identifier, file and position.\<close>

record dump_request =
  dr_server_id :: nat
  dr_file :: string
  dr_pos :: nat

definition handleBinlogDump :: "byte list \<Rightarrow> 'c conn_handler \<Rightarrow> handler_error + dump_request" where
  "handleBinlogDump data ch =
     (if \<not> h_repl_server ch
      then Inl (MySQLError ER_MASTER_FATAL_ERROR_READING_BINLOG (Text ''binlog replication not enabled''))
      else if length data < 10 then Inl (MySQLError ER_MALFORMED_PACKET (Text ''invalid COM_BINLOG_DUMP packet''))
      else Inr \<lparr>dr_server_id = le_val (take 4 (drop 6 data)), dr_file = string_of (drop 10 data), dr_pos = le_val (take 4 data)\<rparr>)"

definition handleBinlogDumpGTID :: "'c conn_handler \<Rightarrow> handler_error" where
  "handleBinlogDumpGTID ch =
     MySQLError ER_MASTER_FATAL_ERROR_READING_BINLOG
       (Text (if h_repl_server ch then ''GTID-based replication not supported, please use file-based replication''
              else ''binlog replication not enabled''))"

definition handleRegisterSlave :: "byte list \<Rightarrow> 'c conn_handler \<Rightarrow> handler_error option" where
  "handleRegisterSlave data ch =
     (if \<not> h_repl_server ch
      then Some (MySQLError ER_MASTER_FATAL_ERROR_READING_BINLOG (Text ''binlog replication not enabled''))
      else if length data < 4 then Some (MySQLError ER_MALFORMED_PACKET (Text ''invalid COM_REGISTER_SLAVE packet''))
      else None)"

text \<open>The outcome of a command: done, an error, or a dump that starts.\<close>

datatype command_outcome = CommandDone | CommandError handler_error | StartDump dump_request

definition outcome_of :: "handler_error option \<Rightarrow> command_outcome" where
  "outcome_of r = (case r of None \<Rightarrow> CommandDone | Some e \<Rightarrow> CommandError e)"

definition HandleOtherCommand :: "'c henv \<Rightarrow> command \<Rightarrow> byte list \<Rightarrow> 'c conn_handler \<Rightarrow> command_outcome \<times> 'c conn_handler" where
  "HandleOtherCommand env cmd data ch =
     (case cmd of
        ComPing \<Rightarrow> (CommandDone, ch)
      | ComInitDB \<Rightarrow> (let (r, ch) = UseDB env (string_of data) ch in (outcome_of r, ch))
      | ComQuit \<Rightarrow> (CommandDone, CloseHandler env ch)
      | ComBinlogDump \<Rightarrow> (case handleBinlogDump data ch of Inl e \<Rightarrow> (CommandError e, ch) | Inr d \<Rightarrow> (StartDump d, ch))
      | ComBinlogDumpGTID \<Rightarrow> (CommandError (handleBinlogDumpGTID ch), ch)
      | ComRegisterSlave \<Rightarrow> (outcome_of (handleRegisterSlave data ch), ch)
      | ComOther c \<Rightarrow> (CommandError (MySQLError ER_UNKNOWN_COM_ERROR (Text (''command '' @ dec_digits (unat c) @ '' not supported''))), ch))"

end
