(* ===== verification/Handler_Props.thy ===== *)
theory Handler_Props
  imports Handler
begin

text \<open>
  Properties of the connection handler: what a query leaves untouched, request tracking, prepared statements, the search path, the
  life of a connection, and the replies that do not tell the client what happened.
\<close>

section \<open>Frame\<close>

text \<open>A command on a connection leaves the sessions, the gauge, the rewriter and the tracker alone; once the connection is
  acquired, it leaves the pool alone too.\<close>

definition fixed :: "'c conn_handler \<Rightarrow> 'c manager \<times> int \<times> tracker \<times> rewriter \<times> bool \<times> string" where
  "fixed ch = (h_manager ch, h_active ch, h_tracker ch, h_rewriter ch, h_repl_server ch, s_id (ch_session ch))"

definition shared :: "'c conn_handler \<Rightarrow> ('c manager \<times> int \<times> tracker \<times> rewriter \<times> bool \<times> string) \<times> 'c pool \<times> bool" where
  "shared ch = (fixed ch, h_pool ch, ch_has_conn ch)"

named_theorems frame \<open>a command keeps the shared state\<close>

lemma shared_updates [simp]:
  "shared (inc_error k ch) = shared ch" "shared (ch\<lparr>h_cache := x\<rparr>) = shared ch" "shared (ch\<lparr>h_overrides := y\<rparr>) = shared ch"
  "shared (ch\<lparr>ch_search_path_set := b\<rparr>) = shared ch"
  "s_id s = s_id (ch_session ch) \<Longrightarrow> shared (ch\<lparr>ch_session := s\<rparr>) = shared ch"
  by (simp_all add: shared_def fixed_def inc_error_def)

lemma with_conn_frame [frame]: "with_conn f ch = (r, ch') \<Longrightarrow> shared ch' = shared ch"
  by (auto simp: with_conn_def Let_def split: option.splits prod.splits)

lemma session_id_ops [simp]:
  "s_id (SetPGConn c s) = s_id s" "s_id (SetSessionVar k v s) = s_id s" "s_id (MarkTableHasAutoIncrement t col s) = s_id s"
  "s_id (AddPreparedStatement p s) = s_id s"
  by (simp_all add: SetPGConn_def SetSessionVar_def MarkTableHasAutoIncrement_def AddPreparedStatement_def put_stmt_def)

lemma session_id_transactions [frame]:
  "SetAutocommit exec b s = (r, s') \<Longrightarrow> s_id s' = s_id s" "BeginTransaction exec s = (r, s') \<Longrightarrow> s_id s' = s_id s"
  "CommitTransaction exec s = (r, s') \<Longrightarrow> s_id s' = s_id s" "RollbackTransaction exec s = (r, s') \<Longrightarrow> s_id s' = s_id s"
  by (auto simp: session_ops split: if_splits prod.splits option.splits)

lemma UseDB_frame [frame]: "UseDB env db ch = (r, ch') \<Longrightarrow> shared ch' = shared ch"
  unfolding UseDB_def Let_def
  by (auto split: if_splits sum.splits prod.splits option.splits dest!: frame)

lemma exec_reply_frame [frame]: "exec_reply env sql ch = (r, ch') \<Longrightarrow> shared ch' = shared ch"
  unfolding exec_reply_def
  by (auto split: sum.splits prod.splits option.splits dest!: frame)

lemma handleShowCommand_frame [frame]: "handleShowCommand env q ch = (r, ch') \<Longrightarrow> shared ch' = shared ch"
  unfolding handleShowCommand_def
  by (auto split: show_error.splits sum.splits prod.splits option.splits dest!: frame)

lemma set_autocommit_frame [frame]: "set_autocommit env n v ch = (r, ch') \<Longrightarrow> shared ch' = shared ch"
  unfolding set_autocommit_def
  by (auto split: sum.splits prod.splits dest!: frame)

lemma set_global_frame [frame]: "set_global env v ch = (r, ch') \<Longrightarrow> shared ch' = shared ch"
  unfolding set_global_def
  by (auto split: prod.splits option.splits)

lemma set_session_frame [frame]: "set_session env v ch = (r, ch') \<Longrightarrow> shared ch' = shared ch"
  unfolding set_session_def Let_def
  by (auto split: if_splits prod.splits option.splits dest!: frame)

lemma set_vars_frame [frame]: "set_vars env vs ch = (r, ch') \<Longrightarrow> shared ch' = shared ch"
proof (induction vs arbitrary: ch)
  case (Cons v vs)
  then show ?case
    by (auto split: if_splits prod.splits option.splits dest!: frame)
qed simp

lemma set_plain_frame [frame]: "set_plain env kvs ch = (r, ch') \<Longrightarrow> shared ch' = shared ch"
proof (induction kvs arbitrary: ch)
  case (Cons kv kvs)
  then show ?case
    by (cases kv) (auto split: if_splits prod.splits option.splits dest!: frame)
qed simp

lemma handleSetCommand_frame [frame]: "handleSetCommand env q ch = (r, ch') \<Longrightarrow> shared ch' = shared ch"
  unfolding handleSetCommand_def
  by (auto split: parsed.splits sum.splits dest!: frame)

lemma handleUseCommand_frame [frame]: "handleUseCommand env q ch = (r, ch') \<Longrightarrow> shared ch' = shared ch"
  unfolding handleUseCommand_def
  by (auto split: list.splits prod.splits option.splits dest!: frame)

lemma handleSelectVariable_frame [frame]: "handleSelectVariable env q ch = (r, ch') \<Longrightarrow> shared ch' = shared ch"
  unfolding handleSelectVariable_def Let_def
  by (auto split: parsed.splits prod.splits option.splits sum.splits dest!: frame)

lemma handleDatabaseCommand_frame [frame]: "handleDatabaseCommand env q ch = (r, ch') \<Longrightarrow> shared ch' = shared ch"
  unfolding handleDatabaseCommand_def Let_def
  by (auto split: if_splits dest!: frame)

lemma handleKillCommand_frame [frame]: "handleKillCommand env q ch = (r, ch') \<Longrightarrow> shared ch' = shared ch"
  unfolding handleKillCommand_def
  by (auto split: parsed.splits option.splits prod.splits dest!: frame)

lemma session_auto_increment_frame [frame]: "session_auto_increment env now now' t ch = (r, ch') \<Longrightarrow> shared ch' = shared ch"
  unfolding session_auto_increment_def
  by (auto split: option.splits prod.splits)

lemma run_exec_stmt_frame [frame]: "run_exec_stmt env sql args ch = (r, ch') \<Longrightarrow> shared ch' = shared ch"
  unfolding run_exec_stmt_def
  by (auto split: option.splits prod.splits sum.splits dest!: frame)

lemma run_insert_frame [frame]: "run_insert env now now' q sql args ch = (r, ch') \<Longrightarrow> shared ch' = shared ch"
  unfolding run_insert_def
  by (auto split: option.splits prod.splits sum.splits if_splits dest!: frame)

lemma note_ddl_frame [simp]: "shared (note_ddl u q ch) = shared ch"
  by (simp add: note_ddl_def Let_def)

lemma count_refused_frame [frame]: "count_refused (r, ch) = (r', ch') \<Longrightarrow> shared ch' = shared ch"
  by (auto simp: count_refused_def split: reply.splits)

lemma count_select_frame [frame]: "count_select (r, ch) = (r', ch') \<Longrightarrow> shared ch' = shared ch"
  by (auto simp: count_select_def split: reply.splits handler_error.splits)

lemma run_write_frame [frame]: "run_write env now now' q sql ch = (r, ch') \<Longrightarrow> shared ch' = shared ch"
proof -
  assume h: "run_write env now now' q sql ch = (r, ch')"
  obtain r1 c1 where 1: "run_insert env now now' q sql [] ch = (r1, c1)" by fastforce
  obtain r2 c2 where 2: "run_exec_stmt env sql [] ch = (r2, c2)" by fastforce
  show ?thesis
    using h run_insert_frame [OF 1] run_exec_stmt_frame [OF 2] unfolding run_write_def Let_def 1 2
    by (auto split: if_splits reply.splits dest!: count_refused_frame)
qed

lemma run_select_frame [frame]: "run_select env sql args b ch = (r, ch') \<Longrightarrow> shared ch' = shared ch"
  unfolding run_select_def
  by (auto split: option.splits prod.splits sum.splits dest!: frame)

lemma run_transaction_frame [frame]:
  "run_transaction BeginTransaction env ch = (r, ch') \<Longrightarrow> shared ch' = shared ch"
  "run_transaction CommitTransaction env ch = (r, ch') \<Longrightarrow> shared ch' = shared ch"
  "run_transaction RollbackTransaction env ch = (r, ch') \<Longrightarrow> shared ch' = shared ch"
  unfolding run_transaction_def
  by (auto split: sum.splits prod.splits dest!: session_id_transactions)

lemma rewritten_query_frame [frame]: "rewritten_query env now now' q ch = (r, ch') \<Longrightarrow> shared ch' = shared ch"
proof -
  assume h: "rewritten_query env now now' q ch = (r, ch')"
  show ?thesis
  proof (cases "Rewrite (he_restore env) (h_rewriter ch) q")
    case None
    then show ?thesis using h by (simp add: rewritten_query_def)
  next
    case (Some sql)
    obtain r1 c1 where 1: "run_select env sql [] False ch = (r1, c1)" by fastforce
    show ?thesis
      using h run_select_frame [OF 1] unfolding rewritten_query_def Some option.case 1
      by (auto split: if_splits dest!: count_select_frame run_write_frame)
  qed
qed

lemma acl_or_frame: "acl_or env q other ch = (r, ch') \<Longrightarrow> (\<And>r ch'. other () = (r, ch') \<Longrightarrow> shared ch' = shared ch) \<Longrightarrow> shared ch' = shared ch"
  unfolding acl_or_def
  by (auto split: parsed.splits list.splits if_splits dest!: exec_reply_frame)

lemma replication_or_frame:
  "replication_or env q other ch = (r, ch') \<Longrightarrow> (\<And>r ch'. other () = (r, ch') \<Longrightarrow> shared ch' = shared ch) \<Longrightarrow> shared ch' = shared ch"
  unfolding replication_or_def
  by (auto split: option.splits prod.splits if_splits dest!: with_conn_frame)

lemma plain_query_frame: "plain_query env now now' q ch = (r, ch') \<Longrightarrow> shared ch' = shared ch"
  unfolding plain_query_def by (auto split: if_splits dest!: rewritten_query_frame)

lemma special_or_frame:
  assumes "replication_or env q (\<lambda>_. acl_or env q (\<lambda>_. plain_query env now now' q ch) ch) ch = (r, ch')"
  shows "shared ch' = shared ch"
  using assms by (rule replication_or_frame) (erule acl_or_frame, erule plain_query_frame)

lemma dispatch_frame [frame]: "dispatch env now now' q ch = (r, ch') \<Longrightarrow> shared ch' = shared ch"
proof -
  assume h: "dispatch env now now' q ch = (r, ch')"
  obtain v c where v: "handleSelectVariable env q ch = (v, c)" by fastforce
  show ?thesis
    using h handleSelectVariable_frame [OF v] unfolding dispatch_def v
    by (auto split: if_splits reply.splits option.splits dest!: special_or_frame handleShowCommand_frame handleSetCommand_frame
        handleUseCommand_frame handleDatabaseCommand_frame handleKillCommand_frame run_transaction_frame)
qed

text \<open>Acquiring the connection changes the pool by one acquisition for the session, or not at all.\<close>

definition acquires :: "'c henv \<Rightarrow> 'c conn_handler \<Rightarrow> 'c conn_handler \<Rightarrow> bool" where
  "acquires env ch ch' \<longleftrightarrow>
     (h_pool ch' = h_pool ch \<and> ch_has_conn ch' = ch_has_conn ch)
     \<or> \<not> ch_has_conn ch
       \<and> (\<exists>r. AcquireForSession (he_pool env) (he_offset env) (s_id (ch_session ch)) (h_pool ch) = (r, h_pool ch')
            \<and> (ch_has_conn ch' \<longleftrightarrow> (\<exists>c. r = Inr c)))"

lemma ensurePGConn_fixed:
  assumes "ensurePGConn env ch = (r, ch')"
  shows "fixed ch' = fixed ch \<and> acquires env ch ch' \<and> s_prepared_stmts (ch_session ch') = s_prepared_stmts (ch_session ch)
    \<and> h_cache ch' = h_cache ch"
  using assms unfolding ensurePGConn_def Let_def
  by (auto simp: fixed_def acquires_def with_conn_def inc_error_def SetPGConn_def
      split: if_splits sum.splits prod.splits option.splits)

section \<open>A proxy for examples\<close>

text \<open>One connection after the other, a table \<open>t\<close> with the auto-increment column \<open>id\<close> in every schema, and a unique index that every insert
  violates: PostgreSQL sends the description of the returned column first and the error afterwards.\<close>

definition demo_rows :: "string \<Rightarrow> go_value list \<Rightarrow> pg_rows" where
  "demo_rows sql args =
     (if sql = auto_increment_query then \<lparr>pr_fields = [], pr_rows = [Inr [PvGo (GString ''id'')]], pr_err = None\<rparr>
      else \<lparr>pr_fields = [], pr_rows = [], pr_err = Some (PgError ''23505'' ''duplicate key'')\<rparr>)"

definition demo_env :: "bool henv" where
  "demo_env =
     \<lparr>he_pool = \<lparr>pe_parse = (\<lambda>_. True), pe_connect = (\<lambda>_ _. Some False), pe_exec = (\<lambda>_ _. True), pe_close = (\<lambda>_. True),
                 pe_acquire = (\<lambda>_. Some False)\<rparr>,
      he_backend = \<lparr>bk_exec = (\<lambda>sql _ c. (Inr 0, snd (flag_exec sql c))), bk_query = (\<lambda>sql args c. (Inr (demo_rows sql args), c))\<rparr>,
      he_close = flag_close, he_restore = (\<lambda>_. None), he_parse = (\<lambda>_. NotParsed), he_offset = 0,
      he_local = id, he_build = (\<lambda>_ _ _. Some [])\<rparr>"

definition demo_handler :: "bool handler" where
  "demo_handler =
     \<lparr>h_pool = \<lparr>pl_config = \<lparr>pc_host = [], pc_port = 0, pc_database = [], pc_user = [], pc_password = [], pc_ssl_mode = [],
                             pc_max_pool_size = 1, pc_mode = ModeSessionAffinity\<rparr>,
                pl_mode = ModeSessionAffinity, pl_max_conns = 1, pl_session_conns = Map.empty, pl_attempts = 0, pl_acquisitions = 0,
                pl_taken = [], pl_closed = [], pl_open = True\<rparr>,
      h_manager = NewManager, h_rewriter = NewRewriter True, h_repl_server = False, h_tracker = GetTracker,
      h_cache = empty_cache, h_overrides = Map.empty, h_active = 0, h_total_queries = 0, h_errors = (\<lambda>_. 0)\<rparr>"

definition demo_conn :: "bool conn_handler" where
  "demo_conn = NewConnection ''a'' 0 0 ''127.0.0.1'' demo_handler"

section \<open>Requests\<close>

lemma HandleQuery_frame:
  assumes "HandleQuery env start now now' q ch = (r, ch')"
  shows "h_manager ch' = h_manager ch \<and> h_active ch' = h_active ch \<and> s_id (ch_session ch') = s_id (ch_session ch)
    \<and> acquires env ch ch'
    \<and> h_tracker ch' = (let (k, tr) = StartRequest start (s_id (ch_session ch)) q (h_tracker ch)
                       in if r = Hang then tr else EndRequest k tr)"
proof -
  obtain k tr where s: "StartRequest start (s_id (ch_session ch)) q (h_tracker ch) = (k, tr)" by fastforce
  let ?c = "ch\<lparr>h_total_queries := h_total_queries ch + 1, h_tracker := tr\<rparr>"
  obtain e c1 where e: "ensurePGConn env ?c = (e, c1)" by fastforce
  obtain r2 c2 where d: "dispatch env now now' q c1 = (r2, c2)" by fastforce
  have 1: "fixed c1 = (h_manager ch, h_active ch, tr, h_rewriter ch, h_repl_server ch, s_id (ch_session ch))" "acquires env ch c1"
    using ensurePGConn_fixed [OF e] by (auto simp: fixed_def acquires_def)
  moreover have "fixed c2 = fixed c1" "h_pool c2 = h_pool c1" "ch_has_conn c2 = ch_has_conn c1"
    using dispatch_frame [OF d] by (simp_all add: shared_def)
  ultimately show ?thesis
    using assms s e d by (cases e) (auto simp: HandleQuery_def fixed_def acquires_def split: if_splits)
qed

text \<open>C18: Requests are tracked while they run. A query that returns, with a result, an error or a panic, leaves the list of requests in
  flight as it was; a query whose rewriting does not end stays in the list, with its session and its text.\<close>

theorem request_tracked:
  assumes "HandleQuery env start now now' q ch = (r, ch')"
    and "k = tk_next_id (h_tracker ch) + 1" and "tk_requests (h_tracker ch) k = None"
  shows "tk_requests (h_tracker ch') =
    (if r = Hang
     then (tk_requests (h_tracker ch))(k \<mapsto> \<lparr>rq_id = k, rq_session_id = s_id (ch_session ch), rq_sql = truncateSQL q 500,
                                             rq_start = start, rq_duration = 0\<rparr>)
     else tk_requests (h_tracker ch))"
  using HandleQuery_frame [OF assms(1)] assms(2,3)
  by (auto simp: StartRequest_def EndRequest_def put_request_def Let_def fun_eq_iff)

lemma demo_commit_dispatch:
  "\<not> IsShowStatement ''COMMIT''" "\<not> IsSetStatement ''COMMIT''" "\<not> IsUseStatement ''COMMIT''" "\<not> isDatabaseStatement ''COMMIT''"
  "\<not> IsBeginStatement ''COMMIT''" "IsCommitStatement ''COMMIT''"
  by code_simp+

theorem request_tracked_witness:
  "\<exists>ch'. HandleQuery demo_env 5 0 0 ''COMMIT'' demo_conn = (Reply ok_result, ch') \<and> tk_requests (h_tracker ch') = Map.empty"
proof -
  obtain ch' where h: "HandleQuery demo_env 5 0 0 ''COMMIT'' demo_conn = (Reply ok_result, ch')"
    by (simp add: HandleQuery_def StartRequest_def ensurePGConn_def demo_conn_def NewConnection_def demo_handler_def demo_env_def
        AcquireForSession_def dedicated_def with_conn_def SetPGConn_def dispatch_def demo_commit_dispatch handleSelectVariable_def
        ParseSelectVariable_def first_stmt_def run_transaction_def CommitTransaction_def NewSession_def Let_def)
  have "h_tracker demo_conn = GetTracker" by (simp add: demo_conn_def NewConnection_def demo_handler_def Let_def)
  then show ?thesis
    using request_tracked [OF h refl] h by (simp add: GetTracker_def)
qed

section \<open>Replies\<close>

text \<open>C38: A failed insert is reported as done. For a table with an auto-increment column, PostgreSQL's refusal arrives behind the rows of
  \<open>RETURNING\<close> and is not looked at: the client is told that one row was inserted, with the identifier zero, where the same answer to
  any other statement is an error.\<close>

theorem failed_insert_reported_ok:
  assumes "extractInsertTableName query = Some t" and "session_auto_increment env now now' t ch = (Some col, ch1)" and "col \<noteq> []"
    and "\<not> Contains (ToUpper sql) ''RETURNING''" and "s_pg_conn (ch_session ch1) = Some c"
    and "bk_query (he_backend env) (sql @ '' RETURNING '' @ col) args c = (Inr rows, c')"
    and "pr_rows rows = []" and "pr_err rows = Some e"
  shows "fst (run_insert env now now' query sql args ch) = Reply \<lparr>mr_insert_id = 0, mr_affected = 1, mr_resultset = None\<rparr>
    \<and> fst (run_select env (sql @ '' RETURNING '' @ col) args binary ch1) = Refuse (PgFailed e)"
  using assms
  by (simp add: run_insert_def run_select_def with_conn_def returned_id_def buildMySQLResult_def reply_of_def)

lemma demo_insert:
  "extractInsertTableName ''INSERT INTO t VALUES (1)'' = Some ''t''" "\<not> Contains (ToUpper ''INSERT INTO t VALUES (1)'') ''RETURNING''"
  by code_simp+

definition demo_ready :: "bool conn_handler" where
  "demo_ready = snd (ensurePGConn demo_env demo_conn)"

theorem failed_insert_reported_ok_witness:
  "fst (run_insert demo_env 0 0 ''INSERT INTO t VALUES (1)'' ''INSERT INTO t VALUES (1)'' [] demo_ready)
   = Reply \<lparr>mr_insert_id = 0, mr_affected = 1, mr_resultset = None\<rparr>"
proof -
  obtain c where c: "s_pg_conn (ch_session demo_ready) = Some c" and e: "h_cache demo_ready = empty_cache"
    by (simp add: demo_ready_def ensurePGConn_def demo_conn_def NewConnection_def demo_handler_def demo_env_def AcquireForSession_def
        dedicated_def with_conn_def SetPGConn_def NewSession_def Let_def)
  obtain ch1 where 1: "session_auto_increment demo_env 0 0 ''t'' demo_ready = (Some ''id'', ch1)" "s_pg_conn (ch_session ch1) = Some c"
    by (simp add: session_auto_increment_def GetAutoIncrementColumn_def e LoadTable_def empty_cache_def GetGlobalCache_def InitGlobalCache_def queryAutoIncrementColumn_def c
        query_row_def first_row_def demo_env_def demo_rows_def Let_def)
  have 2: "bk_query (he_backend demo_env) (''INSERT INTO t VALUES (1)'' @ '' RETURNING '' @ ''id'') [] c
      = (Inr \<lparr>pr_fields = [], pr_rows = [], pr_err = Some (PgError ''23505'' ''duplicate key'')\<rparr>, c)"
    by (simp add: demo_env_def demo_rows_def auto_increment_query_def)
  show ?thesis
    using failed_insert_reported_ok [OF demo_insert(1) 1(1) _ demo_insert(2) 1(2) 2] by simp
qed

text \<open>Rolling back to a savepoint gives up the transaction. A statement that starts with \<open>ROLLBACK\<close>, also \<open>ROLLBACK TO SAVEPOINT s\<close>, is answered
  by executing \<open>ROLLBACK\<close> alone: the client is told that it succeeded, and its transaction is over.\<close>

theorem rollback_to_savepoint:
  assumes "HasPrefix (upper_trimmed query) ''ROLLBACK ''" and "ParseSelectVariable (he_parse env) query = NotParsed"
    and "s_in_transaction (ch_session ch)" and "s_pg_conn (ch_session ch) = Some c"
    and "bk_exec (he_backend env) ''ROLLBACK'' [] c = (Inr n, c')"
  shows "dispatch env now now' query ch
    = (Reply ok_result, ch\<lparr>ch_session := (ch_session ch)\<lparr>s_pg_conn := Some c', s_in_transaction := False\<rparr>\<rparr>)"
proof -
  obtain rest where q: "upper_trimmed query = ''ROLLBACK '' @ rest"
    using assms(1) unfolding HasPrefix_def by (metis append_take_drop_id)
  then have u: "ToUpper (TrimSpace query) = ''ROLLBACK '' @ rest" by (simp add: upper_trimmed_def)
  have "\<not> IsShowStatement query" "\<not> IsSetStatement query" "\<not> IsUseStatement query" "\<not> isDatabaseStatement query"
    "\<not> IsBeginStatement query" "\<not> IsCommitStatement query" "IsRollbackStatement query"
    unfolding IsShowStatement_def IsSetStatement_def IsUseStatement_def isDatabaseStatement_def IsBeginStatement_def
      IsCommitStatement_def IsRollbackStatement_def q u Let_def
    by (simp_all add: HasPrefix_def)
  then show ?thesis
    using assms(2-5)
    by (simp add: dispatch_def handleSelectVariable_def run_transaction_def RollbackTransaction_def run_exec_def plain_exec_def)
qed

definition demo_transaction :: "bool conn_handler" where
  "demo_transaction = demo_ready\<lparr>ch_session := sample_session\<lparr>s_in_transaction := True\<rparr>\<rparr>"

lemma demo_savepoint: "HasPrefix (upper_trimmed ''ROLLBACK TO SAVEPOINT s'') ''ROLLBACK ''"
  by code_simp

theorem rollback_to_savepoint_witness:
  "\<exists>ch. dispatch demo_env 0 0 ''ROLLBACK TO SAVEPOINT s'' demo_transaction = (Reply ok_result, ch) \<and> \<not> s_in_transaction (ch_session ch)"
proof -
  have 1: "ParseSelectVariable (he_parse demo_env) ''ROLLBACK TO SAVEPOINT s'' = NotParsed"
    by (simp add: demo_env_def ParseSelectVariable_def first_stmt_def)
  have 2: "s_in_transaction (ch_session demo_transaction)" "s_pg_conn (ch_session demo_transaction) = Some False"
    by (simp_all add: demo_transaction_def sample_session_def SetPGConn_def)
  have 3: "bk_exec (he_backend demo_env) ''ROLLBACK'' [] False = (Inr 0, snd (flag_exec ''ROLLBACK'' False))"
    by (simp add: demo_env_def)
  show ?thesis
    using rollback_to_savepoint [OF demo_savepoint 1 2 3] by simp
qed

text \<open>Twelve characters are cut off \<open>INSERT INTO\<close>, which has eleven.\<close>

lemma bare_insert_panics: "run_insert env now now' ''INSERT INTO'' sql args ch = (Panic, ch)"
proof -
  have "extractInsertTableName ''INSERT INTO'' = None" by code_simp
  then show ?thesis by (simp add: run_insert_def)
qed

text \<open>The table name ends at a blank: a list of columns that follows without one becomes part of it.\<close>

lemma column_list_in_table_name: "extractInsertTableName ''INSERT INTO users(name) VALUES (1)'' = Some ''users(name)''"
  by code_simp

section \<open>Data definition and the schema cache\<close>

lemma note_ddl_alter:
  assumes "HasPrefix upperQuery ''ALTER TABLE''" and "extractAlterTableName query = t" and "t \<noteq> []"
  shows "note_ddl upperQuery query ch = ch\<lparr>h_cache := InvalidateTable (s_database (ch_session ch)) t (h_cache ch)\<rparr>"
proof -
  obtain rest where "upperQuery = ''ALTER TABLE'' @ rest"
    using assms(1) unfolding HasPrefix_def by (metis append_take_drop_id)
  then show ?thesis
    using assms by (simp add: note_ddl_def HasPrefix_def Let_def)
qed

text \<open>C19: Altered tables are looked up again. After a client's \<open>ALTER TABLE\<close> succeeds, the next statement that needs the auto-increment
  column of that table gets the answer of PostgreSQL, whatever the cache held before.\<close>

theorem altered_table_looked_up:
  assumes "upper_trimmed query = ''ALTER TABLE'' @ rest" and "extractAlterTableName query = t" and "t \<noteq> []"
    and "run_write env now now' query sql ch = (Reply r, ch1)"
    and "session_auto_increment env later later' t ch1 = (col, ch2)"
  shows "col = Some (fst (queryAutoIncrementColumn (he_backend env) (s_pg_conn (ch_session ch1)) (s_database (ch_session ch1)) t))"
proof -
  have q: "ToUpper (TrimSpace query) = ''ALTER TABLE'' @ rest" using assms(1) by (simp add: upper_trimmed_def)
  obtain r1 c where e: "run_exec_stmt env sql [] ch = (r1, c)" by fastforce
  have "ch1 = note_ddl (''ALTER TABLE'' @ rest) query c"
    using assms(4) e unfolding run_write_def q Let_def
    by (auto simp: HasPrefix_def count_refused_def split: reply.splits)
  then have "ch1 = c\<lparr>h_cache := InvalidateTable (s_database (ch_session c)) t (h_cache c)\<rparr>"
    using note_ddl_alter [of "''ALTER TABLE'' @ rest" query t c] assms(2,3) by (simp add: HasPrefix_def)
  then have "LoadTable (h_cache ch1) (buildTableCacheKey (s_database (ch_session ch1)) t) = None"
    by (simp add: InvalidateTable_def DeleteTable_def LoadTable_def)
  then show ?thesis
    using assms(5) by (auto simp: session_auto_increment_def GetAutoIncrementColumn_def Let_def split: prod.splits)
qed

lemma demo_alter:
  "upper_trimmed ''ALTER TABLE t ADD c int'' = ''ALTER TABLE'' @ '' T ADD C INT''" "extractAlterTableName ''ALTER TABLE t ADD c int'' = ''t''"
  by code_simp+

theorem altered_table_looked_up_witness:
  "\<exists>r ch1 ch2. run_write demo_env 0 0 ''ALTER TABLE t ADD c int'' ''ALTER TABLE t ADD c int'' demo_ready = (Reply r, ch1)
     \<and> session_auto_increment demo_env 0 0 ''t'' ch1 = (Some ''id'', ch2)"
proof -
  obtain c where c: "s_pg_conn (ch_session demo_ready) = Some c"
    by (simp add: demo_ready_def ensurePGConn_def demo_conn_def NewConnection_def demo_handler_def demo_env_def AcquireForSession_def
        dedicated_def with_conn_def SetPGConn_def NewSession_def Let_def)
  have u: "ToUpper (TrimSpace ''ALTER TABLE t ADD c int'') = ''ALTER TABLE'' @ '' T ADD C INT''"
    using demo_alter(1) by (simp add: upper_trimmed_def)
  obtain r ch1 where w: "run_write demo_env 0 0 ''ALTER TABLE t ADD c int'' ''ALTER TABLE t ADD c int'' demo_ready = (Reply r, ch1)"
    and c1: "\<exists>c. s_pg_conn (ch_session ch1) = Some c"
    unfolding run_write_def u Let_def
    by (simp add: HasPrefix_def run_exec_stmt_def with_conn_def c demo_env_def note_ddl_def demo_alter Let_def)
  obtain col ch2 where a: "session_auto_increment demo_env 0 0 ''t'' ch1 = (col, ch2)" by fastforce
  have "fst (queryAutoIncrementColumn (he_backend demo_env) (s_pg_conn (ch_session ch1)) d ''t'') = ''id''" for d
    using c1 by (auto simp: queryAutoIncrementColumn_def query_row_def first_row_def demo_env_def demo_rows_def)
  then have "col = Some ''id''"
    using altered_table_looked_up [OF demo_alter _ w a] by simp
  then show ?thesis using w a by blast
qed

section \<open>Results\<close>

text \<open>Text that looks like a timestamp is changed. A text value in the form of RFC 3339 with zone \<open>Z\<close> reaches the client in another form
  and in the local time zone, whatever the type of its column is; other text that neither layout accepts is kept.\<close>

theorem timestamp_text_rewritten:
  assumes "valid_time t" and "parse_timestamp plain = None"
  shows "result_value loc (PvGo (GString (fmt_date t @ ''T'' @ fmt_clock t @ ''Z''))) = GString (fmt_datetime (loc (t\<lparr>t_nsec := 0, t_off := 0\<rparr>)))
    \<and> result_value loc (PvGo (GString plain)) = GString plain"
  using assms rfc_parse_utc [OF assms(1)] by (simp add: parse_timestamp_def)

definition demo_time :: gtime where
  "demo_time = \<lparr>t_year = 2024, t_month = 12, t_day = 25, t_hour = 23, t_min = 30, t_sec = 45, t_nsec = 0, t_off = 0\<rparr>"

theorem timestamp_text_rewritten_witness:
  "result_value id (PvGo (GString ''2024-12-25T23:30:45Z'')) = GString ''2024-12-25 23:30:45''
   \<and> result_value id (PvGo (GString ''hello'')) = GString ''hello''"
proof -
  have "valid_time demo_time" "parse_timestamp ''hello'' = None"
    "fmt_date demo_time @ ''T'' @ fmt_clock demo_time @ ''Z'' = ''2024-12-25T23:30:45Z''"
    "fmt_datetime (id (demo_time\<lparr>t_nsec := 0, t_off := 0\<rparr>)) = ''2024-12-25 23:30:45''"
    by code_simp+
  then show ?thesis
    using timestamp_text_rewritten [of demo_time "''hello''" id] by metis
qed

text \<open>Precision and scale of a numeric column. From the modifier that PostgreSQL gives to a column \<open>numeric(p, s)\<close>, the client is told a length of
  \<open>p\<close>, plus one for the point if there are decimals, and exactly \<open>s\<close> decimals, for every precision and every scale that fits a byte.\<close>

theorem numeric_column_described:
  assumes "fd_oid fd = 1700" and "fd_typmod fd = int (p * 65536 + s) + 4" and "p < 32768" and "s < 256" and "0 < p"
  shows "rf_type (override_field fd f) = MYSQL_TYPE_NEWDECIMAL
    \<and> unat (rf_length (override_field fd f)) = (if s = 0 then p else p + 1) \<and> unat (rf_decimal (override_field fd f)) = s"
proof -
  have "drop_bit 16 (int (p * 65536 + s)) = int p"
    using assms(4) by (simp add: drop_bit_eq_div)
  moreover have "int (p * 65536 + s) AND 65535 = int s"
    using assms(4) take_bit_eq_mask [of 16 "int (p * 65536 + s)"] by (simp add: take_bit_eq_mod mask_eq_exp_minus_1)
  moreover have "unat (of_nat p :: u32) = p" "unat (of_nat (p + 1) :: u32) = p + 1" "unat (of_nat s :: byte) = s"
    using assms(3,4) by (simp_all add: unat_of_nat_small del: of_nat_add of_nat_Suc)
  moreover have "unat (of_nat p + 1 :: u32) = p + 1"
    using calculation(4) by (simp add: add.commute)
  ultimately show ?thesis
    using assms by (cases "s = 0") (simp_all add: override_field_def Let_def)
qed

definition demo_price :: field_desc where
  "demo_price = \<lparr>fd_name = ''price'', fd_oid = 1700, fd_typmod = 655366\<rparr>"

theorem numeric_column_described_witness:
  "unat (rf_length (override_field demo_price \<lparr>rf_type = 253, rf_charset = 33, rf_flag = 0, rf_length = 0, rf_decimal = 0\<rparr>)) = 11"
  using numeric_column_described [of demo_price 10 2] by (simp add: demo_price_def)

end
