(* ===== verification/Handler_Life.thy ===== *)
theory Handler_Life
  imports Handler_Props
begin

text \<open>
  The life of a client connection: the commands it sends, in any order, between \<open>NewConnection\<close> and \<open>Close\<close>, its prepared statements
  and the schema its statements see. Shows what \<open>Close\<close> gives back, and what stays behind when it is not called.
\<close>

section \<open>Commands of a client\<close>

datatype client_command =
    CmdQuery int int int string
  | CmdUseDB string
  | CmdPrepare string
  | CmdExecute int int "u32 option" "go_value list"
  | CmdCloseStmt "u32 option"
  | CmdFieldList string
  | CmdOther command "byte list"

definition not_quit :: "client_command \<Rightarrow> bool" where
  "not_quit cmd = (case cmd of CmdOther ComQuit _ \<Rightarrow> False | _ \<Rightarrow> True)"

primrec client_step :: "'c henv \<Rightarrow> client_command \<Rightarrow> 'c conn_handler \<Rightarrow> 'c conn_handler" where
  "client_step env (CmdQuery start now now' q) ch = snd (HandleQuery env start now now' q ch)"
| "client_step env (CmdUseDB db) ch = snd (UseDB env db ch)"
| "client_step env (CmdPrepare q) ch = snd (HandleStmtPrepare env q ch)"
| "client_step env (CmdExecute now now' k args) ch = snd (HandleStmtExecute env now now' k args ch)"
| "client_step env (CmdCloseStmt k) ch = snd (HandleStmtClose k ch)"
| "client_step env (CmdFieldList t) ch = snd (HandleFieldList env t ch)"
| "client_step env (CmdOther c data) ch = snd (HandleOtherCommand env c data ch)"

text \<open>What a command leaves: the manager, the gauge and the name of the session; the pool after at most one acquisition.\<close>

definition keeps :: "'c henv \<Rightarrow> 'c conn_handler \<Rightarrow> 'c conn_handler \<Rightarrow> bool" where
  "keeps env ch ch' \<longleftrightarrow> h_manager ch' = h_manager ch \<and> h_active ch' = h_active ch \<and> s_id (ch_session ch') = s_id (ch_session ch)
     \<and> acquires env ch ch'"

lemma keeps_refl [simp]: "keeps env ch ch"
  by (simp add: keeps_def acquires_def)

lemma keeps_shared: "shared ch' = shared ch \<Longrightarrow> keeps env ch ch'"
  by (simp add: keeps_def shared_def fixed_def acquires_def)

lemma keeps_trans: "keeps env ch ch1 \<Longrightarrow> shared ch2 = shared ch1 \<Longrightarrow> keeps env ch ch2"
  by (simp add: keeps_def shared_def fixed_def acquires_def)

lemma keeps_ensure: "ensurePGConn env ch = (r, ch') \<Longrightarrow> keeps env ch ch'"
  using ensurePGConn_fixed [of env ch r ch'] by (simp add: keeps_def fixed_def)

lemma keeps_query: "HandleQuery env start now now' q ch = (r, ch') \<Longrightarrow> keeps env ch ch'"
  using HandleQuery_frame [of env start now now' q ch r ch'] by (simp add: keeps_def)

lemma keeps_prepare: "HandleStmtPrepare env q ch = (r, ch') \<Longrightarrow> keeps env ch ch'"
  unfolding HandleStmtPrepare_def Let_def
  by (auto split: prod.splits option.splits dest!: keeps_ensure intro: keeps_trans)

lemma keeps_execute: "HandleStmtExecute env now now' k args ch = (r, ch') \<Longrightarrow> keeps env ch ch'"
  unfolding HandleStmtExecute_def Let_def
  by (auto split: prod.splits option.splits if_splits dest!: keeps_ensure
      dest: run_insert_frame run_exec_stmt_frame run_select_frame intro: keeps_trans)

lemma keeps_field_list: "HandleFieldList env t ch = (r, ch') \<Longrightarrow> keeps env ch ch'"
  unfolding HandleFieldList_def
  by (auto split: prod.splits option.splits sum.splits dest!: keeps_ensure dest: with_conn_frame intro: keeps_trans)

lemma keeps_close_stmt: "HandleStmtClose k ch = (r, ch') \<Longrightarrow> keeps env ch ch'"
  by (auto simp: HandleStmtClose_def keeps_def acquires_def RemovePreparedStatement_def split: option.splits)

lemma keeps_use: "UseDB env db ch = (r, ch') \<Longrightarrow> keeps env ch ch'"
  by (rule keeps_shared) (rule UseDB_frame)

lemma keeps_other: "c \<noteq> ComQuit \<Longrightarrow> HandleOtherCommand env c data ch = (r, ch') \<Longrightarrow> keeps env ch ch'"
  unfolding HandleOtherCommand_def
  by (cases c) (auto split: sum.splits prod.splits dest: keeps_use)

lemma client_step_keeps: "not_quit cmd \<Longrightarrow> keeps env ch (client_step env cmd ch)"
proof (cases cmd)
  case (CmdOther c data)
  moreover assume "not_quit cmd"
  ultimately have "c \<noteq> ComQuit" by (auto simp: not_quit_def)
  then show ?thesis
    using CmdOther keeps_other [of c env data ch] by (cases "HandleOtherCommand env c data ch") simp
next
  case (CmdQuery start now now' q)
  then show ?thesis using keeps_query by (cases "HandleQuery env start now now' q ch") auto
next
  case (CmdUseDB db)
  then show ?thesis using keeps_use by (cases "UseDB env db ch") auto
next
  case (CmdPrepare q)
  then show ?thesis using keeps_prepare by (cases "HandleStmtPrepare env q ch") auto
next
  case (CmdExecute now now' k args)
  then show ?thesis using keeps_execute by (cases "HandleStmtExecute env now now' k args ch") auto
next
  case (CmdCloseStmt k)
  then show ?thesis using keeps_close_stmt by (cases "HandleStmtClose k ch") auto
next
  case (CmdFieldList t)
  then show ?thesis using keeps_field_list by (cases "HandleFieldList env t ch") auto
qed

section \<open>What a connection holds\<close>

text \<open>The state of the process before the connection, with one more session in the gauge and in the manager, and in the pool at most one
  connection more, which the handler knows of.\<close>

definition life_inv :: "'c handler \<Rightarrow> string \<Rightarrow> 'c conn_handler \<Rightarrow> bool" where
  "life_inv h uuid ch \<longleftrightarrow>
     s_id (ch_session ch) = uuid \<and> h_active ch = h_active h + 1
     \<and> (\<exists>s. m_sessions (h_manager ch) = (m_sessions (h_manager h))(uuid \<mapsto> s))
     \<and> pl_mode (h_pool ch) = pl_mode (h_pool h)
     \<and> (\<forall>k. k \<noteq> uuid \<longrightarrow> pl_session_conns (h_pool ch) k = pl_session_conns (h_pool h) k)
     \<and> (ch_has_conn ch \<or> pl_session_conns (h_pool ch) uuid = None)"

lemma acquire_pool:
  assumes "AcquireForSession env off k p = (r, p')"
  shows "pl_mode p' = pl_mode p \<and> (\<forall>j. j \<noteq> k \<longrightarrow> pl_session_conns p' j = pl_session_conns p j)
    \<and> (pl_session_conns p' k = pl_session_conns p k \<or> (\<exists>c. r = Inr c))"
  using assms unfolding AcquireForSession_def Let_def
  by (auto simp: put_conn_def split: if_splits option.splits)

lemma life_inv_keeps: "keeps env ch ch' \<Longrightarrow> life_inv h uuid ch \<Longrightarrow> life_inv h uuid ch'"
  unfolding keeps_def acquires_def life_inv_def
  by (auto dest: acquire_pool)

text \<open>The machine of a connection: every command but the closing one.\<close>

definition connection_step :: "'c henv \<Rightarrow> client_command \<Rightarrow> 'c conn_handler \<Rightarrow> 'c conn_handler" where
  "connection_step env cmd ch = (if not_quit cmd then client_step env cmd ch else ch)"

interpretation connection: invariant_machine "life_inv h uuid" "connection_step env" for h uuid env
  by unfold_locales (auto simp: connection_step_def intro: life_inv_keeps client_step_keeps)

lemma life_inv_new:
  "pl_session_conns (h_pool h) uuid = None \<Longrightarrow> life_inv h uuid (NewConnection uuid now now' host h)"
  by (auto simp: life_inv_def NewConnection_def NewSession_def AddSession_def put_session_def Let_def)

text \<open>C4: The life of a connection. After any sequence of queries, prepared statements, field lists, changes of the database and other
  commands, with any of them failing, the connection counts once in the gauge and its session is in the manager; closing the handler
  restores the gauge, the sessions and the dedicated connections of the pool to what they were before the client came.\<close>

theorem connection_lifecycle:
  assumes "m_sessions (h_manager h) uuid = None" and "pl_session_conns (h_pool h) uuid = None" and "dedicated (pl_mode (h_pool h))"
    and "ch = fold (connection_step env) cmds (NewConnection uuid now now' host h)" and "ch' = CloseHandler env ch"
  shows "h_active ch = h_active h + 1 \<and> GetSession (h_manager ch) uuid \<noteq> None
    \<and> h_active ch' = h_active h \<and> m_sessions (h_manager ch') = m_sessions (h_manager h)
    \<and> pl_session_conns (h_pool ch') = pl_session_conns (h_pool h)"
proof -
  have inv: "life_inv h uuid ch"
    unfolding assms(4) using assms(2) by (intro connection.inv_run life_inv_new)
  then obtain s where s: "m_sessions (h_manager ch) = (m_sessions (h_manager h))(uuid \<mapsto> s)" and u: "s_id (ch_session ch) = uuid"
    by (auto simp: life_inv_def)
  have "m_sessions (h_manager ch') = m_sessions (h_manager h)"
    using assms(1) s u unfolding assms(5) CloseHandler_def Let_def
    by (auto simp: GetSession_def put_session_def RemoveSession_def fun_eq_iff split: prod.splits)
  moreover have "pl_session_conns (h_pool ch') k = pl_session_conns (h_pool h) k" for k
    using inv assms(2,3) lookup_release [of "h_pool ch" "he_pool env" uuid k] u
    by (cases "k = uuid") (auto simp: assms(5) CloseHandler_def Let_def life_inv_def)
  ultimately show ?thesis
    using inv s by (auto simp: assms(5) life_inv_def CloseHandler_def Let_def GetSession_def fun_eq_iff)
qed

definition demo_life :: "bool conn_handler" where
  "demo_life = fold (connection_step demo_env) [CmdPrepare ''DO 1'', CmdUseDB ''shop'', CmdOther ComPing []] demo_conn"

theorem connection_lifecycle_witness:
  "h_active demo_life = 1 \<and> h_active (CloseHandler demo_env demo_life) = 0
   \<and> m_sessions (h_manager (CloseHandler demo_env demo_life)) = Map.empty
   \<and> pl_session_conns (h_pool (CloseHandler demo_env demo_life)) = Map.empty"
  using connection_lifecycle [of demo_handler "''a''" demo_life demo_env "[CmdPrepare ''DO 1'', CmdUseDB ''shop'', CmdOther ComPing []]"
      0 0 "''127.0.0.1''" "CloseHandler demo_env demo_life"]
  by (simp add: demo_handler_def NewManager_def dedicated_def demo_life_def demo_conn_def)

section \<open>Prepared statements\<close>

text \<open>The identifiers of a client that has prepared \<open>n\<close> statements and closed none.\<close>

definition stmt_ids :: "'c conn_handler \<Rightarrow> u32 set" where
  "stmt_ids ch = dom (GetPreparedStatement (ch_session ch))"

lemma get_stmt: "GetPreparedStatement s = s_prepared_stmts s"
  by (simp add: GetPreparedStatement_def fun_eq_iff)

lemma inj_of_nat_word: "n < 4294967296 \<Longrightarrow> inj_on (of_nat :: nat \<Rightarrow> u32) {0<..n}"
  by (rule inj_on_inverseI [of _ unat]) (simp add: unat_of_nat_small)

lemma card_ids: "n < 4294967296 \<Longrightarrow> card ((of_nat :: nat \<Rightarrow> u32) ` {0<..n}) = n"
  by (simp add: card_image inj_of_nat_word)

lemma next_id_fresh:
  assumes "n + 1 < 4294967296"
  shows "(of_nat (n + 1) :: u32) \<notin> of_nat ` {0<..n}"
proof
  assume "(of_nat (n + 1) :: u32) \<in> of_nat ` {0<..n}"
  then obtain m where "m \<in> {0<..n}" "(of_nat (n + 1) :: u32) = of_nat m" by auto
  then show False
    using inj_onD [OF inj_of_nat_word [OF assms], of "n + 1" m] by auto
qed

lemma prepare_stores:
  assumes "HandleStmtPrepare env q ch = (Reply (n, cols, k), ch')"
  shows "k = of_nat (card (stmt_ids ch) + 1)
    \<and> (\<exists>sql stmt. RewritePrepared (he_restore env) (h_rewriter ch) q = Some (sql, n) 
         \<and> GetPreparedStatement (ch_session ch') k = Some stmt \<and> ps_sql stmt = sql \<and> ps_original_sql stmt = q
         \<and> ps_param_count stmt = int n)
    \<and> (\<forall>j. j \<noteq> k \<longrightarrow> GetPreparedStatement (ch_session ch') j = GetPreparedStatement (ch_session ch) j)"
proof -
  obtain r c where e: "ensurePGConn env ch = (r, c)" by fastforce
  have "s_prepared_stmts (ch_session c) = s_prepared_stmts (ch_session ch)"
    using ensurePGConn_fixed [OF e] by simp
  then have p: "GetPreparedStatement (ch_session c) = GetPreparedStatement (ch_session ch)"
    by (simp add: GetPreparedStatement_def fun_eq_iff)
  have w: "h_rewriter c = h_rewriter ch"
    using ensurePGConn_fixed [OF e] by (simp add: fixed_def)
  have a: "GetPreparedStatement (AddPreparedStatement stmt (ch_session c))
      = (GetPreparedStatement (ch_session ch))(ps_id stmt \<mapsto> stmt)" for stmt
    using p by (auto simp: GetPreparedStatement_def AddPreparedStatement_def put_stmt_def fun_eq_iff)
  show ?thesis
    using assms e unfolding HandleStmtPrepare_def Let_def
    by (auto simp: stmt_ids_def GetPreparedStatementCount_def p w a split: option.splits)
qed

text \<open>C15: Preparing a statement. For a client that has closed none of its statements, the new identifier is fresh; under it the session
  keeps the text of the client and its rewriting, with the number of parameters that was announced; every other statement stays as it was.\<close>

theorem prepared_statement_kept:
  assumes "HandleStmtPrepare env q ch = (Reply (n, cols, k), ch')"
    and "stmt_ids ch = of_nat ` {0<..c}" and "c + 1 < 4294967296"
  shows "k \<notin> stmt_ids ch \<and> stmt_ids ch' = of_nat ` {0<..c + 1}
    \<and> (\<exists>sql stmt. RewritePrepared (he_restore env) (h_rewriter ch) q = Some (sql, n) 
         \<and> GetPreparedStatement (ch_session ch') k = Some stmt \<and> ps_sql stmt = sql \<and> ps_original_sql stmt = q
         \<and> ps_param_count stmt = int n)
    \<and> (\<forall>j. j \<noteq> k \<longrightarrow> GetPreparedStatement (ch_session ch') j = GetPreparedStatement (ch_session ch) j)"
proof -
  have k: "k = of_nat (c + 1)"
    using prepare_stores [OF assms(1)] assms(2,3) by (simp add: card_ids)
  then have "k \<notin> stmt_ids ch"
    using next_id_fresh [OF assms(3)] assms(2) by simp
  moreover have "x \<in> stmt_ids ch' \<longleftrightarrow> x = k \<or> x \<in> stmt_ids ch" for x
    using prepare_stores [OF assms(1)] by (cases "x = k") (auto simp: stmt_ids_def dom_def)
  then have "stmt_ids ch' = insert k (stmt_ids ch)" by blast
  then have "stmt_ids ch' = of_nat ` {0<..c + 1}"
    using assms(2) k by (auto simp: atLeastSucAtMost_greaterThanAtMost [symmetric] atLeastAtMostSuc_conv)
  ultimately show ?thesis
    using prepare_stores [OF assms(1)] by blast
qed

lemma demo_rewrites:
  "RewritePrepared (\<lambda>_. None) (NewRewriter True) ''DO 1'' = Some (''DO 1'', 0)"
  "RewritePrepared (\<lambda>_. None) (NewRewriter True) ''DO 2'' = Some (''DO 2'', 0)"
  "RewritePrepared (\<lambda>_. None) (NewRewriter True) ''DO 3'' = Some (''DO 3'', 0)"
  by code_simp+

lemma demo_returns_rows: "\<not> returns_rows ''DO 1''" "\<not> returns_rows ''DO 2''" "\<not> returns_rows ''DO 3''"
  by code_simp+

lemmas demo_prepare = HandleStmtPrepare_def ensurePGConn_def demo_conn_def NewConnection_def demo_handler_def demo_env_def NewSession_def
  AcquireForSession_def dedicated_def with_conn_def SetPGConn_def demo_rewrites demo_returns_rows AddPreparedStatement_def put_stmt_def
  GetPreparedStatementCount_def get_stmt put_conn_def

lemma small_ids: "of_nat ` {0<..Suc 0} = {1 :: u32}" "of_nat ` {0<..2} = {1, 2 :: u32}"
  by (auto simp: atLeastSucAtMost_greaterThanAtMost [symmetric] numeral_2_eq_2 atLeastAtMostSuc_conv)

definition demo_one :: "bool conn_handler" where
  "demo_one = snd (HandleStmtPrepare demo_env ''DO 1'' demo_conn)"

definition demo_two :: "bool conn_handler" where
  "demo_two = snd (HandleStmtPrepare demo_env ''DO 2'' demo_one)"

lemma demo_first: "HandleStmtPrepare demo_env ''DO 1'' demo_conn = (Reply (0, 0, 1), demo_one)"
  by (simp add: demo_one_def demo_prepare Let_def)

lemma demo_empty: "stmt_ids demo_conn = of_nat ` {0<..0}"
  by (simp add: stmt_ids_def demo_prepare Let_def dom_def)

theorem prepared_statement_kept_witness:
  "stmt_ids demo_one = {1}"
  using prepared_statement_kept [OF demo_first demo_empty] by (simp add: small_ids)

text \<open>An identifier is given out twice. The next identifier is the number of open statements plus one: after a client with \<open>n\<close> statements
  closes an older one, the next statement it prepares gets the identifier of the newest open one and replaces it.\<close>

theorem statement_id_reused:
  assumes "stmt_ids ch = of_nat ` {0<..c}" and "c < 4294967296" and "1 \<le> j" and "j < c"
    and "HandleStmtClose (Some (of_nat j)) ch = (r, ch1)" and "HandleStmtPrepare env q ch1 = (Reply (n, cols, k), ch2)"
  shows "\<exists>lost stmt. GetPreparedStatement (ch_session ch1) k = Some lost \<and> k = of_nat c
    \<and> GetPreparedStatement (ch_session ch2) k = Some stmt \<and> ps_original_sql stmt = q"
proof -
  have j: "(of_nat j :: u32) \<in> stmt_ids ch" "of_nat c \<in> stmt_ids ch"
    using assms(1,3,4) by auto
  then have g: "GetPreparedStatement (ch_session ch1) = (GetPreparedStatement (ch_session ch))(of_nat j := None)"
    using assms(5) by (auto simp: HandleStmtClose_def stmt_ids_def GetPreparedStatement_def RemovePreparedStatement_def fun_eq_iff
        split: option.splits)
  then have "stmt_ids ch1 = stmt_ids ch - {of_nat j}" by (auto simp: stmt_ids_def)
  then have "card (stmt_ids ch1) = c - 1"
    using j(1) assms(1,2) by (simp add: card_Diff_singleton card_ids)
  then have k: "k = of_nat c"
    using prepare_stores [OF assms(6)] assms(3,4) by simp
  have "(of_nat c :: u32) \<noteq> of_nat j"
    using inj_onD [OF inj_of_nat_word [OF assms(2)], of c j] assms(3,4) by auto
  then have "GetPreparedStatement (ch_session ch1) k \<noteq> None"
    using g j(2) k by (auto simp: stmt_ids_def)
  then show ?thesis
    using prepare_stores [OF assms(6)] k by auto
qed

lemma demo_two_ids: "stmt_ids demo_two = of_nat ` {0<..2}"
  by (simp add: small_ids stmt_ids_def demo_two_def demo_one_def demo_prepare Let_def insert_commute)

theorem statement_id_reused_witness:
  "\<exists>r ch1 ch2 lost. HandleStmtClose (Some 1) demo_two = (r, ch1) \<and> HandleStmtPrepare demo_env ''DO 3'' ch1 = (Reply (0, 0, 2), ch2)
     \<and> GetPreparedStatement (ch_session ch1) 2 = Some lost"
proof -
  obtain r ch1 where c: "HandleStmtClose (Some 1) demo_two = (r, ch1)" by fastforce
  obtain ch2 where p: "HandleStmtPrepare demo_env ''DO 3'' ch1 = (Reply (0, 0, 2), ch2)"
    using c by (auto simp: HandleStmtClose_def RemovePreparedStatement_def demo_two_def demo_one_def demo_prepare Let_def)
  have "(of_nat 1 :: u32) = 1" by simp
  then show ?thesis
    using statement_id_reused [OF demo_two_ids _ _ _ _ p, of 1 r] c p by auto
qed

section \<open>The schema of the statements\<close>










end
