(* ===== verification/Observability.thy ===== *)
theory Observability
  imports Go_Strings
begin

text \<open>
  Metrics and logging, \<open>pkg/observability\<close>. Prometheus and zap are libraries: the state of the metrics is the list of the calls that
  were made on each of them, the registry the list of registered names, and a log the list of the entries that are enabled at its level
  (zap's production configuration samples them after that).
  Floating-point numbers are opaque values of type \<open>'f\<close>.
\<close>

section \<open>Metrics\<close>

text \<open>\<open>metrics.go\<close>: the metrics in the order of the source, with kind and name; a vector has the name of its label.\<close>

datatype metric_kind = Counter | Gauge | Histogram | CounterVec string

definition metric_names :: "(metric_kind \<times> string) list" where
  "metric_names =
     [(Gauge, ''mysql_pg_proxy_active_connections''), (Counter, ''mysql_pg_proxy_total_queries''),
      (Histogram, ''mysql_pg_proxy_query_duration_seconds''), (CounterVec ''type'', ''mysql_pg_proxy_errors_total''),
      (Gauge, ''mysql_pg_proxy_pg_pool_size''), (Counter, ''mysql_pg_proxy_bytes_in_total''),
      (Counter, ''mysql_pg_proxy_bytes_out_total''), (Gauge, ''mysql_pg_proxy_prepared_statements''),
      (CounterVec ''result'', ''mysql_pg_proxy_transactions_total''), (CounterVec ''type'', ''mysql_pg_proxy_cdc_events_total''),
      (Gauge, ''mysql_pg_proxy_cdc_replication_lag_ms''), (Counter, ''mysql_pg_proxy_cdc_backpressure_total''),
      (Gauge, ''mysql_pg_proxy_cdc_connected_clients''), (Gauge, ''mysql_pg_proxy_cdc_last_lsn''),
      (Counter, ''mysql_pg_proxy_cdc_reconnects_total''), (Counter, ''mysql_pg_proxy_cdc_events_dropped_total'')]"

datatype 'f metric_call = Inc | Dec | SetTo 'f | Add 'f | Observe 'f

record 'f metrics =
  ActiveConnections :: "'f metric_call list"
  TotalQueries :: "'f metric_call list"
  QueryDuration :: "'f metric_call list"
  ErrorsTotal :: "string \<Rightarrow> 'f metric_call list"
  PGPoolSize :: "'f metric_call list"
  BytesIn :: "'f metric_call list"
  BytesOut :: "'f metric_call list"
  PreparedStmts :: "'f metric_call list"
  TransactionsTotal :: "string \<Rightarrow> 'f metric_call list"
  CDCEventsTotal :: "string \<Rightarrow> 'f metric_call list"
  CDCReplicationLag :: "'f metric_call list"
  CDCBackpressureTotal :: "'f metric_call list"
  CDCConnectedClients :: "'f metric_call list"
  CDCLastLSN :: "'f metric_call list"
  CDCReconnectsTotal :: "'f metric_call list"
  CDCEventsDropped :: "'f metric_call list"

definition no_calls :: "'f metrics" where
  "no_calls =
     \<lparr>ActiveConnections = [], TotalQueries = [], QueryDuration = [], ErrorsTotal = (\<lambda>_. []), PGPoolSize = [], BytesIn = [], BytesOut = [],
      PreparedStmts = [], TransactionsTotal = (\<lambda>_. []), CDCEventsTotal = (\<lambda>_. []), CDCReplicationLag = [], CDCBackpressureTotal = [],
      CDCConnectedClients = [], CDCLastLSN = [], CDCReconnectsTotal = [], CDCEventsDropped = []\<rparr>"

text \<open>Registering a name twice panics in \<open>promauto\<close>: \<open>None\<close>.\<close>

fun register :: "string list \<Rightarrow> string list \<Rightarrow> string list option" where
  "register [] registry = Some registry"
| "register (name # names) registry = (if name \<in> set registry then None else register names (registry @ [name]))"

definition NewMetrics :: "string list \<Rightarrow> ('f metrics \<times> string list) option" where
  "NewMetrics registry = map_option (\<lambda>r. (no_calls, r)) (register (map snd metric_names) registry)"

definition add_label :: "string \<Rightarrow> 'f metric_call \<Rightarrow> (string \<Rightarrow> 'f metric_call list) \<Rightarrow> (string \<Rightarrow> 'f metric_call list)" where
  "add_label l c v = v(l := v l @ [c])"

definition IncActiveConnections :: "'f metrics \<Rightarrow> 'f metrics" where
  "IncActiveConnections m = m\<lparr>ActiveConnections := ActiveConnections m @ [Inc]\<rparr>"

definition DecActiveConnections :: "'f metrics \<Rightarrow> 'f metrics" where
  "DecActiveConnections m = m\<lparr>ActiveConnections := ActiveConnections m @ [Dec]\<rparr>"

definition IncTotalQueries :: "'f metrics \<Rightarrow> 'f metrics" where
  "IncTotalQueries m = m\<lparr>TotalQueries := TotalQueries m @ [Inc]\<rparr>"

definition ObserveQueryDuration :: "'f \<Rightarrow> 'f metrics \<Rightarrow> 'f metrics" where
  "ObserveQueryDuration seconds m = m\<lparr>QueryDuration := QueryDuration m @ [Observe seconds]\<rparr>"

definition IncErrors :: "string \<Rightarrow> 'f metrics \<Rightarrow> 'f metrics" where
  "IncErrors errorType m = m\<lparr>ErrorsTotal := add_label errorType Inc (ErrorsTotal m)\<rparr>"

definition SetPGPoolSize :: "'f \<Rightarrow> 'f metrics \<Rightarrow> 'f metrics" where
  "SetPGPoolSize sz m = m\<lparr>PGPoolSize := PGPoolSize m @ [SetTo sz]\<rparr>"

definition AddBytesIn :: "'f \<Rightarrow> 'f metrics \<Rightarrow> 'f metrics" where
  "AddBytesIn n m = m\<lparr>BytesIn := BytesIn m @ [Add n]\<rparr>"

definition AddBytesOut :: "'f \<Rightarrow> 'f metrics \<Rightarrow> 'f metrics" where
  "AddBytesOut n m = m\<lparr>BytesOut := BytesOut m @ [Add n]\<rparr>"

definition SetPreparedStmts :: "'f \<Rightarrow> 'f metrics \<Rightarrow> 'f metrics" where
  "SetPreparedStmts n m = m\<lparr>PreparedStmts := PreparedStmts m @ [SetTo n]\<rparr>"

definition IncTransactions :: "string \<Rightarrow> 'f metrics \<Rightarrow> 'f metrics" where
  "IncTransactions result m = m\<lparr>TransactionsTotal := add_label result Inc (TransactionsTotal m)\<rparr>"

definition IncCDCEvents :: "string \<Rightarrow> 'f metrics \<Rightarrow> 'f metrics" where
  "IncCDCEvents eventType m = m\<lparr>CDCEventsTotal := add_label eventType Inc (CDCEventsTotal m)\<rparr>"

definition SetCDCReplicationLag :: "'f \<Rightarrow> 'f metrics \<Rightarrow> 'f metrics" where
  "SetCDCReplicationLag lagMs m = m\<lparr>CDCReplicationLag := CDCReplicationLag m @ [SetTo lagMs]\<rparr>"

definition IncCDCBackpressure :: "'f metrics \<Rightarrow> 'f metrics" where
  "IncCDCBackpressure m = m\<lparr>CDCBackpressureTotal := CDCBackpressureTotal m @ [Inc]\<rparr>"

definition SetCDCConnectedClients :: "'f \<Rightarrow> 'f metrics \<Rightarrow> 'f metrics" where
  "SetCDCConnectedClients n m = m\<lparr>CDCConnectedClients := CDCConnectedClients m @ [SetTo n]\<rparr>"

definition IncCDCConnectedClients :: "'f metrics \<Rightarrow> 'f metrics" where
  "IncCDCConnectedClients m = m\<lparr>CDCConnectedClients := CDCConnectedClients m @ [Inc]\<rparr>"

definition DecCDCConnectedClients :: "'f metrics \<Rightarrow> 'f metrics" where
  "DecCDCConnectedClients m = m\<lparr>CDCConnectedClients := CDCConnectedClients m @ [Dec]\<rparr>"

definition SetCDCLastLSN :: "'f \<Rightarrow> 'f metrics \<Rightarrow> 'f metrics" where
  "SetCDCLastLSN lsn m = m\<lparr>CDCLastLSN := CDCLastLSN m @ [SetTo lsn]\<rparr>"

definition IncCDCReconnects :: "'f metrics \<Rightarrow> 'f metrics" where
  "IncCDCReconnects m = m\<lparr>CDCReconnectsTotal := CDCReconnectsTotal m @ [Inc]\<rparr>"

definition IncCDCEventsDropped :: "'f metrics \<Rightarrow> 'f metrics" where
  "IncCDCEventsDropped m = m\<lparr>CDCEventsDropped := CDCEventsDropped m @ [Inc]\<rparr>"

text \<open>All names differ, so the metrics can be created; a second creation in the same process panics.\<close>

lemma register_some:
  "distinct names \<Longrightarrow> set names \<inter> set registry = {} \<Longrightarrow> register names registry = Some (registry @ names)"
  by (induction names arbitrary: registry) auto

lemma metric_names_distinct: "distinct (map snd metric_names)"
  by code_simp

theorem metrics_created_once:
  "NewMetrics [] = Some (no_calls, map snd metric_names) \<and> NewMetrics (map snd metric_names) = None"
proof -
  have "NewMetrics [] = Some (no_calls, map snd metric_names)"
    using register_some [OF metric_names_distinct, of "[]"] by (simp add: NewMetrics_def)
  moreover have "NewMetrics (map snd metric_names) = None"
    by (simp add: NewMetrics_def metric_names_def)
  ultimately show ?thesis by simp
qed

text \<open>The value of a gauge that is only incremented and decremented.\<close>

definition gauge_value :: "'f metric_call list \<Rightarrow> int" where
  "gauge_value cs = int (count_list cs Inc) - int (count_list cs Dec)"

lemma gauge_active:
  "gauge_value (ActiveConnections (IncActiveConnections m)) = gauge_value (ActiveConnections m) + 1"
  "gauge_value (ActiveConnections (DecActiveConnections m)) = gauge_value (ActiveConnections m) - 1"
  by (simp_all add: gauge_value_def IncActiveConnections_def DecActiveConnections_def)

section \<open>Logging\<close>

text \<open>\<open>logger.go\<close>. Levels are ordered as in zap: an entry is written when its level is at least that of the logger.\<close>

datatype log_level = DebugLevel | InfoLevel | WarnLevel | ErrorLevel

primrec severity :: "log_level \<Rightarrow> nat" where
  "severity DebugLevel = 0"
| "severity InfoLevel = 1"
| "severity WarnLevel = 2"
| "severity ErrorLevel = 3"

lemma severity_inject: "severity a = severity b \<longleftrightarrow> a = b"
  by (cases a; cases b) simp_all

instantiation log_level :: linorder
begin

definition less_eq_log_level :: "log_level \<Rightarrow> log_level \<Rightarrow> bool" where
  "a \<le> b \<longleftrightarrow> severity a \<le> severity b"

definition less_log_level :: "log_level \<Rightarrow> log_level \<Rightarrow> bool" where
  "a < b \<longleftrightarrow> severity a < severity b"

instance
  by standard (auto simp: less_eq_log_level_def less_log_level_def severity_inject)

end

definition level_of :: "string \<Rightarrow> log_level" where
  "level_of level =
     (if level = ''debug'' then DebugLevel else if level = ''info'' then InfoLevel else if level = ''warn'' then WarnLevel
      else if level = ''error'' then ErrorLevel else InfoLevel)"

datatype 'f log_field = FString string string | FFloat64 string 'f | FInt64 string int | FError string

record 'f log_entry =
  en_level :: log_level
  en_msg :: string
  en_fields :: "'f log_field list"

text \<open>The configurations of zap for JSON and for development; building one may fail.\<close>

datatype encoding = ProductionConfig | DevelopmentConfig

record 'f logger =
  lo_encoding :: encoding
  lo_level :: log_level
  lo_redact :: bool
  lo_entries :: "'f log_entry list"

definition NewLogger :: "(encoding \<Rightarrow> log_level \<Rightarrow> bool) \<Rightarrow> string \<Rightarrow> string \<Rightarrow> bool \<Rightarrow> 'f logger option" where
  "NewLogger build level format redactParams =
     (let zapLevel = level_of level; config = (if format = ''json'' then ProductionConfig else DevelopmentConfig)
      in if build config zapLevel
         then Some \<lparr>lo_encoding = config, lo_level = zapLevel, lo_redact = redactParams, lo_entries = []\<rparr> else None)"

definition write_entry :: "log_level \<Rightarrow> string \<Rightarrow> 'f log_field list \<Rightarrow> 'f logger \<Rightarrow> 'f logger" where
  "write_entry lvl msg flds l =
     (if lo_level l \<le> lvl then l\<lparr>lo_entries := lo_entries l @ [\<lparr>en_level = lvl, en_msg = msg, en_fields = flds\<rparr>]\<rparr> else l)"

definition redactQuery :: "string \<Rightarrow> string" where
  "redactQuery query = (if 100 < length query then take 100 query @ ''... [REDACTED]'' else ''[REDACTED]'')"

definition client_fields :: "string \<Rightarrow> string \<Rightarrow> string \<Rightarrow> 'f log_field list" where
  "client_fields sessionID user clientIP =
     [FString ''session_id'' sessionID, FString ''user'' user, FString ''client_ip'' clientIP]"

definition LogQuery :: "string \<Rightarrow> string \<Rightarrow> string \<Rightarrow> string \<Rightarrow> 'f \<Rightarrow> int \<Rightarrow> string option \<Rightarrow> 'f logger \<Rightarrow> 'f logger" where
  "LogQuery sessionID user clientIP query duration rowsAffected err l =
     (let query = (if lo_redact l then redactQuery query else query);
          flds = client_fields sessionID user clientIP
            @ [FString ''query'' query, FFloat64 ''duration_seconds'' duration, FInt64 ''rows_affected'' rowsAffected]
      in case err of
           Some e \<Rightarrow> write_entry ErrorLevel ''query_error'' (flds @ [FError e]) l
         | None \<Rightarrow> write_entry InfoLevel ''query_executed'' flds l)"

definition LogConnection :: "string \<Rightarrow> string \<Rightarrow> string \<Rightarrow> bool \<Rightarrow> 'f logger \<Rightarrow> 'f logger" where
  "LogConnection sessionID user clientIP connected l =
     write_entry InfoLevel (if connected then ''client_connected'' else ''client_disconnected'') (client_fields sessionID user clientIP) l"

definition LogError :: "string \<Rightarrow> string \<Rightarrow> string \<Rightarrow> string \<Rightarrow> string \<Rightarrow> 'f logger \<Rightarrow> 'f logger" where
  "LogError sessionID user clientIP errorType err l =
     write_entry ErrorLevel ''error'' (client_fields sessionID user clientIP @ [FString ''error_type'' errorType, FError err]) l"

text \<open>
  Redaction hides short statements only: of a statement of more than 100 bytes the first 100 are written to the log, and with them the
  parameters among them.
\<close>

theorem long_query_not_redacted:
  assumes "lo_redact l" and "lo_level l \<le> InfoLevel" and "length query > 100"
  shows "\<exists>flds. lo_entries (LogQuery sid user ip query d n None l)
      = lo_entries l @ [\<lparr>en_level = InfoLevel, en_msg = ''query_executed'', en_fields = flds\<rparr>]
    \<and> FString ''query'' (take 100 query @ ''... [REDACTED]'') \<in> set flds"
  using assms by (simp add: LogQuery_def write_entry_def redactQuery_def Let_def)

theorem long_query_not_redacted_witness:
  "\<exists>l flds. NewLogger (\<lambda>_ _. True) ''info'' ''json'' True = Some (l :: unit logger)
     \<and> lo_entries (LogQuery ''a'' ''u'' ''ip'' (replicate 101 CHR ''x'') () 0 None l)
       = [\<lparr>en_level = InfoLevel, en_msg = ''query_executed'', en_fields = flds\<rparr>]
     \<and> FString ''query'' (replicate 100 CHR ''x'' @ ''... [REDACTED]'') \<in> set flds"
proof -
  obtain l :: "unit logger" where l: "NewLogger (\<lambda>_ _. True) ''info'' ''json'' True = Some l"
    and f: "lo_redact l" "lo_level l \<le> InfoLevel" "lo_entries l = []"
    by (simp add: NewLogger_def level_of_def Let_def)
  show ?thesis
    using long_query_not_redacted [OF f(1,2), of "replicate 101 CHR ''x''" "''a''" "''u''" "''ip''" "()" 0] l f(3) by auto
qed

lemma short_query_redacted: "length query \<le> 100 \<Longrightarrow> redactQuery query = ''[REDACTED]''"
  by (simp add: redactQuery_def)

text \<open>A logger of a higher level drops what is below it, whatever is logged.\<close>

lemma entries_enabled:
  assumes "\<forall>e \<in> set (lo_entries l). lo_level l \<le> en_level e"
  shows "\<forall>e \<in> set (lo_entries (write_entry lvl msg flds l)). lo_level l \<le> en_level e"
  using assms by (auto simp: write_entry_def)

end
