(* ===== verification/Proxy_Main.thy ===== *)
theory Proxy_Main
  imports App_Config Handler_Life Pg_Stream_Props Observability
begin

text \<open>
  The start of the proxy, \<open>cmd/aproxy/main.go\<close>: configuration, pool, schema cache, rewriter, replication server and handler, in the order of the
  source. What happens outside is input: which loggers zap can build, whether the shared pool and its pings succeed, the environment variable
  that switches timing on, the clock, and whether the streamer connects.
\<close>

section \<open>Start\<close>

definition mode_of :: "string \<Rightarrow> connection_mode" where
  "mode_of m =
     (if m = ''session_affinity'' then ModeSessionAffinity else if m = ''pooled'' then ModePooled
      else if m = ''hybrid'' then ModeHybrid else ModeOther m)"

definition pool_config_of :: "app_config \<Rightarrow> pool_config" where
  "pool_config_of cfg =
     \<lparr>pc_host = pg_host (ac_postgres cfg), pc_port = pg_port (ac_postgres cfg), pc_database = pg_database (ac_postgres cfg),
      pc_user = pg_user (ac_postgres cfg), pc_password = pg_password (ac_postgres cfg), pc_ssl_mode = pg_ssl_mode (ac_postgres cfg),
      pc_max_pool_size = pg_max_pool_size (ac_postgres cfg), pc_mode = mode_of (pg_connection_mode (ac_postgres cfg))\<rparr>"

text \<open>The fields that the composite literal leaves out are zero.\<close>

definition repl_config_of :: "app_config \<Rightarrow> server_config" where
  "repl_config_of cfg =
     \<lparr>cfg_enabled = True, cfg_server_id = 1, cfg_pg_host = pg_host (ac_postgres cfg), cfg_pg_port = pg_port (ac_postgres cfg),
      cfg_pg_database = pg_database (ac_postgres cfg), cfg_pg_user = pg_user (ac_postgres cfg),
      cfg_pg_password = pg_password (ac_postgres cfg), cfg_slot = ''aproxy_cdc'', cfg_publication = ''aproxy_pub'',
      cfg_binlog_filename = ''mysql-bin.000001'', cfg_binlog_position = 4, cfg_backpressure_timeout = 0, cfg_checkpoint_file = [],
      cfg_checkpoint_interval = 0, cfg_reconnect_enabled = False, cfg_reconnect_max_retries = 0, cfg_reconnect_initial_wait = 0,
      cfg_reconnect_max_wait = 0\<rparr>"

definition frontendAuthCredentials :: "app_config \<Rightarrow> string \<times> string" where
  "frontendAuthCredentials cfg = (pg_user (ac_postgres cfg), pg_password (ac_postgres cfg))"

definition NewHandler :: "'c pool \<Rightarrow> 'c manager \<Rightarrow> rewriter \<Rightarrow> bool \<Rightarrow> tracker \<Rightarrow> schema_cache \<Rightarrow> overrides \<Rightarrow> 'c handler" where
  "NewHandler pgPool sessionMgr rw repl tr cache ov =
     \<lparr>h_pool = pgPool, h_manager = sessionMgr, h_rewriter = rw, h_repl_server = repl, h_tracker = tr, h_cache = cache,
      h_overrides = ov, h_active = 0, h_total_queries = 0, h_errors = (\<lambda>_. 0)\<rparr>"

definition SetReplicationServer :: "server option \<Rightarrow> 'c handler \<Rightarrow> 'c handler" where
  "SetReplicationServer srv h = h\<lparr>h_repl_server := (srv \<noteq> None)\<rparr>"

record 'c proxy =
  px_config :: app_config
  px_handler :: "'c handler"
  px_server :: "server option"
  px_auth :: "string \<times> string"
  px_logger :: "u64 logger"

datatype startup_error =
    BadConfig config_error | Rejected invalid_config | LoggerFailed | PoolRefused pool_error | NoPing

record 'c outside =
  ou_pg :: "'c pg_env"
  ou_logger :: "encoding \<Rightarrow> log_level \<Rightarrow> bool"
  ou_created :: bool
  ou_pinged :: bool
  ou_ping_again :: bool
  ou_timing :: bool
  ou_now :: "nat \<Rightarrow> u64"
  ou_streamer :: bool

definition new_logger :: "'c outside \<Rightarrow> app_config \<Rightarrow> u64 logger option" where
  "new_logger out cfg =
     NewLogger (ou_logger out) (ob_log_level (ac_observability cfg)) (ob_log_format (ac_observability cfg))
       (ob_redact_parameters (ac_observability cfg))"

definition start_proxy :: "'c outside \<Rightarrow> ('b \<Rightarrow> app_config \<Rightarrow> app_config option) \<Rightarrow> 'b config_file \<Rightarrow> startup_error + 'c proxy" where
  "start_proxy out unmarshal file =
     (case LoadConfig unmarshal file of
        Inl e \<Rightarrow> Inl (BadConfig e)
      | Inr cfg \<Rightarrow>
          (case Validate cfg of
             Some e \<Rightarrow> Inl (Rejected e)
           | None \<Rightarrow>
               (case new_logger out cfg of
                  None \<Rightarrow> Inl LoggerFailed
                | Some lg \<Rightarrow>
                    (case NewPool (ou_pg out) (ou_created out) (ou_pinged out) (pool_config_of cfg) of
                       Inl e \<Rightarrow> Inl (PoolRefused e)
                     | Inr p \<Rightarrow>
                         if \<not> ou_ping_again out then Inl NoPing
                         else (let cache = (if sc_enabled (ac_schema_cache cfg) then InitGlobalCache (sc_ttl (ac_schema_cache cfg)) None
                                            else GetGlobalCache None);
                                   rw = NewRewriter (sr_enabled (ac_sql_rewrite cfg));
                                   rw = (if ou_timing out then EnableDebugTiming 10000000 rw else rw);
                                   srv = (if bc_enabled (ac_binlog cfg)
                                          then snd (Start (ou_streamer out) (NewServer (Some (repl_config_of cfg)) True (ou_now out)))
                                          else None)
                               in Inr \<lparr>px_config = cfg,
                                       px_handler = NewHandler p NewManager rw (srv \<noteq> None) GetTracker cache Map.empty,
                                       px_server = srv, px_auth = frontendAuthCredentials cfg, px_logger = lg\<rparr>)))))"

section \<open>What a started proxy is like\<close>

lemma start_proxy_facts:
  assumes "start_proxy out unmarshal file = Inr px"
  shows "Validate (px_config px) = None
    \<and> NewPool (ou_pg out) (ou_created out) (ou_pinged out) (pool_config_of (px_config px)) = Inr (h_pool (px_handler px))
    \<and> h_manager (px_handler px) = NewManager \<and> h_active (px_handler px) = 0
    \<and> px_server px = (if bc_enabled (ac_binlog (px_config px))
                      then snd (Start (ou_streamer out) (NewServer (Some (repl_config_of (px_config px))) True (ou_now out))) else None)"
  using assms unfolding start_proxy_def Let_def
  by (auto simp: NewHandler_def split: sum.splits option.splits if_splits)

lemma new_pool_empty: "NewPool env created pinged cfg = Inr p \<Longrightarrow> pl_session_conns p = Map.empty \<and> pl_mode p = pc_mode cfg"
  by (auto simp: NewPool_def split: if_splits)

text \<open>The proxy starts without a configuration file: if the file does not exist and PostgreSQL can be reached, the defaults are accepted. The sessions get
  dedicated connections; replication runs exactly if its streamer could be made (otherwise the failure is only logged).\<close>

lemma proxy_starts_by_default:
  assumes "ou_logger out ProductionConfig InfoLevel" and "ou_created out" and "ou_pinged out" and "ou_ping_again out"
    and "pe_parse (ou_pg out) (conn_string (pool_config_of app_DefaultConfig))"
  shows "\<exists>px srv. start_proxy out unmarshal NoSuchFile = Inr px \<and> px_config px = app_DefaultConfig
    \<and> dedicated (pl_mode (h_pool (px_handler px))) \<and> pl_session_conns (h_pool (px_handler px)) = Map.empty
    \<and> h_manager (px_handler px) = NewManager \<and> px_server px = Some srv \<and> (sv_running srv \<longleftrightarrow> ou_streamer out)"
proof -
  have "pc_mode (pool_config_of app_DefaultConfig) = ModeSessionAffinity" "bc_enabled (ac_binlog app_DefaultConfig)"
    by (simp_all add: pool_config_of_def app_DefaultConfig_def mode_of_def)
  moreover have "new_logger out app_DefaultConfig \<noteq> None"
    using assms(1) by (simp add: new_logger_def NewLogger_def level_of_def app_DefaultConfig_def Let_def)
  ultimately show ?thesis
    using assms
    by (auto simp: start_proxy_def LoadConfig_def default_config_valid NewPool_def Let_def NewHandler_def NewServer_def Start_def
        repl_config_of_def dedicated_def)
qed

section \<open>A proxy that starts\<close>

definition demo_outside :: "bool outside" where
  "demo_outside = \<lparr>ou_pg = he_pool demo_env, ou_logger = (\<lambda>_ _. True), ou_created = True, ou_pinged = True, ou_ping_again = True, ou_timing = False,
                  ou_now = (\<lambda>_. 0), ou_streamer = True\<rparr>"

definition misspelt :: "unit \<Rightarrow> app_config \<Rightarrow> app_config option" where
  "misspelt _ c = Some (c\<lparr>ac_postgres := (ac_postgres c)\<lparr>pg_connection_mode := ''session-affinity''\<rparr>\<rparr>)"

lemma demo_outside_ok:
  "ou_logger demo_outside enc lvl" "ou_created demo_outside" "ou_pinged demo_outside" "ou_ping_again demo_outside" "pe_parse (ou_pg demo_outside) x"
  by (simp_all add: demo_outside_def demo_env_def)

lemma demo_logger: "\<exists>lg. new_logger demo_outside cfg = Some lg"
  by (simp add: new_logger_def NewLogger_def demo_outside_ok(1) Let_def)

lemma default_starts: "\<exists>px. start_proxy demo_outside misspelt NoSuchFile = Inr px \<and> dedicated (pl_mode (h_pool (px_handler px)))"
  using demo_outside_ok demo_logger [of app_DefaultConfig]
  by (auto simp: start_proxy_def LoadConfig_def default_config_valid NewPool_def Let_def NewHandler_def dedicated_def pool_config_of_def
      mode_of_def app_DefaultConfig_def [THEN arg_cong, of ac_postgres])

lemma misspelt_starts:
  obtains px where "start_proxy demo_outside misspelt (ConfigBytes ()) = Inr px"
    and "pg_connection_mode (ac_postgres (px_config px)) = ''session-affinity''" and "bc_enabled (ac_binlog (px_config px))"
proof -
  have "Validate (app_DefaultConfig\<lparr>ac_postgres := (ac_postgres app_DefaultConfig)\<lparr>pg_connection_mode := ''session-affinity''\<rparr>\<rparr>) = None"
    "bc_enabled (ac_binlog app_DefaultConfig)"
    by (simp_all add: Validate_def app_DefaultConfig_def)
  then show thesis
    using demo_outside_ok that demo_logger [of "the (misspelt () app_DefaultConfig)"]
    by (auto simp: start_proxy_def LoadConfig_def misspelt_def NewPool_def Let_def)
qed

section \<open>The stream of changes\<close>

text \<open>A streamer that could be made is connected, has the configuration of its server and is not cancelled.\<close>

lemma connect_ok_conn: "connect ce s = (Inr (), s') \<Longrightarrow> sm_conn s'"
  using connect_sets_conn [of ce s] by (auto simp: connect_def split: if_splits)

lemma new_streamer_connected:
  assumes "NewPGStreamer unmarshal read_ok fs ce cfg = Inr s"
  shows "sm_config s = cfg \<and> sm_conn s \<and> \<not> sm_cancelled s"
proof -
  define s0 where "s0 = (snd (loadCheckpoint unmarshal read_ok fs (new_streamer cfg)))\<lparr>sm_running := True\<rparr>"
  have "connect ce s0 = (Inr (), s)"
    using assms by (auto simp: NewPGStreamer_def StreamerStart_def s0_def split: prod.splits sum.splits if_splits)
  moreover have "sm_config s0 = cfg \<and> \<not> sm_cancelled s0"
    by (auto simp: s0_def loadCheckpoint_def new_streamer_def split: read_result.splits option.splits)
  ultimately show ?thesis
    using connect_ok_conn connect_config(1) [of ce s0] connect_cancelled(1) [of ce s0] by simp
qed

text \<open>C17: The started proxy does not reconnect and keeps no checkpoint. Whatever the configuration file says, the stream of changes of a started
  proxy (the streamer that its server makes from its configuration) ends at its first failure, without waiting or trying again, and saving a checkpoint writes nothing.\<close>

theorem started_proxy_gives_up:
  assumes "start_proxy out unmarshal file = Inr px" and "bc_enabled (ac_binlog (px_config px))"
    and "NewPGStreamer unmarshal_cp read_ok cps ce (repl_config_of (px_config px)) = Inr s"
    and "round_stream re s = (Some StreamFailed, s')"
  shows "streamLoop (re # res) s = ([], Ended, \<lparr>ls_retry = 0, ls_wait = second\<rparr>, if re_cancel_top re then s else s')
    \<and> saveCheckpoint marshal se now s fs = (Inr (), []) \<and> (\<exists>srv. px_server px = Some srv \<and> sv_config srv = sm_config s)"
proof -
  have c: "sm_config s = repl_config_of (px_config px)" "\<not> sm_cancelled s"
    using new_streamer_connected [OF assms(3)] by simp_all
  have "\<exists>srv. px_server px = Some srv \<and> sv_config srv = sm_config s"
    using start_proxy_facts [OF assms(1)] assms(2) c
    by (simp add: NewServer_def Start_def repl_config_of_def)
  moreover have "initial_wait (sm_config s) = second" "\<not> cfg_reconnect_enabled (sm_config s)" "cfg_checkpoint_file (sm_config s) = []"
    by (simp_all add: c repl_config_of_def initial_wait_def)
  ultimately show ?thesis
    using assms(4) c by (simp add: streamLoop_def stream_round_def saveCheckpoint_def Let_def)
qed

theorem started_proxy_gives_up_witness:
  "\<exists>px s. start_proxy demo_outside misspelt (ConfigBytes ()) = Inr px
     \<and> NewPGStreamer (\<lambda>_. None) True Map.empty (re_connect flapping_round) (repl_config_of (px_config px)) = Inr s \<and> sm_conn s
     \<and> streamLoop [failing_round] s = ([], Ended, \<lparr>ls_retry = 0, ls_wait = second\<rparr>, s)"
proof -
  obtain px where px: "start_proxy demo_outside misspelt (ConfigBytes ()) = Inr px" "bc_enabled (ac_binlog (px_config px))"
    by (rule misspelt_starts)
  obtain s where s: "NewPGStreamer (\<lambda>_. None) True Map.empty (re_connect flapping_round) (repl_config_of (px_config px)) = Inr s"
    by (simp add: NewPGStreamer_def loadCheckpoint_def repl_config_of_def new_streamer_def StreamerStart_def connect_def Let_def
        ensureReplicationSlot_def ensurePublication_def flapping_round_def)
  then have "sm_conn s" by (simp add: new_streamer_connected)
  moreover from this have "round_stream failing_round s = (Some StreamFailed, s)" by (simp add: failing_round_def doStream_def)
  ultimately show ?thesis
    using started_proxy_gives_up [OF px s, of failing_round _ "[]"] px(1) s by (auto simp: failing_round_def)
qed

section \<open>The connection mode\<close>

text \<open>A misspelt connection mode is accepted. Validation does not look at the mode: any text that is none of the three modes starts a proxy
  that takes a connection of the shared pool for each session, and gives none back when the session ends.\<close>

theorem unknown_mode_shares_pool:
  assumes "start_proxy out unmarshal file = Inr px" and "pg_connection_mode (ac_postgres (px_config px)) = m"
    and "m \<notin> set [''session_affinity'', ''pooled'', ''hybrid'']"
    and "p = h_pool (px_handler px)" and "pe_acquire (ou_pg out) 0 = Some c"
  shows "\<exists>p'. AcquireForSession (ou_pg out) off k p = (Inr c, p') \<and> pl_taken p' = [c]
    \<and> ReleaseForSession (ou_pg out) k p' = (Inr (), p')"
proof -
  have n: "NewPool (ou_pg out) (ou_created out) (ou_pinged out) (pool_config_of (px_config px)) = Inr p"
    using start_proxy_facts [OF assms(1)] assms(4) by simp
  then have "pl_mode p = ModeOther m"
    using new_pool_empty [OF n] assms(2,3) by (simp add: pool_config_of_def mode_of_def)
  moreover have "pl_taken p = []" "pl_acquisitions p = 0"
    using n by (auto simp: NewPool_def split: if_splits)
  ultimately show ?thesis
    using assms(5) by (simp add: AcquireForSession_def ReleaseForSession_def dedicated_def)
qed

theorem unknown_mode_shares_pool_witness:
  "\<exists>px p'. start_proxy demo_outside misspelt (ConfigBytes ()) = Inr px
     \<and> AcquireForSession (ou_pg demo_outside) 0 ''a'' (h_pool (px_handler px)) = (Inr False, p') \<and> pl_taken p' = [False]
     \<and> ReleaseForSession (ou_pg demo_outside) ''a'' p' = (Inr (), p')"
proof -
  obtain px where px: "start_proxy demo_outside misspelt (ConfigBytes ()) = Inr px"
    "pg_connection_mode (ac_postgres (px_config px)) = ''session-affinity''"
    by (rule misspelt_starts)
  have "pe_acquire (ou_pg demo_outside) 0 = Some False" by (simp add: demo_outside_def demo_env_def)
  then show ?thesis
    using unknown_mode_shares_pool [OF px _ refl, of False 0 "''a''"] px(1) by auto
qed

end
