(* ===== verification/Proxy_Clients.thy ===== *)
theory Proxy_Clients
  imports Proxy_Main
begin

text \<open>
  Clients side by side. The proxy serves every client in a goroutine of its own; here their commands interleave in any order, each command as a
  whole. A client leaves by a command that closes its handler, or is lost: the accept loop of \<open>cmd/aproxy/main.go\<close> ends when a command cannot be
  read, without closing the handler. The names of lost clients are kept to count them.
\<close>

section \<open>State\<close>

record 'c client =
  cl_session :: "'c session"
  cl_has_conn :: bool
  cl_path_set :: bool

record 'c world =
  w_shared :: "'c handler"
  w_clients :: "string \<rightharpoonup> 'c client"
  w_lost :: "string set"

text \<open>The connection handler of a client points to the shared handler.\<close>

definition attach :: "'c handler \<Rightarrow> 'c client \<Rightarrow> 'c conn_handler" where
  "attach h cl =
     \<lparr>h_pool = h_pool h, h_manager = h_manager h, h_rewriter = h_rewriter h, h_repl_server = h_repl_server h, h_tracker = h_tracker h,
      h_cache = h_cache h, h_overrides = h_overrides h, h_active = h_active h, h_total_queries = h_total_queries h, h_errors = h_errors h,
      ch_session = cl_session cl, ch_has_conn = cl_has_conn cl, ch_search_path_set = cl_path_set cl\<rparr>"

definition own_part :: "'c conn_handler \<Rightarrow> 'c client" where
  "own_part ch = \<lparr>cl_session = ch_session ch, cl_has_conn = ch_has_conn ch, cl_path_set = ch_search_path_set ch\<rparr>"

definition put_local :: "string \<Rightarrow> 'c conn_handler \<Rightarrow> 'c world \<Rightarrow> 'c world" where
  "put_local u ch w = w\<lparr>w_shared := handler.truncate ch, w_clients := (w_clients w)(u \<mapsto> own_part ch)\<rparr>"

text \<open>The goroutine of a lost client ends; the manager still points to the session as the client left it.\<close>

definition leave_behind :: "string \<Rightarrow> 'c client \<Rightarrow> 'c world \<Rightarrow> 'c world" where
  "leave_behind u cl w =
     w\<lparr>w_shared := (w_shared w)\<lparr>h_manager := put_session u (cl_session cl) (h_manager (w_shared w))\<rparr>,
       w_clients := (w_clients w)(u := None), w_lost := insert u (w_lost w)\<rparr>"

section \<open>Steps\<close>

inductive world_step :: "'c henv \<Rightarrow> 'c world \<Rightarrow> 'c world \<Rightarrow> bool" for env where
  connects: "u \<notin> dom (w_clients w) \<Longrightarrow> u \<notin> w_lost w
     \<Longrightarrow> world_step env w (put_local u (NewConnection u now now' host (w_shared w)) w)"
| commands: "w_clients w u = Some cl \<Longrightarrow> not_quit cmd
     \<Longrightarrow> world_step env w (put_local u (client_step env cmd (attach (w_shared w) cl)) w)"
| closes: "w_clients w u = Some cl
     \<Longrightarrow> world_step env w (w\<lparr>w_shared := handler.truncate (CloseHandler env (attach (w_shared w) cl)), w_clients := (w_clients w)(u := None)\<rparr>)"
| is_lost: "w_clients w u = Some cl \<Longrightarrow> world_step env w (leave_behind u cl w)"

inductive reachable :: "'c henv \<Rightarrow> 'c world \<Rightarrow> 'c world \<Rightarrow> bool" for env w where
  reach_start: "reachable env w w"
| reach_step: "reachable env w v \<Longrightarrow> world_step env v v' \<Longrightarrow> reachable env w v'"

text \<open>What every step of the world keeps holds in all reachable states.\<close>

locale world_invariant =
  fixes inv :: "'c world \<Rightarrow> bool"
    and env :: "'c henv"
  assumes inv_step: "world_step env w w' \<Longrightarrow> inv w \<Longrightarrow> inv w'"
begin

lemma inv_reachable: "reachable env w w' \<Longrightarrow> inv w \<Longrightarrow> inv w'"
  by (induction rule: reachable.induct) (auto intro: inv_step)

end

section \<open>Accounting\<close>

definition present :: "'c world \<Rightarrow> string set" where
  "present w = dom (w_clients w) \<union> w_lost w"

definition accounted :: "'c world \<Rightarrow> bool" where
  "accounted w \<longleftrightarrow>
     finite (dom (w_clients w)) \<and> finite (w_lost w) \<and> dom (w_clients w) \<inter> w_lost w = {}
     \<and> h_active (w_shared w) = int (card (dom (w_clients w)) + card (w_lost w))
     \<and> dom (m_sessions (h_manager (w_shared w))) = present w
     \<and> dom (pl_session_conns (h_pool (w_shared w))) \<subseteq> present w
     \<and> (\<forall>k s. m_sessions (h_manager (w_shared w)) k = Some s \<longrightarrow> s_id s = k)
     \<and> dedicated (pl_mode (h_pool (w_shared w)))
     \<and> (\<forall>u cl. w_clients w u = Some cl \<longrightarrow>
          s_id (cl_session cl) = u \<and> (cl_has_conn cl \<or> pl_session_conns (h_pool (w_shared w)) u = None))"

lemma truncate_fields [simp]:
  "h_pool (handler.truncate ch) = h_pool ch" "h_manager (handler.truncate ch) = h_manager ch" "h_active (handler.truncate ch) = h_active ch"
  by (simp_all add: handler.truncate_def)

lemma attach_fields [simp]:
  "h_pool (attach h cl) = h_pool h" "h_manager (attach h cl) = h_manager h" "h_active (attach h cl) = h_active h"
  "ch_session (attach h cl) = cl_session cl" "ch_has_conn (attach h cl) = cl_has_conn cl"
  by (simp_all add: attach_def)

lemma put_local_fields [simp]:
  "w_shared (put_local u ch w) = handler.truncate ch" "w_clients (put_local u ch w) = (w_clients w)(u \<mapsto> own_part ch)"
  "w_lost (put_local u ch w) = w_lost w"
  by (simp_all add: put_local_def)

lemma own_part_fields [simp]: "cl_session (own_part ch) = ch_session ch" "cl_has_conn (own_part ch) = ch_has_conn ch"
  by (simp_all add: own_part_def)

lemma accounted_connect:
  assumes "accounted w" and "u \<notin> dom (w_clients w)" and "u \<notin> w_lost w"
  shows "accounted (put_local u (NewConnection u now now' host (w_shared w)) w)"
  using assms unfolding accounted_def present_def
  by (auto simp: NewConnection_def NewSession_def AddSession_def put_session_def Let_def)

lemma pool_after_keeps:
  assumes "keeps env ch ch'" and "s_id (ch_session ch) = u" and "ch_has_conn ch \<or> pl_session_conns (h_pool ch) u = None"
  shows "pl_mode (h_pool ch') = pl_mode (h_pool ch)
    \<and> (\<forall>j. j \<noteq> u \<longrightarrow> pl_session_conns (h_pool ch') j = pl_session_conns (h_pool ch) j)
    \<and> (ch_has_conn ch' \<or> pl_session_conns (h_pool ch') u = None)"
  using assms unfolding keeps_def acquires_def by (auto dest: acquire_pool)

lemma dom_but_one: "\<forall>j. j \<noteq> u \<longrightarrow> f j = g j \<Longrightarrow> dom g \<subseteq> A \<Longrightarrow> dom f \<subseteq> insert u A"
  by (auto simp: dom_def) (metis (mono_tags) mem_Collect_eq option.distinct(1) subset_iff)

lemma accounted_command:
  assumes "accounted w" and "w_clients w u = Some cl" and "not_quit cmd"
  shows "accounted (put_local u (client_step env cmd (attach (w_shared w) cl)) w)"
proof -
  let ?ch' = "client_step env cmd (attach (w_shared w) cl)"
  have k: "keeps env (attach (w_shared w) cl) ?ch'" by (rule client_step_keeps [OF assms(3)])
  have u: "s_id (cl_session cl) = u" using assms(1,2) by (simp add: accounted_def)
  have d: "insert u (dom (w_clients w)) = dom (w_clients w)" using assms(2) by auto
  have "cl_has_conn cl \<or> pl_session_conns (h_pool (w_shared w)) u = None" using assms(1,2) by (simp add: accounted_def)
  then have pool: "pl_mode (h_pool ?ch') = pl_mode (h_pool (w_shared w))
      \<and> (\<forall>j. j \<noteq> u \<longrightarrow> pl_session_conns (h_pool ?ch') j = pl_session_conns (h_pool (w_shared w)) j)
      \<and> (ch_has_conn ?ch' \<or> pl_session_conns (h_pool ?ch') u = None)"
    using pool_after_keeps [OF k, of u] u by simp
  have "dom (pl_session_conns (h_pool (w_shared w))) \<subseteq> present w" using assms(1) by (simp add: accounted_def)
  then have "dom (pl_session_conns (h_pool ?ch')) \<subseteq> insert u (present w)"
    using pool by (intro dom_but_one) auto
  then have "dom (pl_session_conns (h_pool ?ch')) \<subseteq> present w"
    using assms(2) by (auto simp: present_def)
  then show ?thesis
    using assms(1,2) k pool u d unfolding accounted_def present_def keeps_def by auto
qed

lemma close_frees:
  assumes "accounted w" and "w_clients w u = Some cl" and "ch = CloseHandler env (attach (w_shared w) cl)"
  shows "h_active ch = h_active (w_shared w) - 1
    \<and> m_sessions (h_manager ch) = (m_sessions (h_manager (w_shared w)))(u := None)
    \<and> pl_mode (h_pool ch) = pl_mode (h_pool (w_shared w))
    \<and> (\<forall>k. pl_session_conns (h_pool ch) k = (if k = u then None else pl_session_conns (h_pool (w_shared w)) k))"
proof -
  have u: "s_id (cl_session cl) = u" and d: "dedicated (pl_mode (h_pool (w_shared w)))"
    and c: "cl_has_conn cl \<or> pl_session_conns (h_pool (w_shared w)) u = None"
    and m: "m_sessions (h_manager (w_shared w)) u \<noteq> None"
    using assms(1,2) by (auto simp: accounted_def present_def)
  have "m_sessions (h_manager ch) = (m_sessions (h_manager (w_shared w)))(u := None)"
    using m unfolding assms(3) CloseHandler_def Let_def
    by (auto simp: u GetSession_def put_session_def RemoveSession_def split: prod.splits option.splits)
  moreover have "pl_mode (h_pool ch) = pl_mode (h_pool (w_shared w))"
    unfolding assms(3) CloseHandler_def Let_def
    by (auto simp: ReleaseForSession_def split: option.splits)
  moreover have "pl_session_conns (h_pool ch) k = (if k = u then None else pl_session_conns (h_pool (w_shared w)) k)" for k
    unfolding assms(3) CloseHandler_def Let_def
    using c by (auto simp: u lookup_release [OF d])
  ultimately show ?thesis
    unfolding assms(3) by (simp add: CloseHandler_def Let_def)
qed

lemma accounted_close:
  assumes "accounted w" and "w_clients w u = Some cl"
  shows "accounted (w\<lparr>w_shared := handler.truncate (CloseHandler env (attach (w_shared w) cl)), w_clients := (w_clients w)(u := None)\<rparr>)"
proof -
  have f: "finite (dom (w_clients w))" "u \<in> dom (w_clients w)" "u \<notin> w_lost w"
    using assms by (auto simp: accounted_def)
  then have "0 < card (dom (w_clients w))" by (auto simp: card_gt_0_iff)
  then have n: "int (card (dom (w_clients w) - {u})) = int (card (dom (w_clients w))) - 1"
    using f by (simp add: of_nat_diff)
  have "dom (pl_session_conns (h_pool (CloseHandler env (attach (w_shared w) cl)))) \<subseteq> present w - {u}"
  proof -
    have "k \<in> present w - {u}" if "pl_session_conns (h_pool (CloseHandler env (attach (w_shared w) cl))) k = Some c" for k c
      using that close_frees [OF assms refl, of env] assms(1) unfolding accounted_def by (cases "k = u") auto
    then show ?thesis by auto
  qed
  then show ?thesis
    using assms close_frees [OF assms refl, of env] f n unfolding accounted_def present_def
    by (auto split: if_splits)
qed

lemma accounted_lost:
  assumes "accounted w" and "w_clients w u = Some cl"
  shows "accounted (leave_behind u cl w)"
proof -
  have f: "finite (dom (w_clients w))" "finite (w_lost w)" "u \<in> dom (w_clients w)" "u \<notin> w_lost w"
    using assms by (auto simp: accounted_def)
  then have "card (dom (w_clients w) - {u}) + card (insert u (w_lost w)) = card (dom (w_clients w)) + card (w_lost w)"
    by (metis add_Suc_right add_Suc_shift card_Suc_Diff1 card_insert_disjoint)
  then show ?thesis
    using assms f unfolding accounted_def present_def leave_behind_def put_session_def by (auto split: if_splits)
qed

lemma accounted_step: "world_step env w w' \<Longrightarrow> accounted w \<Longrightarrow> accounted w'"
  by (induction rule: world_step.induct) (blast intro: accounted_connect accounted_command accounted_close accounted_lost)+

interpretation books: world_invariant accounted env for env
  by unfold_locales (rule accounted_step)

definition started :: "'c proxy \<Rightarrow> 'c world" where
  "started px = \<lparr>w_shared = px_handler px, w_clients = Map.empty, w_lost = {}\<rparr>"

lemma accounted_started:
  assumes "start_proxy out unmarshal file = Inr px" and "dedicated (pl_mode (h_pool (px_handler px)))"
  shows "accounted (started px)"
  using start_proxy_facts [OF assms(1)] assms(2)
  by (auto simp: started_def accounted_def present_def NewManager_def dest: new_pool_empty)

text \<open>C3: Clients are accounted for. In every state that a started proxy with dedicated connections reaches through any interleaving of
  connects, commands, closes and losses, the gauge counts the connected and the lost clients, the manager holds exactly their sessions, and the
  pool holds dedicated connections for none but them; while no client is lost, the gauge is the number of clients.\<close>

theorem clients_accounted:
  assumes "start_proxy out unmarshal file = Inr px" and "dedicated (pl_mode (h_pool (px_handler px)))"
    and "reachable env (started px) w"
  shows "h_active (w_shared w) = int (card (dom (w_clients w)) + card (w_lost w))
    \<and> dom (m_sessions (h_manager (w_shared w))) = dom (w_clients w) \<union> w_lost w
    \<and> dom (pl_session_conns (h_pool (w_shared w))) \<subseteq> dom (w_clients w) \<union> w_lost w"
  using books.inv_reachable [OF assms(3) accounted_started [OF assms(1,2)]]
  by (simp add: accounted_def present_def)

text \<open>A client that connects, sends a command and is lost stays in the gauge and in the manager.\<close>

theorem clients_accounted_witness:
  "\<exists>px w. start_proxy demo_outside misspelt NoSuchFile = Inr px \<and> reachable demo_env (started px) w
     \<and> w_clients w = Map.empty \<and> h_active (w_shared w) = 1 \<and> dom (m_sessions (h_manager (w_shared w))) = {''a''}"
proof -
  obtain px where px: "start_proxy demo_outside misspelt NoSuchFile = Inr px" "dedicated (pl_mode (h_pool (px_handler px)))"
    using default_starts by blast
  let ?w1 = "put_local ''a'' (NewConnection ''a'' 0 0 ''127.0.0.1'' (w_shared (started px))) (started px)"
  obtain cl where cl: "w_clients ?w1 ''a'' = Some cl" by simp
  let ?w2 = "put_local ''a'' (client_step demo_env (CmdPrepare ''DO 1'') (attach (w_shared ?w1) cl)) ?w1"
  obtain cl2 where cl2: "w_clients ?w2 ''a'' = Some cl2" by simp
  let ?w3 = "leave_behind ''a'' cl2 ?w2"
  have 1: "world_step demo_env (started px) ?w1" by (rule connects) (simp_all add: started_def)
  have 2: "world_step demo_env ?w1 ?w2" by (rule commands [OF cl]) (simp add: not_quit_def)
  have 3: "world_step demo_env ?w2 ?w3" by (rule is_lost [OF cl2])
  have r: "reachable demo_env (started px) ?w3"
    by (intro reach_step [OF reach_step [OF reach_step [OF reach_start 1] 2] 3])
  obtain w where w: "reachable demo_env (started px) w" "w_clients w = Map.empty" "w_lost w = {''a''}"
    using r that by (simp add: started_def leave_behind_def)
  have "h_active (w_shared w) = 1" "dom (m_sessions (h_manager (w_shared w))) = {''a''}"
    using clients_accounted [OF px w(1)] w(2,3) by simp_all
  then show ?thesis using px(1) w(1,2) by blast
qed

end
