(* ===== verification/Proxy_Shutdown.thy ===== *)
theory Proxy_Shutdown
  imports Proxy_Clients
begin

text \<open>
  The end of the proxy, \<open>cmd/aproxy/main.go\<close>: on a signal the sessions of the manager are removed one after the other, then the deferred call
  closes the pool. The iteration orders of the two maps are arguments. Goroutines of clients may still run while the program ends; here no
  command comes in between. Shows that no session is left behind, those of lost clients included, and what happens to each connection.
\<close>

section \<open>Health\<close>

text \<open>The answer of \<open>/health\<close>: status code and body; the argument says whether PostgreSQL answered the ping.\<close>

definition health :: "bool \<Rightarrow> nat \<times> string" where
  "health pinged = (if \<not> pinged then (503, ''PostgreSQL unhealthy'') else (200, ''OK''))"

section \<open>Shutdown\<close>

text \<open>The manager points to the sessions that the connected clients work on.\<close>

definition current_manager :: "'c world \<Rightarrow> 'c manager" where
  "current_manager w =
     (h_manager (w_shared w))\<lparr>m_sessions := (\<lambda>k. case w_clients w k of
        Some cl \<Rightarrow> map_option (\<lambda>_. cl_session cl) (m_sessions (h_manager (w_shared w)) k)
      | None \<Rightarrow> m_sessions (h_manager (w_shared w)) k)\<rparr>"

definition close_sessions :: "'c henv \<Rightarrow> 'c session list \<Rightarrow> 'c manager \<Rightarrow> 'c manager" where
  "close_sessions env = fold (\<lambda>s. RemoveSession (plain_exec (he_backend env)) (he_close env) (s_id s))"

definition shutdown :: "'c henv \<Rightarrow> string list \<Rightarrow> string list \<Rightarrow> 'c world \<Rightarrow> 'c handler" where
  "shutdown env order order' w =
     (let m = current_manager w; sessions = GetAllSessions order m
      in (w_shared w)\<lparr>h_manager := close_sessions env sessions m, h_pool := ClosePool order' (h_pool (w_shared w))\<rparr>)"

section \<open>Nothing is left\<close>

definition given_up :: "'c henv \<Rightarrow> 'c session \<Rightarrow> 'c option" where
  "given_up env s = fst (snd (Close (plain_exec (he_backend env)) (he_close env) s))"

lemma close_sessions_all:
  assumes "distinct (map s_id ss)" and "\<forall>s \<in> set ss. m_sessions m (s_id s) = Some s"
  shows "m_sessions (close_sessions env ss m) = m_sessions m |` (- s_id ` set ss)
    \<and> m_closed (close_sessions env ss m) = m_closed m @ map (given_up env) ss"
  using assms
proof (induction ss arbitrary: m)
  case Nil
  then show ?case by (simp add: close_sessions_def)
next
  case (Cons s ss)
  let ?m = "RemoveSession (plain_exec (he_backend env)) (he_close env) (s_id s) m"
  have m: "m_sessions ?m = (m_sessions m)(s_id s := None)" "m_closed ?m = m_closed m @ [given_up env s]"
    using Cons.prems by (auto simp: RemoveSession_def given_up_def split: prod.splits)
  then have "\<forall>t \<in> set ss. m_sessions ?m (s_id t) = Some t"
    using Cons.prems by (force simp: image_iff)
  then show ?case
    using Cons.IH [of ?m] Cons.prems m by (auto simp: close_sessions_def restrict_map_def fun_eq_iff)
qed

lemma all_sessions_ids:
  assumes "\<forall>k s. m_sessions m k = Some s \<longrightarrow> s_id s = k"
  shows "map s_id (GetAllSessions order m) = filter (\<lambda>k. k \<in> dom (m_sessions m)) order"
  using assms by (induction order) (auto simp: GetAllSessions_def List.map_filter_def)

lemma all_sessions_set: "set (GetAllSessions order m) = {s. \<exists>k \<in> set order. m_sessions m k = Some s}"
  by (auto simp: GetAllSessions_def List.map_filter_def image_iff) force

lemma current_manager_dom:
  assumes "accounted w"
  shows "dom (m_sessions (current_manager w)) = dom (w_clients w) \<union> w_lost w"
proof -
  have "dom (m_sessions (current_manager w)) = dom (m_sessions (h_manager (w_shared w)))"
    by (auto simp: current_manager_def split: option.splits)
  then show ?thesis using assms by (simp add: accounted_def present_def)
qed

lemma current_manager_ids:
  "accounted w \<Longrightarrow> m_sessions (current_manager w) k = Some s \<Longrightarrow> s_id s = k"
  by (auto simp: accounted_def current_manager_def split: option.splits)

text \<open>What becomes of the connection of a session: rolled back if the session's flag says that a transaction is open, and closed.\<close>

lemma given_up_eq:
  "given_up env s = map_option (\<lambda>c. snd (he_close env (if s_in_transaction s then snd (plain_exec (he_backend env) ''ROLLBACK'' c) else c))) (s_pg_conn s)"
  by (simp add: given_up_def Close_def Let_def split_def split: option.split)

text \<open>A session whose flag covers its connection gives up a connection without a transaction, if PostgreSQL accepts the ROLLBACK.\<close>

lemma given_up_clean:
  assumes "pg_transactions (plain_exec (he_backend env)) tx" and "\<And>c. fst (plain_exec (he_backend env) ''ROLLBACK'' c)"
    and "\<And>c. tx (snd (he_close env c)) \<longrightarrow> tx c" and "covers tx s \<or> s_pg_conn s = None" and "given_up env s = Some c"
  shows "\<not> tx c"
proof -
  have "\<not> tx (snd (plain_exec (he_backend env) ''ROLLBACK'' c))" for c
    using assms(1,2) unfolding pg_transactions_def by (metis prod.collapse)
  then show ?thesis
    using assms(3-5) by (auto simp: given_up_def Close_def covers_def Let_def case_prod_beta split: option.splits if_splits)
qed

text \<open>C6: Shutdown leaves nothing behind. From every state that a started proxy with dedicated connections reaches through any interleaving of
  clients, the shutdown empties the manager and the pool and closes the session of each connected and each lost client exactly once: the connection of
  a session, where it has one, is sent a ROLLBACK if and only if the session's flag says that a transaction is open, and is then closed,
  whatever PostgreSQL answers.\<close>

theorem shutdown_complete:
  assumes "start_proxy out unmarshal file = Inr px" and "dedicated (pl_mode (h_pool (px_handler px)))"
    and "reachable env (started px) w"
    and "distinct order" and "set order = dom (m_sessions (current_manager w))"
    and "set order' = dom (pl_session_conns (h_pool (w_shared w)))"
    and "h = shutdown env order order' w"
  shows "m_sessions (h_manager h) = Map.empty \<and> pl_session_conns (h_pool h) = Map.empty \<and> \<not> pl_open (h_pool h)
    \<and> (\<exists>ss. distinct (map s_id ss) \<and> set (map s_id ss) = dom (w_clients w) \<union> w_lost w
          \<and> (\<forall>s \<in> set ss. m_sessions (current_manager w) (s_id s) = Some s)
          \<and> m_closed (h_manager h) = m_closed (h_manager (w_shared w))
              @ map (\<lambda>s. map_option (\<lambda>c. snd (he_close env
                       (if s_in_transaction s then snd (plain_exec (he_backend env) ''ROLLBACK'' c) else c))) (s_pg_conn s)) ss)"
proof -
  let ?m = "current_manager w" and ?ss = "GetAllSessions order (current_manager w)"
  have acc: "accounted w" using books.inv_reachable [OF assms(3) accounted_started [OF assms(1,2)]] .
  have ids: "map s_id ?ss = order"
    using all_sessions_ids [of ?m order] current_manager_ids [OF acc] assms(5) by (auto simp: filter_id_conv)
  have mem: "s \<in> set ?ss \<Longrightarrow> m_sessions ?m (s_id s) = Some s" for s
    using current_manager_ids [OF acc] by (auto simp: all_sessions_set)
  have h: "h_manager h = close_sessions env ?ss ?m" by (simp add: assms(7) shutdown_def Let_def)
  have "m_sessions (close_sessions env ?ss ?m) = Map.empty"
    and closed: "m_closed (close_sessions env ?ss ?m) = m_closed (h_manager (w_shared w)) @ map (given_up env) ?ss"
    using close_sessions_all [of ?ss ?m env] ids assms(4,5) mem
    by (auto simp: fun_eq_iff restrict_map_def current_manager_def [of w, THEN arg_cong, of m_closed] simp flip: set_map)
  moreover have "pl_session_conns (h_pool h) = Map.empty" "\<not> pl_open (h_pool h)"
    by (auto simp: assms(6,7) shutdown_def ClosePool_def Let_def fun_eq_iff restrict_map_def domIff)
  moreover have "distinct (map s_id ?ss)" "set (map s_id ?ss) = dom (w_clients w) \<union> w_lost w"
    using assms(4,5) current_manager_dom [OF acc] unfolding ids by simp_all
  ultimately show ?thesis
    using mem unfolding h closed by (intro conjI exI [of _ ?ss]) (simp_all add: given_up_eq)
qed

text \<open>
  The flag follows the statements that the handler recognises. A \<open>BEGIN\<close> with a semicolon is none of them: it goes to PostgreSQL as any other statement,
  and the session does not know of the transaction it opens.
\<close>

lemma begin_with_semicolon:
  "\<not> IsBeginStatement ''BEGIN;''" "\<not> IsBeginStatement ''start transaction;''" "\<not> IsCommitStatement ''COMMIT;''"
  by code_simp+

text \<open>A client begins a transaction and is lost: the shutdown rolls its transaction back.\<close>

lemma demo_begin_dispatch:
  "\<not> IsShowStatement ''BEGIN''" "\<not> IsSetStatement ''BEGIN''" "\<not> IsUseStatement ''BEGIN''" "\<not> isDatabaseStatement ''BEGIN''"
  "IsBeginStatement ''BEGIN''"
  by code_simp+

lemma begin_opens:
  assumes "dedicated (pl_mode (h_pool h))" and "pl_session_conns (h_pool h) = Map.empty"
    and "ch = client_step demo_env (CmdQuery 0 0 0 ''BEGIN'') (NewConnection u now now' host h)"
  shows "s_pg_conn (ch_session ch) = Some True \<and> s_in_transaction (ch_session ch)
    \<and> m_closed (h_manager ch) = m_closed (h_manager h) \<and> dom (pl_session_conns (h_pool ch)) = {u}"
  using assms
  by (simp add: HandleQuery_def StartRequest_def ensurePGConn_def NewConnection_def demo_env_def AcquireForSession_def with_conn_def
      SetPGConn_def dispatch_def demo_begin_dispatch handleSelectVariable_def ParseSelectVariable_def first_stmt_def run_transaction_def
      BeginTransaction_def run_exec_def plain_exec_def flag_exec_def search_path_sql_def NewSession_def AddSession_def put_session_def Let_def
      put_conn_def)

theorem shutdown_complete_witness:
  "\<exists>px w s h. start_proxy demo_outside misspelt NoSuchFile = Inr px \<and> reachable demo_env (started px) w
     \<and> w_lost w = {''a''} \<and> m_sessions (current_manager w) ''a'' = Some s \<and> s_pg_conn s = Some True
     \<and> h = shutdown demo_env [''a''] [''a''] w \<and> m_sessions (h_manager h) = Map.empty \<and> m_closed (h_manager h) = [Some False]"
proof -
  obtain px where px: "start_proxy demo_outside misspelt NoSuchFile = Inr px" "dedicated (pl_mode (h_pool (px_handler px)))"
    using default_starts by blast
  note facts = start_proxy_facts [OF px(1)]
  have pool: "pl_session_conns (h_pool (px_handler px)) = Map.empty" using facts new_pool_empty by blast
  let ?ch1 = "NewConnection ''a'' 0 0 ''127.0.0.1'' (px_handler px)"
  let ?w1 = "put_local ''a'' ?ch1 (started px)"
  define ch2 where "ch2 = client_step demo_env (CmdQuery 0 0 0 ''BEGIN'') ?ch1"
  let ?w2 = "put_local ''a'' ch2 ?w1"
  define w where "w = leave_behind ''a'' (own_part ch2) ?w2"
  have a: "attach (w_shared ?w1) (own_part ?ch1) = ?ch1" by (simp add: attach_def own_part_def handler.truncate_def)
  have 1: "world_step demo_env (started px) ?w1"
    using connects [of "''a''" "started px" demo_env 0 0 "''127.0.0.1''"] by (simp add: started_def)
  have 2: "world_step demo_env ?w1 ?w2"
    using commands [of ?w1 "''a''" "own_part ?ch1" "CmdQuery 0 0 0 ''BEGIN''" demo_env] unfolding a ch2_def by (simp add: not_quit_def)
  have 3: "world_step demo_env ?w2 w" unfolding w_def by (rule is_lost) simp
  have r: "reachable demo_env (started px) w"
    by (intro reach_step [OF reach_step [OF reach_step [OF reach_start 1] 2] 3])
  have c: "s_pg_conn (ch_session ch2) = Some True" "s_in_transaction (ch_session ch2)" "m_closed (h_manager ch2) = []"
    "dom (pl_session_conns (h_pool ch2)) = {''a''}"
    using begin_opens [OF px(2) _ ch2_def] pool facts by (simp_all add: NewManager_def)
  have f: "w_lost w = {''a''}" "w_clients w = Map.empty" "m_closed (h_manager (w_shared w)) = []"
    "dom (pl_session_conns (h_pool (w_shared w))) = {''a''}" "m_sessions (current_manager w) ''a'' = Some (ch_session ch2)"
    using c(3,4) by (simp_all add: w_def leave_behind_def started_def put_session_def current_manager_def own_part_def)
  have o: "set [''a''] = dom (m_sessions (current_manager w))" "set [''a''] = dom (pl_session_conns (h_pool (w_shared w)))"
    using f current_manager_dom [OF books.inv_reachable [OF r accounted_started [OF px]]] by auto
  from shutdown_complete [OF px r _ o refl] obtain ss where e: "m_sessions (h_manager (shutdown demo_env [''a''] [''a''] w)) = Map.empty"
    "distinct (map s_id ss)" "set (map s_id ss) = {''a''}" "\<forall>s \<in> set ss. m_sessions (current_manager w) (s_id s) = Some s"
    "m_closed (h_manager (shutdown demo_env [''a''] [''a''] w)) = map (\<lambda>s. map_option (\<lambda>c. snd (he_close demo_env
       (if s_in_transaction s then snd (plain_exec (he_backend demo_env) ''ROLLBACK'' c) else c))) (s_pg_conn s)) ss"
    unfolding f(1-3) by auto
  have "ss = [ch_session ch2]"
    using e(2-4) f(5) by (cases ss; cases "tl ss") auto
  then have "m_closed (h_manager (shutdown demo_env [''a''] [''a''] w)) = [Some False]"
    using e(5) c(1,2) by (simp add: demo_env_def plain_exec_def flag_exec_def flag_close_def)
  then show ?thesis using px(1) r f(1,5) c(1) e(1) by blast
qed

end
