(* ===== verification/Handler_Panics.thy ===== *)
theory Handler_Panics
  imports Handler_Life
begin

text \<open>
  When a query makes the handler panic. The handler calls methods of its PostgreSQL connection without looking whether it is nil:
  shows that it never is, through any sequence of commands, so the only panics are those of INSERT statements and of the TiDB parser, which
  the handler calls on almost every query without recovering.
\<close>

section \<open>The connection stays\<close>

definition live :: "'c conn_handler \<Rightarrow> bool" where
  "live ch \<longleftrightarrow> s_pg_conn (ch_session ch) \<noteq> None"

text \<open>A reply that does not come from a nil connection or from an index out of range.\<close>

definition sound :: "'r reply \<Rightarrow> bool" where
  "sound r \<longleftrightarrow> r \<noteq> Panic \<and> r \<noteq> Refuse NilConnection"

lemma sound_simps [simp]:
  "sound (Reply x)" "\<not> sound Panic" "sound Hang" "sound (Refuse (mapped_error e))" "sound (Refuse (MySQLError c m))"
  "sound (Refuse (PgFailed p))" "sound (Refuse (ShowFailed s))" "sound (Refuse (PlainError t))" "sound (Refuse (PoolFailed f))"
  "sound (Refuse (SearchPathFailed d p))" "sound (Refuse BuildFailed)"
  by (auto simp: sound_def mapped_error_def Let_def split: prod.splits)

lemma live_updates [simp]:
  "live (inc_error k ch) = live ch" "live (ch\<lparr>h_cache := x\<rparr>) = live ch" "live (ch\<lparr>h_overrides := y\<rparr>) = live ch"
  "live (ch\<lparr>ch_search_path_set := b\<rparr>) = live ch" "live (ch\<lparr>h_tracker := t\<rparr>) = live ch"
  "live (ch\<lparr>h_total_queries := n\<rparr>) = live ch"
  "live (ch\<lparr>ch_session := SetSessionVar k' v (ch_session ch)\<rparr>) = live ch"
  "live (ch\<lparr>ch_session := MarkTableHasAutoIncrement tbl col (ch_session ch)\<rparr>) = live ch"
  "live (ch\<lparr>ch_session := AddPreparedStatement p (ch_session ch)\<rparr>) = live ch"
  "live (ch\<lparr>ch_session := RemovePreparedStatement q (ch_session ch)\<rparr>) = live ch"
  by (simp_all add: live_def inc_error_def SetSessionVar_def MarkTableHasAutoIncrement_def AddPreparedStatement_def put_stmt_def
      RemovePreparedStatement_def)

named_theorems live_ops \<open>a command on a live connection keeps it and gives a sound reply\<close>

lemma with_conn_live [live_ops]: "with_conn f ch = (r, ch') \<Longrightarrow> live ch \<Longrightarrow> live ch' \<and> r \<noteq> None"
  by (auto simp: with_conn_def live_def Let_def split: option.splits prod.splits)

lemma session_conn_kept:
  "SetAutocommit exec b s = (r, s') \<Longrightarrow> s_pg_conn s \<noteq> None \<Longrightarrow> s_pg_conn s' \<noteq> None"
  "BeginTransaction exec s = (r, s') \<Longrightarrow> s_pg_conn s \<noteq> None \<Longrightarrow> s_pg_conn s' \<noteq> None"
  "CommitTransaction exec s = (r, s') \<Longrightarrow> s_pg_conn s \<noteq> None \<Longrightarrow> s_pg_conn s' \<noteq> None"
  "RollbackTransaction exec s = (r, s') \<Longrightarrow> s_pg_conn s \<noteq> None \<Longrightarrow> s_pg_conn s' \<noteq> None"
  by (auto simp: session_ops split: if_splits prod.splits option.splits)

lemma session_live: "s_pg_conn s \<noteq> None \<Longrightarrow> live (ch\<lparr>ch_session := s\<rparr>)"
  by (simp add: live_def)

lemma reply_of_sound [simp]: "sound (reply_of (buildMySQLResult env rows b))"
  by (auto simp: reply_of_def buildMySQLResult_def Let_def split: sum.splits option.splits)

lemma exec_reply_live [live_ops]: "exec_reply env sql ch = (r, ch') \<Longrightarrow> live ch \<Longrightarrow> live ch' \<and> sound r"
  unfolding exec_reply_def by (auto split: sum.splits prod.splits option.splits dest!: live_ops)

lemma handleShowCommand_live [live_ops]: "handleShowCommand env q ch = (r, ch') \<Longrightarrow> live ch \<Longrightarrow> live ch' \<and> sound r"
  unfolding handleShowCommand_def with_conn_def live_def
  by (auto simp: show_never_slices split: show_error.splits sum.splits prod.splits option.splits)

lemma run_exec_stmt_live [live_ops]: "run_exec_stmt env sql args ch = (r, ch') \<Longrightarrow> live ch \<Longrightarrow> live ch' \<and> sound r"
  unfolding run_exec_stmt_def by (auto split: sum.splits prod.splits option.splits dest!: live_ops)

lemma run_select_live [live_ops]: "run_select env sql args b ch = (r, ch') \<Longrightarrow> live ch \<Longrightarrow> live ch' \<and> sound r"
  unfolding run_select_def by (auto split: sum.splits prod.splits option.splits dest!: live_ops)

text \<open>Where the handler parses the statement, the parser may panic.\<close>

definition sound_unless :: "bool \<Rightarrow> 'r reply \<Rightarrow> bool" where
  "sound_unless p r \<longleftrightarrow> sound r \<or> (r = Panic \<and> p)"

lemma sound_unless_simps [simp]:
  "sound r \<Longrightarrow> sound_unless p r" "sound_unless p Panic \<longleftrightarrow> p" "sound_unless p (Refuse e :: 'r reply) \<longleftrightarrow> sound (Refuse e :: 'r reply)"
  by (auto simp: sound_unless_def)

abbreviation parser_panic :: "'c henv \<Rightarrow> string \<Rightarrow> bool" where
  "parser_panic env q \<equiv> he_parse env q = ParserPanics"

lemma handleKillCommand_live [live_ops]:
  "handleKillCommand env q ch = (r, ch') \<Longrightarrow> live ch \<Longrightarrow> live ch' \<and> sound_unless (parser_panic env q) r"
  unfolding handleKillCommand_def by (auto simp: parser_panics split: parsed.splits prod.splits option.splits dest!: live_ops)

lemma handleDatabaseCommand_live [live_ops]: "handleDatabaseCommand env q ch = (r, ch') \<Longrightarrow> live ch \<Longrightarrow> live ch' \<and> sound r"
  unfolding handleDatabaseCommand_def Let_def by (auto split: if_splits dest!: live_ops)

lemma handleSelectVariable_live [live_ops]:
  "handleSelectVariable env q ch = (r, ch') \<Longrightarrow> live ch \<Longrightarrow> live ch' \<and> sound_unless (parser_panic env q) r"
  unfolding handleSelectVariable_def Let_def
  by (auto simp: parser_panics split: parsed.splits prod.splits option.splits sum.splits dest!: live_ops)

lemma UseDB_live [live_ops]:
  "UseDB env db ch = (r, ch') \<Longrightarrow> live ch \<Longrightarrow> live ch' \<and> r \<noteq> Some NilConnection"
  unfolding UseDB_def Let_def live_def with_conn_def
  by (auto split: if_splits sum.splits prod.splits option.splits)

lemma handleUseCommand_live [live_ops]: "handleUseCommand env q ch = (r, ch') \<Longrightarrow> live ch \<Longrightarrow> live ch' \<and> sound r"
  unfolding handleUseCommand_def sound_def by (auto split: list.splits prod.splits option.splits dest!: live_ops)

lemma set_autocommit_live [live_ops]:
  "set_autocommit env n v ch = (r, ch') \<Longrightarrow> live ch \<Longrightarrow> live ch' \<and> r \<noteq> Some NilConnection"
  unfolding set_autocommit_def live_def
  by (auto simp: inc_error_def SetSessionVar_def split: sum.splits prod.splits dest!: session_conn_kept(1))

lemma set_global_live [live_ops]: "set_global env v ch = (r, ch') \<Longrightarrow> live ch \<Longrightarrow> live ch' \<and> r \<noteq> Some NilConnection"
  unfolding set_global_def live_def by (auto split: prod.splits option.splits)

lemma set_session_live [live_ops]: "set_session env v ch = (r, ch') \<Longrightarrow> live ch \<Longrightarrow> live ch' \<and> r \<noteq> Some NilConnection"
  unfolding set_session_def Let_def by (auto split: if_splits prod.splits option.splits dest!: live_ops)

lemma set_vars_live [live_ops]: "set_vars env vs ch = (r, ch') \<Longrightarrow> live ch \<Longrightarrow> live ch' \<and> sound r"
proof (induction vs arbitrary: ch)
  case (Cons v vs)
  then show ?case
    by (auto simp: Let_def sound_def split: if_splits prod.splits option.splits dest!: live_ops)
qed auto

lemma set_plain_live [live_ops]: "set_plain env kvs ch = (r, ch') \<Longrightarrow> live ch \<Longrightarrow> live ch' \<and> sound r"
proof (induction kvs arbitrary: ch)
  case (Cons kv kvs)
  then show ?case
    by (cases kv) (auto simp: sound_def split: if_splits prod.splits option.splits dest!: live_ops)
qed auto

lemma handleSetCommand_live [live_ops]:
  "handleSetCommand env q ch = (r, ch') \<Longrightarrow> live ch \<Longrightarrow> live ch' \<and> sound_unless (parser_panic env q) r"
  unfolding handleSetCommand_def by (auto simp: parser_panics split: parsed.splits sum.splits dest!: live_ops)

lemma run_transaction_live [live_ops]:
  "run_transaction BeginTransaction env ch = (r, ch') \<Longrightarrow> live ch \<Longrightarrow> live ch' \<and> sound r"
  "run_transaction CommitTransaction env ch = (r, ch') \<Longrightarrow> live ch \<Longrightarrow> live ch' \<and> sound r"
  "run_transaction RollbackTransaction env ch = (r, ch') \<Longrightarrow> live ch \<Longrightarrow> live ch' \<and> sound r"
  unfolding run_transaction_def live_def inc_error_def
  by (auto split: sum.splits prod.splits dest!: session_conn_kept)

section \<open>Inserts\<close>

text \<open>An INSERT panics where its table name is cut off behind the end of the text, and where the schema cache holds a nil entry for the table.\<close>

definition insert_panics :: "string \<Rightarrow> 'c conn_handler \<Rightarrow> bool" where
  "insert_panics query ch \<longleftrightarrow>
     (case extractInsertTableName query of
        None \<Rightarrow> True
      | Some t \<Rightarrow> LoadTable (h_cache ch) (buildTableCacheKey (s_database (ch_session ch)) t) = Some None)"

lemma queryAutoIncrementColumn_conn:
  "queryAutoIncrementColumn bk conn s t = (col, conn') \<Longrightarrow> conn \<noteq> None \<Longrightarrow> conn' \<noteq> None"
  by (auto simp: queryAutoIncrementColumn_def split: option.splits prod.splits sum.splits)

lemma session_auto_increment_live:
  assumes "session_auto_increment env now now' t ch = (r, ch')" and "live ch"
  shows "live ch' \<and> (r = None \<longrightarrow> LoadTable (h_cache ch) (buildTableCacheKey (s_database (ch_session ch)) t) = Some None)"
  using assms unfolding session_auto_increment_def GetAutoIncrementColumn_def live_def Let_def
  by (auto split: option.splits prod.splits if_splits dest: queryAutoIncrementColumn_conn simp del: not_None_eq)

lemma run_insert_live:
  assumes "run_insert env now now' q sql args ch = (r, ch')" and "live ch"
  shows "live ch' \<and> (sound r \<or> r = Panic \<and> insert_panics q ch)"
proof (cases "extractInsertTableName q")
  case None
  then show ?thesis using assms by (simp add: run_insert_def insert_panics_def)
next
  case (Some t)
  obtain o1 c1 where s: "session_auto_increment env now now' t ch = (o1, c1)" by fastforce
  note l = session_auto_increment_live [OF s assms(2)]
  show ?thesis
  proof (cases o1)
    case None
    then show ?thesis using assms(1) l s Some by (simp add: run_insert_def insert_panics_def)
  next
    case (Some col)
    then show ?thesis
      using assms(1) l s \<open>extractInsertTableName q = Some t\<close> unfolding run_insert_def
      by (auto split: if_splits prod.splits option.splits sum.splits dest!: live_ops)
  qed
qed

lemma note_ddl_live [simp]: "live (note_ddl u q ch) = live ch"
  by (simp add: note_ddl_def live_def MarkTableHasAutoIncrement_def Let_def)

lemma count_refused_live: "count_refused (r, ch) = (r', ch') \<Longrightarrow> live ch' = live ch \<and> sound r' = sound r \<and> (r' = Panic \<longleftrightarrow> r = Panic)"
  by (auto simp: count_refused_def split: reply.splits)

lemma count_select_live: "count_select (r, ch) = (r', ch') \<Longrightarrow> live ch' = live ch \<and> sound r' = sound r \<and> (r' = Panic \<longleftrightarrow> r = Panic)"
  by (auto simp: count_select_def split: reply.splits handler_error.splits)

lemma run_write_live:
  assumes "run_write env now now' q sql ch = (r, ch')" and "live ch"
  shows "live ch' \<and> (sound r \<or> r = Panic \<and> HasPrefix (upper_trimmed q) ''INSERT'' \<and> insert_panics q ch)"
proof -
  obtain r1 c1 where 1: "run_insert env now now' q sql [] ch = (r1, c1)" by fastforce
  obtain r2 c2 where 2: "run_exec_stmt env sql [] ch = (r2, c2)" by fastforce
  show ?thesis
    using assms(1) run_insert_live [OF 1 assms(2)] run_exec_stmt_live [OF 2 assms(2)] unfolding run_write_def Let_def 1 2
    by (auto simp: upper_trimmed_def split: if_splits reply.splits dest!: count_refused_live)
qed

lemma rewritten_query_live:
  assumes "rewritten_query env now now' q ch = (r, ch')" and "live ch"
  shows "live ch' \<and> (sound r \<or> r = Panic \<and> HasPrefix (upper_trimmed q) ''INSERT'' \<and> insert_panics q ch)"
proof (cases "Rewrite (he_restore env) (h_rewriter ch) q")
  case None
  then show ?thesis using assms by (auto simp: rewritten_query_def)
next
  case (Some sql)
  obtain r1 c1 where 1: "run_select env sql [] False ch = (r1, c1)" by fastforce
  show ?thesis
    using assms run_select_live [OF 1 assms(2)] unfolding rewritten_query_def Some option.case 1
    by (auto split: if_splits dest!: count_select_live dest: run_write_live)
qed

section \<open>Queries\<close>

lemma plain_query_live:
  assumes "plain_query env now now' q ch = (r, ch')" and "live ch"
  shows "live ch' \<and> (sound r \<or> r = Panic \<and> HasPrefix (upper_trimmed q) ''INSERT'' \<and> insert_panics q ch)"
  using assms unfolding plain_query_def by (auto split: if_splits dest: rewritten_query_live)

text \<open>How a query can panic: as an INSERT, or in the parser.\<close>

definition query_panics :: "'c henv \<Rightarrow> string \<Rightarrow> 'c conn_handler \<Rightarrow> bool" where
  "query_panics env q ch \<longleftrightarrow> (HasPrefix (upper_trimmed q) ''INSERT'' \<and> insert_panics q ch) \<or> parser_panic env q"

lemma acl_or_live:
  assumes "acl_or env q (\<lambda>_. plain_query env now now' q ch) ch = (r, ch')" and "live ch"
  shows "live ch' \<and> sound_unless (query_panics env q ch) r"
proof (cases "if IsACLCommand q then RewriteACL (he_parse env) q else NotParsed")
  case ParserPanics
  then show ?thesis using assms by (auto simp: acl_or_def query_panics_def acl_panics split: if_splits)
next
  case NotParsed
  then have "plain_query env now now' q ch = (r, ch')" using assms(1) by (simp add: acl_or_def)
  then show ?thesis using plain_query_live [of env now now' q ch r ch'] assms(2) by (auto simp: query_panics_def sound_unless_def)
next
  case (Parsed sql)
  then show ?thesis using assms by (cases sql) (auto simp: acl_or_def dest: exec_reply_live)
qed

lemma special_or_live:
  assumes "replication_or env q (\<lambda>_. acl_or env q (\<lambda>_. plain_query env now now' q ch) ch) ch = (r, ch')" and "live ch"
  shows "live ch' \<and> sound_unless (query_panics env q ch) r"
  using assms acl_or_live [of env q now now' ch r ch'] unfolding replication_or_def
  by (auto split: option.splits prod.splits if_splits dest: with_conn_live)

text \<open>Reading a variable leaves the cache and the database as they are.\<close>

lemma handleSelectVariable_panics: "handleSelectVariable env q ch = (r, ch') \<Longrightarrow> query_panics env q ch' = query_panics env q ch"
  unfolding handleSelectVariable_def Let_def with_conn_def query_panics_def insert_panics_def
  by (auto split: parsed.splits option.splits prod.splits sum.splits)

lemma dispatch_live:
  assumes "dispatch env now now' q ch = (r, ch')" and "live ch"
  shows "live ch' \<and> sound_unless (query_panics env q ch) r"
proof -
  obtain v c where v: "handleSelectVariable env q ch = (v, c)" by fastforce
  note c = handleSelectVariable_live [OF v assms(2)] handleSelectVariable_panics [OF v]
  have weaken: "sound_unless (parser_panic env q) r \<Longrightarrow> sound_unless (query_panics env q x) r" for r :: "mysql_result reply" and x :: "'a conn_handler"
    by (auto simp: sound_unless_def query_panics_def)
  have answered: "v = Panic \<Longrightarrow> query_panics env q ch" "v = Refuse e \<Longrightarrow> sound (Refuse e :: mysql_result reply)" for e
    using c(1) by (auto simp: sound_unless_def query_panics_def sound_def)
  show ?thesis
    using assms c answered unfolding dispatch_def v
    by (auto split: if_splits reply.splits option.splits dest: special_or_live handleShowCommand_live handleSetCommand_live handleUseCommand_live
        handleDatabaseCommand_live handleKillCommand_live run_transaction_live intro: weaken)
qed

text \<open>A handler that has a connection has one that is not nil.\<close>

definition linked :: "'c conn_handler \<Rightarrow> bool" where
  "linked ch \<longleftrightarrow> (ch_has_conn ch \<longrightarrow> live ch)"

lemma ensurePGConn_live:
  assumes "ensurePGConn env ch = (r, ch')" and "linked ch"
  shows "linked ch' \<and> r \<noteq> Some NilConnection \<and> (r = None \<longrightarrow> live ch') \<and> query_panics env q ch' = query_panics env q ch"
  using assms unfolding ensurePGConn_def linked_def live_def query_panics_def insert_panics_def Let_def with_conn_def
  by (auto simp: inc_error_def SetPGConn_def split: if_splits sum.splits prod.splits option.splits)

lemma live_linked: "live ch \<Longrightarrow> linked ch"
  by (simp add: linked_def)

lemma HandleQuery_live:
  assumes "HandleQuery env start now now' q ch = (r, ch')" and "linked ch"
  shows "linked ch' \<and> sound_unless (query_panics env q ch) r"
proof -
  obtain k tr where s: "StartRequest start (s_id (ch_session ch)) q (h_tracker ch) = (k, tr)" by fastforce
  let ?c = "ch\<lparr>h_total_queries := h_total_queries ch + 1, h_tracker := tr\<rparr>"
  have l: "linked ?c" "query_panics env q ?c = query_panics env q ch"
    using assms(2) by (simp_all add: linked_def live_def query_panics_def insert_panics_def split: option.split)
  obtain e c1 where e: "ensurePGConn env ?c = (e, c1)" by fastforce
  obtain r2 c2 where d: "dispatch env now now' q c1 = (r2, c2)" by fastforce
  note e' = ensurePGConn_live [OF e l(1), of q] and d' = dispatch_live [OF d]
  have t: "linked (x\<lparr>h_tracker := y\<rparr>) = linked x" for x y by (simp add: linked_def)
  show ?thesis
  proof (cases e)
    case None
    then show ?thesis
      using assms(1) s e d e' d' l(2) by (auto simp: HandleQuery_def t live_linked split: if_splits)
  next
    case (Some x)
    then show ?thesis
      using assms(1) s e e' by (auto simp: HandleQuery_def t sound_def)
  qed
qed

section \<open>Any sequence of commands\<close>

lemma ensure_linked: "ensurePGConn env ch = (r, ch') \<Longrightarrow> linked ch \<Longrightarrow> linked ch' \<and> (r = None \<longrightarrow> live ch')"
  using ensurePGConn_live [of env ch r ch' "[]"] by simp

lemma UseDB_linked: "UseDB env db ch = (r, ch') \<Longrightarrow> linked ch \<Longrightarrow> linked ch'"
  unfolding UseDB_def linked_def live_def with_conn_def Let_def
  by (auto split: if_splits sum.splits prod.splits option.splits)

lemma prepare_linked: "HandleStmtPrepare env q ch = (r, ch') \<Longrightarrow> linked ch \<Longrightarrow> linked ch'"
  unfolding HandleStmtPrepare_def Let_def
  by (auto split: prod.splits option.splits dest!: ensure_linked intro: live_linked)

lemma execute_linked: "HandleStmtExecute env now now' k args ch = (r, ch') \<Longrightarrow> linked ch \<Longrightarrow> linked ch'"
  unfolding HandleStmtExecute_def Let_def
  by (auto split: prod.splits option.splits if_splits dest!: ensure_linked
      dest: run_insert_live run_exec_stmt_live run_select_live intro: live_linked)

lemma field_list_linked: "HandleFieldList env t ch = (r, ch') \<Longrightarrow> linked ch \<Longrightarrow> linked ch'"
  unfolding HandleFieldList_def
  by (auto split: prod.splits option.splits sum.splits dest!: ensure_linked dest: with_conn_live intro: live_linked)

lemma close_stmt_linked: "HandleStmtClose k ch = (r, ch') \<Longrightarrow> linked ch \<Longrightarrow> linked ch'"
  by (auto simp: HandleStmtClose_def linked_def split: option.splits)

lemma other_linked: "c \<noteq> ComQuit \<Longrightarrow> HandleOtherCommand env c data ch = (r, ch') \<Longrightarrow> linked ch \<Longrightarrow> linked ch'"
  unfolding HandleOtherCommand_def by (cases c) (auto split: sum.splits prod.splits dest: UseDB_linked)

lemma query_linked: "HandleQuery env start now now' q ch = (r, ch') \<Longrightarrow> linked ch \<Longrightarrow> linked ch'"
  using HandleQuery_live by blast

lemma client_step_linked:
  assumes "not_quit cmd" and "linked ch"
  shows "linked (client_step env cmd ch)"
proof (cases cmd)
  case (CmdOther c data)
  then have "c \<noteq> ComQuit" using assms(1) by (auto simp: not_quit_def)
  then show ?thesis using CmdOther other_linked [of c env data ch] assms(2) by (cases "HandleOtherCommand env c data ch") simp
qed (use assms(2) in \<open>auto intro: query_linked UseDB_linked prepare_linked execute_linked close_stmt_linked field_list_linked prod.collapse [symmetric]\<close>)

interpretation never_nil: invariant_machine "linked" "connection_step env" for env :: "'c henv"
  by unfold_locales (auto simp: connection_step_def intro: client_step_linked)

lemma linked_new: "linked (NewConnection uuid now now' host h)"
  by (simp add: linked_def NewConnection_def Let_def)

text \<open>
  Texts whose upper-case copy has the same length in Go as here: for other texts, the offsets of the copy that SHOW and the name extraction use may lie outside of the
  statement, which panics too.
\<close>

definition ascii :: "string \<Rightarrow> bool" where
  "ascii s \<longleftrightarrow> list_all (\<lambda>c. of_char c < (128 :: nat)) s"

text \<open>Panics are inserts or the parser's. After any sequence of commands, failing or not, a query never meets a nil PostgreSQL connection; an ASCII query can
  panic only as an INSERT, where the statement ends behind INSERT INTO or where the schema cache holds a nil entry for the table, or if the TiDB parser
  panics on it.\<close>

theorem panics_classified:
  assumes "HandleQuery env start now now' query (fold (connection_step env) cmds (NewConnection uuid t t' host h)) = (r, ch')" and "ascii query"
  shows "r \<noteq> Refuse NilConnection
    \<and> (r = Panic \<longrightarrow> (HasPrefix (upper_trimmed query) ''INSERT''
         \<and> insert_panics query (fold (connection_step env) cmds (NewConnection uuid t t' host h)))
       \<or> he_parse env query = ParserPanics)"
  using HandleQuery_live [OF assms(1) never_nil.inv_run [OF linked_new]] by (auto simp: sound_unless_def sound_def query_panics_def)

text \<open>The parser's panics are not recovered: every query that reaches the look at variables and on which the parser panics, panics.\<close>

lemma parser_panic_spreads:
  assumes "he_parse env query = ParserPanics" and "\<not> IsShowStatement query" and "\<not> IsUseStatement query" and "\<not> isDatabaseStatement query"
  shows "dispatch env now now' query ch = (Panic, ch)"
  using assms parser_panics [of "he_parse env" query] by (auto simp: dispatch_def handleSetCommand_def handleSelectVariable_def)

lemma demo_bare_insert:
  "\<not> IsShowStatement ''INSERT INTO''" "\<not> IsSetStatement ''INSERT INTO''" "\<not> IsUseStatement ''INSERT INTO''"
  "\<not> isDatabaseStatement ''INSERT INTO''" "\<not> IsBeginStatement ''INSERT INTO''" "\<not> IsCommitStatement ''INSERT INTO''"
  "\<not> IsRollbackStatement ''INSERT INTO''" "\<not> isKillStatement ''INSERT INTO''" "\<not> IsReplicationCommand ''INSERT INTO''"
  "\<not> IsACLCommand ''INSERT INTO''" "\<not> isFlushStatement ''INSERT INTO''" "\<not> isTablespaceStatement ''INSERT INTO''"
  "is_write (ToUpper (TrimSpace ''INSERT INTO''))" "HasPrefix (ToUpper (TrimSpace ''INSERT INTO'')) ''INSERT''"
  by code_simp+

lemma bare_insert_dispatched: "h_rewriter ch = NewRewriter True \<Longrightarrow> dispatch demo_env 0 0 ''INSERT INTO'' ch = (Panic, ch)"
proof -
  assume rw: "h_rewriter ch = NewRewriter True"
  obtain sql where r: "Rewrite (\<lambda>_. None) (NewRewriter True) ''INSERT INTO'' = Some sql"
    by (cases "ar_enabled NewASTRewriter")
      (simp_all add: Rewrite_def NewRewriter_def ASTRewriter_Rewrite_def GenerateWithPlaceholders_def Let_def)
  have q: "plain_query demo_env 0 0 ''INSERT INTO'' ch = (Panic, ch)"
    using rw r by (simp add: plain_query_def rewritten_query_def run_write_def demo_bare_insert bare_insert_panics count_refused_def
        demo_env_def)
  have v: "ParseSelectVariable (he_parse demo_env) query = NotParsed" for query
    by (simp add: ParseSelectVariable_def first_stmt_def demo_env_def)
  show ?thesis
    using q by (simp add: dispatch_def demo_bare_insert handleSelectVariable_def v replication_or_def acl_or_def)
qed

text \<open>A new connection of a handler with dedicated connections panics on a bare INSERT INTO.\<close>

lemma fresh_insert_panics:
  assumes "h_rewriter h = NewRewriter True" and "dedicated (pl_mode (h_pool h))"
  shows "\<exists>ch'. HandleQuery demo_env 0 0 0 ''INSERT INTO'' (NewConnection u now now' host h) = (Panic, ch')"
proof -
  let ?ch = "NewConnection u now now' host h"
  obtain k tr where s: "StartRequest 0 (s_id (ch_session ?ch)) ''INSERT INTO'' (h_tracker ?ch) = (k, tr)" by fastforce
  have "\<exists>c. ensurePGConn demo_env (?ch\<lparr>h_total_queries := h_total_queries ?ch + 1, h_tracker := tr\<rparr>) = (None, c)
      \<and> h_rewriter c = NewRewriter True"
    using assms
    by (simp add: ensurePGConn_def NewConnection_def demo_env_def AcquireForSession_def with_conn_def SetPGConn_def NewSession_def Let_def
        split: option.splits)
  then show ?thesis using bare_insert_dispatched s by (auto simp: HandleQuery_def)
qed

lemma demo_handler_ready: "h_rewriter demo_handler = NewRewriter True \<and> dedicated (pl_mode (h_pool demo_handler))"
  by (simp add: demo_handler_def dedicated_def)

theorem panics_classified_witness:
  "\<exists>ch'. HandleQuery demo_env 0 0 0 ''INSERT INTO'' (fold (connection_step demo_env) [] (NewConnection ''a'' 0 0 ''127.0.0.1'' demo_handler))
       = (Panic, ch')
     \<and> insert_panics ''INSERT INTO'' (NewConnection ''a'' 0 0 ''127.0.0.1'' demo_handler)"
proof -
  obtain ch' where h: "HandleQuery demo_env 0 0 0 ''INSERT INTO''
      (fold (connection_step demo_env) [] (NewConnection ''a'' 0 0 ''127.0.0.1'' demo_handler)) = (Panic, ch')"
    using fresh_insert_panics [of demo_handler "''a''" 0 0 "''127.0.0.1''"] demo_handler_ready by auto
  moreover have "ascii ''INSERT INTO''" "he_parse demo_env ''INSERT INTO'' \<noteq> ParserPanics" by (simp_all add: ascii_def demo_env_def)
  ultimately show ?thesis using panics_classified [OF h] by simp
qed

end
