(* ===== verification/Proxy_Panics.thy ===== *)
theory Proxy_Panics
  imports Proxy_Clients Handler_Panics
begin

text \<open>
  Panics with many clients. No other client's commands can take the PostgreSQL connection of a client away, so what \<open>Handler_Panics\<close> shows of one
  connection holds for each client of a running proxy, in every interleaving.
\<close>

definition all_linked :: "'c world \<Rightarrow> bool" where
  "all_linked w \<longleftrightarrow> (\<forall>u cl. w_clients w u = Some cl \<longrightarrow> cl_has_conn cl \<longrightarrow> s_pg_conn (cl_session cl) \<noteq> None)"

lemma linked_attach: "linked (attach h cl) \<longleftrightarrow> (cl_has_conn cl \<longrightarrow> s_pg_conn (cl_session cl) \<noteq> None)"
  by (simp add: linked_def live_def)

lemma linked_own_part: "linked ch \<longleftrightarrow> (cl_has_conn (own_part ch) \<longrightarrow> s_pg_conn (cl_session (own_part ch)) \<noteq> None)"
  by (simp add: linked_def live_def)

lemma all_linked_put: "all_linked w \<Longrightarrow> linked ch \<Longrightarrow> all_linked (put_local u ch w)"
  by (simp add: all_linked_def linked_own_part)

lemma all_linked_gone: "all_linked w \<Longrightarrow> w_clients w' = (w_clients w)(u := None) \<Longrightarrow> all_linked w'"
  by (auto simp: all_linked_def split: if_splits)

lemma all_linked_step: "world_step env w w' \<Longrightarrow> all_linked w \<Longrightarrow> all_linked w'"
proof (induction rule: world_step.induct)
  case (commands w u cl cmd)
  then have "linked (attach (w_shared w) cl)" by (auto simp: all_linked_def linked_attach)
  then show ?case using commands by (intro all_linked_put client_step_linked)
qed (auto intro: all_linked_put linked_new all_linked_gone simp: leave_behind_def)

interpretation links: world_invariant all_linked env for env
  by unfold_locales (rule all_linked_step)

text \<open>C5: Panics are inserts or the parser's. In every state that a started proxy reaches through any interleaving of its clients, a query of a client never meets a nil
  PostgreSQL connection; an ASCII query can panic only as an INSERT, where the statement ends behind INSERT INTO or where the schema cache, which the
  clients share, holds a nil entry for the table, or if the TiDB parser, which the handler calls without recovering, panics on it.\<close>

theorem proxy_panics_classified:
  assumes "reachable env (started px) w" and "w_clients w u = Some cl"
    and "HandleQuery env start now now' query (attach (w_shared w) cl) = (r, ch')" and "ascii query"
  shows "r \<noteq> Refuse NilConnection
    \<and> (r = Panic \<longrightarrow> (HasPrefix (upper_trimmed query) ''INSERT'' \<and> insert_panics query (attach (w_shared w) cl))
       \<or> he_parse env query = ParserPanics)"
proof -
  have "all_linked (started px)" by (simp add: all_linked_def started_def)
  then have "linked (attach (w_shared w) cl)"
    using links.inv_reachable [OF assms(1)] assms(2) by (auto simp: all_linked_def linked_attach)
  then show ?thesis using HandleQuery_live [OF assms(3)] by (auto simp: sound_unless_def sound_def query_panics_def)
qed

section \<open>A proxy that panics\<close>

lemma default_handler:
  assumes "start_proxy demo_outside misspelt NoSuchFile = Inr px"
  shows "h_rewriter (px_handler px) = NewRewriter True"
  using assms
  by (auto simp: start_proxy_def LoadConfig_def default_config_valid NewPool_def Let_def NewHandler_def app_DefaultConfig_def
      demo_outside_def split: if_splits option.splits)

theorem proxy_panics_classified_witness:
  "\<exists>px w cl ch'. start_proxy demo_outside misspelt NoSuchFile = Inr px \<and> reachable demo_env (started px) w \<and> w_clients w ''a'' = Some cl
     \<and> HandleQuery demo_env 0 0 0 ''INSERT INTO'' (attach (w_shared w) cl) = (Panic, ch')
     \<and> insert_panics ''INSERT INTO'' (attach (w_shared w) cl)"
proof -
  obtain px where px: "start_proxy demo_outside misspelt NoSuchFile = Inr px" "dedicated (pl_mode (h_pool (px_handler px)))"
    using default_starts by blast
  let ?ch = "NewConnection ''a'' 0 0 ''127.0.0.1'' (px_handler px)"
  let ?w = "put_local ''a'' ?ch (started px)"
  have r: "reachable demo_env (started px) ?w"
    by (rule reach_step [OF reach_start]) (use connects [of "''a''" "started px" demo_env 0 0 "''127.0.0.1''"] in \<open>simp add: started_def\<close>)
  have c: "w_clients ?w ''a'' = Some (own_part ?ch)" by simp
  have a: "attach (w_shared ?w) (own_part ?ch) = ?ch"
    by (simp add: attach_def own_part_def handler.truncate_def)
  obtain ch' where h: "HandleQuery demo_env 0 0 0 ''INSERT INTO'' (attach (w_shared ?w) (own_part ?ch)) = (Panic, ch')"
    using fresh_insert_panics [OF default_handler [OF px(1)] px(2)] unfolding a by blast
  have "ascii ''INSERT INTO''" "he_parse demo_env ''INSERT INTO'' \<noteq> ParserPanics" by (simp_all add: ascii_def demo_env_def)
  then show ?thesis
    using proxy_panics_classified [OF r c h] px(1) r c h by blast
qed

end
