(* ===== verification/Ast_Rewrite.thy ===== *)
theory Ast_Rewrite
  imports Sql_Rewriter Sql_Types
begin

text \<open>
  The AST rewriter with its visitor, \<open>pkg/sqlrewrite/ast_rewriter_v3.go\<close>: parsing, the walk of the visitor over the tree, and restoring the
  text, step by step and with the state that stays in the visitor from one statement to the next. The TiDB library is a record of its
  functions. Shows that no statement leaves a trace, so that \<open>Sql_Rewriter\<close>, which has these steps as one function of the text, is right.
\<close>

section \<open>The library\<close>

text \<open>
  \<open>Parse\<close> gives the statements of a text (\<open>None\<close> for an error or a panic); \<open>Accept\<close> walks over a tree with a visitor and gives the changed tree
  (\<open>None\<close> for a panic) and the visitor afterwards; \<open>Restore\<close> gives the text of a tree, by the flags of its context.
\<close>

datatype restore_flag = RestoreStringSingleQuotes | RestoreKeyWordUppercase | RestoreNameBackQuotes

record 't tidb =
  td_parse :: "string \<Rightarrow> 't list option"
  td_accept :: "(ast_visitor \<Rightarrow> ast_node \<Rightarrow> ast_node \<times> bool \<times> ast_visitor) \<Rightarrow> (ast_visitor \<Rightarrow> ast_node \<Rightarrow> ast_node \<times> bool)
     \<Rightarrow> ast_visitor \<Rightarrow> 't \<Rightarrow> 't option \<times> ast_visitor"
  td_restore :: "restore_flag list \<Rightarrow> 't \<Rightarrow> string option"

text \<open>The walk touches the visitor through its methods only: what \<open>Enter\<close> keeps true of it, the walk keeps true.\<close>

definition walks_by_enter :: "'t tidb \<Rightarrow> bool" where
  "walks_by_enter td \<longleftrightarrow>
     (\<forall>enter leave P v t. (\<forall>v n. P v \<longrightarrow> P (snd (snd (enter v n)))) \<longrightarrow> P v \<longrightarrow> P (snd (td_accept td enter leave v t)))"

section \<open>Generating\<close>

text \<open>The generator, \<open>pg_generator.go\<close>; its own placeholder index is reset and never read.\<close>

definition createPGRestoreCtx :: "restore_flag list" where
  "createPGRestoreCtx = [RestoreStringSingleQuotes, RestoreKeyWordUppercase, RestoreNameBackQuotes]"

definition Generate :: "'t tidb \<Rightarrow> 't \<Rightarrow> string option" where
  "Generate td node = td_restore td createPGRestoreCtx node"

definition ConvertCreateTable :: "'t tidb \<Rightarrow> 't \<Rightarrow> string option" where
  "ConvertCreateTable td node = Generate td node"

section \<open>Rewriting with the visitor's state\<close>

record visiting_rewriter = ast_rewriter +
  ar_visitor :: ast_visitor

definition new_visiting_rewriter :: visiting_rewriter where
  "new_visiting_rewriter = \<lparr>ar_enabled = True, ar_visitor = NewASTVisitor\<rparr>"

definition transform :: "'t tidb \<Rightarrow> 't \<Rightarrow> ast_visitor \<Rightarrow> 't option \<times> ast_visitor" where
  "transform td stmt v =
     (case td_accept td Enter LeaveNode (ResetPlaceholders v) stmt of
        (tree, v) \<Rightarrow> (if GetError v \<noteq> None then None else tree, v))"

definition visiting_Rewrite :: "'t tidb \<Rightarrow> visiting_rewriter \<Rightarrow> string \<Rightarrow> outcome \<times> visiting_rewriter" where
  "visiting_Rewrite td r sql =
     (if \<not> ar_enabled r then (Returned sql, r)
      else case td_parse td (preProcessCharsetPrefixes sql) of
             None \<Rightarrow> (Failed, r)
           | Some [] \<Rightarrow> (Failed, r)
           | Some (stmt # _) \<Rightarrow>
               (case transform td stmt (ar_visitor r) of
                  (None, v) \<Rightarrow> (Failed, r\<lparr>ar_visitor := v\<rparr>)
                | (Some tree, v) \<Rightarrow>
                    (case GenerateWithPlaceholders (Generate td tree) of
                       None \<Rightarrow> Failed
                     | Some (pgSQL, paramCount) \<Rightarrow> (case PostProcess pgSQL of None \<Rightarrow> Diverges | Some out \<Rightarrow> Returned out),
                     r\<lparr>ar_visitor := v\<rparr>)))"

text \<open>The same steps with a visitor of their own.\<close>

definition restore_of :: "'t tidb \<Rightarrow> string \<Rightarrow> string option" where
  "restore_of td sql =
     (case td_parse td sql of
        Some (stmt # _) \<Rightarrow> Option.bind (fst (transform td stmt NewASTVisitor)) (Generate td)
      | _ \<Rightarrow> None)"

section \<open>No statement leaves a trace\<close>

definition clean :: "visiting_rewriter \<Rightarrow> bool" where
  "clean r \<longleftrightarrow> av_err (ar_visitor r) = None"

lemma Enter_err: "av_err (snd (snd (Enter v n))) = av_err v"
  by (auto simp: Enter_def visitParamMarker_def Let_def split: ast_node.splits)

lemma transform_err:
  assumes "walks_by_enter td" and "av_err v = None"
  shows "av_err (snd (transform td stmt v)) = None"
proof -
  have "av_err (snd (td_accept td Enter LeaveNode (ResetPlaceholders v) stmt)) = None"
    using assms(1) unfolding walks_by_enter_def
    by (elim allE [of _ Enter] allE [of _ LeaveNode] allE [of _ "\<lambda>v. av_err v = None"])
       (simp add: Enter_err ResetPlaceholders_def assms(2))
  then show ?thesis by (simp add: transform_def case_prod_beta)
qed

text \<open>A visitor without an error that is reset is a new one.\<close>

lemma reset_is_new: "av_err v = None \<Longrightarrow> ResetPlaceholders v = NewASTVisitor"
  by (simp add: ResetPlaceholders_def NewASTVisitor_def)

lemma transform_new: "av_err v = None \<Longrightarrow> transform td stmt v = transform td stmt NewASTVisitor"
  by (simp add: transform_def reset_is_new) (simp add: NewASTVisitor_def ResetPlaceholders_def)

lemma visiting_Rewrite_clean:
  assumes "walks_by_enter td" and "clean r"
  shows "clean (snd (visiting_Rewrite td r sql)) \<and> ar_enabled (snd (visiting_Rewrite td r sql)) = ar_enabled r"
  using assms(2) transform_err [OF assms(1), of "ar_visitor r"]
  by (auto simp: visiting_Rewrite_def clean_def split: option.splits list.splits prod.splits) (metis snd_conv)+

lemma visiting_Rewrite_pure:
  assumes "clean r"
  shows "fst (visiting_Rewrite td r sql) = ASTRewriter_Rewrite (restore_of td) (ast_rewriter.truncate r) sql"
  using assms transform_new [of "ar_visitor r" td]
  by (auto simp: visiting_Rewrite_def ASTRewriter_Rewrite_def restore_of_def clean_def ast_rewriter.truncate_def GenerateWithPlaceholders_def
      split: option.splits list.splits prod.splits)

fun rewrite_all :: "'t tidb \<Rightarrow> visiting_rewriter \<Rightarrow> string list \<Rightarrow> outcome list \<times> visiting_rewriter" where
  "rewrite_all td r [] = ([], r)"
| "rewrite_all td r (sql # sqls) =
     (case visiting_Rewrite td r sql of (out, r) \<Rightarrow> (case rewrite_all td r sqls of (outs, r) \<Rightarrow> (out # outs, r)))"

lemma rewrite_all_pure:
  assumes "walks_by_enter td" and "clean r"
  shows "fst (rewrite_all td r sqls) = map (ASTRewriter_Rewrite (restore_of td) (ast_rewriter.truncate r)) sqls"
  using assms(2)
proof (induction sqls arbitrary: r)
  case (Cons sql sqls)
  obtain out r1 where s: "visiting_Rewrite td r sql = (out, r1)" by fastforce
  have r1: "clean r1" "ast_rewriter.truncate r1 = ast_rewriter.truncate r"
    using visiting_Rewrite_clean [OF assms(1) Cons.prems, of sql] s by (simp_all add: ast_rewriter.truncate_def)
  then show ?case
    using Cons.IH [OF r1(1)] visiting_Rewrite_pure [OF Cons.prems, of td sql] s by (simp add: case_prod_beta)
qed simp

text \<open>C28: The visitor's state does not show. For any library whose walk uses the visitor through its methods only, a new rewriter gives each statement of
  a sequence the outcome of rewriting it alone, whatever came before it: a parse error, a panic in the middle of a walk, or placeholders
  that were numbered.\<close>

theorem ast_rewriter_stateless:
  assumes "walks_by_enter td"
  shows "fst (rewrite_all td new_visiting_rewriter sqls) = map (ASTRewriter_Rewrite (restore_of td) NewASTRewriter) sqls"
  using rewrite_all_pure [OF assms, of new_visiting_rewriter sqls]
  by (simp add: clean_def new_visiting_rewriter_def NewASTRewriter_def NewASTVisitor_def ast_rewriter.truncate_def)

text \<open>A library for texts whose only nodes are placeholders; a text with an exclamation mark makes the walk panic half-way.\<close>

fun mark_walk :: "(ast_visitor \<Rightarrow> ast_node \<Rightarrow> ast_node \<times> bool \<times> ast_visitor) \<Rightarrow> ast_visitor \<Rightarrow> string \<Rightarrow> bool \<times> ast_visitor" where
  "mark_walk enter v [] = (True, v)"
| "mark_walk enter v (c # s) =
     (if c = CHR ''!'' then (False, v)
      else if c = CHR ''?'' then mark_walk enter (snd (snd (enter v (ParamMarkerExpr 0)))) s else mark_walk enter v s)"

definition mark_tidb :: "string tidb" where
  "mark_tidb = \<lparr>td_parse = (\<lambda>sql. Some [sql]),
     td_accept = (\<lambda>enter leave v t. case mark_walk enter v t of (ok, v) \<Rightarrow> (if ok then Some t else None, v)), td_restore = (\<lambda>_. Some)\<rparr>"

lemma mark_walk_keeps: "(\<And>v n. P v \<Longrightarrow> P (snd (snd (enter v n)))) \<Longrightarrow> P v \<Longrightarrow> P (snd (mark_walk enter v t))"
  by (induction enter v t rule: mark_walk.induct) auto

lemma mark_tidb_walks: "walks_by_enter mark_tidb"
  unfolding walks_by_enter_def mark_tidb_def by (auto simp: case_prod_beta intro: mark_walk_keeps)

theorem ast_rewriter_stateless_witness:
  "fst (rewrite_all mark_tidb new_visiting_rewriter [''? ! ?'', ''? ?'']) =
     [Failed, ASTRewriter_Rewrite (restore_of mark_tidb) NewASTRewriter ''? ?'']
   \<and> av_placeholder_index (ar_visitor (snd (visiting_Rewrite mark_tidb new_visiting_rewriter ''? ! ?''))) = 1"
proof -
  have p: "preProcessCharsetPrefixes ''? ! ?'' = ''? ! ?''" by code_simp
  have "ASTRewriter_Rewrite (restore_of mark_tidb) NewASTRewriter ''? ! ?'' = Failed"
    by (simp add: ASTRewriter_Rewrite_def p restore_of_def mark_tidb_def Generate_def transform_def Enter_def visitParamMarker_def NewASTVisitor_def
        NewASTRewriter_def ResetPlaceholders_def GenerateWithPlaceholders_def Let_def)
  moreover have "av_placeholder_index (ar_visitor (snd (visiting_Rewrite mark_tidb new_visiting_rewriter ''? ! ?''))) = 1"
    by (simp add: visiting_Rewrite_def p mark_tidb_def transform_def Enter_def visitParamMarker_def NewASTVisitor_def new_visiting_rewriter_def
        ResetPlaceholders_def Let_def)
  ultimately show ?thesis
    using ast_rewriter_stateless [OF mark_tidb_walks, of "[''? ! ?'', ''? ?'']"] by simp
qed

end
