(* ===== verification/Pg_Clauses.thy ===== *)
theory Pg_Clauses
  imports Rewriter_Loops
begin

text \<open>
  The two passes of \<open>pkg/sqlrewrite/pg_generator.go\<close> that \<open>PostProcess\<close> does not call: \<open>convertEnum\<close>, which replaces
  ENUM types, and \<open>removeIndexClauses\<close>, which removes index definitions from CREATE TABLE. Both loops end on every text.
\<close>

section \<open>ENUM types\<close>

text \<open>
  A round either steps over an occurrence of the keyword or replaces it: the number of letters E behind the search position
  decreases, since the new text has none.
\<close>

definition letters_e :: "string \<Rightarrow> nat" where
  "letters_e s = length (filter (\<lambda>c. to_upper c = CHR ''E'') s)"

lemma letters_e_append [simp]: "letters_e (s @ t) = letters_e s + letters_e t"
  by (simp add: letters_e_def)

lemma letters_e_varchar: "letters_e (''VARCHAR(50)'' @ r) = letters_e r"
proof -
  have "letters_e ''VARCHAR(50)'' = 0" by code_simp
  then show ?thesis by (simp only: letters_e_append add_0)
qed

lemma letters_e_drop: "i \<le> j \<Longrightarrow> letters_e (drop j s) \<le> letters_e (drop i s)"
  by (metis append_take_drop_id drop_drop le_add2 le_add_diff_inverse2 letters_e_append)

lemma letters_e_step:
  assumes "i < j" and "i < length s" and "to_upper (s ! i) = CHR ''E''"
  shows "letters_e (drop j s) < letters_e (drop i s)"
proof -
  have "letters_e (drop i s) = Suc (letters_e (drop (Suc i) s))"
    using assms by (simp add: Cons_nth_drop_Suc [symmetric] letters_e_def)
  moreover have "letters_e (drop j s) \<le> letters_e (drop (Suc i) s)"
    using assms(1) by (intro letters_e_drop) simp
  ultimately show ?thesis by simp
qed

lemma IndexUpper_hd:
  assumes "IndexUpper s pos (c # p) = Some i"
  shows "i < length s \<and> to_upper (s ! i) = c"
proof -
  obtain k where k: "Index (ToUpper (drop pos s)) (c # p) = Some k" and i: "i = pos + k"
    using assms by (auto simp: IndexUpper_def)
  have "i < length s" using IndexUpper_some [OF assms] by simp
  moreover have "HasPrefix (drop k (ToUpper (drop pos s))) (c # p)"
    using k by (simp add: Index_Some_iff)
  then have "drop k (ToUpper (drop pos s)) ! 0 = c"
    by (auto simp: HasPrefix_iff)
  ultimately show ?thesis using i by (simp add: ToUpper_def)
qed

lemma letters_e_found:
  assumes "IndexUpper s pos ''ENUM'' = Some i" and "i < j"
  shows "letters_e (drop j s) < letters_e (drop pos s)"
proof -
  have "pos \<le> i" using IndexUpper_some [OF assms(1)] by simp
  have "letters_e (drop j s) < letters_e (drop i s)"
    using IndexUpper_hd [OF assms(1)] assms(2) by (intro letters_e_step) auto
  also have "\<dots> \<le> letters_e (drop pos s)" using \<open>pos \<le> i\<close> by (rule letters_e_drop)
  finally show ?thesis .
qed

function enum_loop :: "string \<Rightarrow> nat \<Rightarrow> string" where
  "enum_loop result searchPos =
     (case IndexUpper result searchPos ''ENUM'' of
        None \<Rightarrow> result
      | Some enumIdx \<Rightarrow>
          if isInString result enumIdx then enum_loop result (enumIdx + 4)
          else (let searchStart = skip_while is_blank result (enumIdx + 4)
                in if \<not> char_at result searchStart (CHR ''('') then enum_loop result (enumIdx + 4)
                   else case findMatchingParen result searchStart of
                          None \<Rightarrow> enum_loop result (enumIdx + 4)
                        | Some parenEnd \<Rightarrow>
                            enum_loop (put_slice result enumIdx ''VARCHAR(50)'' (parenEnd + 1)) enumIdx))"
  by pat_completeness auto
termination
proof (relation "measure (\<lambda>(result, searchPos). letters_e (drop searchPos result))", goal_cases)
  case (5 result searchPos enumIdx searchStart parenEnd)
  have b: "enumIdx < parenEnd + 1"
    using findMatchingParen_bound [OF 5(5)] 5(3) skip_while_le [of "enumIdx + 4" is_blank result] by linarith
  have "enumIdx \<le> length result" using IndexUpper_some [OF 5(1)] by simp
  then have "drop enumIdx (put_slice result enumIdx ''VARCHAR(50)'' (parenEnd + 1)) = ''VARCHAR(50)'' @ drop (parenEnd + 1) result"
    by (simp add: put_slice_def)
  then have "letters_e (drop enumIdx (put_slice result enumIdx ''VARCHAR(50)'' (parenEnd + 1)))
      = letters_e (drop (parenEnd + 1) result)"
    by (simp only: letters_e_varchar)
  then show ?case using letters_e_found [OF 5(1) b] by simp
qed (auto intro: letters_e_found)

declare enum_loop.simps [simp del]

definition convertEnum :: "string \<Rightarrow> string" where
  "convertEnum sql = enum_loop sql 0"

lemma convertEnum_plain: "IndexUpper sql 0 ''ENUM'' = None \<Longrightarrow> convertEnum sql = sql"
  by (simp add: convertEnum_def enum_loop.simps)

text \<open>
  The closing parenthesis is searched without regard to quotes, unlike the keyword: a value that contains one ends the type
  too early.
\<close>

lemma enum_converted: "convertEnum ''st enum ('open','done') NOT NULL'' = ''st VARCHAR(50) NOT NULL''"
  by code_simp

lemma enum_value_with_parenthesis: "convertEnum ''m ENUM(':)',':(')'' = ''m VARCHAR(50)',':(')''"
  by code_simp

section \<open>Index definitions\<close>

text \<open>\<open>for i > 0 && p(s[i-1]) { i-- }\<close>\<close>

definition back_while :: "(char \<Rightarrow> bool) \<Rightarrow> string \<Rightarrow> nat \<Rightarrow> nat" where
  "back_while p s i = i - length (takeWhile p (rev (take i s)))"

text \<open>The next keyword and its length: INDEX or KEY, whichever comes first.\<close>

definition next_keyword :: "string \<Rightarrow> nat \<Rightarrow> (nat \<times> nat) option" where
  "next_keyword result searchPos =
     (case (IndexUpper result searchPos ''INDEX'', IndexUpper result searchPos ''KEY'') of
        (None, None) \<Rightarrow> None
      | (None, Some keyIdx) \<Rightarrow> Some (keyIdx, 3)
      | (Some indexIdx, None) \<Rightarrow> Some (indexIdx, 5)
      | (Some indexIdx, Some keyIdx) \<Rightarrow> if keyIdx < indexIdx then Some (keyIdx, 3) else Some (indexIdx, 5))"

text \<open>The keyword together with a preceding UNIQUE, and whether there is one.\<close>

definition with_unique :: "string \<Rightarrow> nat \<times> nat \<Rightarrow> nat \<times> nat \<times> bool" where
  "with_unique result k =
     (let uniqueCheckPos = back_while is_blank3 result (fst k)
      in if 6 \<le> uniqueCheckPos \<and> ToUpper (sub result (uniqueCheckPos - 6) uniqueCheckPos) = ''UNIQUE''
         then (uniqueCheckPos - 6, fst k - (uniqueCheckPos - 6) + snd k, True)
         else (fst k, snd k, False))"

text \<open>The keyword is part of a name: a letter, digit or underscore on either side, or a backtick before it.\<close>

definition part_of_name :: "string \<Rightarrow> nat \<Rightarrow> nat \<Rightarrow> bool" where
  "part_of_name result keywordIdx keywordLen \<longleftrightarrow>
     0 < keywordIdx \<and> (isAlphanumeric (result ! (keywordIdx - 1)) \<or> result ! (keywordIdx - 1) = CHR 0x60)
     \<or> keywordIdx + keywordLen < length result \<and> isAlphanumeric (result ! (keywordIdx + keywordLen))"

text \<open>Where the clause starts, and whether it takes the comma before it.\<close>

definition clause_start :: "string \<Rightarrow> nat \<Rightarrow> nat \<times> bool" where
  "clause_start result keywordIdx =
     (let removeStart = back_while is_blank3 result keywordIdx
      in if 0 < removeStart \<and> result ! (removeStart - 1) = CHR '','' then (removeStart - 1, True) else (removeStart, False))"

text \<open>Where it ends: behind the closing parenthesis and white space, with the comma after it if none was taken before it.\<close>

definition clause_end :: "string \<Rightarrow> nat \<Rightarrow> bool \<Rightarrow> nat" where
  "clause_end result parenEnd includeComma =
     (let removeEnd = skip_while is_blank3 result (parenEnd + 1)
      in if \<not> includeComma \<and> char_at result removeEnd (CHR '','') then skip_while is_blank3 result (removeEnd + 1) else removeEnd)"

text \<open>The opening parenthesis of the column list; \<open>None\<close> when a comma, a parenthesis, a semicolon or the end comes first.\<close>

definition clause_paren :: "string \<Rightarrow> nat \<Rightarrow> nat option" where
  "clause_paren result i =
     (let parenStart = skip_while (\<lambda>c. c \<notin> {CHR ''('', CHR '','', CHR '')'', CHR '';''}) result i
      in if char_at result parenStart (CHR ''('') then Some parenStart else None)"

text \<open>
  One round on the keyword \<open>k\<close>: the clause to remove as its two ends, or \<open>None\<close>, when the search goes on behind the keyword.
\<close>

definition index_clause :: "string \<Rightarrow> nat \<times> nat \<Rightarrow> (nat \<times> nat) option" where
  "index_clause result k =
     (if isInString result (fst k) then None
      else case with_unique result k of
             (keywordIdx, keywordLen, isUniqueKeyword) \<Rightarrow>
               if \<not> isUniqueKeyword \<and> part_of_name result keywordIdx keywordLen then None
               else (case clause_start result keywordIdx of
                       (removeStart, includeComma) \<Rightarrow>
                         (case clause_paren result (keywordIdx + keywordLen) of
                            None \<Rightarrow> None
                          | Some parenStart \<Rightarrow>
                              map_option (\<lambda>parenEnd. (removeStart, clause_end result parenEnd includeComma))
                                (findMatchingParen result parenStart))))"

lemma back_while_le: "back_while p s i \<le> i"
  by (simp add: back_while_def)

lemma next_keyword_bound:
  assumes "next_keyword result searchPos = Some (i, n)"
  shows "searchPos \<le> i \<and> 0 < n \<and> i + n \<le> length result"
proof -
  consider "IndexUpper result searchPos ''INDEX'' = Some i" "n = 5" | "IndexUpper result searchPos ''KEY'' = Some i" "n = 3"
    using assms by (auto simp: next_keyword_def split: option.splits if_splits)
  then show ?thesis by cases (auto dest!: IndexUpper_some)
qed

lemma with_unique_bound:
  assumes "with_unique result (i, n) = (a, l, u)"
  shows "a \<le> i \<and> a + l = i + n"
  using assms back_while_le [of is_blank3 result i] by (auto simp: with_unique_def Let_def split: if_splits)

lemma clause_start_le: "fst (clause_start result i) \<le> i"
  using back_while_le [of is_blank3 result i] by (auto simp: clause_start_def Let_def)

lemma clause_end_le: "parenEnd < clause_end result parenEnd c"
  unfolding clause_end_def Let_def
  using skip_while_le [of "parenEnd + 1" is_blank3 result]
    skip_while_le [of "skip_while is_blank3 result (parenEnd + 1) + 1" is_blank3 result]
  by (simp split: if_split)

lemma clause_paren_le: "clause_paren result i = Some j \<Longrightarrow> i \<le> j"
  by (auto simp: clause_paren_def Let_def skip_while_le split: if_splits)

lemma index_clause_bound:
  assumes "index_clause result (i, n) = Some (a, e)"
  shows "a \<le> i \<and> i + n < e"
proof -
  obtain k l u where w: "with_unique result (i, n) = (k, l, u)" by (cases "with_unique result (i, n)")
  obtain c where s: "clause_start result k = (a, c)"
    and "\<exists>ps pe. clause_paren result (k + l) = Some ps \<and> findMatchingParen result ps = Some pe \<and> e = clause_end result pe c"
    using assms w by (cases "clause_start result k") (auto simp: index_clause_def split: if_splits option.splits)
  then obtain ps pe where p: "clause_paren result (k + l) = Some ps" "findMatchingParen result ps = Some pe"
    and e: "e = clause_end result pe c" by blast
  have "k \<le> i" "k + l = i + n" using with_unique_bound [OF w] by simp_all
  moreover have "a \<le> k" using clause_start_le [of result k] s by simp
  moreover have "k + l \<le> ps" "ps < pe" "pe < e"
    using clause_paren_le [OF p(1)] findMatchingParen_bound [OF p(2)] clause_end_le [of pe result c] e by simp_all
  ultimately show ?thesis by linarith
qed

text \<open>A removed clause may start in front of the search position, but the text behind it gets shorter in every round.\<close>

function index_loop :: "string \<Rightarrow> nat \<Rightarrow> string" where
  "index_loop result searchPos =
     (case next_keyword result searchPos of
        None \<Rightarrow> result
      | Some k \<Rightarrow>
          (case index_clause result k of
             None \<Rightarrow> index_loop result (fst k + snd k)
           | Some (removeStart, removeEnd) \<Rightarrow> index_loop (put_slice result removeStart [] removeEnd) removeStart))"
  by pat_completeness auto
termination
proof (relation "measure (\<lambda>(result, searchPos). length result - searchPos)", goal_cases)
  case (2 result searchPos k)
  then show ?case by (cases k) (auto dest!: next_keyword_bound)
next
  case (3 result searchPos k r removeStart removeEnd)
  obtain i n where k: "k = (i, n)" by (cases k)
  have "searchPos \<le> i" "0 < n" "i + n \<le> length result" using next_keyword_bound 3(1) k by auto
  moreover have "removeStart \<le> i" "i + n < removeEnd" using index_clause_bound 3(2,3) k by auto
  ultimately show ?case by (simp add: length_put_slice)
qed simp

declare index_loop.simps [simp del]

definition removeIndexClauses :: "string \<Rightarrow> string" where
  "removeIndexClauses sql = (if \<not> Contains (ToUpper sql) ''CREATE TABLE'' then sql else index_loop sql 0)"

lemma length_index_loop: "length (index_loop s i) \<le> length s"
proof (induction s i rule: index_loop.induct)
  case (1 s i)
  show ?case
  proof (cases "next_keyword s i")
    case (Some k)
    obtain a n where k: "k = (a, n)" by (cases k)
    then have b: "a + n \<le> length s" using next_keyword_bound Some by blast
    have "length (put_slice s r [] e) \<le> length s" if "index_clause s k = Some (r, e)" for r e
      using index_clause_bound [of s a n r e] that k b by (simp add: length_put_slice) linarith
    then show ?thesis
      using 1 Some by (subst index_loop.simps) (fastforce split: option.splits dest: order.trans)
  qed (simp add: index_loop.simps)
qed

lemma removeIndexClauses_shorter: "length (removeIndexClauses sql) \<le> length sql"
  by (simp add: removeIndexClauses_def length_index_loop)

lemma index_definition_removed:
  "removeIndexClauses ''CREATE TABLE t (a INT, UNIQUE KEY u (a), KEY k (a))'' = ''CREATE TABLE t (a INT)''"
  by code_simp

text \<open>A primary key is taken for an index: only the word PRIMARY stays.\<close>

lemma primary_key_removed:
  "removeIndexClauses ''CREATE TABLE t (a INT, PRIMARY KEY (a))'' = ''CREATE TABLE t (a INT, PRIMARY)''"
  by code_simp

end
