(* ===== verification/Mapper_Values.thy ===== *)
theory Mapper_Values
  imports Mapper_Types Go_Iso
begin

text \<open>
  The value conversions of \<open>pkg/mapper/types.go\<close> that build on those of \<open>Mapper_Types\<close>: \<open>ConvertValue\<close> with its conversions to
  floats and times, and \<open>FormatValueForMySQL\<close>. Arithmetic on floats is the argument \<open>float_rt\<close>; values of the pgtype library
  come with what its methods return.
\<close>

section \<open>Times\<close>

text \<open>\<open>time.Parse\<close> for the layouts \<open>2006-01-02\<close> and \<open>15:04:05\<close>; a time of day is one of 1 January of the year 0.\<close>

definition date_parse :: "string \<Rightarrow> gtime option" where
  "date_parse s =
     Option.bind (parse_long_year s) (\<lambda>(y, s).
     Option.bind (skip_lit (CHR ''-'') s) (\<lambda>s.
     Option.bind (getnum True s) (\<lambda>(mo, s).
     if mo < 1 \<or> 12 < mo then None else
     Option.bind (skip_lit (CHR ''-'') s) (\<lambda>s.
     Option.bind (getnum True s) (\<lambda>(d, s).
     if s \<noteq> [] then None
     else if d < 1 \<or> days_in mo (int y) < d then None
     else Some \<lparr>t_year = int y, t_month = mo, t_day = d, t_hour = 0, t_min = 0, t_sec = 0, t_nsec = 0, t_off = 0\<rparr>)))))"

definition clock_parse :: "string \<Rightarrow> gtime option" where
  "clock_parse s =
     Option.bind (getnum False s) (\<lambda>(h, s).
     if 24 \<le> h then None else
     Option.bind (skip_lit (CHR '':'') s) (\<lambda>s.
     Option.bind (getnum True s) (\<lambda>(mi, s).
     if 60 \<le> mi then None else
     Option.bind (skip_lit (CHR '':'') s) (\<lambda>s.
     Option.bind (getnum True s) (\<lambda>(sec, s).
     if 60 \<le> sec then None else
     (let (ns, rest) = skip_fraction s
      in if rest \<noteq> [] then None
         else Some \<lparr>t_year = 0, t_month = 1, t_day = 1, t_hour = h, t_min = mi, t_sec = sec, t_nsec = ns, t_off = 0\<rparr>))))))"

text \<open>The first of several parsers that succeeds.\<close>

fun first_parse :: "(string \<Rightarrow> gtime option) list \<Rightarrow> string \<Rightarrow> gtime option" where
  "first_parse [] s = None"
| "first_parse (p # ps) s = (case p s of Some t \<Rightarrow> Some t | None \<Rightarrow> first_parse ps s)"

text \<open>
  Go reads a fraction of a second behind the seconds whether or not the layout has one: the layouts \<open>2006-01-02 15:04:05\<close> and
  \<open>2006-01-02 15:04:05.999999\<close> accept the same texts.
\<close>

definition time_layouts :: "(string \<Rightarrow> gtime option) list" where
  "time_layouts = [time_parse, time_parse, date_parse, iso_parse rfc_zone]"

definition datetime_layouts :: "(string \<Rightarrow> gtime option) list" where
  "datetime_layouts = [time_parse, time_parse, iso_parse rfc_zone]"

section \<open>Converting values\<close>

record float_rt =
  fr_of_int :: "int \<Rightarrow> u64"
  fr_of_f32 :: "u32 \<Rightarrow> u64"
  fr_scan :: "string \<Rightarrow> u64 option"
  fr_int_of_f64 :: "u64 \<Rightarrow> u64"
  fr_int_of_f32 :: "u32 \<Rightarrow> u64"

text \<open>The first component of a result is \<open>False\<close> for an error.\<close>

fun convertToFloat :: "float_rt \<Rightarrow> go_value \<Rightarrow> bool \<times> go_value" where
  "convertToFloat fr (GInt w) = (True, GFloat64 (fr_of_int fr (sint w)))"
| "convertToFloat fr (GInt8 w) = (True, GFloat64 (fr_of_int fr (sint w)))"
| "convertToFloat fr (GInt16 w) = (True, GFloat64 (fr_of_int fr (sint w)))"
| "convertToFloat fr (GInt32 w) = (True, GFloat64 (fr_of_int fr (sint w)))"
| "convertToFloat fr (GInt64 w) = (True, GFloat64 (fr_of_int fr (sint w)))"
| "convertToFloat fr (GUint w) = (True, GFloat64 (fr_of_int fr (uint w)))"
| "convertToFloat fr (GUint8 w) = (True, GFloat64 (fr_of_int fr (uint w)))"
| "convertToFloat fr (GUint16 w) = (True, GFloat64 (fr_of_int fr (uint w)))"
| "convertToFloat fr (GUint32 w) = (True, GFloat64 (fr_of_int fr (uint w)))"
| "convertToFloat fr (GUint64 w) = (True, GFloat64 (fr_of_int fr (uint w)))"
| "convertToFloat fr (GFloat32 w) = (True, GFloat64 (fr_of_f32 fr w))"
| "convertToFloat fr (GFloat64 w) = (True, GFloat64 w)"
| "convertToFloat fr (GString s) =
     (case fr_scan fr s of None \<Rightarrow> (False, GFloat64 0) | Some f \<Rightarrow> (True, GFloat64 f))"
| "convertToFloat fr v = (True, v)"

definition convertToDecimal :: "float_rt \<Rightarrow> go_value \<Rightarrow> bool \<times> go_value" where
  "convertToDecimal fr v = convertToFloat fr v"

definition parsed_time :: "string \<Rightarrow> bool \<times> go_value" where
  "parsed_time s = (case first_parse time_layouts s of None \<Rightarrow> (False, GTime zero_time) | Some t \<Rightarrow> (True, GTime t))"

fun convertToTime :: "go_value \<Rightarrow> bool \<times> go_value" where
  "convertToTime (GTime t) = (True, GTime t)"
| "convertToTime (GBytes b) = parsed_time (string_of b)"
| "convertToTime (GString s) = parsed_time s"
| "convertToTime v = (True, v)"

text \<open>
  A value as pgx returns it. A numeric carries the answer of \<open>Float64Value\<close>, with its flag \<open>Valid\<close> and \<open>None\<close> for an error,
  and the text of its integer part \<open>Int\<close>.
\<close>

datatype pgx_value =
    Plain go_value
  | Numeric bool "(bool \<times> u64) option" string
  | Timestamp bool gtime

definition unwrap :: "pgx_value \<Rightarrow> go_value option" where
  "unwrap v =
     (case v of
        Plain GNil \<Rightarrow> None
      | Plain v \<Rightarrow> Some v
      | Numeric valid f i \<Rightarrow>
          if \<not> valid then None
          else (case f of Some (True, w) \<Rightarrow> Some (GFloat64 w) | _ \<Rightarrow> Some (GString i))
      | Timestamp valid t \<Rightarrow> if \<not> valid then None else Some (GTime t))"

definition convert_to :: "go_rt \<Rightarrow> float_rt \<Rightarrow> go_value \<Rightarrow> byte \<Rightarrow> bool \<times> go_value" where
  "convert_to rt fr v ty =
     (if ty \<in> {MYSQL_TYPE_TINY, MYSQL_TYPE_SHORT, MYSQL_TYPE_LONG, MYSQL_TYPE_LONGLONG, MYSQL_TYPE_INT24}
      then convertToInt (fr_int_of_f64 fr) (fr_int_of_f32 fr) v
      else if ty \<in> {MYSQL_TYPE_FLOAT, MYSQL_TYPE_DOUBLE} then convertToFloat fr v
      else if ty \<in> {MYSQL_TYPE_DECIMAL, MYSQL_TYPE_NEWDECIMAL} then convertToDecimal fr v
      else if ty \<in> {MYSQL_TYPE_VARCHAR, MYSQL_TYPE_VAR_STRING, MYSQL_TYPE_STRING} then (True, convertToString rt v)
      else if ty \<in> {MYSQL_TYPE_DATE, MYSQL_TYPE_DATETIME, MYSQL_TYPE_TIMESTAMP, MYSQL_TYPE_TIME} then convertToTime v
      else if ty \<in> {MYSQL_TYPE_BLOB, MYSQL_TYPE_TINY_BLOB, MYSQL_TYPE_MEDIUM_BLOB, MYSQL_TYPE_LONG_BLOB}
      then (True, convertToBytes rt v)
      else if ty = MYSQL_TYPE_JSON then (True, convertToString rt v)
      else (True, v))"

definition ConvertValue :: "go_rt \<Rightarrow> float_rt \<Rightarrow> pgx_value \<Rightarrow> byte \<Rightarrow> bool \<times> go_value" where
  "ConvertValue rt fr v targetType =
     (case unwrap v of None \<Rightarrow> (True, GNil) | Some v \<Rightarrow> convert_to rt fr v targetType)"

section \<open>Formatting values\<close>

text \<open>A text of the right shape, with two separators at fixed places.\<close>

definition shaped :: "nat \<Rightarrow> nat \<Rightarrow> nat \<Rightarrow> char \<Rightarrow> string \<Rightarrow> bool" where
  "shaped n i j c s \<longleftrightarrow> length s = n \<and> s ! i = c \<and> s ! j = c"

definition format_date :: "go_value \<Rightarrow> go_value" where
  "format_date v =
     (case v of
        GTime t \<Rightarrow> GString (fmt_date t)
      | GBytes b \<Rightarrow>
          if shaped 10 4 7 (CHR ''-'') (string_of b) then GString (string_of b)
          else (case date_parse (string_of b) of Some t \<Rightarrow> GString (fmt_date t) | None \<Rightarrow> v)
      | _ \<Rightarrow> v)"

definition format_datetime :: "go_value \<Rightarrow> go_value" where
  "format_datetime v =
     (case v of
        GTime t \<Rightarrow> GString (fmt_datetime t)
      | GBytes b \<Rightarrow>
          (case first_parse datetime_layouts (string_of b) of
             Some t \<Rightarrow> GString (fmt_datetime t)
           | None \<Rightarrow> GString (string_of b))
      | _ \<Rightarrow> v)"

definition format_clock :: "go_value \<Rightarrow> go_value" where
  "format_clock v =
     (case v of
        GTime t \<Rightarrow> GString (fmt_clock t)
      | GBytes b \<Rightarrow>
          if shaped 8 2 5 (CHR '':'') (string_of b) then GString (string_of b)
          else (case clock_parse (string_of b) of Some t \<Rightarrow> GString (fmt_clock t) | None \<Rightarrow> v)
      | _ \<Rightarrow> v)"

definition format_year :: "go_value \<Rightarrow> go_value" where
  "format_year v = (case v of GTime t \<Rightarrow> GInt (of_int (t_year t)) | _ \<Rightarrow> v)"

definition FormatValueForMySQL :: "go_value \<Rightarrow> byte \<Rightarrow> go_value" where
  "FormatValueForMySQL v fieldType =
     (if v = GNil then GNil
      else if fieldType = MYSQL_TYPE_DATE then format_date v
      else if fieldType \<in> {MYSQL_TYPE_DATETIME, MYSQL_TYPE_TIMESTAMP} then format_datetime v
      else if fieldType = MYSQL_TYPE_TIME then format_clock v
      else if fieldType = MYSQL_TYPE_YEAR then format_year v
      else v)"

section \<open>Facts\<close>

lemma date_parse_fmt:
  assumes "valid_time t"
  shows "date_parse (fmt_date t) = Some (t\<lparr>t_hour := 0, t_min := 0, t_sec := 0, t_nsec := 0, t_off := 0\<rparr>)"
proof -
  have d: "t_day t < 100"
    using assms days_in_le [of "t_month t" "t_year t"] by (auto simp: valid_time_def)
  have "getnum True (fmt_pad2 (t_day t)) = Some (t_day t, [])" using getnum_pad2 [OF d, of True "[]"] by simp
  with assms d show ?thesis by (simp add: date_parse_def fmt_date_def valid_time_def)
qed

text \<open>A date has no time of day: the first layouts refuse it, so it is read as midnight.\<close>

lemma getnum_Nil [simp]: "getnum fixed [] = None"
  by (simp add: getnum_def)

lemma time_parse_date: "valid_time t \<Longrightarrow> time_parse (fmt_date t) = None"
proof -
  assume a: "valid_time t"
  have d: "t_day t < 100"
    using a days_in_le [of "t_month t" "t_year t"] by (auto simp: valid_time_def)
  have "getnum True (fmt_pad2 (t_day t)) = Some (t_day t, [])" using getnum_pad2 [OF d, of True "[]"] by simp
  with a d show ?thesis by (simp add: time_parse_def fmt_date_def valid_time_def skip_blank_def)
qed

theorem date_converted_back:
  assumes "valid_time t"
  shows "convertToTime (FormatValueForMySQL (GTime t) MYSQL_TYPE_DATE)
       = (True, GTime (t\<lparr>t_hour := 0, t_min := 0, t_sec := 0, t_nsec := 0, t_off := 0\<rparr>))"
  using assms by (simp add: FormatValueForMySQL_def format_date_def parsed_time_def time_layouts_def time_parse_date date_parse_fmt)

theorem datetime_converted_back:
  assumes "valid_time t"
  shows "convertToTime (FormatValueForMySQL (GTime t) MYSQL_TYPE_DATETIME) = (True, GTime (t\<lparr>t_nsec := 0, t_off := 0\<rparr>))"
  using assms
  by (simp add: FormatValueForMySQL_def format_datetime_def parsed_time_def time_layouts_def time_parse_fmt_datetime mysql_type_defs)

text \<open>
  A time of day cannot be converted back: \<open>ConvertValue\<close> sends TIME columns to \<open>convertToTime\<close>, which has no layout for them.
\<close>

lemma parse_long_year_clock:
  assumes "t_hour t < 100"
  shows "parse_long_year (fmt_clock t) = None"
proof -
  have "\<not> is_digit (CHR '':'')" by code_simp
  then show ?thesis using assms by (simp add: parse_long_year_def fmt_clock_def fmt_pad2_eq)
qed

theorem clock_not_converted:
  assumes "valid_time t"
  shows "convertToTime (FormatValueForMySQL (GTime t) MYSQL_TYPE_TIME) = (False, GTime zero_time)"
proof -
  have "parse_long_year (fmt_clock t) = None"
    using assms by (intro parse_long_year_clock) (simp add: valid_time_def)
  then show ?thesis
    by (simp add: FormatValueForMySQL_def format_clock_def parsed_time_def time_layouts_def mysql_type_defs
        time_parse_def date_parse_def iso_parse_def)
qed

text \<open>A number that is not a float64 is reported by its digits without its exponent: the decimal point is lost.\<close>

lemma numeric_without_point: "ConvertValue rt fr (Numeric True None ''12345'') MYSQL_TYPE_VARCHAR = (True, GString ''12345'')"
  by (simp add: ConvertValue_def unwrap_def convert_to_def mysql_type_defs)

end
