(* ===== verification/Binlog_Writer.thy ===== *)
theory Binlog_Writer
  imports Go_Strings Contracts "HOL-Library.AList" "HOL-Library.List_Lexorder" "HOL-Library.Char_ord"
begin

text \<open>
  The audit log of \<open>pkg/binlog/binlog.go\<close>: the writer with its buffer, positions, rotation and retention, the binary
  record format, and the filters in front of the event channel. The directory is an association list from file names to
  contents; \<open>filepath.Glob\<close> lists its names in their lexical order. JSON encoding is an argument; file operations may fail, a write also after some
  bytes. Positions are natural numbers (a \<open>uint64\<close> that counts bytes of a file does not overflow), and so are the sizes and the number of files of
  the configuration and the number of the current file: negative settings and the wrap of the \<open>uint32\<close> number after four billion rotations are
  outside of the model.
\<close>

section \<open>Events and configuration\<close>

datatype event_type =
    EventTypeUnknown | EventTypeQuery | EventTypeInsert | EventTypeUpdate | EventTypeDelete | EventTypeDDL
  | EventTypeBegin | EventTypeCommit | EventTypeRollback

fun event_code :: "event_type \<Rightarrow> byte" where
  "event_code EventTypeUnknown = 0"
| "event_code EventTypeQuery = 1"
| "event_code EventTypeInsert = 2"
| "event_code EventTypeUpdate = 3"
| "event_code EventTypeDelete = 4"
| "event_code EventTypeDDL = 5"
| "event_code EventTypeBegin = 6"
| "event_code EventTypeCommit = 7"
| "event_code EventTypeRollback = 8"

fun event_type_string :: "event_type \<Rightarrow> string" where
  "event_type_string EventTypeQuery = ''QUERY''"
| "event_type_string EventTypeInsert = ''INSERT''"
| "event_type_string EventTypeUpdate = ''UPDATE''"
| "event_type_string EventTypeDelete = ''DELETE''"
| "event_type_string EventTypeDDL = ''DDL''"
| "event_type_string EventTypeBegin = ''BEGIN''"
| "event_type_string EventTypeCommit = ''COMMIT''"
| "event_type_string EventTypeRollback = ''ROLLBACK''"
| "event_type_string EventTypeUnknown = ''UNKNOWN''"

record log_event =
  le_timestamp :: u64
  le_position :: nat
  le_type :: event_type
  le_database :: string
  le_table :: string
  le_session :: string
  le_user :: string
  le_client_ip :: string
  le_mysql_query :: string
  le_pg_query :: string
  le_rows :: u64
  le_exec_time :: u64

record log_config =
  lc_enabled :: bool
  lc_dir :: string
  lc_max_file_size :: nat
  lc_max_files :: nat
  lc_sync_mode :: string
  lc_format :: string
  lc_flush_interval :: int
  lc_buffer_size :: nat
  lc_log_ddl :: bool
  lc_log_dml :: bool
  lc_log_select :: bool

definition DefaultConfig :: log_config where
  "DefaultConfig =
     \<lparr>lc_enabled = False, lc_dir = ''./data/binlog'', lc_max_file_size = 100 * 1024 * 1024, lc_max_files = 10,
      lc_sync_mode = ''async'', lc_format = ''json'', lc_flush_interval = 1000000000, lc_buffer_size = 64 * 1024,
      lc_log_ddl = True, lc_log_dml = True, lc_log_select = False\<rparr>"

record log_writer =
  lw_config :: log_config
  lw_files :: "(string \<times> byte list) list"
  lw_file :: "string option"
  lw_buffer :: "byte list"
  lw_buf_pos :: nat
  lw_position :: nat
  lw_file_num :: nat
  lw_closed :: bool
  lw_chan :: "log_event list"

section \<open>Files\<close>

definition log_name :: "nat \<Rightarrow> string" where
  "log_name n = ''binlog.'' @ pad_zeros 6 (dec_digits n)"

definition content :: "log_writer \<Rightarrow> string \<Rightarrow> byte list" where
  "content w f = (case map_of (lw_files w) f of None \<Rightarrow> [] | Some d \<Rightarrow> d)"

definition append_file :: "string \<Rightarrow> byte list \<Rightarrow> log_writer \<Rightarrow> log_writer" where
  "append_file f d w = w\<lparr>lw_files := AList.update f (content w f @ d) (lw_files w)\<rparr>"

text \<open>The outcome of an operation: success, an error, or a panic (which ends the process).\<close>

datatype log_result = LogOk | LogError | LogPanic

text \<open>\<open>io_write = Some n\<close>: the write fails after \<open>n\<close> bytes.\<close>

record log_io =
  io_write :: "nat option"
  io_sync_ok :: bool

record create_io =
  cr_open_ok :: bool
  cr_header :: "byte list"
  cr_header_ok :: bool

definition flushBuffer :: "log_io \<Rightarrow> log_writer \<Rightarrow> log_result \<times> log_writer" where
  "flushBuffer io w =
     (if lw_buf_pos w = 0 then (LogOk, w)
      else if length (lw_buffer w) < lw_buf_pos w then (LogPanic, w)
      else case lw_file w of
             None \<Rightarrow> (LogError, w)
           | Some f \<Rightarrow>
               (let d = take (lw_buf_pos w) (lw_buffer w)
                in case io_write io of
                     Some n \<Rightarrow> (LogError, append_file f (take n d) w)
                   | None \<Rightarrow>
                       (let w = append_file f d w
                        in if lc_sync_mode (lw_config w) = ''fsync'' \<and> \<not> io_sync_ok io then (LogError, w)
                           else (LogOk, w\<lparr>lw_buf_pos := 0\<rparr>))))"

definition createNewFile :: "create_io \<Rightarrow> log_writer \<Rightarrow> log_result \<times> log_writer" where
  "createNewFile cr w =
     (let f = log_name (lw_file_num w)
      in if \<not> cr_open_ok cr then (LogError, w)
         else if content w f \<noteq> [] then (LogOk, w\<lparr>lw_file := Some f\<rparr>)
         else if \<not> cr_header_ok cr then (LogError, append_file f [] w)
         else (LogOk, (append_file f (cr_header cr) w)\<lparr>lw_position := length (cr_header cr), lw_file := Some f\<rparr>))"

text \<open>\<open>Sscanf\<close> with \<open>binlog.%06d\<close>: at most six digits.\<close>

definition log_number :: "string \<Rightarrow> nat option" where
  "log_number name =
     (let ds = takeWhile is_digit (take 6 (drop 7 name))
      in if HasPrefix name ''binlog.'' \<and> ds \<noteq> [] then Some (digits_val ds) else None)"

definition openOrCreateFile :: "create_io \<Rightarrow> log_writer \<Rightarrow> log_result \<times> log_writer" where
  "openOrCreateFile cr w =
     (let names = filter (\<lambda>n. HasPrefix n ''binlog.'') (map fst (lw_files w))
      in if names = [] then createNewFile cr w
         else (let maxNum = fold max (List.map_filter log_number names) 0
               in case map_of (lw_files w) (log_name maxNum) of
                    None \<Rightarrow> (LogError, w\<lparr>lw_file_num := maxNum\<rparr>)
                  | Some d \<Rightarrow>
                      createNewFile cr
                        (if lc_max_file_size (lw_config w) \<le> length d then w\<lparr>lw_file_num := maxNum + 1\<rparr>
                         else w\<lparr>lw_file_num := maxNum, lw_position := length d\<rparr>)))"

definition cleanupOldFiles :: "log_writer \<Rightarrow> log_writer" where
  "cleanupOldFiles w =
     (let matches = sort (filter (\<lambda>n. HasPrefix n ''binlog.'') (map fst (lw_files w)));
          old = take (length matches - lc_max_files (lw_config w)) matches
      in w\<lparr>lw_files := filter (\<lambda>(n, _). n \<notin> set old) (lw_files w)\<rparr>)"

text \<open>\<open>rotate\<close>; the clean-up runs in a goroutine of its own.\<close>

definition rotate :: "log_io \<Rightarrow> create_io \<Rightarrow> log_writer \<Rightarrow> log_result \<times> log_writer" where
  "rotate io cr w =
     (case flushBuffer io w of
        (LogOk, w) \<Rightarrow>
          createNewFile cr (w\<lparr>lw_file := None, lw_file_num := lw_file_num w + 1, lw_position := 0\<rparr>)
      | (r, w) \<Rightarrow> (r, w))"

section \<open>Records\<close>

definition serializeBinary :: "log_event \<Rightarrow> byte list" where
  "serializeBinary e =
     (let db = bytes_of (le_database e); tb = bytes_of (le_table e);
          mq = bytes_of (le_mysql_query e); pq = bytes_of (le_pg_query e);
          totalLen = 4 + 8 + 1 + 2 + length db + 2 + length tb + 4 + length mq + 4 + length pq + 8 + 8;
          buf = replicate totalLen 0;
          buf = put buf 0 (be_bytes 4 (of_nat totalLen :: u32));
          buf = put buf 4 (be_bytes 8 (le_timestamp e));
          buf = put buf 12 [event_code (le_type e)];
          buf = put buf 13 (be_bytes 2 (of_nat (length db) :: u16));
          buf = put buf 15 db;
          pos = 15 + length db;
          buf = put buf pos (be_bytes 2 (of_nat (length tb) :: u16));
          buf = put buf (pos + 2) tb;
          pos = pos + 2 + length tb;
          buf = put buf pos (be_bytes 4 (of_nat (length mq) :: u32));
          buf = put buf (pos + 4) mq;
          pos = pos + 4 + length mq;
          buf = put buf pos (be_bytes 4 (of_nat (length pq) :: u32));
          buf = put buf (pos + 4) pq;
          pos = pos + 4 + length pq;
          buf = put buf pos (be_bytes 8 (le_rows e))
      in put buf (pos + 8) (be_bytes 8 (le_exec_time e)))"

definition event_data :: "(log_event \<Rightarrow> byte list option) \<Rightarrow> log_config \<Rightarrow> log_event \<Rightarrow> byte list option" where
  "event_data marshal cfg e =
     (if lc_format cfg = ''json'' then map_option (\<lambda>d. d @ [10]) (marshal e) else Some (serializeBinary e))"

record write_io =
  wi_rotate :: log_io
  wi_create :: create_io
  wi_flush :: log_io
  wi_sync :: log_io

definition buffer_event :: "(log_event \<Rightarrow> byte list option) \<Rightarrow> write_io \<Rightarrow> log_event \<Rightarrow> log_writer
    \<Rightarrow> log_result \<times> log_writer" where
  "buffer_event marshal wi e w =
     (case event_data marshal (lw_config w) (e\<lparr>le_position := lw_position w\<rparr>) of
        None \<Rightarrow> (LogError, w)
      | Some d \<Rightarrow>
          (case (if length (lw_buffer w) < lw_buf_pos w + length d then flushBuffer (wi_flush wi) w else (LogOk, w)) of
             (LogOk, w) \<Rightarrow>
               if length (lw_buffer w) < lw_buf_pos w then (LogPanic, w)
               else (let w = w\<lparr>lw_buffer := put (lw_buffer w) (lw_buf_pos w) d, lw_buf_pos := lw_buf_pos w + length d,
                               lw_position := lw_position w + length d\<rparr>
                     in if lc_sync_mode (lw_config w) = ''sync'' then flushBuffer (wi_sync wi) w else (LogOk, w))
           | (r, w) \<Rightarrow> (r, w)))"

definition writeEvent :: "(log_event \<Rightarrow> byte list option) \<Rightarrow> write_io \<Rightarrow> log_event \<Rightarrow> log_writer
    \<Rightarrow> log_result \<times> log_writer" where
  "writeEvent marshal wi e w =
     (if lc_max_file_size (lw_config w) \<le> lw_position w
      then (case rotate (wi_rotate wi) (wi_create wi) w of
              (LogOk, w) \<Rightarrow> buffer_event marshal wi e w
            | (r, w) \<Rightarrow> (r, w))
      else buffer_event marshal wi e w)"

section \<open>Operations\<close>

definition NewWriter :: "create_io \<Rightarrow> bool \<Rightarrow> (string \<times> byte list) list \<Rightarrow> log_config option
    \<Rightarrow> log_result \<times> log_writer option" where
  "NewWriter cr mkdir_ok files ocfg =
     (let cfg = (case ocfg of None \<Rightarrow> DefaultConfig | Some cfg \<Rightarrow> cfg)
      in if \<not> lc_enabled cfg then (LogOk, None)
         else if \<not> mkdir_ok then (LogError, None)
         else (case openOrCreateFile cr
                 \<lparr>lw_config = cfg, lw_files = files, lw_file = None, lw_buffer = replicate (lc_buffer_size cfg) 0,
                  lw_buf_pos = 0, lw_position = 0, lw_file_num = 0, lw_closed = False, lw_chan = []\<rparr> of
                 (LogOk, w) \<Rightarrow> (LogOk, Some w)
               | (r, w) \<Rightarrow> (r, None)))"

definition wanted :: "log_config \<Rightarrow> event_type \<Rightarrow> bool" where
  "wanted cfg t =
     (if t \<in> {EventTypeInsert, EventTypeUpdate, EventTypeDelete} then lc_log_dml cfg
      else if t = EventTypeDDL then lc_log_ddl cfg
      else if t = EventTypeQuery then lc_log_select cfg
      else True)"

definition Write :: "log_event \<Rightarrow> log_writer option \<Rightarrow> log_result \<times> log_writer option" where
  "Write e ow =
     (case ow of
        None \<Rightarrow> (LogOk, None)
      | Some w \<Rightarrow>
          if lw_closed w \<or> \<not> wanted (lw_config w) (le_type e) then (LogOk, ow)
          else if length (lw_chan w) < 10000 then (LogOk, Some (w\<lparr>lw_chan := lw_chan w @ [e]\<rparr>))
          else (LogError, ow))"

text \<open>\<open>asyncWriter\<close> takes the first event of the channel; an error is logged, the event is gone.\<close>

definition async_step :: "(log_event \<Rightarrow> byte list option) \<Rightarrow> write_io \<Rightarrow> log_writer \<Rightarrow> log_result \<times> log_writer" where
  "async_step marshal wi w =
     (case lw_chan w of
        [] \<Rightarrow> (LogOk, w)
      | e # es \<Rightarrow>
          (case writeEvent marshal wi e (w\<lparr>lw_chan := es\<rparr>) of (r, w) \<Rightarrow> (if r = LogPanic then LogPanic else LogOk, w)))"

definition flush_tick :: "log_io \<Rightarrow> log_writer \<Rightarrow> log_result \<times> log_writer" where
  "flush_tick io w = (case flushBuffer io w of (r, w) \<Rightarrow> (if r = LogPanic then LogPanic else LogOk, w))"

definition CloseWriter :: "log_io \<Rightarrow> bool \<Rightarrow> log_writer option \<Rightarrow> log_result \<times> log_writer option" where
  "CloseWriter io close_ok ow =
     (case ow of
        None \<Rightarrow> (LogOk, None)
      | Some w \<Rightarrow>
          if lw_closed w then (LogOk, ow)
          else (case flushBuffer io (w\<lparr>lw_closed := True\<rparr>) of
                  (LogOk, w) \<Rightarrow>
                    (case lw_file w of
                       None \<Rightarrow> (LogOk, Some w)
                     | Some f \<Rightarrow> (if close_ok then LogOk else LogError, Some (w\<lparr>lw_file := None\<rparr>)))
                | (r, w) \<Rightarrow> (r, Some w)))"

definition GetWriterPosition :: "log_writer option \<Rightarrow> nat \<times> nat" where
  "GetWriterPosition ow = (case ow of None \<Rightarrow> (0, 0) | Some w \<Rightarrow> (lw_file_num w, lw_position w))"

end
