(* ===== verification/Binlog_Log.thy ===== *)
theory Binlog_Log
  imports Binlog_Writer
begin

text \<open>
  Properties of the audit log: the binary records are a self-delimiting codec, an event is appended at the position that
  the writer reports, across rotations, and the two ways in which events or the process are lost.
\<close>

section \<open>The binary record\<close>

text \<open>The layout as the comment of \<open>serializeBinary\<close> gives it.\<close>

definition record_bytes :: "log_event \<Rightarrow> byte list" where
  "record_bytes e =
     be_bytes 4 (of_nat (41 + length (le_database e) + length (le_table e) + length (le_mysql_query e)
                   + length (le_pg_query e)) :: u32)
     @ be_bytes 8 (le_timestamp e) @ [event_code (le_type e)]
     @ be_bytes 2 (of_nat (length (le_database e)) :: u16) @ bytes_of (le_database e)
     @ be_bytes 2 (of_nat (length (le_table e)) :: u16) @ bytes_of (le_table e)
     @ be_bytes 4 (of_nat (length (le_mysql_query e)) :: u32) @ bytes_of (le_mysql_query e)
     @ be_bytes 4 (of_nat (length (le_pg_query e)) :: u32) @ bytes_of (le_pg_query e)
     @ be_bytes 8 (le_rows e) @ be_bytes 8 (le_exec_time e)"

lemma serializeBinary_layout: "serializeBinary e = record_bytes e"
  unfolding serializeBinary_def Let_def record_bytes_def
  by (simp add: put_fills del: append_assoc append.simps replicate_Suc) (simp add: ac_simps)

text \<open>A specification of the format: how a record could be read. The program itself has no reader for it (its reader expects JSON, see
  \<open>Log_Reader\<close>). The session, the user, the address and the position are not part of a record.\<close>

definition read_be :: "nat \<Rightarrow> byte list \<Rightarrow> (nat \<times> byte list) option" where
  "read_be k bs = (if length bs < k then None else Some (be_val (take k bs), drop k bs))"

definition read_string :: "nat \<Rightarrow> byte list \<Rightarrow> (string \<times> byte list) option" where
  "read_string k bs =
     Option.bind (read_be k bs)
       (\<lambda>(n, r). if length r < n then None else Some (string_of (take n r), drop n r))"

definition type_of_code :: "nat \<Rightarrow> event_type option" where
  "type_of_code c =
     List.find (\<lambda>t. unat (event_code t) = c)
       [EventTypeUnknown, EventTypeQuery, EventTypeInsert, EventTypeUpdate, EventTypeDelete, EventTypeDDL,
        EventTypeBegin, EventTypeCommit, EventTypeRollback]"

definition read_record :: "byte list \<Rightarrow> (log_event \<times> byte list) option" where
  "read_record bs =
     Option.bind (read_be 4 bs) (\<lambda>(total, r).
     if length bs < total then None else
     Option.bind (read_be 8 r) (\<lambda>(ts, r).
     Option.bind (read_be 1 r) (\<lambda>(c, r).
     Option.bind (type_of_code c) (\<lambda>ty.
     Option.bind (read_string 2 r) (\<lambda>(db, r).
     Option.bind (read_string 2 r) (\<lambda>(tb, r).
     Option.bind (read_string 4 r) (\<lambda>(mq, r).
     Option.bind (read_string 4 r) (\<lambda>(pq, r).
     Option.bind (read_be 8 r) (\<lambda>(rows, r).
     Option.bind (read_be 8 r) (\<lambda>(ex, r).
     Some (\<lparr>le_timestamp = of_nat ts, le_position = 0, le_type = ty, le_database = db, le_table = tb,
            le_session = [], le_user = [], le_client_ip = [], le_mysql_query = mq, le_pg_query = pq,
            le_rows = of_nat rows, le_exec_time = of_nat ex\<rparr>, r)))))))))))"

definition record_ok :: "log_event \<Rightarrow> bool" where
  "record_ok e \<longleftrightarrow> length (le_database e) < 65536 \<and> length (le_table e) < 65536
     \<and> length (serializeBinary e) < 4294967296"

definition stored :: "log_event \<Rightarrow> log_event" where
  "stored e = e\<lparr>le_position := 0, le_session := [], le_user := [], le_client_ip := []\<rparr>"

lemma read_be_bytes [simp]: "length xs = k \<Longrightarrow> read_be k (xs @ r) = Some (be_val xs, r)"
  by (simp add: read_be_def)

lemma be_val_word [simp]:
  "be_val (be_bytes 2 (a :: u16)) = unat a" "be_val (be_bytes 4 (b :: u32)) = unat b"
  "be_val (be_bytes 8 (c :: u64)) = unat c"
  using unsigned_less [of a, where ?'a = nat] unsigned_less [of b, where ?'a = nat] unsigned_less [of c, where ?'a = nat]
  by (simp_all add: be_val_be_bytes)

lemma read_be_Cons [simp]: "read_be (Suc 0) (b # r) = Some (unat b, r)"
  by (simp add: read_be_def be_val_def)

lemma read_string_bytes [simp]:
  "length xs = k \<Longrightarrow> be_val xs = length s \<Longrightarrow> read_string k (xs @ bytes_of s @ r) = Some (s, r)"
  by (simp add: read_string_def)

lemma type_of_code_event [simp]: "type_of_code (unat (event_code t)) = Some t"
  by (cases t) (simp_all add: type_of_code_def)

lemma unat_of_nat_u16: "n < 65536 \<Longrightarrow> unat (of_nat n :: u16) = n"
  and unat_of_nat_u32: "n < 4294967296 \<Longrightarrow> unat (of_nat n :: u32) = n"
  by (rule unat_of_nat_small, simp)+

lemma length_serializeBinary:
  "length (serializeBinary e) = 41 + length (le_database e) + length (le_table e) + length (le_mysql_query e)
     + length (le_pg_query e)"
  by (simp add: serializeBinary_layout record_bytes_def)

lemma read_record_bytes:
  assumes "record_ok e"
  shows "read_record (serializeBinary e @ r) = Some (stored e, r)"
proof -
  have small: "length (le_database e) < 65536" "length (le_table e) < 65536"
    "length (le_mysql_query e) < 4294967296" "length (le_pg_query e) < 4294967296"
    "length (serializeBinary e) < 4294967296"
    using assms by (simp_all add: record_ok_def length_serializeBinary)
  let ?t = "of_nat (41 + length (le_database e) + length (le_table e) + length (le_mysql_query e)
                   + length (le_pg_query e)) :: u32"
  have total: "unat ?t = length (serializeBinary e)"
    using unat_of_nat_u32 [OF small(5)] by (simp only: length_serializeBinary)
  obtain body where body: "serializeBinary e = be_bytes 4 ?t @ body"
    and b: "body = be_bytes 8 (le_timestamp e) @ [event_code (le_type e)]
     @ be_bytes 2 (of_nat (length (le_database e)) :: u16) @ bytes_of (le_database e)
     @ be_bytes 2 (of_nat (length (le_table e)) :: u16) @ bytes_of (le_table e)
     @ be_bytes 4 (of_nat (length (le_mysql_query e)) :: u32) @ bytes_of (le_mysql_query e)
     @ be_bytes 4 (of_nat (length (le_pg_query e)) :: u32) @ bytes_of (le_pg_query e)
     @ be_bytes 8 (le_rows e) @ be_bytes 8 (le_exec_time e)"
    by (simp only: serializeBinary_layout record_bytes_def)
  have "read_be 4 (serializeBinary e @ r) = Some (length (serializeBinary e), body @ r)"
    by (simp only: body append_assoc read_be_bytes length_be_bytes be_val_word) (simp only: total body)
  then show ?thesis
    using small unfolding read_record_def
    by (simp add: b unat_of_nat_u16 unat_of_nat_u32 stored_def)
qed

interpretation log_record: codec serializeBinary read_record "\<lambda>e. record_ok e \<and> stored e = e"
  by unfold_locales (metis read_record_bytes)

lemma serializeBinary_stored [simp]: "serializeBinary (stored e) = serializeBinary e"
  by (simp add: serializeBinary_layout record_bytes_def stored_def)

lemma stored_stored [simp]: "stored (stored e) = stored e"
  by (simp add: stored_def)

lemma record_ok_stored [simp]: "record_ok (stored e) = record_ok e"
  by (simp add: record_ok_def) (simp add: stored_def)

lemma stored_position [simp]: "stored (e\<lparr>le_position := p\<rparr>) = stored e"
  by (simp add: stored_def)

lemma serializeBinary_position [simp]: "serializeBinary (e\<lparr>le_position := p\<rparr>) = serializeBinary e"
  by (simp add: serializeBinary_layout record_bytes_def)

lemma read_records:
  assumes "list_all record_ok es"
  shows "decode_n read_record (length es) (concat (map serializeBinary es) @ rest) = Some (map stored es, rest)"
proof -
  have "list_all (\<lambda>e. record_ok e \<and> stored e = e) (map stored es)"
    using assms by (simp add: list_all_iff)
  from log_record.decode_n_concat [OF this, of rest] show ?thesis by (simp add: comp_def)
qed

section \<open>The writer\<close>

text \<open>The log of the current file, with the bytes that the buffer still holds.\<close>

definition logged :: "log_writer \<Rightarrow> byte list" where
  "logged w = (case lw_file w of None \<Rightarrow> [] | Some f \<Rightarrow> content w f) @ take (lw_buf_pos w) (lw_buffer w)"

definition writer_inv :: "log_writer \<Rightarrow> bool" where
  "writer_inv w \<longleftrightarrow> lw_file w = Some (log_name (lw_file_num w)) \<and> lw_buf_pos w \<le> length (lw_buffer w)
     \<and> lw_position w = length (logged w)"

definition io_ok :: "log_io \<Rightarrow> bool" where
  "io_ok io \<longleftrightarrow> io_write io = None \<and> io_sync_ok io"

lemma content_append_file [simp]:
  "content (append_file f d w) g = (if g = f then content w f @ d else content w g)"
  by (simp add: append_file_def content_def update_conv)

lemma append_file_fields [simp]:
  "lw_config (append_file f d w) = lw_config w" "lw_file (append_file f d w) = lw_file w"
  "lw_buffer (append_file f d w) = lw_buffer w" "lw_buf_pos (append_file f d w) = lw_buf_pos w"
  "lw_position (append_file f d w) = lw_position w" "lw_file_num (append_file f d w) = lw_file_num w"
  by (simp_all add: append_file_def)

lemma content_update [simp]:
  "content (w\<lparr>lw_buf_pos := n\<rparr>) f = content w f" "content (w\<lparr>lw_buffer := b\<rparr>) f = content w f"
  "content (w\<lparr>lw_position := n\<rparr>) f = content w f" "content (w\<lparr>lw_file := g\<rparr>) f = content w f"
  "content (w\<lparr>lw_file_num := n\<rparr>) f = content w f" "content (w\<lparr>lw_chan := es\<rparr>) f = content w f"
  "content (w\<lparr>lw_closed := c\<rparr>) f = content w f"
  by (simp_all add: content_def)

text \<open>A flush moves the buffered bytes to the file; the log is the same.\<close>

lemma flushBuffer_ok:
  assumes "writer_inv w" and "io_ok io"
  shows "\<exists>w'. flushBuffer io w = (LogOk, w') \<and> writer_inv w' \<and> logged w' = logged w \<and> lw_buf_pos w' = 0
    \<and> lw_config w' = lw_config w \<and> lw_buffer w' = lw_buffer w \<and> lw_file_num w' = lw_file_num w
    \<and> content w' (log_name (lw_file_num w)) = logged w \<and> lw_position w' = lw_position w
    \<and> (\<forall>f. f \<noteq> log_name (lw_file_num w) \<longrightarrow> content w' f = content w f)"
  using assms
  by (auto simp: flushBuffer_def writer_inv_def logged_def io_ok_def Let_def)

lemma room_ok:
  assumes "writer_inv w" and "io_ok io" and "n \<le> length (lw_buffer w)"
  obtains v where "(if length (lw_buffer w) < lw_buf_pos w + n then flushBuffer io w else (LogOk, w)) = (LogOk, v)"
    and "writer_inv v" and "logged v = logged w" and "lw_buf_pos v + n \<le> length (lw_buffer w)"
    and "lw_config v = lw_config w" and "lw_buffer v = lw_buffer w" and "lw_file_num v = lw_file_num w"
    and "\<forall>f. f \<noteq> log_name (lw_file_num w) \<longrightarrow> content v f = content w f"
proof (cases "length (lw_buffer w) < lw_buf_pos w + n")
  case True
  obtain v where "flushBuffer io w = (LogOk, v)" "writer_inv v" "logged v = logged w" "lw_buf_pos v = 0"
    "lw_config v = lw_config w" "lw_buffer v = lw_buffer w" "lw_file_num v = lw_file_num w"
    "\<forall>f. f \<noteq> log_name (lw_file_num w) \<longrightarrow> content v f = content w f"
    using flushBuffer_ok [OF assms(1,2)] by blast
  then show ?thesis using that [of v] True assms(3) by simp
next
  case False
  then show ?thesis using that [of w] assms(1) by simp
qed

lemma buffer_ok:
  assumes "writer_inv w" and "io_ok (wi_flush wi)" and "io_ok (wi_sync wi)"
    and "event_data marshal (lw_config w) (e\<lparr>le_position := lw_position w\<rparr>) = Some d"
    and "length d \<le> length (lw_buffer w)"
  shows "\<exists>w'. buffer_event marshal wi e w = (LogOk, w') \<and> writer_inv w' \<and> logged w' = logged w @ d
    \<and> lw_file_num w' = lw_file_num w \<and> lw_config w' = lw_config w \<and> length (lw_buffer w') = length (lw_buffer w)
    \<and> (\<forall>f. f \<noteq> log_name (lw_file_num w) \<longrightarrow> content w' f = content w f)"
proof -
  obtain v where v:
    "(if length (lw_buffer w) < lw_buf_pos w + length d then flushBuffer (wi_flush wi) w else (LogOk, w)) = (LogOk, v)"
    "writer_inv v" "logged v = logged w" "lw_buf_pos v + length d \<le> length (lw_buffer w)" "lw_config v = lw_config w"
    "lw_buffer v = lw_buffer w" "lw_file_num v = lw_file_num w"
    "\<forall>f. f \<noteq> log_name (lw_file_num w) \<longrightarrow> content v f = content w f"
    by (rule room_ok [OF assms(1,2,5)])
  let ?u = "v\<lparr>lw_buffer := put (lw_buffer v) (lw_buf_pos v) d, lw_buf_pos := lw_buf_pos v + length d,
              lw_position := lw_position v + length d\<rparr>"
  have t: "take (lw_buf_pos v + length d) (put (lw_buffer v) (lw_buf_pos v) d) = take (lw_buf_pos v) (lw_buffer v) @ d"
    using v(4,6) by (simp add: put_def)
  have "logged ?u = logged v @ d"
    using t by (simp add: logged_def split: option.splits)
  then have u: "writer_inv ?u" "logged ?u = logged w @ d"
    using v(2-4,6) by (simp_all add: writer_inv_def)
  have "buffer_event marshal wi e w =
      (if lc_sync_mode (lw_config w) = ''sync'' then flushBuffer (wi_sync wi) ?u else (LogOk, ?u))"
    using assms(4) v by (simp add: buffer_event_def Let_def)
  moreover obtain x where "flushBuffer (wi_sync wi) ?u = (LogOk, x)" "writer_inv x" "logged x = logged ?u"
    "lw_config x = lw_config ?u" "lw_buffer x = lw_buffer ?u" "lw_file_num x = lw_file_num ?u"
    "\<forall>f. f \<noteq> log_name (lw_file_num ?u) \<longrightarrow> content x f = content ?u f"
    using flushBuffer_ok [OF u(1) assms(3)] by blast
  ultimately show ?thesis using u v(5-8) by (cases "lc_sync_mode (lw_config w) = ''sync''") simp_all
qed

lemma rotate_ok:
  assumes "writer_inv w" and "io_ok io" and "cr_open_ok cr" and "cr_header_ok cr"
    and "content w (log_name (lw_file_num w + 1)) = []"
    and "log_name (lw_file_num w + 1) \<noteq> log_name (lw_file_num w)"
  shows "\<exists>w'. rotate io cr w = (LogOk, w') \<and> writer_inv w' \<and> logged w' = cr_header cr
    \<and> lw_file_num w' = lw_file_num w + 1 \<and> lw_config w' = lw_config w \<and> lw_buffer w' = lw_buffer w
    \<and> content w' (log_name (lw_file_num w)) = logged w"
proof -
  obtain v where "flushBuffer io w = (LogOk, v)" "lw_buf_pos v = 0" "lw_file_num v = lw_file_num w"
    "lw_config v = lw_config w" "lw_buffer v = lw_buffer w" "content v (log_name (lw_file_num w)) = logged w"
    "content v (log_name (lw_file_num w + 1)) = content w (log_name (lw_file_num w + 1))"
    using flushBuffer_ok [OF assms(1,2)] assms(6) by blast
  then show ?thesis
    using assms(3-6) by (auto simp: rotate_def createNewFile_def Let_def writer_inv_def logged_def)
qed

lemma log_name_inject [simp]: "log_name m = log_name n \<longleftrightarrow> m = n"
  by (metis append_same_eq digits_val_pad_zeros log_name_def same_append_eq)

definition disk_ok :: "write_io \<Rightarrow> bool" where
  "disk_ok wi \<longleftrightarrow> io_ok (wi_rotate wi) \<and> io_ok (wi_flush wi) \<and> io_ok (wi_sync wi)
     \<and> cr_open_ok (wi_create wi) \<and> cr_header_ok (wi_create wi)"

definition rotates :: "log_writer \<Rightarrow> bool" where
  "rotates w \<longleftrightarrow> lc_max_file_size (lw_config w) \<le> lw_position w"

text \<open>The log after the rotation that an event may cause.\<close>

definition log_before :: "write_io \<Rightarrow> log_writer \<Rightarrow> byte list" where
  "log_before wi w = (if rotates w then cr_header (wi_create wi) else logged w)"

lemma writeEvent_ok:
  assumes "writer_inv w" and "disk_ok wi" and "content w (log_name (lw_file_num w + 1)) = []"
    and "event_data marshal (lw_config w) (e\<lparr>le_position := length (log_before wi w)\<rparr>) = Some d"
    and "length d \<le> length (lw_buffer w)"
  shows "\<exists>w'. writeEvent marshal wi e w = (LogOk, w') \<and> writer_inv w' \<and> logged w' = log_before wi w @ d
    \<and> lw_file_num w' = (if rotates w then lw_file_num w + 1 else lw_file_num w)
    \<and> lw_config w' = lw_config w \<and> length (lw_buffer w') = length (lw_buffer w)
    \<and> (rotates w \<longrightarrow> content w' (log_name (lw_file_num w)) = logged w)"
proof (cases "rotates w")
  case False
  have "event_data marshal (lw_config w) (e\<lparr>le_position := lw_position w\<rparr>) = Some d"
    using assms(1,4) False by (simp add: log_before_def writer_inv_def)
  then obtain w' where "buffer_event marshal wi e w = (LogOk, w')" "writer_inv w'" "logged w' = logged w @ d"
    "lw_file_num w' = lw_file_num w" "lw_config w' = lw_config w" "length (lw_buffer w') = length (lw_buffer w)"
    using buffer_ok [OF assms(1) _ _ _ assms(5), of wi marshal e] assms(2) by (auto simp: disk_ok_def)
  then show ?thesis using False by (simp add: writeEvent_def rotates_def log_before_def)
next
  case True
  obtain v where v: "rotate (wi_rotate wi) (wi_create wi) w = (LogOk, v)" "writer_inv v" "logged v = cr_header (wi_create wi)"
    "lw_file_num v = lw_file_num w + 1" "lw_config v = lw_config w" "lw_buffer v = lw_buffer w"
    "content v (log_name (lw_file_num w)) = logged w"
    using rotate_ok [OF assms(1), of "wi_rotate wi" "wi_create wi"] assms(2,3) by (auto simp: disk_ok_def)
  have "event_data marshal (lw_config v) (e\<lparr>le_position := lw_position v\<rparr>) = Some d"
    using assms(4) True v(2,3,5) by (simp add: log_before_def writer_inv_def)
  then obtain w' where "buffer_event marshal wi e v = (LogOk, w')" "writer_inv w'" "logged w' = logged v @ d"
    "lw_file_num w' = lw_file_num v" "lw_config w' = lw_config v" "length (lw_buffer w') = length (lw_buffer v)"
    "content w' (log_name (lw_file_num w)) = content v (log_name (lw_file_num w))"
    using buffer_ok [OF v(2), of wi marshal e d] assms(2,5) v(4,6) by (auto simp: disk_ok_def)
  then show ?thesis using True v by (simp add: writeEvent_def rotates_def log_before_def)
qed

text \<open>C34: An event is logged at the position it carries. While the disk works, an event that fits into the buffer is appended to
  the log of the current file, or, if that file has reached its maximal size, to the header of the next file; the position
  in the event is its offset in the file, the reported position is the end of the event, and the file that a rotation leaves
  holds every byte that was logged to it.\<close>

theorem event_appended:
  assumes "writer_inv w" and "disk_ok wi" and "content w (log_name (lw_file_num w + 1)) = []"
    and "p = length (log_before wi w)"
    and "event_data marshal (lw_config w) (e\<lparr>le_position := p\<rparr>) = Some d" and "length d \<le> length (lw_buffer w)"
  shows "\<exists>w'. writeEvent marshal wi e w = (LogOk, w') \<and> writer_inv w'
    \<and> GetWriterPosition (Some w') = (if rotates w then lw_file_num w + 1 else lw_file_num w, p + length d)
    \<and> take p (logged w') = log_before wi w \<and> drop p (logged w') = d
    \<and> content w' (log_name (lw_file_num w)) = (if rotates w then logged w else content w' (log_name (lw_file_num w')))"
  using writeEvent_ok [OF assms(1-3) _ assms(6), of marshal e] assms(4,5)
  by (auto simp: GetWriterPosition_def writer_inv_def)

definition good_io :: log_io where
  "good_io = \<lparr>io_write = None, io_sync_ok = True\<rparr>"

definition good_create :: create_io where
  "good_create = \<lparr>cr_open_ok = True, cr_header = bytes_of ''# AProxy Binlog v1.0'', cr_header_ok = True\<rparr>"

definition good_disk :: write_io where
  "good_disk = \<lparr>wi_rotate = good_io, wi_create = good_create, wi_flush = good_io, wi_sync = good_io\<rparr>"

definition binary_config :: log_config where
  "binary_config = DefaultConfig\<lparr>lc_enabled := True, lc_format := ''binary'', lc_buffer_size := 100, lc_max_file_size := 500\<rparr>"

definition new_log :: log_writer where
  "new_log = the (snd (NewWriter good_create True [] (Some binary_config)))"

definition insert_event :: log_event where
  "insert_event = \<lparr>le_timestamp = 7, le_position = 0, le_type = EventTypeInsert, le_database = ''shop'', le_table = ''t'',
     le_session = ''s1'', le_user = ''root'', le_client_ip = [], le_mysql_query = ''INSERT INTO t VALUES (1)'',
     le_pg_query = ''INSERT INTO t VALUES (1)'', le_rows = 1, le_exec_time = 20\<rparr>"

lemma new_log_simps:
  "NewWriter good_create True [] (Some binary_config) = (LogOk, Some new_log)"
  "lw_config new_log = binary_config" "lw_position new_log = 20" "lw_file_num new_log = 0"
  "lw_buffer new_log = replicate 100 0" "lw_buf_pos new_log = 0" "lw_file new_log = Some (log_name 0)"
  "content new_log (log_name 0) = bytes_of ''# AProxy Binlog v1.0''" "content new_log (log_name (Suc 0)) = []"
  by (simp_all add: new_log_def NewWriter_def binary_config_def DefaultConfig_def openOrCreateFile_def
      createNewFile_def good_create_def Let_def)
     (simp_all add: content_def append_file_def)

lemma new_log_inv: "writer_inv new_log"
  by (simp add: writer_inv_def logged_def new_log_simps)

lemma good_disk_ok: "disk_ok good_disk"
  by (simp add: disk_ok_def good_disk_def io_ok_def good_io_def good_create_def)

theorem event_appended_witness:
  "\<exists>w'. writeEvent (\<lambda>_. None) good_disk insert_event new_log = (LogOk, w') \<and> GetWriterPosition (Some w') = (0, 114)
     \<and> drop 20 (logged w') = serializeBinary insert_event"
proof -
  have d: "event_data (\<lambda>_. None) (lw_config new_log) (insert_event\<lparr>le_position := 20\<rparr>) = Some (serializeBinary insert_event)"
    by (simp add: event_data_def new_log_simps binary_config_def)
  have l: "length (serializeBinary insert_event) = 94" by (simp add: length_serializeBinary insert_event_def)
  have r: "\<not> rotates new_log" by (simp add: rotates_def new_log_simps binary_config_def)
  have p: "20 = length (log_before good_disk new_log)"
    using r new_log_inv by (simp add: log_before_def writer_inv_def new_log_simps)
  show ?thesis
    using event_appended [OF new_log_inv good_disk_ok _ p d] l r by (auto simp: new_log_simps)
qed

text \<open>Writing events one after the other, and a flush at the end.\<close>

fun write_events :: "(log_event \<Rightarrow> byte list option) \<Rightarrow> write_io \<Rightarrow> log_event list \<Rightarrow> log_writer
    \<Rightarrow> log_result \<times> log_writer" where
  "write_events marshal wi [] w = flushBuffer (wi_sync wi) w"
| "write_events marshal wi (e # es) w =
     (case writeEvent marshal wi e w of (LogOk, w) \<Rightarrow> write_events marshal wi es w | (r, w) \<Rightarrow> (r, w))"

lemma write_events_ok:
  assumes "writer_inv w" and "disk_ok wi" and "lc_format (lw_config w) \<noteq> ''json''"
    and "lw_position w + length (concat (map serializeBinary es)) \<le> lc_max_file_size (lw_config w)"
    and "list_all (\<lambda>e. length (serializeBinary e) \<le> length (lw_buffer w)) es"
  shows "\<exists>w'. write_events marshal wi es w = (LogOk, w') \<and> lw_file_num w' = lw_file_num w
    \<and> content w' (log_name (lw_file_num w)) = logged w @ concat (map serializeBinary es)"
  using assms(1,3-5)
proof (induction es arbitrary: w)
  case Nil
  then show ?case using flushBuffer_ok [of w "wi_sync wi"] assms(2) by (auto simp: disk_ok_def)
next
  case (Cons e es)
  let ?d = "serializeBinary e"
  have nr: "\<not> rotates w"
    using Cons.prems(3) length_serializeBinary [of e] by (simp add: rotates_def)
  then have "event_data marshal (lw_config w) (e\<lparr>le_position := lw_position w\<rparr>) = Some ?d"
    using Cons.prems(2) by (simp add: event_data_def)
  then obtain v where v: "buffer_event marshal wi e w = (LogOk, v)" "writer_inv v" "logged v = logged w @ ?d"
    "lw_file_num v = lw_file_num w" "lw_config v = lw_config w" "length (lw_buffer v) = length (lw_buffer w)"
    using buffer_ok [OF Cons.prems(1), of wi marshal e ?d] Cons.prems(4) assms(2) by (auto simp: disk_ok_def)
  have "lw_position v = lw_position w + length ?d"
    using v(2,3) Cons.prems(1) by (simp add: writer_inv_def)
  then obtain w' where "write_events marshal wi es v = (LogOk, w')" "lw_file_num w' = lw_file_num v"
    "content w' (log_name (lw_file_num v)) = logged v @ concat (map serializeBinary es)"
    using Cons.IH [OF v(2)] Cons.prems v by auto
  then show ?case using v nr by (simp add: writeEvent_def rotates_def)
qed

text \<open>No information is lost in the file: events that are written in the binary format to a file with room for them and then
  flushed stand in the file from the position that \<open>GetPosition\<close> reported before, each in full and in order, except the session,
  the user and the address, which a record does not hold.\<close>

lemma log_read_back:
  assumes "writer_inv w" and "disk_ok wi" and "lc_format (lw_config w) \<noteq> ''json''"
    and "lw_position w + length (concat (map serializeBinary es)) \<le> lc_max_file_size (lw_config w)"
    and "list_all (\<lambda>e. record_ok e \<and> length (serializeBinary e) \<le> length (lw_buffer w)) es"
    and "GetWriterPosition (Some w) = (n, p)"
  shows "\<exists>w'. write_events marshal wi es w = (LogOk, w')
    \<and> decode_n read_record (length es) (drop p (content w' (log_name n))) = Some (map stored es, [])"
proof -
  have np: "n = lw_file_num w" "p = length (logged w)"
    using assms(1,6) by (simp_all add: GetWriterPosition_def writer_inv_def)
  have "list_all (\<lambda>e. length (serializeBinary e) \<le> length (lw_buffer w)) es" "list_all record_ok es"
    using assms(5) by (simp_all add: list_all_iff)
  then show ?thesis
    using write_events_ok [OF assms(1-4), of marshal] read_records [of es "[]"] np by fastforce
qed

text \<open>A long event ends the process. An event whose record does not fit into the buffer (64 KB by default) is accepted:
  its first bytes are copied and the buffer is marked as fuller than it is. The flush that comes next slices beyond the
  buffer, which panics.\<close>

theorem long_event_panics:
  assumes "writer_inv w" and "disk_ok wi" and "\<not> rotates w" and "lc_sync_mode (lw_config w) \<noteq> ''sync''"
    and "event_data marshal (lw_config w) (e\<lparr>le_position := lw_position w\<rparr>) = Some d"
    and "length (lw_buffer w) < length d"
  shows "\<exists>w'. writeEvent marshal wi e w = (LogOk, w') \<and> flush_tick io w' = (LogPanic, w')"
proof -
  obtain v where v: "flushBuffer (wi_flush wi) w = (LogOk, v)" "lw_buf_pos v = 0" "lw_config v = lw_config w"
    "lw_buffer v = lw_buffer w"
    using flushBuffer_ok [OF assms(1), of "wi_flush wi"] assms(2) by (auto simp: disk_ok_def)
  then have "writeEvent marshal wi e w = (LogOk, v\<lparr>lw_buffer := put (lw_buffer v) 0 d, lw_buf_pos := length d,
      lw_position := lw_position v + length d\<rparr>)"
    using assms(3-6) by (simp add: writeEvent_def rotates_def buffer_event_def Let_def)
  then show ?thesis
    using assms(6) v by (auto simp: flush_tick_def flushBuffer_def)
qed

definition long_event :: log_event where
  "long_event = insert_event\<lparr>le_mysql_query := replicate 80 CHR ''x''\<rparr>"

theorem long_event_panics_witness:
  "\<exists>w'. writeEvent (\<lambda>_. None) good_disk long_event new_log = (LogOk, w') \<and> flush_tick good_io w' = (LogPanic, w')"
proof -
  have "event_data (\<lambda>_. None) (lw_config new_log) (long_event\<lparr>le_position := lw_position new_log\<rparr>)
      = Some (serializeBinary long_event)"
    by (simp add: event_data_def new_log_simps binary_config_def)
  moreover have "length (lw_buffer new_log) < length (serializeBinary long_event)"
    by (simp add: length_serializeBinary long_event_def insert_event_def new_log_simps)
  moreover have "\<not> rotates new_log" "lc_sync_mode (lw_config new_log) \<noteq> ''sync''"
    by (simp_all add: rotates_def new_log_simps binary_config_def DefaultConfig_def)
  ultimately show ?thesis using long_event_panics [OF new_log_inv good_disk_ok] by blast
qed

text \<open>Events that are still in the channel when the log is closed reach the buffer and no file.\<close>

lemma closed_log_drops:
  assumes "CloseWriter io True (Some w) = (LogOk, Some v)" and "\<not> lw_closed w" and "\<not> rotates v"
    and "lw_buf_pos v = 0" and "lw_chan v = e # es"
    and "event_data marshal (lw_config v) (e\<lparr>le_position := lw_position v\<rparr>) = Some d" and "length d \<le> length (lw_buffer v)"
  shows "fst (async_step marshal wi v) = LogOk \<and> lw_files (snd (async_step marshal wi v)) = lw_files v"
proof -
  have "lw_file v = None"
    using assms(1,2) by (auto simp: CloseWriter_def split: prod.splits log_result.splits option.splits)
  then show ?thesis
    using assms(3-7)
    by (auto simp: async_step_def writeEvent_def rotates_def buffer_event_def flushBuffer_def Let_def)
qed

end
