(* ===== verification/Log_Reader.thy ===== *)
theory Log_Reader
  imports Binlog_Log
begin

text \<open>
  The reader of the audit log, \<open>Reader\<close> in \<open>pkg/binlog/binlog.go\<close>. It expects a sequence of JSON values; decoding one value is
  the argument \<open>decode\<close>, which gives the event and the bytes behind it, and \<open>None\<close> at the end of the file or for an error. The
  channel that the goroutine fills and closes is the list of its events; \<open>None\<close> stands for a decoder that never ends.
\<close>

section \<open>Operations\<close>

record log_reader =
  lr_config :: log_config
  lr_file :: "string option"


partial_function (option) read_events ::
    "(byte list \<Rightarrow> (log_event \<times> byte list) option) \<Rightarrow> byte list \<Rightarrow> log_event list option" where
  "read_events decode s =
     (case decode s of
        None \<Rightarrow> Some []
      | Some (e, r) \<Rightarrow> Option.bind (read_events decode r) (\<lambda>es. Some (e # es)))"

datatype read_error = OpenFailed | SeekFailed

text \<open>Seeking behind the end is no error; a position of \<open>2^63\<close> or more becomes negative, which is one.\<close>

definition ReadFrom :: "(byte list \<Rightarrow> (log_event \<times> byte list) option) \<Rightarrow> (string \<times> byte list) list \<Rightarrow> nat \<Rightarrow> nat \<Rightarrow> log_reader
    \<Rightarrow> (read_error + log_event list option) \<times> log_reader" where
  "ReadFrom decode files fileNum position r =
     (let filename = log_name fileNum
      in case map_of files filename of
           None \<Rightarrow> (Inl OpenFailed, r)
         | Some d \<Rightarrow>
             if 2 ^ 63 \<le> position then (Inl SeekFailed, r)
             else (Inr (read_events decode (drop position d)), r\<lparr>lr_file := Some filename\<rparr>))"

section \<open>A JSON log reads back\<close>
















section \<open>What the reader cannot read\<close>

text \<open>
  A binary record starts with its length, most significant byte first: a record of less than 16 MB starts with a zero byte, which is no JSON. So
  the reader delivers no event of a binary log, from whatever position \<open>GetPosition\<close> reported.
\<close>

lemma small_starts_with_zero:
  fixes v :: u32
  assumes "unat v < 2 ^ 24"
  shows "be_bytes 4 v = 0 # be_bytes 3 v"
proof -
  have "unat (drop_bit 8 (drop_bit 8 (drop_bit 8 v))) = 0"
    using assms by (simp only: unat_drop_bit8) simp
  then have "drop_bit 8 (drop_bit 8 (drop_bit 8 v)) = 0" by (simp only: unat_eq_0)
  then have "le_bytes 4 v = le_bytes 3 v @ [0]"
    by (simp add: numeral_eq_Suc del: drop_bit_drop_bit)
  then show ?thesis by (simp add: be_bytes_def)
qed

lemma binary_log_unreadable:
  assumes "writer_inv w" and "disk_ok wi" and "lc_format (lw_config w) \<noteq> ''json''"
    and "lw_position w + length (concat (map serializeBinary (e # es))) \<le> lc_max_file_size (lw_config w)"
    and "list_all (\<lambda>e. length (serializeBinary e) \<le> length (lw_buffer w)) (e # es)"
    and "length (serializeBinary e) < 2 ^ 24" and "\<And>r. decode (0 # r) = None"
    and "GetWriterPosition (Some w) = (n, p)" and "p < 2 ^ 63"
  shows "\<exists>w'. write_events marshal wi (e # es) w = (LogOk, w') \<and> fst (ReadFrom decode (lw_files w') n p r) = Inr (Some [])"
proof -
  have np: "n = lw_file_num w" "p = length (logged w)" using assms(1,8) by (simp_all add: GetWriterPosition_def writer_inv_def)
  obtain w' where w': "write_events marshal wi (e # es) w = (LogOk, w')"
    "content w' (log_name n) = logged w @ concat (map serializeBinary (e # es))"
    using write_events_ok [OF assms(1-5), of marshal] np by auto
  have "unat (of_nat (length (serializeBinary e)) :: u32) < 2 ^ 24"
    using assms(6) unat_of_nat_u32 [of "length (serializeBinary e)"] by simp
  then have "\<exists>t. serializeBinary e = 0 # t"
    using small_starts_with_zero [of "of_nat (length (serializeBinary e))"]
    unfolding length_serializeBinary by (simp add: serializeBinary_layout record_bytes_def)
  then obtain t where t: "concat (map serializeBinary (e # es)) = 0 # t" by auto
  then have "map_of (lw_files w') (log_name n) = Some (logged w @ 0 # t)"
    using w'(2) by (auto simp: content_def split: option.splits)
  then have "fst (ReadFrom decode (lw_files w') n p r) = Inr (Some [])"
    using assms(7,9) np(2) by (simp add: ReadFrom_def read_events.simps)
  then show ?thesis using w'(1) by blast
qed

text \<open>
  Read from its start a file gives no events: its first line is a comment, which is not JSON.
\<close>

lemma header_stops_reader:
  assumes "decode (header @ log) = None" and "map_of files (log_name n) = Some (header @ log)"
  shows "fst (ReadFrom decode files n 0 r) = Inr (Some [])"
  using assms by (simp add: ReadFrom_def read_events.simps)

end
