(* ===== verification/Admin_Backup.thy ===== *)
theory Admin_Backup
  imports Go_Text Go_Time
begin

text \<open>
  Backup and restore, \<open>pkg/admin/backup.go\<close>: the command lines for \<open>pg_basebackup\<close>, \<open>pg_dump\<close>, \<open>pg_restore\<close>, \<open>psql\<close> and
  \<open>rsync\<close>, and the results the operations report. Programs, files and the clock belong to the operating system, the argument
  \<open>host\<close>. The functions of \<open>path/filepath\<close> are those of a Unix system.
\<close>

section \<open>Paths\<close>

text \<open>\<open>filepath.Clean\<close>: the stack of path elements, last first.\<close>

definition clean_step :: "bool \<Rightarrow> string \<Rightarrow> string list \<Rightarrow> string list" where
  "clean_step rooted elem stack =
     (if elem = [] \<or> elem = ''.'' then stack
      else if elem \<noteq> ''..'' then elem # stack
      else if stack \<noteq> [] \<and> hd stack \<noteq> ''..'' then tl stack
      else if rooted then stack else elem # stack)"

definition is_rooted :: "string \<Rightarrow> bool" where
  "is_rooted path \<longleftrightarrow> HasPrefix path ''/''"

definition clean_stack :: "string \<Rightarrow> string list" where
  "clean_stack path = fold (clean_step (is_rooted path)) (Split path (CHR ''/'')) []"

definition Clean :: "string \<Rightarrow> string" where
  "Clean path =
     (let out = (if is_rooted path then ''/'' else []) @ Join (rev (clean_stack path)) ''/''
      in if out = [] then ''.'' else out)"

text \<open>\<open>filepath.Join\<close> of a directory and a name that is not empty.\<close>

definition path_join :: "string \<Rightarrow> string \<Rightarrow> string" where
  "path_join dir name = (if dir = [] then Clean name else Clean (dir @ ''/'' @ name))"

text \<open>\<open>filepath.Ext\<close>: the last element from its last dot on.\<close>

definition Ext :: "string \<Rightarrow> string" where
  "Ext path =
     (let base = takeWhile (\<lambda>c. c \<noteq> CHR ''/'') (rev path)
      in if CHR ''.'' \<in> set base then CHR ''.'' # rev (takeWhile (\<lambda>c. c \<noteq> CHR ''.'') base) else [])"

section \<open>The operating system\<close>

datatype file_info = NotExist | StatFailed string | Stat u64

datatype walk_entry = WalkFailed string | WalkDir | WalkFile u64

text \<open>\<open>h_run\<close> gives the combined output and the error of a program; \<open>h_walk\<close> the calls of the function given to \<open>filepath.Walk\<close>.\<close>

record 'w host =
  h_now :: "'w \<Rightarrow> gtime \<times> 'w"
  h_temp :: "'w \<Rightarrow> string"
  h_run :: "string \<Rightarrow> string list \<Rightarrow> 'w \<Rightarrow> (string \<times> string option) \<times> 'w"
  h_mkdir :: "string \<Rightarrow> 'w \<Rightarrow> string option \<times> 'w"
  h_write :: "string \<Rightarrow> string \<Rightarrow> 'w \<Rightarrow> string option \<times> 'w"
  h_stat :: "string \<Rightarrow> 'w \<Rightarrow> file_info"
  h_walk :: "string \<Rightarrow> 'w \<Rightarrow> walk_entry list"

text \<open>\<open>t.Format("20060102_150405")\<close>\<close>

definition fmt_stamp :: "gtime \<Rightarrow> string" where
  "fmt_stamp t = fmt_year (t_year t) @ fmt_pad2 (t_month t) @ fmt_pad2 (t_day t) @ ''_''
     @ fmt_pad2 (t_hour t) @ fmt_pad2 (t_min t) @ fmt_pad2 (t_sec t)"

text \<open>The walk stops at the first error; the sizes add up as signed 64-bit numbers.\<close>

fun walk_size :: "u64 \<Rightarrow> walk_entry list \<Rightarrow> u64" where
  "walk_size acc [] = acc"
| "walk_size acc (WalkFailed e # es) = acc"
| "walk_size acc (WalkDir # es) = walk_size acc es"
| "walk_size acc (WalkFile n # es) = walk_size (acc + n) es"

definition dirSize :: "'w host \<Rightarrow> string \<Rightarrow> 'w \<Rightarrow> u64" where
  "dirSize h path w = walk_size 0 (h_walk h path w)"

definition fileSize :: "'w host \<Rightarrow> string \<Rightarrow> 'w \<Rightarrow> u64" where
  "fileSize h path w = (case h_stat h path w of Stat n \<Rightarrow> n | _ \<Rightarrow> 0)"

section \<open>Configuration and results\<close>

record backup_manager =
  PGBaseBackupBin :: string
  PGDumpBin :: string
  PGRestoreBin :: string
  DefaultConnStr :: string

definition NewBackupManager :: "string \<Rightarrow> backup_manager" where
  "NewBackupManager connStr =
     \<lparr>PGBaseBackupBin = ''pg_basebackup'', PGDumpBin = ''pg_dump'', PGRestoreBin = ''pg_restore'', DefaultConnStr = connStr\<rparr>"

record backup_config =
  bc_ConnStr :: string
  bc_TargetDir :: string
  bc_Label :: string
  bc_Format :: string
  bc_Checkpoint :: string
  bc_WALMethod :: string
  bc_Compress :: bool
  bc_Database :: string

datatype backup_error =
    ToolFailed string string string
  | MkdirFailed string
  | BackupDirRequired
  | DataDirRequired
  | BackupDirMissing string
  | SignalFailed string

record backup_result =
  br_StartTime :: gtime
  br_EndTime :: gtime
  br_TargetDir :: string
  br_Size :: u64
  br_Label :: string
  br_Err :: "backup_error option"

text \<open>\<open>if connStr == "" { connStr = bm.DefaultConnStr }\<close>\<close>

definition conn_or_default :: "backup_manager \<Rightarrow> string \<Rightarrow> string" where
  "conn_or_default bm connStr = (if connStr = [] then DefaultConnStr bm else connStr)"

definition new_result :: "gtime \<Rightarrow> backup_config \<Rightarrow> backup_result" where
  "new_result start cfg =
     \<lparr>br_StartTime = start, br_EndTime = zero_time, br_TargetDir = [], br_Size = 0, br_Label = bc_Label cfg, br_Err = None\<rparr>"

text \<open>A given value, or one made from a prefix and the time.\<close>

definition or_stamped :: "'w host \<Rightarrow> string \<Rightarrow> (string \<Rightarrow> string) \<Rightarrow> 'w \<Rightarrow> string \<times> 'w" where
  "or_stamped h s f w = (if s = [] then (case h_now h w of (t, w) \<Rightarrow> (f (fmt_stamp t), w)) else (s, w))"

definition finish :: "'w host \<Rightarrow> backup_result \<Rightarrow> 'w \<Rightarrow> backup_result \<times> 'w" where
  "finish h r w = (case h_now h w of (t, w) \<Rightarrow> (r\<lparr>br_EndTime := t\<rparr>, w))"

text \<open>Runs a program and reports its failure under the name of the message.\<close>

definition run_tool :: "'w host \<Rightarrow> string \<Rightarrow> string \<Rightarrow> string list \<Rightarrow> 'w \<Rightarrow> backup_error option \<times> 'w" where
  "run_tool h what bin args w =
     (case h_run h bin args w of ((output, err), w) \<Rightarrow> (map_option (\<lambda>e. ToolFailed what e output) err, w))"

section \<open>Backup\<close>

definition basebackup_args :: "backup_config \<Rightarrow> string \<Rightarrow> string \<Rightarrow> string \<Rightarrow> string list" where
  "basebackup_args cfg targetDir label connStr =
     [''-D'', targetDir, ''-l'', label, ''-Fp'', ''-Xs'', ''-P'']
     @ (if connStr \<noteq> [] then [''-d'', connStr] else [])
     @ (if bc_Checkpoint cfg = ''fast'' then [''--checkpoint=fast''] else [])
     @ (if bc_Compress cfg then [''--gzip''] else [])"

definition PhysicalBackup :: "'w host \<Rightarrow> backup_manager \<Rightarrow> backup_config \<Rightarrow> 'w \<Rightarrow> backup_result \<times> 'w" where
  "PhysicalBackup h bm cfg w =
     (let (start, w) = h_now h w;
          result = new_result start cfg;
          tmp = h_temp h w;
          (targetDir, w) = or_stamped h (bc_TargetDir cfg) (\<lambda>t. path_join tmp (''myproxy_backup_'' @ t)) w;
          result = result\<lparr>br_TargetDir := targetDir\<rparr>;
          (label, w) = or_stamped h (bc_Label cfg) ((@) ''myproxy_backup_'') w;
          args = basebackup_args cfg targetDir label (conn_or_default bm (bc_ConnStr cfg));
          (err, w) = run_tool h ''pg_basebackup'' (PGBaseBackupBin bm) args w
      in if err \<noteq> None then finish h (result\<lparr>br_Err := err\<rparr>) w
         else finish h (result\<lparr>br_Size := dirSize h targetDir w\<rparr>) w)"

definition dump_file :: "string \<Rightarrow> string \<Rightarrow> string" where
  "dump_file targetDir fmt = path_join targetDir (if fmt = ''custom'' then ''dump.custom'' else ''dump.sql'')"

definition dump_args :: "backup_config \<Rightarrow> string \<Rightarrow> string \<Rightarrow> string list" where
  "dump_args cfg dumpFile connStr =
     [''-f'', dumpFile]
     @ (if bc_Format cfg = ''custom'' then [''-Fc''] else [])
     @ (if connStr \<noteq> [] then [connStr] else [])
     @ (if bc_Database cfg \<noteq> [] then [''-d'', bc_Database cfg] else [])"

definition LogicalBackup :: "'w host \<Rightarrow> backup_manager \<Rightarrow> backup_config \<Rightarrow> 'w \<Rightarrow> backup_result \<times> 'w" where
  "LogicalBackup h bm cfg w =
     (let (start, w) = h_now h w;
          result = new_result start cfg;
          tmp = h_temp h w;
          (targetDir, w) = or_stamped h (bc_TargetDir cfg) (\<lambda>t. path_join tmp (''myproxy_dump_'' @ t)) w;
          result = result\<lparr>br_TargetDir := targetDir\<rparr>;
          (mkErr, w) = h_mkdir h targetDir w
      in case mkErr of
           Some e \<Rightarrow> finish h (result\<lparr>br_Err := Some (MkdirFailed e)\<rparr>) w
         | None \<Rightarrow>
             (let dumpFile = dump_file targetDir (bc_Format cfg);
                  args = dump_args cfg dumpFile (conn_or_default bm (bc_ConnStr cfg));
                  (err, w) = run_tool h ''pg_dump'' (PGDumpBin bm) args w
              in if err \<noteq> None then finish h (result\<lparr>br_Err := err\<rparr>) w
                 else finish h (result\<lparr>br_Size := fileSize h dumpFile w\<rparr>) w))"

section \<open>Restore\<close>

definition Restore :: "'w host \<Rightarrow> string \<Rightarrow> string \<Rightarrow> 'w \<Rightarrow> backup_error option \<times> 'w" where
  "Restore h backupDir pgDataDir w =
     (if backupDir = [] then (Some BackupDirRequired, w)
      else if pgDataDir = [] then (Some DataDirRequired, w)
      else if h_stat h backupDir w = NotExist then (Some (BackupDirMissing backupDir), w)
      else case run_tool h ''restore (rsync)'' ''rsync'' [''-a'', ''--delete'', backupDir @ ''/'', pgDataDir @ ''/''] w of
             (Some e, w) \<Rightarrow> (Some e, w)
           | (None, w) \<Rightarrow>
               (case h_write h (path_join pgDataDir ''standby.signal'') [] w of
                  (Some e, w) \<Rightarrow> (Some (SignalFailed e), w)
                | (None, w) \<Rightarrow> (None, w)))"

definition LogicalRestore :: "'w host \<Rightarrow> backup_manager \<Rightarrow> string \<Rightarrow> string \<Rightarrow> 'w \<Rightarrow> backup_error option \<times> 'w" where
  "LogicalRestore h bm dumpFile connStr w =
     (let connStr = conn_or_default bm connStr;
          args = [''-f'', dumpFile] @ (if connStr \<noteq> [] then [''-d'', connStr] else []);
          psqlArgs = [''-f'', dumpFile] @ (if connStr \<noteq> [] then [connStr] else [])
      in if Ext dumpFile = ''.custom'' then run_tool h ''pg_restore'' (PGRestoreBin bm) args w
         else run_tool h ''psql restore'' ''psql'' psqlArgs w)"

section \<open>What the operations do\<close>

lemma Split_nonempty: "Split s c \<noteq> []"
  by (induction s) (auto split: list.splits)

lemma Split_append: "Split (s @ c # t) c = Split s c @ Split t c"
  by (induction s) (auto split: list.splits simp: Split_nonempty)

lemma Split_single: "c \<notin> set s \<Longrightarrow> Split s c = [s]"
  by (induction s) auto

lemma Join_snoc: "Join (ws @ [w]) sep = (if ws = [] then w else Join ws sep @ sep @ w)"
  by (induction ws sep rule: Join.induct) auto

text \<open>An ordinary name stays the last element of a joined path.\<close>

definition plain_name :: "string \<Rightarrow> bool" where
  "plain_name name \<longleftrightarrow> CHR ''/'' \<notin> set name \<and> name \<notin> {[], ''.'', ''..''}"

lemma Clean_name:
  assumes "plain_name name" and "s = [] \<or> last s = CHR ''/''"
  shows "\<exists>dir. Clean (s @ name) = dir @ name \<and> (dir = [] \<or> last dir = CHR ''/'')"
proof -
  have push: "clean_step r name st = name # st" for r st
    using assms(1) by (auto simp: plain_name_def clean_step_def)
  obtain ws where "Split (s @ name) (CHR ''/'') = ws @ [name]"
  proof (cases s rule: rev_cases)
    case Nil
    then show ?thesis using that [of "[]"] Split_single assms(1) by (simp add: plain_name_def)
  next
    case (snoc t c)
    then show ?thesis
      using that [of "Split t (CHR ''/'')"] Split_append [of t "CHR ''/''" name] Split_single assms by (simp add: plain_name_def)
  qed
  then obtain st where st: "clean_stack (s @ name) = name # st"
    by (auto simp: clean_stack_def push)
  let ?root = "if is_rooted (s @ name) then ''/'' else []"
  let ?dir = "?root @ (if st = [] then [] else Join (rev st) ''/'' @ ''/'')"
  have "Clean (s @ name) = ?dir @ name"
    using assms(1) by (simp add: Clean_def st Join_snoc plain_name_def)
  then show ?thesis by (intro exI [of _ ?dir]) auto
qed

lemma path_join_name:
  assumes "plain_name name"
  shows "\<exists>dir. path_join d name = dir @ name \<and> (dir = [] \<or> last dir = CHR ''/'')"
  using Clean_name [OF assms, of "[]"] Clean_name [OF assms, of "d @ ''/''"] by (auto simp: path_join_def)

lemma Ext_name:
  assumes "dir = [] \<or> last dir = CHR ''/''" and "CHR ''/'' \<notin> set name"
  shows "Ext (dir @ name) = Ext name"
proof -
  have "takeWhile (\<lambda>c. c \<noteq> CHR ''/'') (rev name @ rev dir) = rev name"
    using assms by (cases dir rule: rev_cases) (auto simp: takeWhile_append)
  moreover have "takeWhile (\<lambda>c. c \<noteq> CHR ''/'') (rev name) = rev name"
    using assms(2) by auto
  ultimately show ?thesis by (simp only: Ext_def rev_append)
qed

lemma path_join_ext: "plain_name name \<Longrightarrow> Ext (path_join d name) = Ext name"
  using path_join_name [of name d] Ext_name by (auto simp: plain_name_def)

text \<open>The extension of a dump tells its format, in whatever directory it is.\<close>

lemma dump_file_format: "Ext (dump_file dir fmt) = ''.custom'' \<longleftrightarrow> fmt = ''custom''"
proof -
  have "plain_name ''dump.custom''" "plain_name ''dump.sql''" by code_simp+
  moreover have "Ext ''dump.custom'' = ''.custom''" "Ext ''dump.sql'' = ''.sql''" by code_simp+
  ultimately show ?thesis by (simp add: dump_file_def path_join_ext)
qed

text \<open>
  So a dump is restored by the program for its format: \<open>pg_restore\<close> for a custom dump, \<open>psql\<close> for any other. Both get the
  dump behind \<open>-f\<close>, which to \<open>pg_restore\<close> is the file it writes.
\<close>

theorem dump_restored:
  "LogicalRestore h bm (dump_file dir fmt) connStr w =
     (let c = conn_or_default bm connStr
      in if fmt = ''custom''
         then run_tool h ''pg_restore'' (PGRestoreBin bm) ([''-f'', dump_file dir fmt] @ (if c \<noteq> [] then [''-d'', c] else [])) w
         else run_tool h ''psql restore'' ''psql'' ([''-f'', dump_file dir fmt] @ (if c \<noteq> [] then [c] else [])) w)"
  by (simp add: LogicalRestore_def Let_def dump_file_format)

text \<open>The write-ahead log is always streamed: the configured method is not read.\<close>

lemma wal_method_unused: "PhysicalBackup h bm (cfg\<lparr>bc_WALMethod := m\<rparr>) w = PhysicalBackup h bm cfg w"
  by (simp add: PhysicalBackup_def basebackup_args_def new_result_def)

text \<open>The result carries the configured label, not the one made for a backup without label.\<close>

lemma physical_label: "br_Label (fst (PhysicalBackup h bm cfg w)) = bc_Label cfg"
  by (auto simp: PhysicalBackup_def finish_def new_result_def Let_def split: prod.splits)

lemma logical_label: "br_Label (fst (LogicalBackup h bm cfg w)) = bc_Label cfg"
  by (auto simp: LogicalBackup_def finish_def new_result_def Let_def split: prod.splits option.splits)

text \<open>A restore that succeeds has copied the files and then marked the server as a standby, whatever it is restored for.\<close>

lemma restore_marks_standby:
  assumes "Restore h backupDir pgDataDir w = (None, w2)"
  shows "\<exists>output w1. h_run h ''rsync'' [''-a'', ''--delete'', backupDir @ ''/'', pgDataDir @ ''/''] w = ((output, None), w1)
     \<and> h_write h (path_join pgDataDir ''standby.signal'') [] w1 = (None, w2)"
  using assms by (auto simp: Restore_def run_tool_def split: if_splits prod.splits option.splits)

text \<open>A restore without a directory touches nothing.\<close>

lemma restore_refused: "backupDir = [] \<or> pgDataDir = [] \<Longrightarrow> snd (Restore h backupDir pgDataDir w) = w"
  by (auto simp: Restore_def)

end
